(* ===== verification/Go_Prelude.thy ===== *)
theory Go_Prelude
  imports Main "HOL-Library.Monad_Syntax" "HOL-Library.State_Monad" "HOL-Library.Char_ord"
    "HOL-Library.List_Lexorder" "HOL-Library.Sublist" "HOL-Library.Word"
begin

text \<open>
  The part of Go and of its standard library that the modelled packages use, and the lemmas the
  components share.

  \<^item> A Go string is the list of its bytes, a HOL \<open>string\<close>. The functions of package
    \<open>strings\<close> that fold case or trim white space are defined on ASCII bytes and leave every
    other byte alone.
  \<^item> A value of type \<open>error\<close> is a \<open>gerror\<close>: what its \<open>Error()\<close> method prints, and what the
    classification functions of \<open>k8s.io/apimachinery/pkg/api/errors\<close> and
    \<open>k8s.io/apimachinery/pkg/api/meta\<close> say of it. These functions are outside the
    repository, so their verdicts are components of the value.
  \<^item> A function that can panic has result type \<open>'a option\<close>, and \<open>None\<close> is the panic.
  \<^item> A call to the API server is recorded in a log, and the server's answer may depend on
    the whole log: \<open>ask\<close> below. The server itself is a parameter of every definition.
  \<^item> A \<open>for\<close> loop that the code leaves only by \<open>return\<close> is \<open>run_loop\<close> of its body,
    with fuel; the lemmas below say how much fuel is enough.
\<close>

named_theorems go_defs \<open>definitions of small Go-level operations, unfolded by the component proofs\<close>
named_theorems ready_simps \<open>equations that evaluate the readiness checks\<close>
named_theorems default_simps \<open>definitions of the defaulting functions\<close>

section \<open>Errors\<close>

record gerror =
  Error :: string
  status_message :: "string option"
  is_not_found :: bool
  is_too_many_requests :: bool
  is_no_match :: bool

definition errorf :: "string \<Rightarrow> gerror" where
  "errorf msg = \<lparr>Error = msg, status_message = None, is_not_found = False,
     is_too_many_requests = False, is_no_match = False\<rparr>"

definition wrapf :: "gerror \<Rightarrow> string \<Rightarrow> gerror" where
  "wrapf e msg = e\<lparr>Error := msg @ '': '' @ Error e, status_message := None\<rparr>"

lemma errorf_simps [simp]:
  "Error (errorf m) = m" "status_message (errorf m) = None"
  "\<not> is_not_found (errorf m)" "\<not> is_too_many_requests (errorf m)" "\<not> is_no_match (errorf m)"
  by (simp_all add: errorf_def)

definition not_found_err :: "gerror option \<Rightarrow> bool" where
  "not_found_err e = (case e of None \<Rightarrow> False | Some x \<Rightarrow> is_not_found x)"

lemma not_found_err_simps [simp]:
  "\<not> not_found_err None" "not_found_err (Some e) = is_not_found e"
  by (simp_all add: not_found_err_def)

section \<open>Panics\<close>

definition no_panic :: "'a option \<Rightarrow> bool" where
  "no_panic m = (case m of None \<Rightarrow> False | Some _ \<Rightarrow> True)"

lemma no_panic_simps [simp]:
  "no_panic (Some x)" "\<not> no_panic None"
  "no_panic (Option.bind m f) \<longleftrightarrow> no_panic m \<and> (\<forall>x. m = Some x \<longrightarrow> no_panic (f x))"
  by (cases m; simp add: no_panic_def)+

lemma no_panic_iff: "no_panic m \<longleftrightarrow> (\<exists>x. m = Some x)"
  by (cases m) simp_all

section \<open>Calls to the API server\<close>

text \<open>
  \<open>ask c f\<close> sends the call \<open>c\<close>: the answer is \<open>f\<close> of the calls made before, and \<open>c\<close> is
  appended to the log. Since \<open>f\<close> is arbitrary, every sequence of answers of a server that other
  clients change at the same time is one of its behaviours.
\<close>

definition ask :: "'c \<Rightarrow> ('c list \<Rightarrow> 'r) \<Rightarrow> ('c list, 'r) state" where
  "ask c f = State (\<lambda>log. (f log, log @ [c]))"

definition tell :: "'c \<Rightarrow> ('c list, unit) state" where
  "tell c = State (\<lambda>log. ((), log @ [c]))"

abbreviation ret :: "'a \<Rightarrow> ('s, 'a) state" where
  "ret \<equiv> State_Monad.return"

lemma run_ask [simp]: "run_state (ask c f) log = (f log, log @ [c])"
  by (simp add: ask_def)

lemma run_tell [simp]: "run_state (tell c) log = ((), log @ [c])"
  by (simp add: tell_def)

lemma run_bind [simp]:
  "run_state (State_Monad.bind m f) s = (case run_state m s of (x, s') \<Rightarrow> run_state (f x) s')"
  by (simp add: State_Monad.bind_def)

lemma run_if [simp]: "run_state (if P then m else m') s = (if P then run_state m s else run_state m' s)"
  by simp

text \<open>A computation that only appends to the log.\<close>

named_theorems extends_rules \<open>a computation only appends to the log\<close>

definition extends :: "('c list, 'a) state \<Rightarrow> bool" where
  "extends m \<longleftrightarrow> (\<forall>log. prefix log (snd (run_state m log)))"

lemma extends_ret [extends_rules]: "extends (ret x)"
  by (simp add: extends_def)

lemma extends_ask [extends_rules]: "extends (ask c f)"
  by (simp add: extends_def)

lemma extends_tell [extends_rules]: "extends (tell c)"
  by (simp add: extends_def)

lemma extends_read [extends_rules]: "extends (State (\<lambda>log. (f log, log)))"
  by (simp add: extends_def)

lemma extends_bind [extends_rules]:
  "extends m \<Longrightarrow> (\<And>x. extends (f x)) \<Longrightarrow> extends (State_Monad.bind m f)"
  unfolding extends_def
  by (auto split: prod.split) (metis prefix_order.order_trans snd_conv)

lemma extends_cases [extends_rules]:
  "extends a \<Longrightarrow> extends b \<Longrightarrow> extends (if P then a else b)"
  "extends a \<Longrightarrow> (\<And>x. extends (f x)) \<Longrightarrow> extends (case_option a f y)"
  "(\<And>x. extends (g x)) \<Longrightarrow> (\<And>x. extends (h x)) \<Longrightarrow> extends (case_sum g h z)"
  "(\<And>x y. extends (k x y)) \<Longrightarrow> extends (case_prod k p)"
  "extends a \<Longrightarrow> (\<And>x y. extends (k' x y)) \<Longrightarrow> extends (case_list a k' ys)"
  by (simp_all split: option.split sum.split prod.split list.split)

lemma extendsD: "extends m \<Longrightarrow> run_state m log = (x, log') \<Longrightarrow> prefix log log'"
  by (metis extends_def snd_conv)

text \<open>
  A discipline says which call may come after which log. A computation obeys it when every call it
  adds to a log does.
\<close>

named_theorems obeys_rules \<open>a computation obeys a discipline of calls\<close>

fun calls_ok :: "('c list \<Rightarrow> 'c \<Rightarrow> bool) \<Rightarrow> 'c list \<Rightarrow> 'c list \<Rightarrow> bool" where
  "calls_ok ok log [] = True"
| "calls_ok ok log (c # cs) = (ok log c \<and> calls_ok ok (log @ [c]) cs)"

lemma calls_ok_append [simp]:
  "calls_ok ok log (cs @ ds) \<longleftrightarrow> calls_ok ok log cs \<and> calls_ok ok (log @ cs) ds"
  by (induction cs arbitrary: log) auto

lemma calls_ok_split:
  "calls_ok ok log (pre @ c # post) \<Longrightarrow> ok (log @ pre) c"
  by simp

definition obeys :: "('c list \<Rightarrow> 'c \<Rightarrow> bool) \<Rightarrow> ('c list, 'a) state \<Rightarrow> bool" where
  "obeys ok m \<longleftrightarrow> (\<forall>log. \<exists>cs. snd (run_state m log) = log @ cs \<and> calls_ok ok log cs)"

lemma obeysD: "obeys ok m \<Longrightarrow> run_state m log = (x, log') \<Longrightarrow> \<exists>cs. log' = log @ cs \<and> calls_ok ok log cs"
  by (metis obeys_def snd_conv)

lemma obeys_ret [obeys_rules]: "obeys ok (ret x)"
  by (simp add: obeys_def)

lemma obeys_ask [obeys_rules]: "(\<And>log. ok log c) \<Longrightarrow> obeys ok (ask c f)"
  by (simp add: obeys_def)

lemma obeys_tell [obeys_rules]: "(\<And>log. ok log c) \<Longrightarrow> obeys ok (tell c)"
  by (simp add: obeys_def)

lemma obeys_read [obeys_rules]: "obeys ok (State (\<lambda>log. (f log, log)))"
  by (simp add: obeys_def)

text \<open>The same from one log on, where a call may rest on what the answers before it were.\<close>

definition obeys_at :: "('c list \<Rightarrow> 'c \<Rightarrow> bool) \<Rightarrow> ('c list, 'a) state \<Rightarrow> 'c list \<Rightarrow> bool" where
  "obeys_at ok m log \<longleftrightarrow> (\<exists>cs. snd (run_state m log) = log @ cs \<and> calls_ok ok log cs)"

lemma obeys_iff: "obeys ok m \<longleftrightarrow> (\<forall>log. obeys_at ok m log)"
  by (simp add: obeys_def obeys_at_def)

lemma obeys_at_bind:
  assumes "obeys_at ok m log" and "\<And>x log1. run_state m log = (x, log1) \<Longrightarrow> obeys_at ok (f x) log1"
  shows "obeys_at ok (State_Monad.bind m f) log"
proof -
  obtain x log1 where x: "run_state m log = (x, log1)" by (metis surj_pair)
  with assms(1) obtain cs where cs: "log1 = log @ cs" "calls_ok ok log cs" by (auto simp: obeys_at_def)
  obtain ds where "snd (run_state (f x) log1) = log1 @ ds" "calls_ok ok log1 ds"
    using assms(2) [OF x] unfolding obeys_at_def by blast
  with x cs show ?thesis
    unfolding obeys_at_def by (intro exI [of _ "cs @ ds"]) simp
qed

lemma calls_ok_mono: "(\<And>l c. ok l c \<Longrightarrow> prefix log l \<Longrightarrow> ok' l c) \<Longrightarrow> calls_ok ok log cs \<Longrightarrow> calls_ok ok' log cs"
proof (induction cs arbitrary: log)
  case (Cons c cs)
  have "calls_ok ok' (log @ [c]) cs"
    by (rule Cons.IH) (use Cons.prems in \<open>auto dest: append_prefixD\<close>)
  with Cons.prems show ?case by simp
qed simp

lemma obeys_at_mono:
  "obeys ok m \<Longrightarrow> (\<And>l c. ok l c \<Longrightarrow> prefix log l \<Longrightarrow> ok' l c) \<Longrightarrow> obeys_at ok' m log"
  unfolding obeys_def obeys_at_def using calls_ok_mono [of ok log ok'] by blast

lemma obeys_extends: "obeys ok m \<Longrightarrow> run_state m log = (x, log') \<Longrightarrow> prefix log log'"
  by (auto dest: obeysD)

lemma obeys_imp_extends: "obeys ok m \<Longrightarrow> extends m"
  by (auto simp: obeys_def extends_def) (metis prefixI)

lemma obeys_at_extends: "obeys_at ok m log \<Longrightarrow> run_state m log = (x, log') \<Longrightarrow> prefix log log'"
  by (auto simp: obeys_at_def)

lemma obeys_at_ret: "obeys_at ok (ret x) log"
  by (simp add: obeys_at_def)

lemma obeys_bind [obeys_rules]:
  "obeys ok m \<Longrightarrow> (\<And>x. obeys ok (f x)) \<Longrightarrow> obeys ok (State_Monad.bind m f)"
  by (simp add: obeys_iff obeys_at_bind)

lemma obeys_cases [obeys_rules]:
  "obeys ok a \<Longrightarrow> obeys ok b \<Longrightarrow> obeys ok (if P then a else b)"
  "obeys ok a \<Longrightarrow> (\<And>x. obeys ok (f x)) \<Longrightarrow> obeys ok (case_option a f y)"
  "(\<And>x. obeys ok (g x)) \<Longrightarrow> (\<And>x. obeys ok (h x)) \<Longrightarrow> obeys ok (case_sum g h z)"
  "(\<And>x y. obeys ok (k x y)) \<Longrightarrow> obeys ok (case_prod k p)"
  "obeys ok a \<Longrightarrow> (\<And>x y. obeys ok (k' x y)) \<Longrightarrow> obeys ok (case_list a k' ys)"
  "obeys ok a \<Longrightarrow> (\<And>j. obeys ok (l j)) \<Longrightarrow> obeys ok (case_nat a l n)"
  by (simp_all split: option.split sum.split prod.split list.split nat.split)

section \<open>Loops that only a return leaves\<close>

datatype 'r loop = Returned 'r | Running

fun run_loop :: "('s \<Rightarrow> 'o \<Rightarrow> 's + 'r) \<Rightarrow> nat \<Rightarrow> 's \<Rightarrow> (nat \<Rightarrow> 'o) \<Rightarrow> 'r loop" where
  "run_loop body 0 s obs = Running"
| "run_loop body (Suc fuel) s obs =
     (case body s (obs 0) of
        Inr r \<Rightarrow> Returned r
      | Inl s' \<Rightarrow> run_loop body fuel s' (\<lambda>i. obs (Suc i)))"

lemma run_loop_mono:
  assumes "run_loop body n s obs = Returned r"
  shows "run_loop body (n + k) s obs = Returned r"
  using assms
proof (induction n arbitrary: s obs)
  case 0
  then show ?case by simp
next
  case (Suc n)
  then show ?case by (auto split: sum.splits)
qed

lemma run_loop_deterministic:
  assumes "run_loop body n s obs = Returned r" and "run_loop body m s obs = Returned r'"
  shows "r = r'"
proof -
  have "run_loop body (n + m) s obs = Returned r" by (rule run_loop_mono [OF assms(1)])
  moreover have "run_loop body (m + n) s obs = Returned r'" by (rule run_loop_mono [OF assms(2)])
  ultimately show ?thesis by (simp add: add.commute)
qed

lemma run_loop_stuck:
  assumes "\<And>s i. \<exists>s'. body s (obs i) = Inl s'"
  shows "run_loop body n s obs = Running"
  using assms
proof (induction n arbitrary: s obs)
  case 0
  then show ?case by simp
next
  case (Suc n)
  obtain s' where "body s (obs 0) = Inl s'" using Suc.prems by blast
  moreover have "run_loop body n s' (\<lambda>i. obs (Suc i)) = Running"
    using Suc.prems by (intro Suc.IH)
  ultimately show ?case by simp
qed

text \<open>The result of a loop comes from one iteration, before which the body went on.\<close>

lemma run_loop_ReturnedD:
  assumes "run_loop body n s obs = Returned r"
  shows "\<exists>i s'. i < n \<and> body s' (obs i) = Inr r"
  using assms
proof (induction n arbitrary: s obs)
  case 0
  then show ?case by simp
next
  case (Suc n)
  show ?case
  proof (cases "body s (obs 0)")
    case (Inr r')
    with Suc.prems show ?thesis by auto
  next
    case (Inl s')
    with Suc.prems have "run_loop body n s' (\<lambda>i. obs (Suc i)) = Returned r" by simp
    then obtain i s'' where "i < n" "body s'' (obs (Suc i)) = Inr r" using Suc.IH by blast
    then show ?thesis by (metis Suc_less_eq)
  qed
qed

lemma run_loop_invariant:
  assumes "run_loop body n s obs = Returned r" and "I s"
    and "\<And>s i s'. I s \<Longrightarrow> body s (obs i) = Inl s' \<Longrightarrow> I s'"
    and "\<And>s i r. I s \<Longrightarrow> body s (obs i) = Inr r \<Longrightarrow> Q r"
  shows "Q r"
  using assms
proof (induction n arbitrary: s obs)
  case 0
  then show ?case by simp
next
  case (Suc n)
  show ?case
  proof (cases "body s (obs 0)")
    case (Inr r')
    with Suc.prems(1) have "r = r'" by simp
    then show ?thesis using Suc.prems(2,4) Inr by blast
  next
    case (Inl s')
    show ?thesis
    proof (rule Suc.IH)
      show "run_loop body n s' (\<lambda>i. obs (Suc i)) = Returned r" using Suc.prems(1) Inl by simp
      show "I s'" using Suc.prems(2,3) Inl by blast
    qed (use Suc.prems(3,4) in blast)+
  qed
qed

text \<open>
  The contract of a polling loop with a deadline: an iteration that sees the deadline passed
  returns. Whatever the polls answer, a loop with this contract returns within as many iterations
  as the clock needs to pass the deadline.
\<close>

locale deadline_loop =
  fixes body :: "'s \<Rightarrow> 'o \<Rightarrow> 's + 'r"
    and expired :: "'o \<Rightarrow> bool"
  assumes expired_returns: "expired obs \<Longrightarrow> \<exists>r. body s obs = Inr r"
begin

lemma returns:
  assumes "expired (obs n)"
  shows "\<exists>r. run_loop body (Suc n) s obs = Returned r"
  using assms
proof (induction n arbitrary: s obs)
  case 0
  then obtain r where "body s (obs 0) = Inr r" using expired_returns by blast
  then show ?case by simp
next
  case (Suc n)
  show ?case
  proof (cases "body s (obs 0)")
    case (Inr r)
    then show ?thesis by simp
  next
    case (Inl s')
    have "\<exists>r. run_loop body (Suc n) s' (\<lambda>i. obs (Suc i)) = Returned r"
      using Suc.prems by (intro Suc.IH)
    with Inl show ?thesis by simp
  qed
qed

text \<open>
  A clock that every iteration moves by at least one second passes any deadline: the number of
  iterations is bounded by the number of seconds to wait.
\<close>

lemma returns_in_time:
  assumes "\<And>i. time (obs i) + 1000000000 \<le> time (obs (Suc i))"
    and "\<And>x. (deadline :: int) < time x \<Longrightarrow> expired x"
    and "deadline - time (obs 0) < int n * 1000000000"
  shows "\<exists>r. run_loop body (Suc n) s obs = Returned r"
proof -
  have "time (obs 0) + int k * 1000000000 \<le> time (obs k)" for k
  proof (induction k)
    case 0
    then show ?case by simp
  next
    case (Suc k)
    have "time (obs 0) + int k * 1000000000 + 1000000000 \<le> time (obs (Suc k))"
      using Suc.IH assms(1) [of k] by linarith
    then show ?case by (simp add: algebra_simps)
  qed
  from this [of n] have "deadline < time (obs n)" using assms(3) by linarith
  then have "expired (obs n)" by (rule assms(2))
  then show ?thesis by (rule returns)
qed

end

section \<open>Package strings\<close>

definition HasPrefix :: "string \<Rightarrow> string \<Rightarrow> bool" where
  "HasPrefix s p = (take (length p) s = p)"

definition HasSuffix :: "string \<Rightarrow> string \<Rightarrow> bool" where
  "HasSuffix s p = (length p \<le> length s \<and> drop (length s - length p) s = p)"

fun Contains :: "string \<Rightarrow> string \<Rightarrow> bool" where
  "Contains [] sub = (sub = [])"
| "Contains (c # s) sub = (HasPrefix (c # s) sub \<or> Contains s sub)"

fun Join :: "string \<Rightarrow> string list \<Rightarrow> string" where
  "Join sep [] = []"
| "Join sep [x] = x"
| "Join sep (x # y # zs) = x @ sep @ Join sep (y # zs)"

definition to_lower :: "char \<Rightarrow> char" where
  "to_lower c = (if CHR ''A'' \<le> c \<and> c \<le> CHR ''Z'' then char_of (of_char c + (32 :: nat)) else c)"

definition ToLower :: "string \<Rightarrow> string" where
  "ToLower = map to_lower"

definition EqualFold :: "string \<Rightarrow> string \<Rightarrow> bool" where
  "EqualFold s t = (ToLower s = ToLower t)"

definition trim_by :: "(char \<Rightarrow> bool) \<Rightarrow> string \<Rightarrow> string" where
  "trim_by f s = rev (dropWhile f (rev (dropWhile f s)))"

definition Trim :: "string \<Rightarrow> string \<Rightarrow> string" where
  "Trim s cutset = trim_by (\<lambda>c. c \<in> set cutset) s"

definition is_space :: "char \<Rightarrow> bool" where
  "is_space c = (c \<in> {CHR '' '', CHR 0x09, CHR 0x0A, CHR 0x0B, CHR 0x0C, CHR 0x0D})"

definition TrimSpace :: "string \<Rightarrow> string" where
  "TrimSpace s = trim_by is_space s"

text \<open>\<open>Split\<close> and \<open>SplitAfter\<close> at a one-byte separator.\<close>

fun Split :: "string \<Rightarrow> char \<Rightarrow> string list" where
  "Split [] sep = [[]]"
| "Split (c # s) sep =
     (if c = sep then [] # Split s sep
      else case Split s sep of [] \<Rightarrow> [[c]] | w # ws \<Rightarrow> (c # w) # ws)"

fun SplitAfter :: "string \<Rightarrow> char \<Rightarrow> string list" where
  "SplitAfter [] sep = [[]]"
| "SplitAfter (c # s) sep =
     (if c = sep then [c] # SplitAfter s sep
      else case SplitAfter s sep of [] \<Rightarrow> [[c]] | w # ws \<Rightarrow> (c # w) # ws)"

text \<open>Decimal rendering, as the verb \<open>d\<close> of package \<open>fmt\<close> prints an integer.\<close>

fun nat_dec :: "nat \<Rightarrow> string" where
  "nat_dec n = (if n < 10 then [char_of (48 + n)] else nat_dec (n div 10) @ [char_of (48 + n mod 10)])"

declare nat_dec.simps [simp del]

definition int_dec :: "int \<Rightarrow> string" where
  "int_dec i = (if i < 0 then CHR ''-'' # nat_dec (nat (- i)) else nat_dec (nat i))"

text \<open>The hour glass that opens the waiting messages, in UTF-8.\<close>

definition hourglass :: string where
  "hourglass = [CHR 0xE2, CHR 0x8F, CHR 0xB3]"

lemma HasPrefix_append [simp]: "HasPrefix (p @ s) p"
  by (simp add: HasPrefix_def)

lemma HasPrefix_iff: "HasPrefix s p \<longleftrightarrow> (\<exists>t. s = p @ t)"
  by (metis HasPrefix_append HasPrefix_def append_take_drop_id)

lemma HasSuffix_append [simp]: "HasSuffix (s @ p) p"
  by (simp add: HasSuffix_def)

lemma HasSuffix_iff: "HasSuffix s p \<longleftrightarrow> (\<exists>t. s = t @ p)"
  by (metis HasSuffix_append HasSuffix_def append_take_drop_id)

lemma Contains_iff: "Contains s sub \<longleftrightarrow> (\<exists>a b. s = a @ sub @ b)"
proof (induction s)
  case Nil
  then show ?case by auto
next
  case (Cons c s)
  have "(\<exists>a b. c # s = a @ sub @ b) \<longleftrightarrow>
      (\<exists>b. c # s = sub @ b) \<or> (\<exists>a b. s = a @ sub @ b)" (is "?L \<longleftrightarrow> ?R")
  proof
    assume ?L
    then obtain a b where ab: "c # s = a @ sub @ b" by blast
    then show ?R by (cases a) auto
  next
    assume ?R
    then show ?L by (metis append_Cons append_Nil)
  qed
  with Cons show ?case by (simp add: HasPrefix_iff)
qed

lemma SplitAfter_not_Nil [simp]: "SplitAfter s sep \<noteq> []"
  by (induction s) (auto split: list.splits)

lemma Split_not_Nil [simp]: "Split s sep \<noteq> []"
  by (induction s) (auto split: list.splits)

lemma concat_SplitAfter [simp]: "concat (SplitAfter s sep) = s"
proof (induction s)
  case Nil
  then show ?case by simp
next
  case (Cons c s)
  then show ?case by (cases "SplitAfter s sep") auto
qed

lemma SplitAfter_butlast_ends:
  "w \<in> set (butlast (SplitAfter s sep)) \<Longrightarrow> \<exists>v. w = v @ [sep]"
proof (induction s arbitrary: w)
  case Nil
  then show ?case by simp
next
  case (Cons c s)
  show ?case
  proof (cases "c = sep")
    case True
    with Cons show ?thesis by (auto split: if_splits)
  next
    case False
    obtain v vs where vs: "SplitAfter s sep = v # vs"
      by (meson SplitAfter_not_Nil neq_Nil_conv)
    show ?thesis
    proof (cases "vs = []")
      case True
      with False vs Cons.prems show ?thesis by simp
    next
      case ne: False
      with False vs Cons.prems have "w = c # v \<or> w \<in> set (butlast vs)" by simp
      moreover have "\<exists>u. v = u @ [sep]" using Cons.IH [of v] vs ne by simp
      moreover have "w \<in> set (butlast vs) \<Longrightarrow> \<exists>u. w = u @ [sep]"
        using Cons.IH [of w] vs ne by simp
      ultimately show ?thesis by (metis append_Cons)
    qed
  qed
qed

lemma dropWhile_last_not:
  "dropWhile f xs \<noteq> [] \<Longrightarrow> \<not> f (hd (dropWhile f xs))"
  by (rule hd_dropWhile)

lemma length_trim_by: "length (trim_by f s) \<le> length s"
  unfolding trim_by_def
  by (metis (no_types, lifting) dual_order.trans length_dropWhile_le length_rev)

lemma set_trim_by: "set (trim_by f s) \<subseteq> set s"
  unfolding trim_by_def by (auto dest!: set_dropWhileD)

lemma trim_by_id:
  "s = [] \<or> (\<not> f (hd s) \<and> \<not> f (last s)) \<Longrightarrow> trim_by f s = s"
proof (cases "s = []")
  case True
  then show ?thesis by (simp add: trim_by_def)
next
  case False
  moreover assume "s = [] \<or> (\<not> f (hd s) \<and> \<not> f (last s))"
  ultimately have "dropWhile f s = s" and "dropWhile f (rev s) = rev s"
    by (simp_all add: dropWhile_eq_self_iff hd_rev)
  then show ?thesis by (simp add: trim_by_def)
qed

lemma trim_by_snoc: "f x \<Longrightarrow> trim_by f (s @ [x]) = trim_by f s"
proof (cases "dropWhile f s = []")
  case True
  moreover assume "f x"
  ultimately have "dropWhile f (s @ [x]) = []" by simp
  with True show ?thesis by (simp only: trim_by_def)
next
  case False
  moreover assume "f x"
  ultimately have "dropWhile f (s @ [x]) = dropWhile f s @ [x]"
    by (simp add: dropWhile_append)
  with \<open>f x\<close> show ?thesis by (simp add: trim_by_def)
qed

lemma last_trim_by: "trim_by f s \<noteq> [] \<Longrightarrow> \<not> f (last (trim_by f s))"
  unfolding trim_by_def by (metis Nil_is_rev_conv hd_dropWhile last_rev)

lemma hd_trim_by:
  assumes "trim_by f s \<noteq> []"
  shows "\<not> f (hd (trim_by f s))"
proof -
  define u where "u = dropWhile f s"
  obtain a where a: "u = trim_by f s @ a"
    unfolding trim_by_def u_def
    by (metis rev_append rev_rev_ident takeWhile_dropWhile_id)
  with assms have "hd (trim_by f s) = hd u" and "u \<noteq> []" by auto
  then show ?thesis unfolding u_def by (simp add: hd_dropWhile)
qed

end
