(* ===== verification/Names.thy ===== *)
theory Names
  imports Go_Prelude
begin

text \<open>
  Names of objects: \<open>GetValidName\<close> and \<open>GetDNS1192Name\<close> of \<open>utils.go\<close>, the group of an
  \<open>apiVersion\<close> (\<open>IsCoreType\<close> of \<open>core_types.go\<close>) and the group and version that
  \<open>GetAPIResource\<close> of \<open>shortcuts.go\<close> reads from a resource list.

  The regular expressions are written out: one replaces every byte that is not a letter, a digit, a
  dash or a dot, the other a run of dashes. The input is a list of bytes; a byte of a character
  outside ASCII is replaced like the character (the two code points outside ASCII whose lower case
  is an ASCII letter are not singled out).
\<close>

section \<open>GetValidName\<close>

definition GetValidName :: "string \<Rightarrow> string" where
  "GetValidName name = map (\<lambda>c. if c = CHR ''_'' then CHR ''-'' else c) name"

section \<open>GetDNS1192Name\<close>

definition authorized :: "char \<Rightarrow> bool" where
  "authorized c = ((CHR ''a'' \<le> c \<and> c \<le> CHR ''z'') \<or> (CHR ''A'' \<le> c \<and> c \<le> CHR ''Z'')
     \<or> (CHR ''0'' \<le> c \<and> c \<le> CHR ''9'') \<or> c = CHR ''-'' \<or> c = CHR ''.'')"

definition replace_unauthorized :: "string \<Rightarrow> string" where
  "replace_unauthorized s = map (\<lambda>c. if authorized c then c else CHR ''-'') s"

lemma length_dropWhile_less_Suc [termination_simp]: "length (dropWhile f s) < Suc (length s)"
  by (simp add: le_imp_less_Suc length_dropWhile_le)

fun replace_multiple_dashes :: "string \<Rightarrow> string" where
  "replace_multiple_dashes [] = []"
| "replace_multiple_dashes (c # s) =
     (if c = CHR ''-'' then CHR ''-'' # replace_multiple_dashes (dropWhile (\<lambda>x. x = CHR ''-'') s)
      else c # replace_multiple_dashes s)"

definition dns1192MaxLength :: nat where
  "dns1192MaxLength = 40"

definition dns_slug :: "string \<Rightarrow> string" where
  "dns_slug s =
     (let slug = TrimSpace s;
          slug = ToLower slug;
          slug = replace_unauthorized slug;
          slug = replace_multiple_dashes slug
      in Trim slug ''-_'')"

fun append_words :: "string \<Rightarrow> string list \<Rightarrow> string" where
  "append_words truncated [] = truncated"
| "append_words truncated (word # words) =
     (if int (length truncated) + int (length word) - 1 \<le> int dns1192MaxLength
      then append_words (truncated @ word) words
      else truncated)"

definition GetDNS1192Name :: "string \<Rightarrow> string" where
  "GetDNS1192Name s =
     (let slug = dns_slug s
      in if length slug > dns1192MaxLength
         then let words = SplitAfter slug (CHR ''-'')
              in if length (hd words) > dns1192MaxLength
                 then take dns1192MaxLength (hd words)
                 else Trim (append_words [] words) ''-''
         else slug)"

text \<open>The names the function produces.\<close>

definition dns_char :: "char \<Rightarrow> bool" where
  "dns_char c = ((CHR ''a'' \<le> c \<and> c \<le> CHR ''z'') \<or> (CHR ''0'' \<le> c \<and> c \<le> CHR ''9'')
     \<or> c = CHR ''-'' \<or> c = CHR ''.'')"

definition single_dashes :: "string \<Rightarrow> bool" where
  "single_dashes s = successively (\<lambda>a b. \<not> (a = CHR ''-'' \<and> b = CHR ''-'')) s"

definition dns_normal :: "string \<Rightarrow> bool" where
  "dns_normal s = (list_all dns_char s \<and> single_dashes s
     \<and> (s = [] \<or> hd s \<noteq> CHR ''-'' \<and> last s \<noteq> CHR ''-''))"

lemma to_lower_authorized: "authorized (to_lower c) \<Longrightarrow> dns_char (to_lower c)"
  by (auto simp: authorized_def dns_char_def to_lower_def less_eq_char_def)

lemma dns_char_dash [simp]: "dns_char CHR ''-''"
  by (simp add: dns_char_def)

lemma dns_char_facts:
  assumes "dns_char c"
  shows "to_lower c = c" "authorized c" "\<not> is_space c" "c \<noteq> CHR ''_''"
  using assms
  by (auto simp: dns_char_def to_lower_def authorized_def is_space_def less_eq_char_def)

lemma replace_multiple_dashes_set: "set (replace_multiple_dashes s) \<subseteq> set s"
  by (induction s rule: replace_multiple_dashes.induct) (auto dest: set_dropWhileD)

lemma hd_dropWhile_dash: "dropWhile (\<lambda>x. x = CHR ''-'') s = c # t \<Longrightarrow> c \<noteq> CHR ''-''"
  by (metis (mono_tags) hd_dropWhile list.distinct(1) list.sel(1))

lemma replace_multiple_dashes_hd:
  "s \<noteq> [] \<Longrightarrow> replace_multiple_dashes s \<noteq> [] \<and> hd (replace_multiple_dashes s) = hd s"
  by (cases s) auto

lemma single_dashes_replace: "single_dashes (replace_multiple_dashes s)"
proof (induction s rule: replace_multiple_dashes.induct)
  case 1
  then show ?case by (simp add: single_dashes_def)
next
  case (2 c s)
  show ?case
  proof (cases "c = CHR ''-''")
    case True
    let ?t = "dropWhile (\<lambda>x. x = CHR ''-'') s"
    have "replace_multiple_dashes ?t = [] \<or> hd (replace_multiple_dashes ?t) \<noteq> CHR ''-''"
    proof (cases "?t = []")
      case True
      show ?thesis by (simp only: True replace_multiple_dashes.simps simp_thms)
    next
      case False
      then show ?thesis
        using replace_multiple_dashes_hd [of ?t] hd_dropWhile [of "\<lambda>x. x = CHR ''-''" s] by simp
    qed
    moreover have "single_dashes (replace_multiple_dashes ?t)" using True by (rule 2)
    ultimately have "single_dashes (CHR ''-'' # replace_multiple_dashes ?t)"
      by (cases "replace_multiple_dashes ?t") (auto simp: single_dashes_def)
    with True show ?thesis by simp
  next
    case False
    with 2 show ?thesis by (auto simp: single_dashes_def successively_Cons)
  qed
qed

lemma replace_multiple_dashes_id: "single_dashes s \<Longrightarrow> replace_multiple_dashes s = s"
proof (induction s rule: replace_multiple_dashes.induct)
  case 1
  then show ?case by simp
next
  case (2 c s)
  have tail: "single_dashes s" using "2.prems" by (auto simp: single_dashes_def successively_Cons)
  show ?case
  proof (cases "c = CHR ''-''")
    case True
    with "2.prems" have "dropWhile (\<lambda>x. x = CHR ''-'') s = s"
      by (cases s) (auto simp: single_dashes_def)
    with True 2 tail show ?thesis by simp
  next
    case False
    with 2 tail show ?thesis by simp
  qed
qed

lemma trim_by_infix: "\<exists>a b. s = a @ trim_by f s @ b"
  unfolding trim_by_def
  by (metis append_assoc rev_append rev_rev_ident takeWhile_dropWhile_id)

lemma single_dashes_append: "single_dashes (a @ b) \<Longrightarrow> single_dashes a \<and> single_dashes b"
  by (auto simp: single_dashes_def successively_append_iff)

lemma single_dashes_trim: "single_dashes s \<Longrightarrow> single_dashes (trim_by f s)"
  using trim_by_infix [of s f] single_dashes_append by metis

lemma dns_normal_slug: "dns_normal (dns_slug s)"
proof -
  define r where "r = replace_multiple_dashes (replace_unauthorized (ToLower (TrimSpace s)))"
  have slug: "dns_slug s = Trim r ''-_''" by (simp add: dns_slug_def r_def)
  have "dns_char c" if "c \<in> set (dns_slug s)" for c
  proof -
    from that have "c \<in> set r" using set_trim_by by (fastforce simp: slug Trim_def)
    then have "c \<in> set (replace_unauthorized (ToLower (TrimSpace s)))"
      using replace_multiple_dashes_set by (auto simp: r_def)
    then show ?thesis
      by (auto simp: replace_unauthorized_def ToLower_def to_lower_authorized split: if_splits)
  qed
  moreover have "single_dashes (dns_slug s)"
    unfolding slug Trim_def r_def by (intro single_dashes_trim single_dashes_replace)
  moreover have "dns_slug s = [] \<or> hd (dns_slug s) \<noteq> CHR ''-'' \<and> last (dns_slug s) \<noteq> CHR ''-''"
    using hd_trim_by [of "\<lambda>c. c \<in> set ''-_''" r] last_trim_by [of "\<lambda>c. c \<in> set ''-_''" r]
    by (auto simp: slug Trim_def)
  ultimately show ?thesis by (auto simp: dns_normal_def list_all_iff)
qed

lemma dns_slug_normal:
  assumes "dns_normal s"
  shows "dns_slug s = s"
proof -
  have all: "\<And>c. c \<in> set s \<Longrightarrow> dns_char c" using assms by (auto simp: dns_normal_def list_all_iff)
  have ends: "s = [] \<or> hd s \<in> set s \<and> last s \<in> set s" by (cases "s = []") auto
  have "TrimSpace s = s"
    unfolding TrimSpace_def using ends all dns_char_facts(3) by (intro trim_by_id) blast
  moreover have "ToLower s = s"
    using all dns_char_facts(1) by (simp add: ToLower_def map_idI)
  moreover have "replace_unauthorized s = s"
    using all dns_char_facts(2) by (simp add: replace_unauthorized_def map_idI)
  moreover have "replace_multiple_dashes s = s"
    using assms by (simp add: dns_normal_def replace_multiple_dashes_id)
  moreover have "Trim s ''-_'' = s"
    unfolding Trim_def using assms ends all dns_char_facts(4)
    by (intro trim_by_id) (auto simp: dns_normal_def)
  ultimately show ?thesis by (simp add: dns_slug_def)
qed

lemma append_words_prefix: "\<exists>k. append_words t ws = t @ concat (take k ws)"
proof (induction t ws rule: append_words.induct)
  case (1 t)
  then show ?case by simp
next
  case (2 t w ws)
  show ?case
  proof (cases "int (length t) + int (length w) - 1 \<le> int dns1192MaxLength")
    case True
    with 2 obtain k where "append_words (t @ w) ws = (t @ w) @ concat (take k ws)" by blast
    with True have "append_words t (w # ws) = t @ concat (take (Suc k) (w # ws))" by simp
    then show ?thesis ..
  next
    case False
    then have "append_words t (w # ws) = t @ concat (take 0 (w # ws))" by simp
    then show ?thesis ..
  qed
qed

lemma length_append_words: "length t \<le> 41 \<Longrightarrow> length (append_words t ws) \<le> 41"
  by (induction t ws rule: append_words.induct) (auto simp: dns1192MaxLength_def)

lemma append_words_stops:
  "append_words t ws = t @ concat ws \<or>
   (append_words t ws = t \<or> (\<exists>w \<in> set (butlast ws). \<exists>u. append_words t ws = u @ w))"
proof (induction t ws rule: append_words.induct)
  case (1 t)
  then show ?case by simp
next
  case (2 t w ws)
  show ?case
  proof (cases "int (length t) + int (length w) - 1 \<le> int dns1192MaxLength")
    case False
    then show ?thesis by simp
  next
    case True
    then have eq: "append_words t (w # ws) = append_words (t @ w) ws" by simp
    from 2 [OF True] show ?thesis
    proof (elim disjE)
      assume "append_words (t @ w) ws = (t @ w) @ concat ws"
      with eq show ?thesis by simp
    next
      assume "append_words (t @ w) ws = t @ w"
      with eq show ?thesis by (cases ws) auto
    next
      assume "\<exists>w'\<in>set (butlast ws). \<exists>u. append_words (t @ w) ws = u @ w'"
      with eq show ?thesis by (cases ws) (auto dest: in_set_butlastD)
    qed
  qed
qed

lemma butlast_hd_SplitAfter: "sep \<notin> set (butlast (hd (SplitAfter s sep)))"
proof (induction s)
  case Nil
  then show ?case by simp
next
  case (Cons c s)
  then show ?case by (cases "SplitAfter s sep") auto
qed

lemma hd_SplitAfter_prefix: "\<exists>t. s = hd (SplitAfter s sep) @ t"
  by (metis SplitAfter_not_Nil concat.simps(2) concat_SplitAfter hd_Cons_tl)

lemma dns_normal_prefix_trim:
  assumes "dns_normal (a @ b)"
  shows "dns_normal (Trim a ''-'')"
proof -
  have "list_all dns_char (Trim a ''-'')"
    using assms set_trim_by [of "\<lambda>c. c \<in> set ''-''" a]
    by (auto simp: dns_normal_def list_all_iff Trim_def)
  moreover have "single_dashes (Trim a ''-'')"
    using assms single_dashes_append [of a b] unfolding Trim_def dns_normal_def
    by (intro single_dashes_trim) simp
  moreover have "Trim a ''-'' = [] \<or> hd (Trim a ''-'') \<noteq> CHR ''-'' \<and> last (Trim a ''-'') \<noteq> CHR ''-''"
    using hd_trim_by [of "\<lambda>c. c \<in> set ''-''" a] last_trim_by [of "\<lambda>c. c \<in> set ''-''" a]
    by (auto simp: Trim_def)
  ultimately show ?thesis by (simp add: dns_normal_def)
qed

lemma dns_normal_take:
  assumes "dns_normal s" and "n \<le> length s" and "CHR ''-'' \<notin> set (take n s)"
  shows "dns_normal (take n s)"
proof -
  have "list_all dns_char (take n s)"
    using assms(1) by (auto simp: dns_normal_def list_all_iff dest: in_set_takeD)
  moreover have "single_dashes (take n s)"
    using assms(1) single_dashes_append [of "take n s" "drop n s"] by (simp add: dns_normal_def)
  moreover have "take n s = [] \<or> hd (take n s) \<noteq> CHR ''-'' \<and> last (take n s) \<noteq> CHR ''-''"
    using assms(3) by (metis hd_in_set last_in_set)
  ultimately show ?thesis by (simp add: dns_normal_def)
qed

lemma take_long_word:
  assumes "length (hd (SplitAfter slug (CHR ''-''))) > 40"
  shows "take 40 (hd (SplitAfter slug (CHR ''-''))) = take 40 slug"
    and "CHR ''-'' \<notin> set (take 40 slug)" and "40 \<le> length slug"
proof -
  obtain t where t: "slug = hd (SplitAfter slug (CHR ''-'')) @ t"
    using hd_SplitAfter_prefix by blast
  show eq: "take 40 (hd (SplitAfter slug (CHR ''-''))) = take 40 slug"
    using assms by (subst (2) t) simp
  have "set (take 40 (hd (SplitAfter slug (CHR ''-'')))) \<subseteq>
      set (butlast (hd (SplitAfter slug (CHR ''-''))))"
    using assms by (simp add: butlast_conv_take set_take_subset_set_take)
  with eq show "CHR ''-'' \<notin> set (take 40 slug)"
    using butlast_hd_SplitAfter by (metis subsetD)
  show "40 \<le> length slug" using assms by (subst t) simp
qed

text \<open>The function depends on its argument through the slug only.\<close>

lemma GetDNS1192Name_slug: "dns_slug s = dns_slug t \<Longrightarrow> GetDNS1192Name s = GetDNS1192Name t"
  by (simp add: GetDNS1192Name_def)

lemma GetDNS1192Name_long:
  assumes "length (dns_slug s) > 40" and "length (hd (SplitAfter (dns_slug s) (CHR ''-''))) \<le> 40"
  shows "GetDNS1192Name s = Trim (append_words [] (SplitAfter (dns_slug s) (CHR ''-''))) ''-''"
  using assms by (simp add: GetDNS1192Name_def dns1192MaxLength_def)

lemma GetDNS1192Name_length_cases:
  "length (GetDNS1192Name s) \<le> 40 \<or> length (dns_slug s) = 41 \<and> GetDNS1192Name s = dns_slug s"
proof (cases "length (dns_slug s) > 40 \<and> length (hd (SplitAfter (dns_slug s) (CHR ''-''))) \<le> 40")
  case False
  then show ?thesis by (simp add: GetDNS1192Name_def dns1192MaxLength_def Let_def) linarith
next
  case True
  define t where "t = append_words [] (SplitAfter (dns_slug s) (CHR ''-''))"
  have r: "GetDNS1192Name s = Trim t ''-''"
    using True GetDNS1192Name_long by (simp add: t_def)
  have len: "length t \<le> 41" unfolding t_def by (rule length_append_words) simp
  consider (all) "t = dns_slug s" | (none) "t = []" | (some) u w where
      "t = u @ w" "w \<in> set (butlast (SplitAfter (dns_slug s) (CHR ''-'')))"
    using append_words_stops [of "[]" "SplitAfter (dns_slug s) (CHR ''-'')"] by (auto simp: t_def)
  then show ?thesis
  proof cases
    case all
    have "Trim t ''-'' = t"
      unfolding Trim_def all using dns_normal_slug [of s]
      by (intro trim_by_id) (auto simp: dns_normal_def)
    with all r len True show ?thesis by simp
  next
    case none
    with r show ?thesis by (simp add: Trim_def trim_by_def)
  next
    case some
    then obtain v where "t = u @ v @ [CHR ''-'']" using SplitAfter_butlast_ends by fastforce
    then have "t = (u @ v) @ [CHR ''-'']" by simp
    then have "Trim t ''-'' = Trim (u @ v) ''-''"
      by (simp only: Trim_def) (rule trim_by_snoc, simp)
    then have "length (Trim t ''-'') \<le> length (u @ v)"
      by (simp only: Trim_def length_trim_by)
    with r len \<open>t = (u @ v) @ [CHR ''-'']\<close> show ?thesis by simp
  qed
qed

lemma append_words_all: "length t + length (concat ws) \<le> 41 \<Longrightarrow> append_words t ws = t @ concat ws"
  by (induction t ws rule: append_words.induct) (auto simp: dns1192MaxLength_def)

lemma GetDNS1192Name_too_long_iff:
  "length (GetDNS1192Name s) > 40 \<longleftrightarrow>
     length (dns_slug s) = 41 \<and> length (hd (SplitAfter (dns_slug s) (CHR ''-''))) \<le> 40"
proof
  assume long: "length (GetDNS1192Name s) > 40"
  then have eq: "length (dns_slug s) = 41" "GetDNS1192Name s = dns_slug s"
    using GetDNS1192Name_length_cases [of s] by auto
  with long show "length (dns_slug s) = 41 \<and> length (hd (SplitAfter (dns_slug s) (CHR ''-''))) \<le> 40"
    by (auto simp: GetDNS1192Name_def dns1192MaxLength_def Let_def dest: arg_cong [where f = length] split: if_splits)
next
  assume a: "length (dns_slug s) = 41 \<and> length (hd (SplitAfter (dns_slug s) (CHR ''-''))) \<le> 40"
  then have "append_words [] (SplitAfter (dns_slug s) (CHR ''-'')) = dns_slug s"
    by (simp add: append_words_all)
  moreover have "Trim (dns_slug s) ''-'' = dns_slug s"
    unfolding Trim_def using dns_normal_slug [of s] by (intro trim_by_id) (auto simp: dns_normal_def)
  ultimately show "length (GetDNS1192Name s) > 40"
    using a GetDNS1192Name_long [of s] by simp
qed

lemma GetDNS1192Name_prefix_of_slug:
  "GetDNS1192Name s = dns_slug s \<or> (\<exists>a b. dns_slug s = a @ b \<and> GetDNS1192Name s = Trim a ''-'')
   \<or> (GetDNS1192Name s = take 40 (dns_slug s) \<and> 40 \<le> length (dns_slug s)
       \<and> CHR ''-'' \<notin> set (take 40 (dns_slug s)))"
proof -
  let ?ws = "SplitAfter (dns_slug s) (CHR ''-'')"
  obtain k where k: "append_words [] ?ws = concat (take k ?ws)"
    using append_words_prefix [of "[]" ?ws] by auto
  have "concat (take k ?ws) @ concat (drop k ?ws) = concat ?ws"
    by (simp only: concat_append [symmetric] append_take_drop_id)
  then have "dns_slug s = append_words [] ?ws @ concat (drop k ?ws)"
    unfolding k concat_SplitAfter ..
  then show ?thesis
    using take_long_word [of "dns_slug s"]
    by (cases "length (hd ?ws) > 40") (auto simp: GetDNS1192Name_def dns1192MaxLength_def Let_def)
qed

lemma dns_normal_GetDNS1192Name: "dns_normal (GetDNS1192Name s)"
  using GetDNS1192Name_prefix_of_slug [of s] dns_normal_slug [of s]
    dns_normal_prefix_trim dns_normal_take [of "dns_slug s" 40]
  by metis

section \<open>The group of an apiVersion\<close>

definition CoreAPIGroups :: "string list" where
  "CoreAPIGroups = [
     ''admissionregistration.k8s.io'', ''apiextensions.k8s.io'', ''apiregistration.k8s.io'',
     ''apps'', ''authentication.k8s.io'', ''authorization.k8s.io'', ''autoscaling'', ''batch'',
     ''certificates.k8s.io'', ''coordination.k8s.io'', ''discovery.k8s.io'', ''events.k8s.io'',
     ''extensions'', ''flowcontrol.apiserver.k8s.io'', ''networking.k8s.io'', ''node.k8s.io'',
     ''policy'', ''rbac.authorization.k8s.io'', ''scheduling.k8s.io'', ''storage.k8s.io'']"

definition IsCoreType :: "string \<Rightarrow> bool" where
  "IsCoreType apiVersion =
     (let parts = Split apiVersion (CHR ''/'')
      in if length parts = 1 then True
         else list_ex (\<lambda>ag. ag = hd parts) CoreAPIGroups)"

text \<open>
  The group and version that \<open>GetAPIResource\<close> stores in the resource it has found: the parts of
  the list's \<open>GroupVersion\<close>.
\<close>

definition group_version :: "string \<Rightarrow> string \<times> string" where
  "group_version groupVersion =
     (let parts = Split groupVersion (CHR ''/'')
      in if length parts \<ge> 2 then (hd parts, parts ! 1) else ([], hd parts))"

lemma Split_no_sep: "sep \<notin> set s \<Longrightarrow> Split s sep = [s]"
  by (induction s) auto

lemma Split_append: "sep \<notin> set a \<Longrightarrow> Split (a @ sep # b) sep = a # Split b sep"
  by (induction a) auto

section \<open>Properties\<close>

text \<open>
  A name made by \<open>GetDNS1192Name\<close> has only lower-case letters, digits, dashes and dots, no
  two dashes in a row, and neither begins nor ends with a dash.
\<close>

theorem GetDNS1192Name_charset: "dns_normal (GetDNS1192Name s)"
  by (rule dns_normal_GetDNS1192Name)

text \<open>
  C34. \<open>dns1192MaxLength\<close> is 40, yet a name of 41 bytes comes back, and exactly when the cleaned
  name has 41 bytes and its first word fits: the loop subtracts one for the dash that ends a word,
  and the last word has none. Every other name has at most 40 bytes.
\<close>

theorem GetDNS1192Name_length:
  "length (GetDNS1192Name s) \<le> dns1192MaxLength + 1 \<and>
   (length (GetDNS1192Name s) = dns1192MaxLength + 1 \<longleftrightarrow>
      length (dns_slug s) = 41 \<and> length (hd (SplitAfter (dns_slug s) (CHR ''-''))) \<le> 40)"
  using GetDNS1192Name_too_long_iff [of s] GetDNS1192Name_length_cases [of s]
  by (auto simp: dns1192MaxLength_def)

text \<open>A name made by \<open>GetDNS1192Name\<close> is left alone by it, also the name of 41 bytes.\<close>

theorem GetDNS1192Name_idempotent: "GetDNS1192Name (GetDNS1192Name s) = GetDNS1192Name s"
proof (cases "length (GetDNS1192Name s) \<le> 40")
  case True
  have "dns_slug (GetDNS1192Name s) = GetDNS1192Name s"
    by (rule dns_slug_normal) (rule dns_normal_GetDNS1192Name)
  with True show ?thesis by (simp add: GetDNS1192Name_def [of "GetDNS1192Name s"] dns1192MaxLength_def)
next
  case False
  then have "GetDNS1192Name s = dns_slug s" using GetDNS1192Name_length_cases by blast
  moreover have "dns_slug (dns_slug s) = dns_slug s" by (rule dns_slug_normal) (rule dns_normal_slug)
  ultimately show ?thesis using GetDNS1192Name_slug [of "dns_slug s" s] by simp
qed

end
