(* ===== verification/Kinds.thy ===== *)
theory Kinds
  imports Names
begin

text \<open>
  Dynamic objects and what the code asks of their kind: the predicates of \<open>utils.go\<close>,
  \<open>TrivialTypes\<close> of \<open>conditions.go\<close>, \<open>RequiresReplacement\<close> and \<open>IsDiffable\<close> of
  \<open>apply.go\<close>, \<open>Validate\<close>, \<open>UnwrapError\<close> and \<open>IsAPIResourceMissing\<close> of \<open>utils.go\<close>.

  An \<open>unstructured.Unstructured\<close> is a Go map, \<open>Object\<close>, with accessor methods defined outside
  the repository. The record has the map and what the accessors return on it.

  A value in such a map is a \<open>val\<close>: the dynamic types that decoding JSON gives (an integral number
  is an \<open>int64\<close>; numbers with a fraction do not occur in the fields the code reads).
\<close>

section \<open>Values\<close>

datatype val =
    VNil
  | VBool bool
  | VInt int
  | VStr string
  | VList "val list"
  | VMap "(string \<times> val) list"

type_synonym obj_map = "(string \<times> val) list"

record unstructured =
  u_kind :: string
  u_apiVersion :: string
  u_name :: string
  u_namespace :: string
  Object :: obj_map

text \<open>Reading a key of a map gives the zero value of the element type, nil, where it is missing.\<close>

definition get :: "obj_map \<Rightarrow> string \<Rightarrow> val" where
  "get m k = (case map_of m k of None \<Rightarrow> VNil | Some v \<Rightarrow> v)"

definition found :: "obj_map \<Rightarrow> string \<Rightarrow> bool" where
  "found m k = (map_of m k \<noteq> None)"

text \<open>Type assertions \<open>v.(map[string]interface{})\<close>, \<open>v.([]interface{})\<close> and \<open>v.(string)\<close>.\<close>

fun as_map :: "val \<Rightarrow> obj_map option" where
  "as_map (VMap m) = Some m"
| "as_map _ = None"

fun as_list :: "val \<Rightarrow> val list option" where
  "as_list (VList l) = Some l"
| "as_list _ = None"

fun as_str :: "val \<Rightarrow> string option" where
  "as_str (VStr s) = Some s"
| "as_str _ = None"

lemma as_Some_iff [simp]:
  "as_map v = Some m \<longleftrightarrow> v = VMap m" "as_list v = Some l \<longleftrightarrow> v = VList l"
  "as_str v = Some s \<longleftrightarrow> v = VStr s"
  by (cases v; auto)+

text \<open>
  \<open>a == b\<close> on two values of type \<open>interface{}\<close>: equal dynamic types and values, and a panic
  where both are maps or both are slices, which Go cannot compare.
\<close>

fun iface_eq :: "val \<Rightarrow> val \<Rightarrow> bool option" where
  "iface_eq (VMap _) (VMap _) = None"
| "iface_eq (VList _) (VList _) = None"
| "iface_eq a b = Some (a = b)"

section \<open>Rendering by package fmt\<close>

text \<open>The verb \<open>s\<close> on a value of type \<open>interface{}\<close>; a map is printed in the order of its keys.\<close>

fun fmt_s :: "val \<Rightarrow> string" where
  "fmt_s VNil = ''%!s(<nil>)''"
| "fmt_s (VBool b) = ''%!s(bool='' @ (if b then ''true'' else ''false'') @ '')''"
| "fmt_s (VInt i) = ''%!s(int64='' @ int_dec i @ '')''"
| "fmt_s (VStr s) = s"
| "fmt_s (VList l) = ''['' @ Join '' '' (map fmt_s l) @ '']''"
| "fmt_s (VMap m) =
     ''map['' @ Join '' '' (map (\<lambda>(k, t). k @ '':'' @ t)
       (sort_key fst (map (\<lambda>(k, v). (k, fmt_s v)) m))) @ '']''"

text \<open>The verb \<open>v\<close>.\<close>

fun fmt_v :: "val \<Rightarrow> string" where
  "fmt_v VNil = ''<nil>''"
| "fmt_v (VBool b) = (if b then ''true'' else ''false'')"
| "fmt_v (VInt i) = int_dec i"
| "fmt_v (VStr s) = s"
| "fmt_v (VList l) = ''['' @ Join '' '' (map fmt_v l) @ '']''"
| "fmt_v (VMap m) =
     ''map['' @ Join '' '' (map (\<lambda>(k, t). k @ '':'' @ t)
       (sort_key fst (map (\<lambda>(k, v). (k, fmt_v v)) m))) @ '']''"

section \<open>Kinds\<close>

definition IsConfigMap :: "unstructured \<Rightarrow> bool" where "IsConfigMap obj = (u_kind obj = ''ConfigMap'')"
definition IsSecret :: "unstructured \<Rightarrow> bool" where "IsSecret obj = (u_kind obj = ''Secret'')"
definition IsPVC :: "unstructured \<Rightarrow> bool" where "IsPVC obj = (u_kind obj = ''PersistentVolumeClaim'')"
definition IsService :: "unstructured \<Rightarrow> bool" where "IsService obj = (u_kind obj = ''Service'')"
definition IsServiceAccount :: "unstructured \<Rightarrow> bool" where "IsServiceAccount obj = (u_kind obj = ''ServiceAccount'')"
definition IsIngress :: "unstructured \<Rightarrow> bool" where "IsIngress obj = (u_kind obj = ''Ingress'')"
definition IsDeployment :: "unstructured \<Rightarrow> bool" where "IsDeployment obj = (u_kind obj = ''Deployment'')"
definition IsDaemonSet :: "unstructured \<Rightarrow> bool" where "IsDaemonSet obj = (u_kind obj = ''DaemonSet'')"
definition IsStatefulSet :: "unstructured \<Rightarrow> bool" where "IsStatefulSet obj = (u_kind obj = ''StatefulSet'')"
definition IsApp :: "unstructured \<Rightarrow> bool" where
  "IsApp obj = (IsStatefulSet obj \<or> IsDeployment obj \<or> IsDaemonSet obj)"
definition IsRoleBinding :: "unstructured \<Rightarrow> bool" where "IsRoleBinding obj = (u_kind obj = ''RoleBinding'')"
definition IsClusterRoleBinding :: "unstructured \<Rightarrow> bool" where
  "IsClusterRoleBinding obj = (u_kind obj = ''ClusterRoleBinding'')"
definition IsAnyRoleBinding :: "unstructured \<Rightarrow> bool" where
  "IsAnyRoleBinding obj = (IsRoleBinding obj \<or> IsClusterRoleBinding obj)"
definition IsClusterRole :: "unstructured \<Rightarrow> bool" where "IsClusterRole obj = (u_kind obj = ''ClusterRole'')"
definition IsRole :: "unstructured \<Rightarrow> bool" where "IsRole obj = (u_kind obj = ''Role'')"
definition IsCronJob :: "unstructured \<Rightarrow> bool" where "IsCronJob obj = (u_kind obj = ''CronJob'')"
definition IsCanary :: "unstructured \<Rightarrow> bool" where "IsCanary obj = (u_kind obj = ''Canary'')"
definition IsCustomResourceDefinitionV1Beta1 :: "unstructured \<Rightarrow> bool" where
  "IsCustomResourceDefinitionV1Beta1 obj =
     (u_kind obj = ''CustomResourceDefinition'' \<and> u_apiVersion obj = ''apiextensions.k8s.io/v1beta1'')"
definition IsCustomResourceDefinition :: "unstructured \<Rightarrow> bool" where
  "IsCustomResourceDefinition obj = (u_kind obj = ''CustomResourceDefinition'')"
definition IsConstraintTemplate :: "unstructured \<Rightarrow> bool" where
  "IsConstraintTemplate obj = (u_kind obj = ''ConstraintTemplate'')"
definition IsElasticsearch :: "unstructured \<Rightarrow> bool" where "IsElasticsearch obj = (u_kind obj = ''Elasticsearch'')"
definition IsKibana :: "unstructured \<Rightarrow> bool" where "IsKibana obj = (u_kind obj = ''Kibana'')"
definition IsRedisFailover :: "unstructured \<Rightarrow> bool" where "IsRedisFailover obj = (u_kind obj = ''RedisFailover'')"
definition IsPostgresql :: "unstructured \<Rightarrow> bool" where
  "IsPostgresql obj = (ToLower (u_kind obj) = ''postgresql'')"
definition IsPostgresqlDB :: "unstructured \<Rightarrow> bool" where
  "IsPostgresqlDB obj = (ToLower (u_kind obj) = ''postgresqldb'')"
definition IsMongoDB :: "unstructured \<Rightarrow> bool" where "IsMongoDB obj = (u_kind obj = ''PerconaServerMongoDB'')"
definition IsKafka :: "unstructured \<Rightarrow> bool" where "IsKafka obj = (u_kind obj = ''Kafka'')"
definition IsBuilder :: "unstructured \<Rightarrow> bool" where "IsBuilder obj = (u_kind obj = ''Builder'')"
definition IsImage :: "unstructured \<Rightarrow> bool" where "IsImage obj = (u_kind obj = ''Image'')"
definition IsNode :: "unstructured \<Rightarrow> bool" where "IsNode obj = (u_kind obj = ''Node'')"
definition IsPod :: "unstructured \<Rightarrow> bool" where "IsPod obj = (u_kind obj = ''Pod'')"

lemmas kind_defs = IsConfigMap_def IsSecret_def IsPVC_def IsService_def IsServiceAccount_def
  IsIngress_def IsDeployment_def IsDaemonSet_def IsStatefulSet_def IsApp_def IsRoleBinding_def
  IsClusterRoleBinding_def IsAnyRoleBinding_def IsClusterRole_def IsRole_def IsCronJob_def
  IsCanary_def IsCustomResourceDefinitionV1Beta1_def IsCustomResourceDefinition_def
  IsConstraintTemplate_def IsElasticsearch_def IsKibana_def IsRedisFailover_def IsPostgresql_def
  IsPostgresqlDB_def IsMongoDB_def IsKafka_def IsBuilder_def IsImage_def IsNode_def IsPod_def

text \<open>The loop over the map \<open>TrivialTypes\<close> stops at the first predicate that holds, in any order.\<close>

definition TrivialTypes :: "(string \<times> (unstructured \<Rightarrow> bool)) list" where
  "TrivialTypes = [(''Canary'', IsCanary), (''ClusterRole'', IsClusterRole),
     (''ClusterRoleBinding'', IsClusterRoleBinding), (''ConfigMap'', IsConfigMap),
     (''CronJob'', IsCronJob), (''Ingress'', IsIngress), (''PersistentVolumeClaim'', IsPVC),
     (''Role'', IsRole), (''RoleBinding'', IsRoleBinding), (''Secret'', IsSecret)]"

definition IsTrivialType :: "unstructured \<Rightarrow> bool" where
  "IsTrivialType item = list_ex (\<lambda>(_, v). v item) TrivialTypes"

text \<open>\<open>Validate\<close> of a dynamic object; \<open>None\<close> is the nil pointer.\<close>

definition Validate :: "unstructured option \<Rightarrow> gerror option" where
  "Validate object =
     (case object of
        None \<Rightarrow> Some (errorf ''empty pointer'')
      | Some obj \<Rightarrow>
          if u_kind obj = '''' then
            Some (errorf (u_namespace obj @ ''/'' @ u_name obj @ '' does not have a kind''))
          else if u_apiVersion obj = '''' then
            Some (errorf (u_namespace obj @ ''/'' @ u_kind obj @ ''/'' @ u_name obj
              @ '' does not have an apiVersion''))
          else None)"

definition IsNil :: "unstructured option option \<Rightarrow> bool" where
  "IsNil object = (case object of None \<Rightarrow> True | Some None \<Rightarrow> True | Some (Some _) \<Rightarrow> False)"

section \<open>Errors of the API server\<close>

definition UnwrapError :: "gerror option \<Rightarrow> string" where
  "UnwrapError err =
     (case err of
        None \<Rightarrow> ''''
      | Some e \<Rightarrow> (case status_message e of Some m \<Rightarrow> m | None \<Rightarrow> Error e))"

definition IsAPIResourceMissing :: "gerror option \<Rightarrow> bool" where
  "IsAPIResourceMissing err =
     (let msg = UnwrapError err
      in if msg = '''' then False
         else Contains msg ''the server could not find the requested resource''
            \<or> Contains msg ''no matches for kind''
            \<or> (Contains msg ''is not recognized'' \<and> Contains msg ''kind''))"

definition RequiresReplacement :: "unstructured \<Rightarrow> gerror \<Rightarrow> bool" where
  "RequiresReplacement obj err =
     (if (IsDeployment obj \<or> IsDaemonSet obj) \<and> Contains (Error err) ''field is immutable'' then True
      else if IsAnyRoleBinding obj \<and> Contains (Error err) ''cannot change roleRef'' then True
      else False)"

definition IsDiffable :: "unstructured \<Rightarrow> bool" where
  "IsDiffable obj = (\<not> IsSecret obj \<and> \<not> IsCustomResourceDefinition obj)"

lemma IsAPIResourceMissing_None [simp]: "\<not> IsAPIResourceMissing None"
  by (simp add: IsAPIResourceMissing_def UnwrapError_def)

lemma get_simps [simp]:
  "get [] k = VNil" "get ((k', v) # m) k = (if k' = k then v else get m k)"
  "\<not> found [] k" "found ((k', v) # m) k = (k' = k \<or> found m k)"
  by (auto simp: get_def found_def)

lemma not_found_get: "\<not> found m k \<Longrightarrow> get m k = VNil"
  by (simp add: get_def found_def)

section \<open>Names of objects\<close>

text \<open>
  \<open>Name\<close> and \<open>GetName\<close>. The colour functions of package \<open>console\<close> are outside the repository;
  \<open>format0\<close> is what \<open>fmt.Sprintf\<close> makes of a format without arguments.
  \<open>GetName\<close> is modelled on a dynamic object, \<open>None\<close> being the nil pointer.
\<close>

record Name =
  Name_Name :: string
  Name_Kind :: string
  Name_Namespace :: string

record console =
  Bluef :: "string \<Rightarrow> string"
  Redf :: "string \<Rightarrow> string"
  DarkF :: "string \<Rightarrow> string"
  Grayf :: "string \<Rightarrow> string"
  LightWhitef :: "string \<Rightarrow> string"
  format0 :: "string \<Rightarrow> string"

definition GetName :: "unstructured option \<Rightarrow> Name" where
  "GetName obj =
     (case obj of
        None \<Rightarrow> \<lparr>Name_Name = '''', Name_Kind = '''', Name_Namespace = ''''\<rparr>
      | Some object \<Rightarrow> \<lparr>Name_Name = u_name object, Name_Kind = u_kind object,
          Name_Namespace = u_namespace object\<rparr>)"

definition Name_String :: "console \<Rightarrow> Name \<Rightarrow> string" where
  "Name_String C n =
     (if Name_Namespace n = ''''
      then Bluef C (Name_Kind n) @ ''/'' @ Grayf C ''*'' @ ''/'' @ LightWhitef C (Name_Name n)
      else Bluef C (Name_Kind n) @ ''/'' @ Grayf C (Name_Namespace n) @ ''/''
        @ LightWhitef C (Name_Name n))"

text \<open>The verb \<open>v\<close> on an error, which may be nil.\<close>

definition err_v :: "gerror option \<Rightarrow> string" where
  "err_v e = (case e of None \<Rightarrow> ''<nil>'' | Some x \<Rightarrow> Error x)"

text \<open>Colours as tags, for the examples.\<close>

definition example_console :: console where
  "example_console = \<lparr>Bluef = (\<lambda>s. CHR ''B'' # s), Redf = (\<lambda>s. CHR ''R'' # s), DarkF = (\<lambda>s. CHR ''D'' # s),
     Grayf = (\<lambda>s. CHR ''G'' # s), LightWhitef = (\<lambda>s. CHR ''W'' # s), format0 = (\<lambda>s. s)\<rparr>"

end
