(* ===== verification/Pods.thy ===== *)
theory Pods
  imports Kinds
begin

text \<open>
  Pods, nodes and cluster health: the functions on \<open>v1.Pod\<close> and \<open>v1.Node\<close> of \<open>utils.go\<close>,
  \<open>Health\<close> with its comparison, and \<open>GetHealth\<close> of \<open>health.go\<close>.

  The records have the fields of the Kubernetes API types that the code reads. An instant is the
  number of nanoseconds since Go's zero time, so that \<open>IsZero\<close> is equality with 0; a pointer is
  an option. \<open>controller\<close> is what \<open>metav1.GetControllerOf\<close>, outside the repository, returns on
  the pod. Go's \<open>int\<close> has 64 bits.
\<close>

section \<open>API types\<close>

record terminated_state =
  exit_code :: int
  term_reason :: string
  term_message :: string
  finished_at :: int

record container_status =
  cs_name :: string
  waiting :: "string option"
  running :: bool
  terminated :: "terminated_state option"
  last_terminated :: "terminated_state option"

record condition =
  cond_type :: string
  cond_status :: string

record owner_ref =
  owner_kind :: string
  owner_name :: string

record volume =
  vol_name :: string
  empty_dir :: bool
  pvc_claim :: "string option"

record pod =
  pod_name :: string
  pod_namespace :: string
  uid :: string
  labels :: "string \<rightharpoonup> string"
  annotations :: "string \<rightharpoonup> string"
  deletion_timestamp :: "int option"
  owner_references :: "owner_ref list"
  controller :: "owner_ref option"
  phase :: string
  conditions :: "condition list"
  init_container_statuses :: "container_status list"
  container_statuses :: "container_status list"
  volumes :: "volume list"
  priority :: "int option"
  node_name :: string

record taint =
  taint_key :: string
  taint_value :: string
  taint_effect :: string

record node =
  n_name :: string
  n_labels :: "string \<rightharpoonup> string"
  n_conditions :: "condition list"
  taints :: "taint list"
  unschedulable :: bool

section \<open>Pod status\<close>

definition IsPodCrashLoopBackoff :: "pod \<Rightarrow> bool" where
  "IsPodCrashLoopBackoff p =
     list_ex (\<lambda>status. waiting status = Some ''CrashLoopBackOff'') (container_statuses p)"

definition maxTime :: "int option \<Rightarrow> int \<Rightarrow> int option" where
  "maxTime t1 t2 =
     (case t1 of None \<Rightarrow> Some t2 | Some t \<Rightarrow> if t < t2 then Some t2 else Some t)"

definition GetPodStatus :: "pod \<Rightarrow> string" where
  "GetPodStatus p =
     (if IsPodCrashLoopBackoff p then ''CrashLoopBackOff''
      else if phase p = ''Failed'' then ''Failed''
      else if deletion_timestamp p \<noteq> None \<and> deletion_timestamp p \<noteq> Some 0 then ''Terminating''
      else phase p)"

definition GetLastRestartTime :: "pod \<Rightarrow> int option" where
  "GetLastRestartTime p =
     fold (\<lambda>status max.
         case last_terminated status of None \<Rightarrow> max | Some t \<Rightarrow> maxTime max (finished_at t))
       (container_statuses p) None"

definition IsPodHealthy :: "pod \<Rightarrow> bool" where
  "IsPodHealthy p =
     (if phase p = ''Succeeded'' then
        \<not> list_ex (\<lambda>status. case terminated status of None \<Rightarrow> False | Some t \<Rightarrow> exit_code t \<noteq> 0)
            (container_statuses p)
      else if phase p = ''Failed'' \<or> IsPodCrashLoopBackoff p then False
      else if list_ex (\<lambda>c. cond_status c = ''False'') (conditions p) then False
      else phase p = ''Running'')"

definition GetContainerStatus :: "console \<Rightarrow> pod \<Rightarrow> string" where
  "GetContainerStatus C p =
     (if IsPodHealthy p then ''''
      else fold (\<lambda>status msg.
          case terminated status of
            Some t \<Rightarrow> msg @ Bluef C (cs_name status) @ '' exit('' @ Redf C (int_dec (exit_code t))
              @ ''):, '' @ term_reason t @ '' '' @ DarkF C (term_message t)
          | None \<Rightarrow>
              (case last_terminated status of
                 Some t \<Rightarrow> msg @ Bluef C (cs_name status) @ '' exit('' @ Redf C (int_dec (exit_code t))
                   @ ''): '' @ term_reason t @ '' '' @ DarkF C (term_message t)
               | None \<Rightarrow> msg))
        (container_statuses p) '''')"

definition IsPodFinished :: "pod \<Rightarrow> bool" where
  "IsPodFinished p = (phase p = ''Succeeded'' \<or> phase p = ''Failed'')"

definition IsPodPending :: "pod \<Rightarrow> bool" where
  "IsPodPending p = (phase p = ''Pending'')"

definition IsPodReady :: "pod \<Rightarrow> bool" where
  "IsPodReady p = list_ex (\<lambda>c. cond_type c = ''Ready'' \<and> cond_status c = ''True'') (conditions p)"

definition IsMasterNode :: "node \<Rightarrow> bool" where
  "IsMasterNode n = (n_labels n ''node-role.kubernetes.io/master'' \<noteq> None)"

definition IsDeleted :: "pod \<Rightarrow> bool" where
  "IsDeleted object = (deletion_timestamp object \<noteq> None \<and> deletion_timestamp object \<noteq> Some 0)"

definition IsPodDaemonSet :: "pod \<Rightarrow> bool" where
  "IsPodDaemonSet p =
     (case controller p of None \<Rightarrow> False | Some ref \<Rightarrow> owner_kind ref = ''DaemonSet'')"

definition IsStaticPod :: "pod \<Rightarrow> bool" where
  "IsStaticPod p = list_ex (\<lambda>owner. owner_kind owner = ''Node'') (owner_references p)"

section \<open>Nodes\<close>

definition GetNodeStatus :: "node \<Rightarrow> string" where
  "GetNodeStatus n =
     fold (\<lambda>condition s.
         if cond_status condition = ''False'' then s
         else (if s \<noteq> '''' then s @ '', '' else s) @ cond_type condition)
       (n_conditions n) ''''"

definition RemoveTaint :: "taint list \<Rightarrow> string \<Rightarrow> taint list" where
  "RemoveTaint ts name =
     fold (\<lambda>taint list. if taint_key taint \<noteq> name then list @ [taint] else list) ts []"

definition HasTaint :: "node \<Rightarrow> string \<Rightarrow> bool" where
  "HasTaint n name = list_ex (\<lambda>taint. taint_key taint = name) (taints n)"

lemma fold_append_filter: "fold (\<lambda>x l. if P x then l @ [x] else l) xs ys = ys @ filter P xs"
  by (induction xs arbitrary: ys) auto

lemma RemoveTaint_filter: "RemoveTaint ts name = filter (\<lambda>t. taint_key t \<noteq> name) ts"
  by (simp add: RemoveTaint_def fold_append_filter)

section \<open>Health\<close>

type_synonym goint = "64 word"

record Health =
  RunningPods :: goint
  PendingPods :: goint
  ErrorPods :: goint
  CrashLoopBackOff :: goint
  ReadyNodes :: goint
  UnreadyNodes :: goint
  HealthError :: "gerror option"

definition empty_health :: Health where
  "empty_health = \<lparr>RunningPods = 0, PendingPods = 0, ErrorPods = 0, CrashLoopBackOff = 0,
     ReadyNodes = 0, UnreadyNodes = 0, HealthError = None\<rparr>"

definition GetNonReadyPods :: "Health \<Rightarrow> goint" where
  "GetNonReadyPods h = PendingPods h + ErrorPods h + CrashLoopBackOff h"

definition IsDegradedComparedTo :: "Health \<Rightarrow> Health \<Rightarrow> goint \<Rightarrow> bool" where
  "IsDegradedComparedTo h h2 tolerance =
     (if sint (GetNonReadyPods h - GetNonReadyPods h2) > sint tolerance then True
      else if sint (RunningPods h2 - RunningPods h) > sint tolerance then True
      else if sint (UnreadyNodes h - UnreadyNodes h2) > 0 then True
      else False)"

text \<open>The body of the loop of \<open>GetHealth\<close>, and the whole function with the server's answers.\<close>

definition count_pod :: "pod \<Rightarrow> Health \<Rightarrow> Health" where
  "count_pod p health =
     (if IsDeleted p then health
      else if (case priority p of None \<Rightarrow> False | Some n \<Rightarrow> n < 0) then health
      else if IsPodCrashLoopBackoff p then health\<lparr>CrashLoopBackOff := CrashLoopBackOff health + 1\<rparr>
      else if IsPodHealthy p then health\<lparr>RunningPods := RunningPods health + 1\<rparr>
      else if IsPodPending p then health\<lparr>PendingPods := PendingPods health + 1\<rparr>
      else health\<lparr>ErrorPods := ErrorPods health + 1\<rparr>)"

definition GetHealth :: "gerror option \<Rightarrow> gerror + pod list \<Rightarrow> Health" where
  "GetHealth clientset_err list_result =
     (case clientset_err of
        Some err \<Rightarrow> empty_health\<lparr>HealthError := Some err\<rparr>
      | None \<Rightarrow>
          (case list_result of
             Inl err \<Rightarrow> empty_health\<lparr>HealthError := Some err\<rparr>
           | Inr items \<Rightarrow> fold count_pod items empty_health))"

text \<open>
  \<open>PingMaster\<close>: the answers are those of the clientset, the node list and the service account.
  The node list of a successful call is not nil, so the guard of the code, which asks for a nil
  list that is empty, never holds.
\<close>

definition PingMaster :: "gerror option \<Rightarrow> gerror + node list \<Rightarrow> gerror option \<Rightarrow> bool" where
  "PingMaster clientset_err nodes sa_err =
     (if clientset_err \<noteq> None then False
      else (case nodes of
              Inl err \<Rightarrow> False
            | Inr items \<Rightarrow> if sa_err \<noteq> None then False else True))"

section \<open>Lemmas\<close>

definition counted :: "pod \<Rightarrow> bool" where
  "counted p = (\<not> IsDeleted p \<and> (case priority p of None \<Rightarrow> True | Some n \<Rightarrow> 0 \<le> n))"

lemma fold_count_pod:
  "CrashLoopBackOff (fold count_pod ps h) =
     CrashLoopBackOff h + of_nat (length (filter (\<lambda>p. counted p \<and> IsPodCrashLoopBackoff p) ps))"
  "RunningPods (fold count_pod ps h) =
     RunningPods h + of_nat (length (filter (\<lambda>p. counted p \<and> \<not> IsPodCrashLoopBackoff p
       \<and> IsPodHealthy p) ps))"
  "PendingPods (fold count_pod ps h) =
     PendingPods h + of_nat (length (filter (\<lambda>p. counted p \<and> \<not> IsPodCrashLoopBackoff p
       \<and> \<not> IsPodHealthy p \<and> IsPodPending p) ps))"
  "ErrorPods (fold count_pod ps h) =
     ErrorPods h + of_nat (length (filter (\<lambda>p. counted p \<and> \<not> IsPodCrashLoopBackoff p
       \<and> \<not> IsPodHealthy p \<and> \<not> IsPodPending p) ps))"
  "HealthError (fold count_pod ps h) = HealthError h"
  by (induction ps arbitrary: h) (auto simp: count_pod_def counted_def split: option.splits)

lemma length_filter_split:
  "length (filter P xs) = length (filter (\<lambda>x. P x \<and> Q x) xs) + length (filter (\<lambda>x. P x \<and> \<not> Q x) xs)"
  by (induction xs) auto

lemma maxTime_None [simp]: "maxTime None t = Some t"
  by (simp add: maxTime_def)

lemma fold_maxTime_Some: "fold (\<lambda>t m. maxTime m t) ts (Some m) = Some (Max (insert m (set ts)))"
proof (induction ts arbitrary: m)
  case Nil
  then show ?case by simp
next
  case (Cons t ts)
  have "maxTime (Some m) t = Some (max m t)" by (auto simp: maxTime_def)
  moreover have "Max (insert (max m t) (set ts)) = Max (insert m (insert t (set ts)))"
    by (cases "ts = []") (simp_all add: max.assoc)
  ultimately show ?case using Cons by simp
qed

lemma fold_last_terminated:
  "fold (\<lambda>status max. case last_terminated status of None \<Rightarrow> max
       | Some t \<Rightarrow> maxTime max (finished_at t)) cs m
   = fold (\<lambda>t m. maxTime m t) (map finished_at (List.map_filter last_terminated cs)) m"
  by (induction cs arbitrary: m) (auto simp: map_filter_simps split: option.splits)

lemma fold_node_status:
  assumes "\<forall>c \<in> set cs. cond_type c \<noteq> ''''" and "s \<noteq> ''''"
  shows "fold (\<lambda>condition s. if cond_status condition = ''False'' then s
             else (if s \<noteq> '''' then s @ '', '' else s) @ cond_type condition) cs s
         = Join '', '' (s # map cond_type (filter (\<lambda>c. cond_status c \<noteq> ''False'') cs))"
  using assms
proof (induction cs arbitrary: s)
  case Nil
  then show ?case by simp
next
  case (Cons c cs)
  have join: "Join sep (a # b # zs) = Join sep ((a @ sep @ b) # zs)" for sep a b zs
    by (cases zs) simp_all
  show ?case
  proof (cases "cond_status c = ''False''")
    case True
    with Cons show ?thesis by simp
  next
    case False
    with Cons show ?thesis using join [of "'', ''" s "cond_type c"] by simp
  qed
qed

lemma sint_small:
  assumes "- (2 ^ 63) \<le> k" and "k < 2 ^ 63"
  shows "sint (of_int k :: goint) = k"
proof -
  have "sint (of_int k :: goint) = signed_take_bit (LENGTH(64) - 1) k" by (rule sint_sbintrunc')
  also have "\<dots> = k" using assms by (intro signed_take_bit_int_eq_self) simp_all
  finally show ?thesis .
qed

lemma diff_small:
  fixes a b :: int
  assumes "0 \<le> a \<and> a < 2 ^ 62" and "0 \<le> b \<and> b < 2 ^ 62"
  shows "- (2 ^ 63) \<le> a - b \<and> a - b < 2 ^ 63"
  using assms by simp

lemma sum3_small:
  fixes a b c :: int
  assumes "0 \<le> a \<and> a < 2 ^ 60" and "0 \<le> b \<and> b < 2 ^ 60" and "0 \<le> c \<and> c < 2 ^ 60"
  shows "0 \<le> a + b + c \<and> a + b + c < 2 ^ 62"
  using assms by simp

lemma uint_small:
  assumes "unat (x :: goint) < 2 ^ 60"
  shows "0 \<le> uint x \<and> uint x < 2 ^ 60"
proof -
  have "int (unat x) < int (2 ^ 60)" using assms by (simp only: of_nat_less_iff)
  then show ?thesis by simp
qed

lemma uint_small62: "unat (x :: goint) < 2 ^ 60 \<Longrightarrow> 0 \<le> uint x \<and> uint x < 2 ^ 62"
  using sum3_small [of "uint x" 0 0] uint_small [of x] by simp

section \<open>Properties\<close>

text \<open>
  \<open>GetHealth\<close> puts every pod that is neither being deleted nor of negative priority into
  exactly one of its four counters: crash-looping first, then healthy, pending and failing.
\<close>

theorem GetHealth_partition:
  "let h = GetHealth None (Inr items) in
     CrashLoopBackOff h = of_nat (length (filter (\<lambda>p. counted p \<and> IsPodCrashLoopBackoff p) items))
     \<and> RunningPods h + PendingPods h + ErrorPods h + CrashLoopBackOff h
         = of_nat (length (filter counted items))
     \<and> HealthError h = None"
proof -
  have "length (filter counted items) =
      length (filter (\<lambda>p. counted p \<and> IsPodCrashLoopBackoff p) items)
      + (length (filter (\<lambda>p. counted p \<and> \<not> IsPodCrashLoopBackoff p \<and> IsPodHealthy p) items)
      + (length (filter (\<lambda>p. counted p \<and> \<not> IsPodCrashLoopBackoff p \<and> \<not> IsPodHealthy p
           \<and> IsPodPending p) items)
      + length (filter (\<lambda>p. counted p \<and> \<not> IsPodCrashLoopBackoff p \<and> \<not> IsPodHealthy p
           \<and> \<not> IsPodPending p) items)))"
    using length_filter_split [of counted items IsPodCrashLoopBackoff]
      length_filter_split [of "\<lambda>p. counted p \<and> \<not> IsPodCrashLoopBackoff p" items IsPodHealthy]
      length_filter_split [of "\<lambda>p. (counted p \<and> \<not> IsPodCrashLoopBackoff p) \<and> \<not> IsPodHealthy p"
        items IsPodPending]
    by (simp add: conj_assoc)
  then show ?thesis
    by (simp add: GetHealth_def empty_health_def fold_count_pod Let_def)
qed

text \<open>
  On counters below \<open>2 ^ 60\<close> the comparison of two health reports does not overflow: it asks
  whether the pods that are not ready grew, or the running pods shrank, by more than the tolerance,
  or whether any more nodes are unready.
\<close>

theorem IsDegradedComparedTo_exact:
  assumes "\<forall>x \<in> {RunningPods h, PendingPods h, ErrorPods h, CrashLoopBackOff h, UnreadyNodes h,
      RunningPods h2, PendingPods h2, ErrorPods h2, CrashLoopBackOff h2, UnreadyNodes h2}.
      unat x < 2 ^ 60"
  shows "IsDegradedComparedTo h h2 tolerance \<longleftrightarrow>
      int (unat (PendingPods h) + unat (ErrorPods h) + unat (CrashLoopBackOff h))
        - int (unat (PendingPods h2) + unat (ErrorPods h2) + unat (CrashLoopBackOff h2))
          > sint tolerance
      \<or> int (unat (RunningPods h2)) - int (unat (RunningPods h)) > sint tolerance
      \<or> unat (UnreadyNodes h) > unat (UnreadyNodes h2)"
proof -
  have diff: "sint (a - b) = int (unat a) - int (unat b)"
    if "unat a < 2 ^ 60" "unat b < 2 ^ 60" for a b :: goint
  proof -
    have "- (2 ^ 63) \<le> uint a - uint b \<and> uint a - uint b < 2 ^ 63"
      by (intro diff_small uint_small62 that)
    then have "sint (of_int (uint a - uint b) :: goint) = uint a - uint b"
      by (intro sint_small) blast+
    then show ?thesis by simp
  qed
  let ?n = "\<lambda>x. uint (PendingPods x) + uint (ErrorPods x) + uint (CrashLoopBackOff x)"
  have "GetNonReadyPods h - GetNonReadyPods h2 = of_int (?n h - ?n h2)"
    by (simp add: GetNonReadyPods_def)
  moreover have "- (2 ^ 63) \<le> ?n h - ?n h2 \<and> ?n h - ?n h2 < 2 ^ 63"
    by (intro diff_small sum3_small uint_small) (use assms in blast)+
  ultimately have "sint (GetNonReadyPods h - GetNonReadyPods h2) = ?n h - ?n h2"
    using sint_small by metis
  moreover have "sint (UnreadyNodes h - UnreadyNodes h2) > 0 \<longleftrightarrow> unat (UnreadyNodes h) > unat (UnreadyNodes h2)"
    using assms by (subst diff) (simp_all add: word_less_nat_alt [symmetric] word_less_def)
  ultimately show ?thesis using assms by (simp add: IsDegradedComparedTo_def diff)
qed

theorem IsDegradedComparedTo_exact_witness:
  "IsDegradedComparedTo (empty_health\<lparr>RunningPods := 8\<rparr>) (empty_health\<lparr>RunningPods := 10\<rparr>) 1"
  by (subst IsDegradedComparedTo_exact) (simp_all add: empty_health_def)

text \<open>
  \<open>GetLastRestartTime\<close> is the latest finishing time among the last terminations of the pod's
  containers, and nil exactly when no container has terminated before.
\<close>

theorem GetLastRestartTime_latest:
  "GetLastRestartTime p =
     (let times = map finished_at (List.map_filter last_terminated (container_statuses p))
      in if times = [] then None else Some (Max (set times)))"
proof -
  have none: "fold (\<lambda>t m. maxTime m t) ts None = (if ts = [] then None else Some (Max (set ts)))"
    for ts
    by (cases ts) (simp_all add: fold_maxTime_Some)
  show ?thesis by (simp only: GetLastRestartTime_def fold_last_terminated none Let_def)
qed

text \<open>
  \<open>GetNodeStatus\<close> is the comma-separated list of the types of the conditions that are not
  false, for conditions whose types are not empty.
\<close>

theorem GetNodeStatus_join:
  assumes "\<forall>c \<in> set (n_conditions n). cond_type c \<noteq> ''''"
  shows "GetNodeStatus n =
    Join '', '' (map cond_type (filter (\<lambda>c. cond_status c \<noteq> ''False'') (n_conditions n)))"
proof -
  have "fold (\<lambda>condition s. if cond_status condition = ''False'' then s
      else (if s \<noteq> '''' then s @ '', '' else s) @ cond_type condition) cs ''''
    = Join '', '' (map cond_type (filter (\<lambda>c. cond_status c \<noteq> ''False'') cs))"
    if "\<forall>c \<in> set cs. cond_type c \<noteq> ''''" for cs
    using that
  proof (induction cs)
    case Nil
    then show ?case by simp
  next
    case (Cons c cs)
    then show ?case by (cases "cond_status c = ''False''") (simp_all add: fold_node_status)
  qed
  with assms show ?thesis by (simp add: GetNodeStatus_def)
qed

theorem GetNodeStatus_join_witness:
  "GetNodeStatus \<lparr>n_name = ''n'', n_labels = Map.empty,
     n_conditions = [\<lparr>cond_type = ''DiskPressure'', cond_status = ''False''\<rparr>,
       \<lparr>cond_type = ''Ready'', cond_status = ''True''\<rparr>,
       \<lparr>cond_type = ''PIDPressure'', cond_status = ''Unknown''\<rparr>],
     taints = [], unschedulable = False\<rparr> = ''Ready, PIDPressure''"
  by (subst GetNodeStatus_join) simp_all

text \<open>
  \<open>RemoveTaint\<close> leaves no taint with the given key, and keeps every other taint, in order.
\<close>

theorem RemoveTaint_HasTaint:
  "\<not> HasTaint (n\<lparr>taints := RemoveTaint (taints n) key\<rparr>) key
   \<and> (\<forall>k. k \<noteq> key \<longrightarrow> HasTaint (n\<lparr>taints := RemoveTaint (taints n) key\<rparr>) k = HasTaint n k)
   \<and> (\<exists>removed. RemoveTaint (taints n) key = filter (\<lambda>t. t \<notin> removed) (taints n)
        \<and> (\<forall>t \<in> removed. taint_key t = key))"
proof (intro conjI)
  show "\<not> HasTaint (n\<lparr>taints := RemoveTaint (taints n) key\<rparr>) key"
    and "\<forall>k. k \<noteq> key \<longrightarrow> HasTaint (n\<lparr>taints := RemoveTaint (taints n) key\<rparr>) k = HasTaint n k"
    by (auto simp: HasTaint_def RemoveTaint_filter list_ex_iff)
  show "\<exists>removed. RemoveTaint (taints n) key = filter (\<lambda>t. t \<notin> removed) (taints n)
        \<and> (\<forall>t \<in> removed. taint_key t = key)"
    by (rule exI [where x = "{t. taint_key t = key}"]) (simp add: RemoveTaint_filter)
qed

end
