(* ===== verification/Readiness.thy ===== *)
theory Readiness
  imports Kinds
begin

text \<open>
  The readiness checks of \<open>wait.go\<close>: \<open>IsReady\<close> and the functions it dispatches to.

  Every check returns whether the object is ready and a message, and may panic: a type assertion
  on a field of another type, a nil replica count or a comparison of two maps is \<open>None\<close>. What the
  code asks of the API server, and the nested accessors of package \<open>unstructured\<close>, are a
  parameter, \<open>ready_env\<close>. Debug output is left out.
\<close>

section \<open>Environment\<close>

record workload =
  spec_replicas :: "int option"
  ready_replicas :: int
  status_replicas :: int

record ready_env =
  dry_run :: bool
  clientset_err :: "gerror option"
  get_endpoints :: "string \<Rightarrow> string \<Rightarrow> unstructured option"
  get_statefulset :: "string \<Rightarrow> string \<Rightarrow> gerror + workload"
  get_deployment :: "string \<Rightarrow> string \<Rightarrow> gerror + workload"
  pod_command :: "string \<Rightarrow> string \<Rightarrow> string \<Rightarrow> string list \<Rightarrow> gerror option"
  NestedSlice :: "obj_map \<Rightarrow> string list \<Rightarrow> val list \<times> bool"
  NestedMap :: "obj_map \<Rightarrow> string list \<Rightarrow> obj_map \<times> bool"

type_synonym ready = "bool \<times> string"

definition waiting_to :: "string \<Rightarrow> string" where
  "waiting_to s = hourglass @ '' waiting '' @ s"

text \<open>The message \<open>waiting for type/status: detail\<close> of a condition.\<close>

definition waiting_for :: "obj_map \<Rightarrow> string \<Rightarrow> string" where
  "waiting_for c detail =
     waiting_to (''for '' @ fmt_s (get c ''type'') @ ''/'' @ fmt_s (get c ''status'') @ '': ''
       @ fmt_s (get c detail))"

definition sliceContains :: "string list \<Rightarrow> string \<Rightarrow> bool" where
  "sliceContains items element = list_ex (\<lambda>i. i = element) items"

definition itemInList :: "string list \<Rightarrow> string \<Rightarrow> bool" where
  "itemInList items ptr = list_ex (\<lambda>i. i = ptr) items"

definition anySuffixesInItem :: "string list \<Rightarrow> string \<Rightarrow> bool" where
  "anySuffixesInItem sfxs item = list_ex (HasSuffix item) sfxs"

section \<open>Checks on the object alone\<close>

definition IsConstraintTemplateReady :: "unstructured \<Rightarrow> ready option" where
  "IsConstraintTemplateReady item =
     (if get (Object item) ''status'' = VNil then Some (False, waiting_to ''to become ready'')
      else do {
        status \<leftarrow> as_map (get (Object item) ''status'');
        if fmt_v (get status ''created'') = ''true'' then Some (True, '''')
        else Some (False, waiting_to ''to be created'')
      })"

definition IsAppReady :: "unstructured \<Rightarrow> ready option" where
  "IsAppReady item =
     (if get (Object item) ''status'' = VNil then Some (False, waiting_to ''to become ready'')
      else do {
        status \<leftarrow> as_map (get (Object item) ''status'');
        same \<leftarrow> (if get status ''replicas'' \<noteq> VStr ''''
                 then iface_eq (get status ''replicas'') (get status ''readyReplicas'')
                 else Some False);
        if same then Some (True, '''')
        else Some (False, waiting_to (''for replicas to become ready ''
          @ fmt_v (get status ''readyReplicas'') @ ''/'' @ fmt_v (get status ''replicas'')))
      })"

definition IsDataContainerReady :: "ready_env \<Rightarrow> unstructured \<Rightarrow> ready" where
  "IsDataContainerReady E item =
     (let (data, found) = NestedMap E (Object item) [''data'']
      in if found \<and> length data > 0 then (True, '''') else (False, waiting_to ''for data''))"

fun pod_conditions :: "val list \<Rightarrow> ready option" where
  "pod_conditions [] = Some (True, '''')"
| "pod_conditions (raw # rest) = do {
     condition \<leftarrow> as_map raw;
     t \<leftarrow> as_str (get condition ''type'');
     let successStatus =
       sliceContains [''Ready'', ''Initialized'', ''ContainersReady'', ''PodScheduled''] t;
     if successStatus \<and> get condition ''status'' \<noteq> VStr ''True''
     then Some (False, waiting_for condition ''reason'')
     else if \<not> successStatus \<and> get condition ''status'' \<noteq> VStr ''False''
     then Some (False, waiting_for condition ''reason'')
     else pod_conditions rest
   }"

definition IsPodReadyAndRunning :: "unstructured \<Rightarrow> ready option" where
  "IsPodReadyAndRunning item =
     (if get (Object item) ''status'' = VNil then Some (False, waiting_to ''to become ready'')
      else do {
        status \<leftarrow> as_map (get (Object item) ''status'');
        if \<not> found status ''conditions'' then Some (False, waiting_to ''to become ready'')
        else do {
          conditions \<leftarrow> as_list (get status ''conditions'');
          if length conditions = 0 then Some (False, waiting_to ''to become ready'')
          else pod_conditions conditions
        }
      })"

fun node_conditions :: "val list \<Rightarrow> ready \<Rightarrow> ready option" where
  "node_conditions [] acc = Some acc"
| "node_conditions (raw # rest) (ready, message) = do {
     condition \<leftarrow> as_map raw;
     let detail = fmt_s (get condition ''type'') @ '': '' @ fmt_s (get condition ''message'');
     if get condition ''type'' \<noteq> VStr ''Ready''
     then (if get condition ''status'' = VStr ''True''
           then node_conditions rest
             (False, (if message \<noteq> '''' then message @ '', '' else message) @ detail)
           else node_conditions rest (ready, message))
     else (if get condition ''status'' = VStr ''False''
           then node_conditions rest (False, message @ detail)
           else node_conditions rest (ready, message))
   }"

definition IsNodeReady :: "unstructured \<Rightarrow> ready option" where
  "IsNodeReady item =
     (if get (Object item) ''status'' = VNil then Some (False, waiting_to ''to report status'')
      else do {
        status \<leftarrow> as_map (get (Object item) ''status'');
        if \<not> found status ''conditions'' then Some (False, waiting_to ''to report status'')
        else do {
          conditions \<leftarrow> as_list (get status ''conditions'');
          if length conditions = 0 then Some (False, waiting_to ''to report status'')
          else node_conditions conditions (True, '''')
        }
      })"

fun builder_conditions :: "val list \<Rightarrow> ready option option" where
  "builder_conditions [] = Some None"
| "builder_conditions (raw # rest) = do {
     condition \<leftarrow> as_map raw;
     if get condition ''type'' \<noteq> VStr ''Ready'' \<and> get condition ''status'' \<noteq> VStr ''True''
     then Some (Some (False, waiting_for condition ''message''))
     else builder_conditions rest
   }"

text \<open>What \<open>IsBuilderReady\<close> and \<open>IsImageReady\<close> both end with.\<close>

definition latest_image_ready :: "obj_map \<Rightarrow> ready option" where
  "latest_image_ready status =
     (if get status ''latestImage'' = VNil then Some (False, waiting_to ''to become ready'')
      else do {
        image \<leftarrow> as_str (get status ''latestImage'');
        if length image = 0 then Some (False, waiting_to ''to become ready'')
        else Some (True, '''')
      })"

definition IsBuilderReady :: "unstructured \<Rightarrow> ready option" where
  "IsBuilderReady item =
     (if get (Object item) ''status'' = VNil then Some (False, waiting_to ''to become ready'')
      else do {
        status \<leftarrow> as_map (get (Object item) ''status'');
        if \<not> found status ''conditions'' then Some (False, waiting_to ''to become ready'')
        else do {
          conditions \<leftarrow> as_list (get status ''conditions'');
          if length conditions = 0 then Some (False, waiting_to ''to become ready'')
          else do {
            failed \<leftarrow> builder_conditions conditions;
            (case failed of Some r \<Rightarrow> Some r | None \<Rightarrow> latest_image_ready status)
          }
        }
      })"

definition IsImageReady :: "unstructured \<Rightarrow> ready option" where
  "IsImageReady item =
     (if get (Object item) ''status'' = VNil then Some (False, waiting_to ''to become ready'')
      else do {
        status \<leftarrow> as_map (get (Object item) ''status'');
        if \<not> found status ''conditions'' then Some (False, waiting_to ''to become ready'')
        else latest_image_ready status
      })"

definition IsElasticReady :: "unstructured option \<Rightarrow> ready option" where
  "IsElasticReady item =
     (case item of
        None \<Rightarrow> Some (False, waiting_to ''to be created'')
      | Some i \<Rightarrow>
          if get (Object i) ''status'' = VNil then Some (False, waiting_to ''to become ready'')
          else do {
            status \<leftarrow> as_map (get (Object i) ''status'');
            if \<not> found status ''phase'' then Some (False, waiting_to ''to become ready'')
            else if get status ''phase'' \<noteq> VStr ''Ready'' then Some (False, waiting_to ''to become ready'')
            else Some (True, '''')
          })"

definition IsMongoDBReady :: "unstructured \<Rightarrow> ready option" where
  "IsMongoDBReady item =
     (if get (Object item) ''status'' = VNil then Some (False, waiting_to ''to become ready'')
      else do {
        status \<leftarrow> as_map (get (Object item) ''status'');
        if get status ''state'' \<noteq> VStr ''ready'' then Some (False, waiting_to ''to become ready'')
        else Some (True, '''')
      })"

fun any_ready_true :: "val list \<Rightarrow> bool option" where
  "any_ready_true [] = Some False"
| "any_ready_true (raw # rest) = do {
     condition \<leftarrow> as_map raw;
     if get condition ''type'' = VStr ''Ready'' \<and> get condition ''status'' = VStr ''True''
     then Some True
     else any_ready_true rest
   }"

definition IsConditionReadyTrue :: "unstructured \<Rightarrow> ready option" where
  "IsConditionReadyTrue item =
     (if get (Object item) ''status'' = VNil then Some (False, waiting_to ''to become ready'')
      else do {
        status \<leftarrow> as_map (get (Object item) ''status'');
        if \<not> found status ''conditions'' then Some (False, waiting_to ''to become ready'')
        else do {
          conditions \<leftarrow> as_list (get status ''conditions'');
          if length conditions = 0 then Some (False, waiting_to ''to become ready'')
          else do {
            r \<leftarrow> any_ready_true conditions;
            if r then Some (True, '''') else Some (False, waiting_to ''to become ready'')
          }
        }
      })"

section \<open>Checks that ask the API server\<close>

definition IsServiceReady :: "ready_env \<Rightarrow> unstructured \<Rightarrow> ready option" where
  "IsServiceReady E item = do {
     spec \<leftarrow> as_map (get (Object item) ''spec'');
     if get spec ''type'' = VStr ''LoadBalancer''
     then let (ingress, found) = NestedSlice E (Object item) [''status'', ''loadBalancer'', ''ingress'']
          in if \<not> found \<or> length ingress = 0 then Some (False, waiting_to ''for LoadBalancerIP'')
             else Some (True, '''')
     else if get_endpoints E (u_namespace item) (u_name item) = None
     then Some (False, waiting_to ''for the corresponding Endpoint'')
     else Some (True, '''')
   }"

text \<open>
  \<open>IsStatefulSetReady\<close> and \<open>IsDeploymentReady\<close> have the same body: the replica count is a
  pointer the code follows.
\<close>

definition IsStatefulSetReady :: "workload \<Rightarrow> ready option" where
  "IsStatefulSetReady sts = do {
     replicas \<leftarrow> spec_replicas sts;
     if replicas = ready_replicas sts then Some (True, '''')
     else Some (False, waiting_to (''for replicas to become ready ''
       @ int_dec (ready_replicas sts) @ ''/'' @ int_dec (status_replicas sts)))
   }"

definition IsDeploymentReady :: "workload \<Rightarrow> ready option" where
  "IsDeploymentReady d = do {
     replicas \<leftarrow> spec_replicas d;
     if replicas = ready_replicas d then Some (True, '''')
     else Some (False, waiting_to (''for replicas to become ready ''
       @ int_dec (ready_replicas d) @ ''/'' @ int_dec (status_replicas d)))
   }"

definition IsElasticsearchReady :: "ready_env \<Rightarrow> unstructured \<Rightarrow> ready option" where
  "IsElasticsearchReady E item =
     (let stsName = u_name item @ ''-es-default''
      in case clientset_err E of
           Some err \<Rightarrow> Some (False, ''failed to get clientset: '' @ Error err)
         | None \<Rightarrow>
             (case get_statefulset E (u_namespace item) stsName of
                Inl err \<Rightarrow> Some (False, ''failed to get sts '' @ stsName @ '': '' @ Error err)
              | Inr sts \<Rightarrow> IsStatefulSetReady sts))"

definition IsKibanaReady :: "ready_env \<Rightarrow> unstructured \<Rightarrow> ready option" where
  "IsKibanaReady E item =
     (let kbName = u_name item @ ''-kb''
      in case clientset_err E of
           Some err \<Rightarrow> Some (False, ''failed to get clientset: '' @ Error err)
         | None \<Rightarrow>
             (case get_deployment E (u_namespace item) kbName of
                Inl err \<Rightarrow> Some (False, ''failed to get deployment '' @ kbName @ '': '' @ Error err)
              | Inr kb \<Rightarrow> IsDeploymentReady kb))"

definition IsRedisFailoverReady :: "ready_env \<Rightarrow> unstructured \<Rightarrow> ready option" where
  "IsRedisFailoverReady E item =
     (let stsName = ''rfr-'' @ u_name item; deplName = ''rfs-'' @ u_name item
      in case clientset_err E of
           Some err \<Rightarrow> Some (False, ''failed to get clientset: '' @ Error err)
         | None \<Rightarrow>
             (case get_statefulset E (u_namespace item) stsName of
                Inl err \<Rightarrow> Some (False, ''failed to get sts '' @ stsName @ '': '' @ Error err)
              | Inr sts \<Rightarrow>
                  (case get_deployment E (u_namespace item) deplName of
                     Inl err \<Rightarrow> Some (False, ''failed to get deployment '' @ deplName @ '': '' @ Error err)
                   | Inr depl \<Rightarrow> do {
                       (stsReady, stsMsg) \<leftarrow> IsStatefulSetReady sts;
                       (deplReady, deplMsg) \<leftarrow> IsDeploymentReady depl;
                       let msgs = (if stsReady then [] else [stsMsg]) @ (if deplReady then [] else [deplMsg]);
                       Some (stsReady \<and> deplReady, Join ''; '' msgs)
                     })))"

definition isPostgresqlReady :: "ready_env \<Rightarrow> string \<Rightarrow> string \<Rightarrow> ready option" where
  "isPostgresqlReady E namespace name =
     (case clientset_err E of
        Some err \<Rightarrow> Some (False, ''failed to get clientset: '' @ Error err)
      | None \<Rightarrow>
          (case get_statefulset E namespace name of
             Inl err \<Rightarrow> Some (False, waiting_to ''for statefulset'')
           | Inr sts \<Rightarrow> do {
               (ready, msg) \<leftarrow> IsStatefulSetReady sts;
               if ready
               then (case pod_command E namespace (name @ ''-0'') ''postgres''
                       [''su'', ''postgres'', ''-c'', ''psql -c '' @ [CHR 0x27] @ ''SELECT 1;'' @ [CHR 0x27]] of
                       None \<Rightarrow> Some (True, '''')
                     | Some err \<Rightarrow> Some (False, waiting_to ''for postgres to be running: '' @ Error err))
               else Some (ready, msg)
             }))"

definition IsPostgresqlDBReady :: "ready_env \<Rightarrow> unstructured \<Rightarrow> ready option" where
  "IsPostgresqlDBReady E item = isPostgresqlReady E (u_namespace item) (''postgres-'' @ u_name item)"

definition IsPostgresqlReady :: "ready_env \<Rightarrow> unstructured \<Rightarrow> ready option" where
  "IsPostgresqlReady E item = isPostgresqlReady E (u_namespace item) (u_name item)"

section \<open>IsReady\<close>

fun generic_conditions :: "val list \<Rightarrow> ready option" where
  "generic_conditions [] = Some (True, '''')"
| "generic_conditions (raw # rest) = do {
     condition \<leftarrow> as_map raw;
     if get condition ''type'' = VStr ''Ready'' \<and> get condition ''status'' = VStr ''True''
     then Some (True, '''')
     else do {
       t \<leftarrow> as_str (get condition ''type'');
       if anySuffixesInItem [''Failed'', ''NotReady'', ''Pressure''] t
          \<and> get condition ''status'' \<noteq> VStr ''False''
       then Some (False, waiting_for condition ''reason'')
       else generic_conditions rest
     }
   }"

definition generic_ready :: "unstructured \<Rightarrow> ready option" where
  "generic_ready item =
     (if get (Object item) ''status'' = VNil then Some (False, waiting_to ''to become ready'')
      else do {
        status \<leftarrow> as_map (get (Object item) ''status'');
        if \<not> found status ''conditions'' then Some (False, waiting_to ''to become ready'')
        else do {
          conditions \<leftarrow> as_list (get status ''conditions'');
          if length conditions = 0 then Some (False, waiting_to ''to become ready'')
          else generic_conditions conditions
        }
      })"

definition IsReady :: "ready_env \<Rightarrow> unstructured option \<Rightarrow> ready option" where
  "IsReady E obj =
     (if dry_run E then Some (True, '''')
      else case obj of
        None \<Rightarrow> Some (False, waiting_to ''to be created'')
      | Some item \<Rightarrow>
          if IsPod item then IsPodReadyAndRunning item
          else if IsSecret item \<or> IsConfigMap item then Some (IsDataContainerReady E item)
          else if IsService item then IsServiceReady E item
          else if IsApp item then IsAppReady item
          else if IsElasticsearch item then IsElasticsearchReady E item
          else if IsKibana item then IsKibanaReady E item
          else if IsRedisFailover item then IsRedisFailoverReady E item
          else if IsPostgresqlDB item then IsPostgresqlDBReady E item
          else if IsPostgresql item then IsPostgresqlReady E item
          else if IsConstraintTemplate item then IsConstraintTemplateReady item
          else if IsMongoDB item then IsMongoDBReady item
          else if IsKafka item then IsConditionReadyTrue item
          else if IsBuilder item then IsBuilderReady item
          else if IsImage item then IsImageReady item
          else if IsNode item then IsNodeReady item
          else generic_ready item)"

section \<open>Objects the API server returns\<close>

text \<open>
  The shape of the fields the checks read: the status is absent or a map; its conditions are a
  list of maps whose type is a string; \<open>latestImage\<close> is a string; replica counts are scalars; a
  service has a spec.
\<close>

fun is_scalar :: "val \<Rightarrow> bool" where
  "is_scalar (VMap _) = False"
| "is_scalar (VList _) = False"
| "is_scalar _ = True"

fun wf_condition :: "val \<Rightarrow> bool" where
  "wf_condition (VMap c) = (as_str (get c ''type'') \<noteq> None)"
| "wf_condition _ = False"

fun wf_conditions :: "val \<Rightarrow> bool" where
  "wf_conditions (VList cs) = list_all wf_condition cs"
| "wf_conditions v = (v = VNil)"

definition wf_status_map :: "obj_map \<Rightarrow> bool" where
  "wf_status_map st \<longleftrightarrow>
     (found st ''conditions'' \<longrightarrow> get st ''conditions'' \<noteq> VNil) \<and> wf_conditions (get st ''conditions'') \<and>
     (get st ''latestImage'' = VNil \<or> as_str (get st ''latestImage'') \<noteq> None) \<and>
     is_scalar (get st ''replicas'') \<and> is_scalar (get st ''readyReplicas'')"

fun wf_status :: "val \<Rightarrow> bool" where
  "wf_status (VMap st) = wf_status_map st"
| "wf_status v = (v = VNil)"

definition wf_object :: "unstructured \<Rightarrow> bool" where
  "wf_object item \<longleftrightarrow> wf_status (get (Object item) ''status'') \<and>
     (IsService item \<longrightarrow> as_map (get (Object item) ''spec'') \<noteq> None)"

definition replicas_set :: "ready_env \<Rightarrow> bool" where
  "replicas_set E \<longleftrightarrow>
     (\<forall>ns n w. get_statefulset E ns n = Inr w \<longrightarrow> no_panic (spec_replicas w)) \<and>
     (\<forall>ns n w. get_deployment E ns n = Inr w \<longrightarrow> no_panic (spec_replicas w))"

lemma wf_conditionE:
  assumes "wf_condition v"
  obtains c t where "v = VMap c" "get c ''type'' = VStr t"
  using assms by (cases v; cases "get (case v of VMap c \<Rightarrow> c) ''type''") auto

lemma wf_statusE:
  assumes "wf_status v" "v \<noteq> VNil"
  obtains st where "v = VMap st" "wf_status_map st"
  using assms by (cases v) auto

lemma wf_conditionsE:
  assumes "wf_status_map st" "found st ''conditions''"
  obtains cs where "get st ''conditions'' = VList cs" "list_all wf_condition cs"
  using assms by (cases "get st ''conditions''") (auto simp: wf_status_map_def)

lemma iface_eq_scalar: "is_scalar a \<Longrightarrow> no_panic (iface_eq a b)"
  by (cases a; cases b) auto

lemma pod_conditions_total: "list_all wf_condition cs \<Longrightarrow> no_panic (pod_conditions cs)"
  by (induction cs) (auto elim!: wf_conditionE simp: Let_def)

lemma node_conditions_total: "list_all wf_condition cs \<Longrightarrow> no_panic (node_conditions cs acc)"
proof (induction cs arbitrary: acc)
  case Nil
  then show ?case by (cases acc) simp
next
  case (Cons c cs)
  then show ?case by (cases acc) (auto elim!: wf_conditionE simp: Let_def)
qed

lemma builder_conditions_total: "list_all wf_condition cs \<Longrightarrow> no_panic (builder_conditions cs)"
  by (induction cs) (auto elim!: wf_conditionE)

lemma any_ready_true_total: "list_all wf_condition cs \<Longrightarrow> no_panic (any_ready_true cs)"
  by (induction cs) (auto elim!: wf_conditionE)

lemma generic_conditions_total: "list_all wf_condition cs \<Longrightarrow> no_panic (generic_conditions cs)"
  by (induction cs) (auto elim!: wf_conditionE)

lemma latest_image_ready_total: "wf_status_map st \<Longrightarrow> no_panic (latest_image_ready st)"
  by (cases "get st ''latestImage''") (auto simp: wf_status_map_def latest_image_ready_def)

text \<open>
  Six checks have the same frame: no status or no conditions is not ready, and otherwise the
  conditions decide.
\<close>

definition status_frame :: "string \<Rightarrow> (obj_map \<Rightarrow> val list \<Rightarrow> ready option) \<Rightarrow> unstructured \<Rightarrow> ready option" where
  "status_frame msg body item =
     (if get (Object item) ''status'' = VNil then Some (False, waiting_to msg)
      else do {
        status \<leftarrow> as_map (get (Object item) ''status'');
        if \<not> found status ''conditions'' then Some (False, waiting_to msg)
        else do {
          conditions \<leftarrow> as_list (get status ''conditions'');
          if length conditions = 0 then Some (False, waiting_to msg)
          else body status conditions
        }
      })"

lemma frame_eqs:
  "IsPodReadyAndRunning = status_frame ''to become ready'' (\<lambda>_. pod_conditions)"
  "IsNodeReady = status_frame ''to report status'' (\<lambda>_ cs. node_conditions cs (True, ''''))"
  "generic_ready = status_frame ''to become ready'' (\<lambda>_. generic_conditions)"
  "IsBuilderReady = status_frame ''to become ready'' (\<lambda>st cs. do {
      failed \<leftarrow> builder_conditions cs;
      (case failed of Some r \<Rightarrow> Some r | None \<Rightarrow> latest_image_ready st) })"
  "IsConditionReadyTrue = status_frame ''to become ready'' (\<lambda>_ cs. do {
      r \<leftarrow> any_ready_true cs;
      if r then Some (True, '''') else Some (False, waiting_to ''to become ready'') })"
  by (auto simp: fun_eq_iff status_frame_def IsPodReadyAndRunning_def IsNodeReady_def
      generic_ready_def IsBuilderReady_def IsConditionReadyTrue_def)

lemma status_frame_total:
  assumes "wf_status (get (Object item) ''status'')"
    and "\<And>st cs. wf_status_map st \<Longrightarrow> list_all wf_condition cs \<Longrightarrow> no_panic (body st cs)"
  shows "no_panic (status_frame msg body item)"
proof (cases "get (Object item) ''status'' = VNil")
  case True
  then show ?thesis by (simp add: status_frame_def)
next
  case False
  then obtain st where st: "get (Object item) ''status'' = VMap st" "wf_status_map st"
    using assms(1) wf_statusE by blast
  show ?thesis
  proof (cases "found st ''conditions''")
    case False
    then show ?thesis by (simp add: status_frame_def st)
  next
    case True
    then obtain cs where "get st ''conditions'' = VList cs" "list_all wf_condition cs"
      using st(2) wf_conditionsE by blast
    then show ?thesis using assms(2) [OF st(2)] True by (simp add: status_frame_def st)
  qed
qed

lemma status_frame_conditions:
  assumes "get (Object item) ''status'' = VMap st" and "found st ''conditions''"
    and "get st ''conditions'' = VList cs" and "cs \<noteq> []"
  shows "status_frame msg body item = body st cs"
  using assms by (simp add: status_frame_def)

lemma workload_ready_total:
  "no_panic (spec_replicas w) \<Longrightarrow> no_panic (IsStatefulSetReady w)"
  "no_panic (spec_replicas w) \<Longrightarrow> no_panic (IsDeploymentReady w)"
  by (auto simp: IsStatefulSetReady_def IsDeploymentReady_def)

lemma status_checks_total:
  assumes "wf_status (get (Object item) ''status'')"
  shows "no_panic (IsPodReadyAndRunning item)" "no_panic (IsNodeReady item)"
    "no_panic (generic_ready item)" "no_panic (IsBuilderReady item)"
    "no_panic (IsConditionReadyTrue item)"
  unfolding frame_eqs
  by (rule status_frame_total [OF assms];
      auto simp: pod_conditions_total node_conditions_total generic_conditions_total
        latest_image_ready_total builder_conditions_total any_ready_true_total
        split: option.splits)+

lemma IsAppReady_total:
  assumes "wf_status (get (Object item) ''status'')"
  shows "no_panic (IsAppReady item)"
proof (cases "get (Object item) ''status''")
  case (VMap st)
  with assms have "is_scalar (get st ''replicas'')" by (simp add: wf_status_map_def)
  then have "no_panic (iface_eq (get st ''replicas'') (get st ''readyReplicas''))"
    by (rule iface_eq_scalar)
  with VMap show ?thesis by (auto simp: IsAppReady_def no_panic_iff)
qed (use assms in \<open>simp_all add: IsAppReady_def\<close>)

lemma other_checks_total:
  assumes "wf_status (get (Object item) ''status'')"
  shows "no_panic (IsConstraintTemplateReady item)" "no_panic (IsMongoDBReady item)"
    "no_panic (IsImageReady item)" "no_panic (IsElasticReady (Some item))"
  using assms by (cases "get (Object item) ''status''"; simp add: IsConstraintTemplateReady_def
    IsMongoDBReady_def IsElasticReady_def IsImageReady_def latest_image_ready_total)+

lemma backed_checks_total:
  assumes "replicas_set E"
  shows "no_panic (IsElasticsearchReady E item)" "no_panic (IsKibanaReady E item)"
    "no_panic (IsRedisFailoverReady E item)" "no_panic (IsPostgresqlDBReady E item)"
    "no_panic (IsPostgresqlReady E item)"
  using assms
  by (auto simp: IsElasticsearchReady_def IsKibanaReady_def IsRedisFailoverReady_def replicas_set_def
      IsStatefulSetReady_def IsDeploymentReady_def IsPostgresqlDBReady_def IsPostgresqlReady_def
      isPostgresqlReady_def Let_def split: option.splits sum.splits prod.splits)

lemma IsServiceReady_total:
  "as_map (get (Object item) ''spec'') \<noteq> None \<Longrightarrow> no_panic (IsServiceReady E item)"
  by (auto simp: IsServiceReady_def split: prod.split)

lemma IsReady_total:
  assumes "wf_object item" and "replicas_set E"
  shows "no_panic (IsReady E (Some item))"
proof -
  have st: "wf_status (get (Object item) ''status'')" using assms(1) by (simp add: wf_object_def)
  show ?thesis
    using status_checks_total [OF st] IsAppReady_total [OF st] other_checks_total [OF st]
      backed_checks_total [OF assms(2)] IsServiceReady_total [of item] assms(1)
    by (simp add: IsReady_def wf_object_def)
qed

lemma IsReady_missing: "no_panic (IsReady E None)"
  by (simp add: IsReady_def)

text \<open>
  C9. \<open>IsReady\<close> does not panic on an object with a well-formed status when the replica counts of
  the workloads it looks up are set, whatever the kind.
\<close>

theorem IsReady_no_panic:
  assumes "wf_object item" and "replicas_set E"
  shows "\<exists>ready message. IsReady E (Some item) = Some (ready, message)"
  using IsReady_total [OF assms] by (simp add: no_panic_iff)

definition example_env :: ready_env where
  "example_env = \<lparr>dry_run = False, clientset_err = None, get_endpoints = (\<lambda>_ _. None),
     get_statefulset = (\<lambda>_ _. Inr \<lparr>spec_replicas = Some 2, ready_replicas = 1, status_replicas = 2\<rparr>),
     get_deployment = (\<lambda>_ _. Inr \<lparr>spec_replicas = Some 1, ready_replicas = 1, status_replicas = 1\<rparr>),
     pod_command = (\<lambda>_ _ _ _. None), NestedSlice = (\<lambda>_ _. ([], False)),
     NestedMap = (\<lambda>_ _. ([], False))\<rparr>"

definition example_node :: unstructured where
  "example_node = \<lparr>u_kind = ''Node'', u_apiVersion = ''v1'', u_name = ''n1'', u_namespace = '''',
     Object = [(''status'', VMap [(''conditions'', VList
       [VMap [(''type'', VStr ''MemoryPressure''), (''status'', VStr ''False'')],
        VMap [(''type'', VStr ''Ready''), (''status'', VStr ''Unknown'')]])])]\<rparr>"

lemma IsReady_no_panic_witness:
  "\<exists>ready message. IsReady example_env (Some example_node) = Some (ready, message)"
  by (rule IsReady_no_panic)
    (simp_all add: wf_object_def example_node_def example_env_def replicas_set_def kind_defs
      get_def found_def wf_status_map_def)

section \<open>What the verdicts mean\<close>

text \<open>The boolean of a check's result, without the message; \<open>None\<close> is still the panic.\<close>

definition verdict :: "ready option \<Rightarrow> bool option" where
  "verdict r = (case r of None \<Rightarrow> None | Some (b, _) \<Rightarrow> Some b)"

lemma verdict_simps [simp]:
  "verdict None = None" "verdict (Some (b, m)) = Some b"
  "verdict (if P then r else r') = (if P then verdict r else verdict r')"
  by (simp_all add: verdict_def)

definition cond_is :: "obj_map \<Rightarrow> string \<Rightarrow> string \<Rightarrow> bool" where
  "cond_is c t s \<longleftrightarrow> get c ''type'' = VStr t \<and> get c ''status'' = VStr s"

definition has_conditions :: "unstructured \<Rightarrow> obj_map list \<Rightarrow> bool" where
  "has_conditions item cs \<longleftrightarrow> cs \<noteq> [] \<and>
     (\<exists>st. get (Object item) ''status'' = VMap st \<and> found st ''conditions'' \<and>
       get st ''conditions'' = VList (map VMap cs))"

lemma status_frame_has_conditions:
  assumes "has_conditions item cs"
  shows "\<exists>st. \<forall>msg body. status_frame msg body item = body st (map VMap cs)"
  using assms by (auto simp: has_conditions_def status_frame_def)

lemma node_conditions_ready:
  "verdict (node_conditions (map VMap cs) acc) =
     Some (fst acc \<and> (\<forall>c\<in>set cs. \<not> cond_is c ''Ready'' ''False'' \<and>
       (get c ''status'' = VStr ''True'' \<longrightarrow> get c ''type'' = VStr ''Ready'')))"
proof (induction cs arbitrary: acc)
  case Nil
  then show ?case by (cases acc) simp
next
  case (Cons c cs)
  show ?case by (cases acc) (auto simp: Cons.IH cond_is_def Let_def)
qed

text \<open>
  C22. A node that reports conditions is ready exactly when no condition other than \<open>Ready\<close> holds
  and \<open>Ready\<close> is not reported to be \<open>False\<close>: a node whose \<open>Ready\<close> condition is \<open>Unknown\<close>
  counts as ready.
\<close>

theorem IsNodeReady_exact:
  assumes "has_conditions item cs"
  shows "verdict (IsNodeReady item) =
     Some ((\<forall>c\<in>set cs. get c ''status'' = VStr ''True'' \<longrightarrow> get c ''type'' = VStr ''Ready'') \<and>
           (\<forall>c\<in>set cs. \<not> cond_is c ''Ready'' ''False''))"
proof -
  obtain st where "\<And>msg body. status_frame msg body item = body st (map VMap cs)"
    using status_frame_has_conditions [OF assms] by blast
  then show ?thesis unfolding frame_eqs by (simp only: node_conditions_ready) auto
qed

definition example_conditions :: "obj_map list" where
  "example_conditions = [[(''type'', VStr ''MemoryPressure''), (''status'', VStr ''False'')],
     [(''type'', VStr ''Ready''), (''status'', VStr ''Unknown'')]]"

lemma example_node_conditions: "has_conditions example_node example_conditions"
  by (simp add: has_conditions_def example_node_def example_conditions_def get_def found_def)

lemma IsNodeReady_exact_witness: "verdict (IsNodeReady example_node) = Some True"
  by (subst IsNodeReady_exact [OF example_node_conditions])
    (simp add: example_conditions_def cond_is_def get_def)

definition positive_types :: "val set" where
  "positive_types = VStr ` {''Ready'', ''Initialized'', ''ContainersReady'', ''PodScheduled''}"

lemma pod_conditions_ready:
  "\<forall>c\<in>set cs. wf_condition (VMap c) \<Longrightarrow>
     verdict (pod_conditions (map VMap cs)) =
       Some (\<forall>c\<in>set cs. get c ''status'' =
         (if get c ''type'' \<in> positive_types then VStr ''True'' else VStr ''False''))"
proof (induction cs)
  case Nil
  then show ?case by simp
next
  case (Cons c cs)
  then obtain t where t: "get c ''type'' = VStr t" by (auto elim: wf_conditionE)
  have "sliceContains [''Ready'', ''Initialized'', ''ContainersReady'', ''PodScheduled''] t
      \<longleftrightarrow> VStr t \<in> positive_types"
    by (auto simp: sliceContains_def positive_types_def)
  with Cons t show ?case by (simp add: Let_def)
qed

text \<open>
  A pod that reports conditions is ready exactly when its four positive conditions are \<open>True\<close>
  and every other condition is \<open>False\<close>.
\<close>

theorem IsPodReadyAndRunning_exact:
  assumes "has_conditions item cs" and "\<forall>c\<in>set cs. wf_condition (VMap c)"
  shows "verdict (IsPodReadyAndRunning item) =
     Some (\<forall>c\<in>set cs. get c ''status'' =
       (if get c ''type'' \<in> positive_types then VStr ''True'' else VStr ''False''))"
proof -
  obtain st where "\<And>msg body. status_frame msg body item = body st (map VMap cs)"
    using status_frame_has_conditions [OF assms(1)] by blast
  then show ?thesis unfolding frame_eqs by (simp only: pod_conditions_ready [OF assms(2)])
qed

lemma IsPodReadyAndRunning_exact_witness:
  "verdict (IsPodReadyAndRunning example_node) = Some False"
  by (subst IsPodReadyAndRunning_exact [OF example_node_conditions])
    (simp_all add: example_conditions_def get_def positive_types_def)

definition failing :: "obj_map \<Rightarrow> bool" where
  "failing c \<longleftrightarrow> get c ''status'' \<noteq> VStr ''False'' \<and>
     (\<exists>t. get c ''type'' = VStr t \<and>
       (HasSuffix t ''Failed'' \<or> HasSuffix t ''NotReady'' \<or> HasSuffix t ''Pressure''))"

lemma generic_conditions_ready:
  "\<forall>c\<in>set cs. wf_condition (VMap c) \<Longrightarrow>
     verdict (generic_conditions (map VMap cs)) =
       Some (\<forall>c\<in>set (takeWhile (\<lambda>c. \<not> cond_is c ''Ready'' ''True'') cs). \<not> failing c)"
proof (induction cs)
  case Nil
  then show ?case by simp
next
  case (Cons c cs)
  then obtain t where "get c ''type'' = VStr t" by (auto elim: wf_conditionE)
  with Cons show ?case
    by (auto simp: cond_is_def failing_def anySuffixesInItem_def)
qed

text \<open>
  C11. An object of a kind with no check of its own is ready exactly when no failure condition comes
  before its first \<open>Ready=True\<close>: the answer depends on the order of the conditions, and a
  \<open>Ready=False\<close> alone does not make the object unready.
\<close>

theorem generic_ready_exact:
  assumes "has_conditions item cs" and "\<forall>c\<in>set cs. wf_condition (VMap c)"
  shows "verdict (generic_ready item) =
     Some (\<forall>c\<in>set (takeWhile (\<lambda>c. \<not> cond_is c ''Ready'' ''True'') cs). \<not> failing c)"
proof -
  obtain st where "\<And>msg body. status_frame msg body item = body st (map VMap cs)"
    using status_frame_has_conditions [OF assms(1)] by blast
  then show ?thesis unfolding frame_eqs by (simp only: generic_conditions_ready [OF assms(2)])
qed

lemma generic_ready_exact_witness: "verdict (generic_ready example_node) = Some True"
  by (subst generic_ready_exact [OF example_node_conditions])
    (simp_all add: example_conditions_def cond_is_def get_def failing_def HasSuffix_def)

text \<open>A custom resource that reports only \<open>Ready=False\<close> is reported ready.\<close>

lemma generic_ready_false_is_ready:
  "IsReady example_env (Some \<lparr>u_kind = ''Certificate'', u_apiVersion = ''cert-manager.io/v1'',
     u_name = ''c'', u_namespace = ''n'', Object = [(''status'', VMap [(''conditions'', VList
       [VMap [(''type'', VStr ''Ready''), (''status'', VStr ''False'')]])])]\<rparr>) = Some (True, '''')"
  by (simp add: IsReady_def example_env_def kind_defs generic_ready_def get_def found_def
      anySuffixesInItem_def HasSuffix_def ToLower_def to_lower_def)

text \<open>
  A stateful set, deployment or daemon set with a status that has neither \<open>replicas\<close> nor
  \<open>readyReplicas\<close> is reported ready, whatever else the status says: the comparison is of two
  absent values. A daemon set never has these fields.
\<close>

theorem IsAppReady_without_replicas:
  assumes "get (Object item) ''status'' = VMap st"
    and "\<not> found st ''replicas''" and "\<not> found st ''readyReplicas''"
  shows "IsAppReady item = Some (True, '''')"
  using assms by (simp add: IsAppReady_def found_def get_def)

lemma IsAppReady_without_replicas_witness:
  "IsAppReady \<lparr>u_kind = ''DaemonSet'', u_apiVersion = ''apps/v1'', u_name = ''d'', u_namespace = ''n'',
     Object = [(''status'', VMap [(''desiredNumberScheduled'', VInt 3), (''numberReady'', VInt 0)])]\<rparr>
   = Some (True, '''')"
  by (rule IsAppReady_without_replicas
      [where st = "[(''desiredNumberScheduled'', VInt 3), (''numberReady'', VInt 0)]"])
    (simp_all add: get_def found_def)

text \<open>
  A redis failover is ready exactly when both its stateful set \<open>rfr-name\<close> and its deployment
  \<open>rfs-name\<close> can be read and have as many ready replicas as they ask for.
\<close>

theorem IsRedisFailoverReady_both:
  "(\<exists>msg. IsRedisFailoverReady E item = Some (True, msg)) \<longleftrightarrow>
     clientset_err E = None \<and>
     (\<exists>sts depl.
       get_statefulset E (u_namespace item) (''rfr-'' @ u_name item) = Inr sts \<and>
       get_deployment E (u_namespace item) (''rfs-'' @ u_name item) = Inr depl \<and>
       spec_replicas sts = Some (ready_replicas sts) \<and>
       spec_replicas depl = Some (ready_replicas depl))"
  by (cases "clientset_err E";
      cases "get_statefulset E (u_namespace item) (''rfr-'' @ u_name item)";
      cases "get_deployment E (u_namespace item) (''rfs-'' @ u_name item)")
    (auto simp: IsRedisFailoverReady_def IsStatefulSetReady_def IsDeploymentReady_def Let_def
      split: Option.bind_splits)

end
