(* ===== verification/Waiting.thy ===== *)
theory Waiting
  imports Pods Readiness "HOL-Library.AList"
begin

text \<open>
  The functions that wait: the polling loops of \<open>wait.go\<close>, \<open>WaitForRestMapping\<close> and
  \<open>GetJobPod\<close> of \<open>client.go\<close>, and \<open>GetConditionsForNode\<close> of \<open>shortcuts.go\<close>.

  A loop is the function of one iteration, from the loop's variables and what the iteration
  observes, the clock and the answers of the API server, to the variables after it or the
  result. \<open>run_loop\<close> repeats it on a sequence of observations. A loop's variables include the
  lines it has printed with \<open>Infof\<close>. Every loop that has a deadline interprets \<open>deadline_loop\<close>.
\<close>

section \<open>Observations\<close>

record 'a poll =
  now :: int
  reply :: 'a

text \<open>\<open>start.Add(timeout).Before(time.Now())\<close>\<close>

definition expired :: "int \<Rightarrow> int \<Rightarrow> 'a poll \<Rightarrow> bool" where
  "expired start timeout obs \<longleftrightarrow> start + timeout < now obs"

text \<open>Every iteration that goes on has slept for at least a second.\<close>

definition clock_runs :: "(nat \<Rightarrow> 'a poll) \<Rightarrow> bool" where
  "clock_runs obs \<longleftrightarrow> (\<forall>i. now (obs i) + 1000000000 \<le> now (obs (Suc i)))"

text \<open>A number of iterations that passes the deadline of a clock that runs.\<close>

definition enough :: "int \<Rightarrow> nat" where
  "enough timeout = Suc (nat (timeout div 1000000000 + 1))"

section \<open>Namespaces\<close>

definition pod_counts_ready :: "pod \<Rightarrow> bool" where
  "pod_counts_ready p =
     ((\<forall>c\<in>set (conditions p). cond_status c \<noteq> ''False'')
      \<and> (phase p = ''Running'' \<or> phase p = ''Succeeded''))"

text \<open>The pod list is nil, and the loop over it panics, where the second argument is \<open>None\<close>.\<close>

definition IsNamespaceReady ::
  "console \<Rightarrow> bool \<Rightarrow> gerror option \<Rightarrow> pod list option \<Rightarrow> string \<Rightarrow> ready option" where
  "IsNamespaceReady C dry conn_err list ns =
     (if dry then Some (True, '''')
      else case conn_err of
        Some err \<Rightarrow> Some (False, Error err)
      | None \<Rightarrow> do {
          items \<leftarrow> list;
          let (ready, pending) = fold (\<lambda>p (ready, pending).
              if pod_counts_ready p then (ready + 1, pending) else (ready, pending + 1))
            items (0 :: nat, 0 :: nat);
          if ready > 0 \<and> pending = 0 then Some (True, '''')
          else Some (False,
            Name_String C \<lparr>Name_Name = ns, Name_Kind = ''Namespace'', Name_Namespace = ''''\<rparr>
            @ '' '' @ waiting_to (''for ready='' @ nat_dec ready @ '', pending='' @ nat_dec pending))
        })"

type_synonym wait_result = "(gerror option \<times> string list) option"

definition WaitForNamespace_body ::
  "console \<Rightarrow> string \<Rightarrow> int \<Rightarrow> int \<Rightarrow> bool \<times> string list \<Rightarrow>
     (gerror option \<times> pod list option) poll \<Rightarrow> bool \<times> string list + wait_result" where
  "WaitForNamespace_body C ns start timeout = (\<lambda>(msg, out) obs.
     case IsNamespaceReady C False (fst (reply obs)) (snd (reply obs)) ns of
       None \<Rightarrow> Inr None
     | Some (ready, message) \<Rightarrow>
         if expired start timeout obs then Inr (Some (Some (errorf (format0 C message)), out))
         else if ready then Inr (Some (None, out))
         else if \<not> msg then Inl (True, out @ [format0 C message])
         else Inl (msg, out))"

definition WaitForNamespace where
  "WaitForNamespace C dry ns timeout start fuel obs =
     (if dry then Returned (Some (None, []))
      else run_loop (WaitForNamespace_body C ns start timeout) fuel (True, []) obs)"

section \<open>Resources\<close>

text \<open>
  \<open>waitForResource\<close> with its check \<open>waitFN\<close>, which may ask the server again: an observation has
  the environment the check reads and the item, \<open>None\<close> where the call failed.
\<close>

type_synonym resource_result = "(unstructured option \<times> gerror option \<times> string list) option"

definition waitForResource_body ::
  "console \<Rightarrow> string \<Rightarrow> string \<Rightarrow> string \<Rightarrow> int \<Rightarrow> int \<Rightarrow>
     ('e \<Rightarrow> unstructured option \<Rightarrow> ready option) \<Rightarrow> string \<times> string list \<Rightarrow>
     ('e \<times> unstructured option) poll \<Rightarrow> string \<times> string list + resource_result" where
  "waitForResource_body C kind namespace name start timeout waitFN = (\<lambda>(msg, out) obs.
     let id = \<lparr>Name_Name = name, Name_Kind = kind, Name_Namespace = namespace\<rparr>;
         (env, item) = reply obs
     in if expired start timeout obs
        then Inr (Some (None, Some (errorf (''timeout exceeded waiting for '' @ kind @ ''/'' @ name
               @ '' is , error: '' @ err_v None)), out))
        else case waitFN env item of
          None \<Rightarrow> Inr None
        | Some (ready, message) \<Rightarrow>
            if ready then Inr (Some (item, None, out))
            else if message \<noteq> msg then Inl (message, out @ [Name_String C id @ '' '' @ message])
            else Inl (msg, out))"

definition waitForResource where
  "waitForResource C dry client_err kind namespace name timeout waitFN start fuel obs =
     (if dry then Returned (Some (None, None, []))
      else case client_err of
        Some err \<Rightarrow> Returned (Some (None, Some err, []))
      | None \<Rightarrow> run_loop (waitForResource_body C kind namespace name start timeout waitFN)
          fuel ('''', []) obs)"

definition WaitForResource where
  "WaitForResource C dry client_err kind namespace name timeout start fuel obs =
     waitForResource C dry client_err kind namespace name timeout IsReady start fuel obs"

definition WaitForCRD where
  "WaitForCRD C dry client_err kind namespace name timeout waitFN start fuel obs =
     waitForResource C dry client_err kind namespace name timeout waitFN start fuel obs"

definition WaitFor where
  "WaitFor C dry client_err obj timeout start fuel obs =
     (let id = GetName obj
      in WaitForResource C dry client_err (Name_Kind id) (Name_Namespace id) (Name_Name id)
           timeout start fuel obs)"

section \<open>API resources\<close>

text \<open>The discovered resources: for each group version, the names of its resources.\<close>

fun crd_listed :: "string \<Rightarrow> string \<Rightarrow> (string \<times> string list) list \<Rightarrow> bool" where
  "crd_listed api_group name [] = False"
| "crd_listed api_group name ((groupVersion, resources) # rest) =
     (if \<not> HasPrefix groupVersion api_group then crd_listed api_group name rest
      else if list_ex (\<lambda>r. r = ToLower name) resources then True
      else crd_listed api_group name rest)"

definition IsCRDReady ::
  "gerror option \<Rightarrow> gerror + (string \<times> string list) list \<Rightarrow> string \<Rightarrow> string \<Rightarrow> ready" where
  "IsCRDReady conn_err resources api_group name =
     (case conn_err of
        Some err \<Rightarrow> (False, ''cannot connect to api'')
      | None \<Rightarrow>
          (case resources of
             Inl err \<Rightarrow> (False, waiting_to ''for API resources'')
           | Inr api_lists \<Rightarrow>
               if crd_listed api_group name api_lists then (True, '''')
               else (False, waiting_to ''for API resource'')))"

definition WaitForAPIResource_body ::
  "console \<Rightarrow> string \<Rightarrow> string \<Rightarrow> int \<Rightarrow> int \<Rightarrow> string \<times> string list \<Rightarrow>
     (gerror option \<times> (gerror + (string \<times> string list) list)) poll \<Rightarrow>
     string \<times> string list + gerror option \<times> string list" where
  "WaitForAPIResource_body C api_group name start timeout = (\<lambda>(msg, out) obs.
     if expired start timeout obs then Inr (Some (errorf ''timeout exceeded''), out)
     else let (ready, message) = IsCRDReady (fst (reply obs)) (snd (reply obs)) api_group name;
              id = \<lparr>Name_Name = name, Name_Kind = ''CustomResourceDefinition'', Name_Namespace = ''*''\<rparr>
          in if ready then Inr (None, out)
             else if message \<noteq> msg then Inl (message, out @ [Name_String C id @ '' '' @ message])
             else Inl (msg, out))"

definition WaitForAPIResource where
  "WaitForAPIResource C dry api_group name timeout start fuel obs =
     (if dry then Returned (None, [])
      else run_loop (WaitForAPIResource_body C api_group name start timeout) fuel ('''', []) obs)"

section \<open>Jobs, pods and workloads\<close>

definition WaitForJob_body ::
  "int \<Rightarrow> int \<Rightarrow> unit \<Rightarrow> condition list poll \<Rightarrow> unit + gerror option" where
  "WaitForJob_body start timeout = (\<lambda>_ obs.
     if expired start timeout obs
     then Inr (Some (errorf ''timeout exceeded waiting for Job to finish''))
     else if list_ex (\<lambda>c. cond_type c = ''Complete'' \<and> cond_status c = ''True'') (reply obs)
     then Inr None
     else Inl ())"

definition WaitForJob where
  "WaitForJob dry conn_err timeout start fuel obs =
     (if dry then Returned None
      else case conn_err of
        Some err \<Rightarrow> Returned (Some (errorf (''waitForJob: Failed to get clientset: '' @ Error err)))
      | None \<Rightarrow> run_loop (WaitForJob_body start timeout) fuel () obs)"

text \<open>The phases that \<open>WaitForPodByLabel\<close> is given are not used by its code.\<close>

definition WaitForPodByLabel_body ::
  "console \<Rightarrow> string \<Rightarrow> string \<Rightarrow> int \<Rightarrow> int \<Rightarrow> bool \<times> string list \<Rightarrow> pod list option poll \<Rightarrow>
     bool \<times> string list + pod option \<times> gerror option \<times> string list" where
  "WaitForPodByLabel_body C ns label start timeout = (\<lambda>(msg, out) obs.
     let id = Name_String C \<lparr>Name_Name = label, Name_Kind = ''Pod'', Name_Namespace = ns\<rparr>
     in case reply obs of
          Some (p # _) \<Rightarrow> Inr (Some p, None, out)
        | _ \<Rightarrow>
            if expired start timeout obs
            then Inr (None, Some (errorf (''timeout exceeded waiting for pod '' @ id)), out)
            else if \<not> msg then Inl (True, out @ [id @ '' '' @ waiting_to ''for pod''])
            else Inl (msg, out))"

definition WaitForPodByLabel where
  "WaitForPodByLabel C dry empty_pod conn_err ns label timeout phases start fuel obs =
     (if dry then Returned (Some (empty_pod :: pod), None, [])
      else case conn_err of
        Some err \<Rightarrow> Returned (None, Some err, [])
      | None \<Rightarrow> run_loop (WaitForPodByLabel_body C ns label start timeout) fuel (False, []) obs)"

text \<open>
  The loop of \<open>WaitForContainerStart\<close>: both branches of its first conditional leave the iteration,
  so that the check of the deadline and of the containers below it is never reached.
\<close>

definition WaitForContainerStart_body ::
  "unit \<Rightarrow> (pod option \<times> gerror option) poll \<Rightarrow> unit + gerror option" where
  "WaitForContainerStart_body = (\<lambda>_ obs.
     let (p, err) = reply obs
     in if not_found_err err then Inl () else Inr err)"

definition WaitForContainerStart where
  "WaitForContainerStart dry conn_err timeout containerNames fuel obs =
     (if dry then Returned None
      else case conn_err of
        Some err \<Rightarrow> Returned (Some (errorf (''waitForPod: Failed to get clientset: '' @ Error err)))
      | None \<Rightarrow> run_loop WaitForContainerStart_body fuel () obs)"

text \<open>\<open>WaitForPod\<close> follows the pod's pointer in the message of the deadline: \<open>None\<close> is that panic.\<close>

definition WaitForPod_body ::
  "string \<Rightarrow> string list \<Rightarrow> int \<Rightarrow> int \<Rightarrow> unit \<Rightarrow> (pod option \<times> gerror option) poll \<Rightarrow>
     unit + gerror option option" where
  "WaitForPod_body name phases start timeout = (\<lambda>_ obs.
     let (p, err) = reply obs
     in if expired start timeout obs
        then Inr (do {
          p \<leftarrow> p;
          Some (Some (errorf (''timeout exceeded waiting for '' @ name @ '' is '' @ phase p
            @ '', error: '' @ err_v err)))
        })
        else case p of
          None \<Rightarrow> Inl ()
        | Some p \<Rightarrow>
            if phase p = ''Pending'' then Inl ()
            else if phase p = ''Failed'' then Inr (Some None)
            else if list_ex (\<lambda>x. phase p = x) phases then Inr (Some None)
            else Inl ())"

definition WaitForPod where
  "WaitForPod dry conn_err name timeout phases start fuel obs =
     (if dry then Returned (Some None)
      else case conn_err of
        Some err \<Rightarrow> Returned (Some (Some (errorf (''waitForPod: Failed to get clientset: '' @ Error err))))
      | None \<Rightarrow> run_loop (WaitForPod_body name phases start timeout) fuel () obs)"

text \<open>
  \<open>WaitForDeployment\<close> and \<open>WaitForStatefulSet\<close> share everything but the texts; an observation is
  the number of ready replicas, or \<open>None\<close> for a nil object.
\<close>

definition replicas_body ::
  "gerror \<Rightarrow> string \<Rightarrow> int \<Rightarrow> int \<Rightarrow> bool \<times> string list \<Rightarrow> int option poll \<Rightarrow>
     bool \<times> string list + gerror option \<times> string list" where
  "replicas_body timeout_err title start timeout = (\<lambda>(msg, out) obs.
     if expired start timeout obs then Inr (Some timeout_err, out)
     else if (case reply obs of None \<Rightarrow> False | Some r \<Rightarrow> r \<ge> 1) then Inr (None, out)
     else if \<not> msg then Inl (True, out @ [title @ '' '' @ waiting_to ''for at least 1 pod''])
     else Inl (msg, out))"

definition WaitForDeployment where
  "WaitForDeployment C dry conn_err ns name timeout start fuel obs =
     (if dry then Returned (None, [])
      else case conn_err of
        Some err \<Rightarrow> Returned (Some err, [])
      | None \<Rightarrow> run_loop (replicas_body
          (errorf (''timeout exceeded waiting for deployment to become ready '' @ name))
          (Name_String C \<lparr>Name_Name = name, Name_Kind = ''Deployment'', Name_Namespace = ns\<rparr>)
          start timeout) fuel (False, []) obs)"

definition WaitForStatefulSet where
  "WaitForStatefulSet C dry conn_err ns name timeout start fuel obs =
     (if dry then Returned (None, [])
      else case conn_err of
        Some err \<Rightarrow> Returned (Some err, [])
      | None \<Rightarrow> run_loop (replicas_body
          (errorf (''timeout exceeded waiting for statefulset to become ready '' @ name))
          (Name_String C \<lparr>Name_Name = name, Name_Kind = ''Statefulset'', Name_Namespace = ns\<rparr>)
          start timeout) fuel (False, []) obs)"

text \<open>\<open>WaitForDaemonSet\<close> returns the server's error at once.\<close>

definition WaitForDaemonSet_body ::
  "string \<Rightarrow> int \<Rightarrow> int \<Rightarrow> bool \<times> string list \<Rightarrow> (gerror + int option) poll \<Rightarrow>
     bool \<times> string list + gerror option \<times> string list" where
  "WaitForDaemonSet_body title start timeout = (\<lambda>(msg, out) obs.
     case reply obs of
       Inl err \<Rightarrow> Inr (Some err, out)
     | Inr daemonset \<Rightarrow>
         if expired start timeout obs
         then Inr (Some (errorf (title @ '' timeout waiting for daemonset to become ready'')), out)
         else if (case daemonset of None \<Rightarrow> False | Some r \<Rightarrow> r \<ge> 1) then Inr (None, out)
         else if \<not> msg then Inl (True, out @ [title @ '' '' @ waiting_to ''for at least 1 pod''])
         else Inl (msg, out))"

definition WaitForDaemonSet where
  "WaitForDaemonSet C dry conn_err ns name timeout start fuel obs =
     (if dry then Returned (None, [])
      else case conn_err of
        Some err \<Rightarrow> Returned (Some err, [])
      | None \<Rightarrow> run_loop (WaitForDaemonSet_body
          (Name_String C \<lparr>Name_Name = name, Name_Kind = ''Daemonset'', Name_Namespace = ns\<rparr>)
          start timeout) fuel (False, []) obs)"

section \<open>Nodes\<close>

text \<open>A map from condition type to status, nil where the node could not be read.\<close>

definition GetConditionsForNode ::
  "gerror option \<Rightarrow> gerror + node option \<Rightarrow> (string \<times> string) list option \<times> gerror option" where
  "GetConditionsForNode conn_err answer =
     (case conn_err of
        Some err \<Rightarrow> (None, Some err)
      | None \<Rightarrow>
          (case answer of
             Inl err \<Rightarrow> (None, Some err)
           | Inr None \<Rightarrow> (None, None)
           | Inr (Some n) \<Rightarrow>
               (Some (fold (\<lambda>c out. AList.update (cond_type c) (cond_status c) out) (n_conditions n) []),
                None)))"

definition nil_map :: "(string \<times> string) list option \<Rightarrow> (string \<times> string) list" where
  "nil_map m = (case m of None \<Rightarrow> [] | Some l \<Rightarrow> l)"

definition lookup0 :: "(string \<times> string) list \<Rightarrow> string \<Rightarrow> string" where
  "lookup0 m k = (case map_of m k of None \<Rightarrow> '''' | Some v \<Rightarrow> v)"

definition fmt_map :: "(string \<times> string) list \<Rightarrow> string" where
  "fmt_map m = ''map['' @ Join '' '' (map (\<lambda>(k, v). k @ '':'' @ v) (sort_key fst m)) @ '']''"

definition WaitForNode_body ::
  "string \<Rightarrow> string \<Rightarrow> string list \<Rightarrow> int \<Rightarrow> int \<Rightarrow> unit \<Rightarrow> (gerror option \<times> (gerror + node option)) poll \<Rightarrow>
     unit + (string \<times> string) list option \<times> gerror option" where
  "WaitForNode_body name cond statii start timeout = (\<lambda>_ obs.
     let (conds, err) = GetConditionsForNode (fst (reply obs)) (snd (reply obs))
     in if expired start timeout obs
        then Inr (conds, Some (errorf (''timeout exceeded waiting for '' @ name @ '' is ''
               @ fmt_map (nil_map conds) @ '', error: '' @ err_v err)))
        else if list_ex (\<lambda>status. lookup0 (nil_map conds) cond = status) statii
        then Inr (conds, None)
        else Inl ())"

definition WaitForNode where
  "WaitForNode dry name timeout cond statii start fuel obs =
     (if dry then Returned (None, None)
      else run_loop (WaitForNode_body name cond statii start timeout) fuel () obs)"

definition WaitForTaintRemoval_body ::
  "string \<Rightarrow> string \<Rightarrow> int \<Rightarrow> int \<Rightarrow> unit \<Rightarrow> (gerror option \<times> (gerror + node)) poll \<Rightarrow>
     unit + gerror option" where
  "WaitForTaintRemoval_body name taintKey start timeout = (\<lambda>_ obs.
     if now obs - start > timeout
     then Inr (Some (errorf (''timeout exceeded waiting for '' @ name @ '' to not have '' @ taintKey)))
     else case fst (reply obs) of
       Some err \<Rightarrow> Inr (Some err)
     | None \<Rightarrow>
         (case snd (reply obs) of
            Inl err \<Rightarrow> Inr (Some err)
          | Inr n \<Rightarrow>
              if list_ex (\<lambda>t. taint_key t = taintKey) (taints n) then Inl () else Inr None))"

definition WaitForTaintRemoval where
  "WaitForTaintRemoval dry name timeout taintKey start fuel obs =
     (if dry then Returned None
      else run_loop (WaitForTaintRemoval_body name taintKey start timeout) fuel () obs)"

section \<open>Commands, REST mappings, job pods\<close>

definition WaitForPodCommand_body ::
  "string \<Rightarrow> string list \<Rightarrow> int \<Rightarrow> int \<Rightarrow> unit \<Rightarrow> (string \<times> string \<times> gerror option) poll \<Rightarrow>
     unit + gerror option" where
  "WaitForPodCommand_body name command start timeout = (\<lambda>_ obs.
     let (stdout, stderr, err) = reply obs
     in if err = None then Inr None
        else if expired start timeout obs
        then Inr (Some (errorf (''timeout exceeded waiting for '' @ name @ '': ['' @ Join '' '' command
               @ ''], stdout: '' @ stdout @ '', stderr: '' @ stderr)))
        else Inl ())"

definition WaitForPodCommand where
  "WaitForPodCommand dry name timeout command start fuel obs =
     (if dry then Returned None
      else run_loop (WaitForPodCommand_body name command start timeout) fuel () obs)"

text \<open>
  \<open>WaitForRestMapping\<close>: the loop's variable is the client's cached mapper, \<open>None\<close> once flushed,
  and an observation has the answer of a mapper built anew in this iteration. The timeout the
  function is given is not used: the deadline is always two minutes.
\<close>

type_synonym 'm mapper = "'m option \<times> gerror option"

definition WaitForRestMapping_body ::
  "bool \<Rightarrow> string \<Rightarrow> string \<Rightarrow> int \<Rightarrow> 'm mapper option \<Rightarrow> 'm mapper poll \<Rightarrow>
     'm mapper option + 'm option \<times> gerror option" where
  "WaitForRestMapping_body dry api_group kind start = (\<lambda>restMapper obs.
     let (mapping, err) = (case restMapper of Some rm \<Rightarrow> rm | None \<Rightarrow> reply obs)
     in case err of
          None \<Rightarrow> Inr (mapping, err)
        | Some e \<Rightarrow>
            if dry then Inr (mapping, err)
            else if \<not> is_no_match e then Inr (None, Some e)
            else if expired start (2 * 60 * 1000000000) obs
            then Inr (None, Some (errorf (''timeout waiting for RESTMapping for group='' @ api_group
                   @ '' kind='' @ kind)))
            else Inl None)"

definition WaitForRestMapping where
  "WaitForRestMapping dry api_group kind timeout restMapper start fuel obs =
     run_loop (WaitForRestMapping_body dry api_group kind start) fuel restMapper obs"

text \<open>
  \<open>GetJobPod\<close>: an observation is the job's \<open>controller-uid\<close> label, empty where it is missing, and
  the names of the pods with that label.
\<close>

definition GetJobPod_body ::
  "string \<Rightarrow> string \<Rightarrow> int \<Rightarrow> unit \<Rightarrow> (gerror + string \<times> (gerror + string list)) poll \<Rightarrow>
     unit + string \<times> gerror option" where
  "GetJobPod_body namespace jobName start = (\<lambda>_ obs.
     let timed = (if expired start (60 * 1000000000) obs
           then Inr ('''', Some (errorf (''couldn'' @ [CHR 0x27] @ ''t find pod of Job: '' @ namespace
                  @ ''/'' @ jobName @ '' after 1m0s'')))
           else Inl ())
     in case reply obs of
          Inl err \<Rightarrow> Inr ('''', Some err)
        | Inr (controllerUid, pods) \<Rightarrow>
            if controllerUid \<noteq> ''''
            then (case pods of
                    Inl err \<Rightarrow> Inr ('''', Some err)
                  | Inr (name # _) \<Rightarrow> Inr (name, None)
                  | Inr [] \<Rightarrow> timed)
            else timed)"

definition GetJobPod where
  "GetJobPod conn_err namespace jobName start fuel obs =
     (case conn_err of
        Some err \<Rightarrow> Returned ('''', Some err)
      | None \<Rightarrow> run_loop (GetJobPod_body namespace jobName start) fuel () obs)"

section \<open>Deadlines\<close>

locale timed_loop = deadline_loop body "expired start timeout"
  for body :: "'s \<Rightarrow> 'a poll \<Rightarrow> 's + 'r" and start :: int and timeout :: int
begin

lemma returns_by_clock:
  assumes "clock_runs obs" and "start \<le> now (obs 0)"
  shows "\<exists>r. run_loop body (enough timeout) s obs = Returned r"
  unfolding enough_def
proof (rule returns_in_time [where time = now and deadline = "start + timeout"])
  show "now (obs i) + 1000000000 \<le> now (obs (Suc i))" for i
    using assms(1) by (simp add: clock_runs_def)
  show "start + timeout < now x \<Longrightarrow> expired start timeout x" for x :: "'a poll"
    by (simp add: expired_def)
  have "timeout < (timeout div 1000000000 + 1) * 1000000000"
    by (simp add: algebra_simps)
  also have "\<dots> \<le> int (nat (timeout div 1000000000 + 1)) * 1000000000" by simp
  finally show "start + timeout - now (obs 0) < int (nat (timeout div 1000000000 + 1)) * 1000000000"
    using assms(2) by linarith
qed

end

interpretation wait_ns: timed_loop "WaitForNamespace_body C ns start timeout" start timeout
  for C ns start timeout
  by unfold_locales (auto simp: WaitForNamespace_body_def split: prod.splits option.splits)

interpretation wait_res: timed_loop
    "waitForResource_body C kind namespace name start timeout waitFN" start timeout
  for C kind namespace name start timeout waitFN
  by unfold_locales (auto simp: waitForResource_body_def split: prod.splits)

interpretation wait_api: timed_loop "WaitForAPIResource_body C api_group name start timeout" start timeout
  for C api_group name start timeout
  by unfold_locales (auto simp: WaitForAPIResource_body_def)

interpretation wait_job: timed_loop "WaitForJob_body start timeout" start timeout
  for start timeout
  by unfold_locales (auto simp: WaitForJob_body_def)

interpretation wait_label: timed_loop "WaitForPodByLabel_body C ns label start timeout" start timeout
  for C ns label start timeout
  by unfold_locales (auto simp: WaitForPodByLabel_body_def Let_def split: option.splits list.splits)

interpretation wait_replicas: timed_loop "replicas_body timeout_err title start timeout" start timeout
  for timeout_err title start timeout
  by unfold_locales (auto simp: replicas_body_def)

interpretation wait_ds: timed_loop "WaitForDaemonSet_body title start timeout" start timeout
  for title start timeout
  by unfold_locales (auto simp: WaitForDaemonSet_body_def split: sum.splits)

interpretation wait_node: timed_loop "WaitForNode_body name cond statii start timeout" start timeout
  for name cond statii start timeout
  by unfold_locales (auto simp: WaitForNode_body_def split: prod.splits)

interpretation wait_taint: timed_loop "WaitForTaintRemoval_body name taintKey start timeout" start timeout
  for name taintKey start timeout
  by unfold_locales (auto simp: WaitForTaintRemoval_body_def expired_def)

interpretation wait_cmd: timed_loop "WaitForPodCommand_body name command start timeout" start timeout
  for name command start timeout
  by unfold_locales (auto simp: WaitForPodCommand_body_def split: prod.splits)

interpretation wait_map: timed_loop "WaitForRestMapping_body dry api_group kind start" start "2 * 60 * 1000000000"
  for dry api_group kind start
  by unfold_locales (auto simp: WaitForRestMapping_body_def split: prod.splits option.splits)

interpretation job_pod: timed_loop "GetJobPod_body namespace jobName start" start "60 * 1000000000"
  for namespace jobName start
  by unfold_locales (auto simp: GetJobPod_body_def Let_def split: sum.splits list.splits)

text \<open>
  \<open>WaitForPod\<close> does not sleep in an iteration that sees a phase it was not asked for, so only the
  number of iterations that see the deadline bounds it.
\<close>

interpretation wait_pod: timed_loop "WaitForPod_body name phases start timeout" start timeout
  for name phases start timeout
  by unfold_locales (auto simp: WaitForPod_body_def split: prod.splits)

section \<open>Properties\<close>

lemma fold_namespace_counts:
  "fold (\<lambda>p (ready, pending).
      if pod_counts_ready p then (ready + 1, pending) else (ready, pending + 1)) ps (r, q)
   = (r + length (filter pod_counts_ready ps), q + length (filter (\<lambda>p. \<not> pod_counts_ready p) ps))"
  by (induction ps arbitrary: r q) auto

text \<open>
  C39. A namespace is ready exactly when it has a pod, every pod is running or has succeeded, and no
  pod has a condition that is \<open>False\<close>. A pod that has succeeded and reports \<open>Ready=False\<close>, as
  completed pods do, keeps the namespace unready.
\<close>

theorem IsNamespaceReady_exact:
  "verdict (IsNamespaceReady C False None (Some items) ns) =
     Some (items \<noteq> [] \<and> list_all (\<lambda>p. phase p \<in> {''Running'', ''Succeeded''} \<and>
       list_all (\<lambda>c. cond_status c \<noteq> ''False'') (conditions p)) items)"
proof -
  have "filter pod_counts_ready items \<noteq> [] \<and> filter (\<lambda>p. \<not> pod_counts_ready p) items = [] \<longleftrightarrow>
      items \<noteq> [] \<and> list_all pod_counts_ready items"
    by (cases items) (auto simp: list_all_iff filter_empty_conv)
  moreover have "list_all pod_counts_ready items \<longleftrightarrow>
      list_all (\<lambda>p. phase p \<in> {''Running'', ''Succeeded''} \<and>
        list_all (\<lambda>c. cond_status c \<noteq> ''False'') (conditions p)) items"
    by (auto simp: pod_counts_ready_def list_all_iff)
  ultimately show ?thesis
    by (simp add: IsNamespaceReady_def fold_namespace_counts)
qed

lemma waitForResource_iteration:
  assumes "waitForResource_body C kind ns name start timeout waitFN s x = Inr r"
  shows "r = None \<and> waitFN (fst (reply x)) (snd (reply x)) = None \<or>
    (\<exists>out. r = Some (snd (reply x), None, out) \<and> \<not> expired start timeout x \<and>
       verdict (waitFN (fst (reply x)) (snd (reply x))) = Some True) \<or>
    (\<exists>err out. r = Some (None, Some err, out) \<and> expired start timeout x)"
  using assms
  by (cases s; cases "reply x"; cases "waitFN (fst (reply x)) (snd (reply x))")
    (auto simp: waitForResource_body_def Let_def split: if_splits)

lemma waitForResource_last:
  assumes "clock_runs obs" and "start \<le> now (obs 0)"
  obtains r i s where
    "waitForResource C False None kind ns name timeout waitFN start (enough timeout) obs = Returned r"
    "waitForResource_body C kind ns name start timeout waitFN s (obs i) = Inr r"
proof -
  obtain r where r: "run_loop (waitForResource_body C kind ns name start timeout waitFN) (enough timeout) ('''', []) obs
      = Returned r"
    using wait_res.returns_by_clock [OF assms] by blast
  obtain i s where "waitForResource_body C kind ns name start timeout waitFN s (obs i) = Inr r"
    using run_loop_ReturnedD [OF r] by blast
  with r show thesis by (intro that [of r s i]) (simp_all add: waitForResource_def)
qed

text \<open>
  C2. \<open>waitForResource\<close> returns once the clock has passed the deadline, whatever the server
  answers. It returns an item without an error only if its check said ready of that item, in an
  iteration before the deadline; an error only after the deadline; and it panics only where the
  check panics.
\<close>

theorem waitForResource_returns:
  assumes "clock_runs obs" and "start \<le> now (obs 0)"
  shows "\<exists>r. waitForResource C False None kind ns name timeout waitFN start (enough timeout) obs = Returned r
    \<and> (case r of
         None \<Rightarrow> \<exists>i. waitFN (fst (reply (obs i))) (snd (reply (obs i))) = None
       | Some (item, None, out) \<Rightarrow> \<exists>i. item = snd (reply (obs i)) \<and> now (obs i) \<le> start + timeout
           \<and> verdict (waitFN (fst (reply (obs i))) item) = Some True
       | Some (item, Some err, out) \<Rightarrow> item = None \<and> (\<exists>i. start + timeout < now (obs i)))"
proof -
  obtain r i s where
    r: "waitForResource C False None kind ns name timeout waitFN start (enough timeout) obs = Returned r"
    and body: "waitForResource_body C kind ns name start timeout waitFN s (obs i) = Inr r"
    by (rule waitForResource_last [OF assms])
  from waitForResource_iteration [OF body] r show ?thesis
    by (intro exI [where x = r]) (auto simp: expired_def not_less)
qed

definition ready_at_third :: "nat \<Rightarrow> (nat \<times> unstructured option) poll" where
  "ready_at_third i = \<lparr>now = int i * 2000000000, reply = (i, None)\<rparr>"

lemma waitForResource_returns_witness:
  "\<exists>r. waitForResource example_console False None ''Pod'' ''n'' ''p'' 10000000000
     (\<lambda>i _. Some (2 \<le> i, ''waiting'')) 0 (enough 10000000000) ready_at_third = Returned r"
proof -
  have "clock_runs ready_at_third" by (simp add: clock_runs_def ready_at_third_def)
  from waitForResource_returns [OF this, of 0 example_console "''Pod''" "''n''" "''p''" 10000000000]
  show ?thesis unfolding ready_at_third_def by auto
qed

text \<open>
  \<open>waitForResource\<close> prints a waiting message only when it differs from the one printed before.
\<close>

theorem waitForResource_prints_changes:
  assumes "waitForResource C False None kind ns name timeout waitFN start fuel obs
      = Returned (Some (item, err, out))"
  shows "distinct_adj out"
proof -
  let ?pre = "Name_String C \<lparr>Name_Name = name, Name_Kind = kind, Name_Namespace = ns\<rparr> @ '' ''"
  let ?I = "\<lambda>(msg, out). distinct_adj out \<and> (out \<noteq> [] \<longrightarrow> last out = ?pre @ msg)"
  let ?Q = "\<lambda>r. case r of None \<Rightarrow> True | Some (item, err, out) \<Rightarrow> distinct_adj out"
  have "?Q (Some (item, err, out))"
  proof (rule run_loop_invariant [where I = ?I and Q = ?Q])
    show "run_loop (waitForResource_body C kind ns name start timeout waitFN) fuel ('''', []) obs
        = Returned (Some (item, err, out))"
      using assms by (simp add: waitForResource_def)
    show "?I ('''', [])" by simp
    show "?I s'" if "?I s" "waitForResource_body C kind ns name start timeout waitFN s (obs i) = Inl s'"
      for s i s'
      using that
      by (auto simp: waitForResource_body_def Let_def distinct_adj_append_iff
          split: prod.splits if_splits option.splits)
    show "?Q r" if "?I s" "waitForResource_body C kind ns name start timeout waitFN s (obs i) = Inr r"
      for s i r
      using that
      by (auto simp: waitForResource_body_def Let_def split: prod.splits if_splits option.splits)
  qed
  then show ?thesis by simp
qed

lemma waitForResource_prints_changes_witness:
  "distinct_adj [''BPod/Gn/Wp waiting'']"
  by (rule waitForResource_prints_changes
      [where C = example_console
        and kind = "''Pod''" and ns = "''n''" and name = "''p''" and timeout = 10000000000
        and waitFN = "\<lambda>i _. Some (2 \<le> i, ''waiting'')" and start = 0
        and fuel = 3 and obs = ready_at_third and item = None and err = None])
    (simp add: waitForResource_def waitForResource_body_def ready_at_third_def expired_def
      Name_String_def example_console_def eval_nat_numeral)

text \<open>
  C15. \<open>WaitForContainerStart\<close> never looks at its timeout or at the containers: while the pod is
  not found it goes on, for ever if the pod never appears, and the first other answer ends it, with
  that answer's error, so that a pod whose containers have not started counts as started.
\<close>

theorem WaitForContainerStart_ignores_timeout:
  "WaitForContainerStart False None timeout containers fuel obs =
     (case find (\<lambda>i. \<not> not_found_err (snd (reply (obs i)))) [0..<fuel] of
        None \<Rightarrow> Running
      | Some i \<Rightarrow> Returned (snd (reply (obs i))))"
proof -
  have "run_loop WaitForContainerStart_body fuel () obs =
     (case find (\<lambda>i. \<not> not_found_err (snd (reply (obs i)))) [0..<fuel] of
        None \<Rightarrow> Running
      | Some i \<Rightarrow> Returned (snd (reply (obs i))))" for obs
  proof (induction fuel arbitrary: obs)
    case 0
    then show ?case by simp
  next
    case (Suc fuel)
    have step: "[0..<Suc fuel] = 0 # map Suc [0..<fuel]" by (simp add: upt_conv_Cons map_Suc_upt)
    have find_map: "find P (map f xs) = map_option f (find (P \<circ> f) xs)"
      for P and f :: "nat \<Rightarrow> nat" and xs
      by (induction xs) simp_all
    obtain p err where o: "reply (obs 0) = (p, err)" by (cases "reply (obs 0)")
    then have body: "WaitForContainerStart_body () (obs 0) =
        (if not_found_err err then Inl () else Inr err)"
      by (simp add: WaitForContainerStart_body_def)
    show ?case
      unfolding step find.simps find_map comp_def run_loop.simps body
      by (simp add: o Suc.IH split: option.splits)
  qed
  then show ?thesis by (simp add: WaitForContainerStart_def)
qed

lemma WaitForPod_loop_success:
  assumes "run_loop (WaitForPod_body name phases start timeout) fuel () obs = Returned (Some None)"
  shows "\<exists>i p. i < fuel \<and> fst (reply (obs i)) = Some p \<and> now (obs i) \<le> start + timeout
    \<and> phase p \<noteq> ''Pending'' \<and> phase p \<in> insert ''Failed'' (set phases)"
proof -
  obtain i where i: "i < fuel" "WaitForPod_body name phases start timeout () (obs i) = Inr (Some None)"
    using run_loop_ReturnedD [OF assms] by auto
  from i(2) have "\<not> expired start timeout (obs i) \<and> (\<exists>p. fst (reply (obs i)) = Some p
    \<and> phase p \<noteq> ''Pending'' \<and> phase p \<in> insert ''Failed'' (set phases))"
    by (auto simp: WaitForPod_body_def list_ex_iff split: prod.splits if_splits option.splits
        Option.bind_splits)
  with i(1) show ?thesis by (auto simp: expired_def not_less)
qed

text \<open>
  \<open>WaitForPod\<close> returns nil, without an error, exactly on the phases it was given and on
  \<open>Failed\<close>, whichever phases were asked for; a missing pod or a pending one never ends it.
\<close>

theorem WaitForPod_success:
  assumes "WaitForPod False None name timeout phases start fuel obs = Returned (Some None)"
  shows "\<exists>i p. i < fuel \<and> fst (reply (obs i)) = Some p \<and> now (obs i) \<le> start + timeout
    \<and> phase p \<noteq> ''Pending'' \<and> phase p \<in> insert ''Failed'' (set phases)"
  by (rule WaitForPod_loop_success) (use assms in \<open>simp add: WaitForPod_def\<close>)

definition example_pod :: pod where
  "example_pod = \<lparr>pod_name = ''p'', pod_namespace = ''n'', uid = ''u'', labels = Map.empty,
     annotations = Map.empty, deletion_timestamp = None, owner_references = [], controller = None,
     phase = ''Failed'', conditions = [], init_container_statuses = [], container_statuses = [],
     volumes = [], priority = None, node_name = ''''\<rparr>"

lemma WaitForPod_success_witness:
  "\<exists>i p. i < 1 \<and> fst (reply (\<lparr>now = int i, reply = (Some example_pod, None :: gerror option)\<rparr>)) = Some p
    \<and> now \<lparr>now = int i, reply = (Some example_pod, None :: gerror option)\<rparr> \<le> 0 + 5 \<and> phase p \<noteq> ''Pending''
    \<and> phase p \<in> insert ''Failed'' (set [''Running''])"
  by (rule WaitForPod_success [where name = "''p''" and
        obs = "\<lambda>i. \<lparr>now = int i, reply = (Some example_pod, None)\<rparr>"])
    (simp add: WaitForPod_def WaitForPod_body_def expired_def example_pod_def)

text \<open>
  \<open>GetJobPod\<close> returns within the iterations of one minute. A name without an error is the first
  pod of a list that the job's \<open>controller-uid\<close> selected; every other return has the empty name.
\<close>

theorem GetJobPod_returns:
  assumes "clock_runs obs" and "start \<le> now (obs 0)"
  shows "\<exists>name err. GetJobPod None ns job start (enough 60000000000) obs = Returned (name, err)
    \<and> (err \<noteq> None \<and> name = '''' \<or>
       err = None \<and> (\<exists>i uid rest. reply (obs i) = Inr (uid, Inr (name # rest)) \<and> uid \<noteq> ''''))"
proof -
  let ?body = "GetJobPod_body ns job start"
  obtain r where r: "run_loop ?body (enough 60000000000) () obs = Returned r"
    using job_pod.returns_by_clock [OF assms, of ns job "()"] by auto
  obtain i s where "?body s (obs i) = Inr r" using run_loop_ReturnedD [OF r] by blast
  then have "snd r \<noteq> None \<and> fst r = '''' \<or> snd r = None \<and>
      (\<exists>uid rest. reply (obs i) = Inr (uid, Inr (fst r # rest)) \<and> uid \<noteq> '''')"
    by (auto simp: GetJobPod_body_def Let_def split: sum.splits list.splits if_splits)
  with r show ?thesis by (cases r) (auto simp: GetJobPod_def)
qed

lemma GetJobPod_returns_witness:
  "\<exists>name err. GetJobPod None ''n'' ''job'' 0 (enough 60000000000)
     (\<lambda>i. \<lparr>now = int i * 1000000000, reply = Inr (''u'', Inr [''job-x''])\<rparr>) = Returned (name, err)
    \<and> (err \<noteq> None \<and> name = '''' \<or> err = None \<and> name = ''job-x'')"
proof -
  have "clock_runs (\<lambda>i. \<lparr>now = int i * 1000000000,
      reply = Inr (''u'', Inr [''job-x'']) :: gerror + string \<times> (gerror + string list)\<rparr>)"
    by (simp add: clock_runs_def)
  from GetJobPod_returns [OF this, of 0 "''n''" "''job''"] show ?thesis by auto
qed

text \<open>
  \<open>WaitForRestMapping\<close> returns within the iterations of two minutes, whatever timeout it is
  given. It gives up early on any error other than a missing kind, and except in a dry run it
  returns a mapping only with no error.
\<close>

theorem WaitForRestMapping_two_minutes:
  assumes "clock_runs obs" and "start \<le> now (obs 0)"
  shows "\<exists>mapping err. WaitForRestMapping False api_group kind timeout restMapper start
      (enough 120000000000) obs = Returned (mapping, err)
    \<and> (err = None \<or> mapping = None)
    \<and> (err = None \<or> (\<exists>e. err = Some e \<and> \<not> is_no_match e))"
proof -
  let ?body = "WaitForRestMapping_body False api_group kind start"
  obtain r where r: "run_loop ?body (enough 120000000000) restMapper obs = Returned r"
    using wait_map.returns_by_clock [OF assms, of False api_group kind restMapper] by auto
  obtain i s where "?body s (obs i) = Inr r" using run_loop_ReturnedD [OF r] by blast
  moreover obtain m e where "reply (obs i) = (m, e)" by (cases "reply (obs i)")
  ultimately have "(snd r = None \<or> fst r = None) \<and> (snd r = None \<or> (\<exists>e. snd r = Some e \<and> \<not> is_no_match e))"
    by (cases r; cases s; cases e)
      (auto simp: WaitForRestMapping_body_def split: if_splits prod.splits option.splits)
  with r show ?thesis by (cases r) (auto simp: WaitForRestMapping_def)
qed

lemma WaitForRestMapping_two_minutes_witness:
  "\<exists>mapping err. WaitForRestMapping False '''' ''Foo'' 1000000000 (None :: string mapper option) 0
      (enough 120000000000) (\<lambda>i. \<lparr>now = int i * 2000000000,
        reply = (None, Some ((errorf ''no matches'')\<lparr>is_no_match := True\<rparr>))\<rparr>) = Returned (mapping, err)"
proof -
  have "clock_runs (\<lambda>i. \<lparr>now = int i * 2000000000,
      reply = (None, Some ((errorf ''no matches'')\<lparr>is_no_match := True\<rparr>)) :: string mapper\<rparr>)"
    by (simp add: clock_runs_def)
  from WaitForRestMapping_two_minutes [OF this, of 0 "''''" "''Foo''" 1000000000 None]
  show ?thesis by auto
qed

text \<open>
  \<open>WaitForTaintRemoval\<close> returns once its deadline has passed, and returns no error only if it
  has read a node without the taint, in an iteration before the deadline.
\<close>

theorem WaitForTaintRemoval_returns:
  assumes "clock_runs obs" and "start \<le> now (obs 0)"
  shows "\<exists>err. WaitForTaintRemoval False name timeout key start (enough timeout) obs = Returned err
    \<and> (err \<noteq> None \<or> (\<exists>i n. reply (obs i) = (None, Inr n) \<and> now (obs i) - start \<le> timeout
         \<and> \<not> HasTaint n key))"
proof -
  let ?body = "WaitForTaintRemoval_body name key start timeout"
  obtain r where r: "run_loop ?body (enough timeout) () obs = Returned r"
    using wait_taint.returns_by_clock [OF assms, of name key timeout "()"] by auto
  obtain i s where "?body s (obs i) = Inr r" using run_loop_ReturnedD [OF r] by blast
  then have "r \<noteq> None \<or> (\<exists>n. reply (obs i) = (None, Inr n) \<and> now (obs i) - start \<le> timeout
      \<and> \<not> HasTaint n key)"
    by (cases "reply (obs i)")
      (auto simp: WaitForTaintRemoval_body_def HasTaint_def split: option.splits sum.splits if_splits)
  with r show ?thesis by (auto simp: WaitForTaintRemoval_def)
qed

lemma WaitForTaintRemoval_returns_witness:
  "\<exists>err. WaitForTaintRemoval False ''n'' 4000000000 ''key'' 0 (enough 4000000000)
     (\<lambda>i. \<lparr>now = int i * 2000000000, reply = (None, Inl (errorf ''not found''))\<rparr>) = Returned err
    \<and> err \<noteq> None"
proof -
  have "clock_runs (\<lambda>i. \<lparr>now = int i * 2000000000,
      reply = (None, Inl (errorf ''not found'')) :: gerror option \<times> (gerror + node)\<rparr>)"
    by (simp add: clock_runs_def)
  from WaitForTaintRemoval_returns [OF this, of 0 "''n''" 4000000000 "''key''"] show ?thesis by auto
qed

end
