(* ===== verification/Drain.thy ===== *)
theory Drain
  imports Pods "HOL-Library.AList"
begin

text \<open>
  Package \<open>drain\<close>: the filters that decide which pods of a node are deleted (\<open>filters.go\<close>), the
  deletion or eviction of the pods and the wait for them to go (\<open>drain.go\<close>), cordoning
  (\<open>cordon.go\<close>) and \<open>RunNodeDrain\<close> (\<open>default.go\<close>).

  The server that the filters read is a \<open>drain_view\<close>: it answers the reads of one pass over the
  pods. The calls that change the cluster, and the polls that wait for the change, are recorded in
  a log, and \<open>drain_server\<close> answers them from the log. The iteration order of a Go map is a
  parameter. The goroutines of \<open>evictPods\<close> are in theory \<open>Drain_Concurrent\<close>.
\<close>

section \<open>Helper and statuses\<close>

record Helper =
  Force :: bool
  GracePeriodSeconds :: int
  IgnoreAllDaemonSets :: bool
  Timeout :: int
  DeleteLocalData :: bool
  PodSelector :: string
  DisableEviction :: bool
  SkipWaitForDeleteTimeoutSeconds :: int

record podDeleteStatus =
  delete :: bool
  reason :: string
  message :: string

record podDelete =
  pd_pod :: pod
  pd_status :: podDeleteStatus

text \<open>
  What the filters read: the error of looking up a daemon set, and a volume claim's storage class
  with its pointers (a claim may be nil, its class may be nil).
\<close>

record drain_view =
  view_now :: int
  get_daemon_set :: "string \<Rightarrow> string \<Rightarrow> gerror option"
  get_pvc_class :: "string \<Rightarrow> string \<Rightarrow> gerror + string option option"

definition daemonSetFatal :: string where
  "daemonSetFatal = ''DaemonSet-managed Pods (use --ignore-daemonsets to ignore)''"
definition daemonSetWarning :: string where
  "daemonSetWarning = ''ignoring DaemonSet-managed Pods''"
definition localStorageFatal :: string where
  "localStorageFatal = ''Pods with local storage (use --delete-local-data to override)''"
definition localStorageWarning :: string where
  "localStorageWarning = ''deleting Pods with local storage''"
definition unmanagedFatal :: string where
  "unmanagedFatal = ''Pods not managed by ReplicationController, ReplicaSet, Job, DaemonSet or StatefulSet (use --force to override)''"
definition unmanagedWarning :: string where
  "unmanagedWarning = ''deleting Pods not managed by ReplicationController, ReplicaSet, Job, DaemonSet or StatefulSet''"

definition makePodDeleteStatusOkay :: podDeleteStatus where
  "makePodDeleteStatusOkay = \<lparr>delete = True, reason = ''Okay'', message = ''''\<rparr>"
definition makePodDeleteStatusSkip :: podDeleteStatus where
  "makePodDeleteStatusSkip = \<lparr>delete = False, reason = ''Skip'', message = ''''\<rparr>"
definition makePodDeleteStatusWithWarning :: "bool \<Rightarrow> string \<Rightarrow> podDeleteStatus" where
  "makePodDeleteStatusWithWarning del msg = \<lparr>delete = del, reason = ''Warning'', message = msg\<rparr>"
definition makePodDeleteStatusWithError :: "string \<Rightarrow> podDeleteStatus" where
  "makePodDeleteStatusWithError msg = \<lparr>delete = False, reason = ''Error'', message = msg\<rparr>"

lemmas status_defs = makePodDeleteStatusOkay_def makePodDeleteStatusSkip_def
  makePodDeleteStatusWithWarning_def makePodDeleteStatusWithError_def

section \<open>Filters\<close>

text \<open>
  A deletion time stamp that is nil or zero is zero. Seconds are whole: the rounding of Go's
  \<open>float64\<close> at more than half a year below a full second is left out.
\<close>

definition shouldSkipPod :: "int \<Rightarrow> pod \<Rightarrow> int \<Rightarrow> bool" where
  "shouldSkipPod now p skipDeletedTimeoutSeconds =
     (skipDeletedTimeoutSeconds > 0 \<and>
      (case deletion_timestamp p of
         None \<Rightarrow> False
       | Some t \<Rightarrow> t \<noteq> 0 \<and> (now - t) div 1000000000 > skipDeletedTimeoutSeconds))"

definition skipDeletedFilter :: "drain_view \<Rightarrow> Helper \<Rightarrow> pod \<Rightarrow> podDeleteStatus option" where
  "skipDeletedFilter V d p =
     Some (if shouldSkipPod (view_now V) p (SkipWaitForDeleteTimeoutSeconds d)
           then makePodDeleteStatusSkip else makePodDeleteStatusOkay)"

definition daemonSetFilter :: "drain_view \<Rightarrow> Helper \<Rightarrow> pod \<Rightarrow> podDeleteStatus option" where
  "daemonSetFilter V d p =
     Some (case controller p of
       None \<Rightarrow> makePodDeleteStatusOkay
     | Some controllerRef \<Rightarrow>
         if owner_kind controllerRef \<noteq> ''DaemonSet'' then makePodDeleteStatusOkay
         else if phase p = ''Succeeded'' \<or> phase p = ''Failed'' then makePodDeleteStatusOkay
         else case get_daemon_set V (pod_namespace p) (owner_name controllerRef) of
           Some err \<Rightarrow>
             if is_not_found err \<and> Force d then makePodDeleteStatusWithWarning True (Error err)
             else makePodDeleteStatusWithError (Error err)
         | None \<Rightarrow>
             if \<not> IgnoreAllDaemonSets d then makePodDeleteStatusWithError daemonSetFatal
             else makePodDeleteStatusWithWarning False daemonSetWarning)"

definition mirrorPodFilter :: "drain_view \<Rightarrow> Helper \<Rightarrow> pod \<Rightarrow> podDeleteStatus option" where
  "mirrorPodFilter V d p =
     Some (if annotations p ''kubernetes.io/config.mirror'' \<noteq> None
           then makePodDeleteStatusSkip else makePodDeleteStatusOkay)"

definition hasLocalStorage :: "pod \<Rightarrow> bool" where
  "hasLocalStorage p = list_ex empty_dir (volumes p)"

text \<open>The loop over the volumes: \<open>Some (Some status)\<close> is a return from it.\<close>

fun pvc_loop :: "drain_view \<Rightarrow> pod \<Rightarrow> volume list \<Rightarrow> podDeleteStatus option option" where
  "pvc_loop V p [] = Some None"
| "pvc_loop V p (vol # vols) =
     (case pvc_claim vol of
        None \<Rightarrow> pvc_loop V p vols
      | Some claim \<Rightarrow>
          (case get_pvc_class V (pod_namespace p) claim of
             Inl err \<Rightarrow> Some (Some (makePodDeleteStatusWithError (Error err)))
           | Inr None \<Rightarrow> None
           | Inr (Some None) \<Rightarrow> Some (Some makePodDeleteStatusSkip)
           | Inr (Some (Some class)) \<Rightarrow>
               if Contains class ''local'' then Some (Some makePodDeleteStatusSkip)
               else pvc_loop V p vols))"

definition localStorageFilter :: "drain_view \<Rightarrow> Helper \<Rightarrow> pod \<Rightarrow> podDeleteStatus option" where
  "localStorageFilter V d p = do {
     r \<leftarrow> pvc_loop V p (volumes p);
     (case r of
        Some status \<Rightarrow> Some status
      | None \<Rightarrow>
          if \<not> hasLocalStorage p then Some makePodDeleteStatusOkay
          else if phase p = ''Succeeded'' \<or> phase p = ''Failed'' then Some makePodDeleteStatusOkay
          else if \<not> DeleteLocalData d then Some (makePodDeleteStatusWithError localStorageFatal)
          else Some (makePodDeleteStatusWithWarning True localStorageWarning))
   }"

definition unreplicatedFilter :: "drain_view \<Rightarrow> Helper \<Rightarrow> pod \<Rightarrow> podDeleteStatus option" where
  "unreplicatedFilter V d p =
     Some (if phase p = ''Succeeded'' \<or> phase p = ''Failed'' then makePodDeleteStatusOkay
           else if controller p \<noteq> None then makePodDeleteStatusOkay
           else if Force d then makePodDeleteStatusWithWarning True unmanagedWarning
           else makePodDeleteStatusWithError unmanagedFatal)"

type_synonym podFilter = "pod \<Rightarrow> podDeleteStatus option"

definition makeFilters :: "drain_view \<Rightarrow> Helper \<Rightarrow> podFilter list" where
  "makeFilters V d = [skipDeletedFilter V d, daemonSetFilter V d, mirrorPodFilter V d,
     localStorageFilter V d, unreplicatedFilter V d]"

text \<open>The loop over the filters: the first that does not delete ends it, else the last one counts.\<close>

fun apply_filters :: "podFilter list \<Rightarrow> podDeleteStatus \<Rightarrow> podFilter" where
  "apply_filters [] status p = Some status"
| "apply_filters (f # fs) status p = do {
     status \<leftarrow> f p;
     if \<not> delete status then Some status else apply_filters fs status p
   }"

definition zero_status :: podDeleteStatus where
  "zero_status = \<lparr>delete = False, reason = '''', message = ''''\<rparr>"

definition filter_pod :: "drain_view \<Rightarrow> Helper \<Rightarrow> podFilter" where
  "filter_pod V d = apply_filters (makeFilters V d) zero_status"

section \<open>Lists of pods to delete\<close>

definition list_Pods :: "podDelete list \<Rightarrow> pod list" where
  "list_Pods items = map pd_pod (filter (\<lambda>i. delete (pd_status i)) items)"

definition pod_path :: "pod \<Rightarrow> string" where
  "pod_path p = pod_namespace p @ ''/'' @ pod_name p"

definition add_to :: "string \<Rightarrow> string \<Rightarrow> (string \<times> string list) list \<Rightarrow> (string \<times> string list) list" where
  "add_to k v m = AList.update k ((case map_of m k of None \<Rightarrow> [] | Some vs \<Rightarrow> vs) @ [v]) m"

type_synonym map_order = "(string \<times> string list) list \<Rightarrow> (string \<times> string list) list"

definition Warnings :: "map_order \<Rightarrow> podDelete list \<Rightarrow> string" where
  "Warnings order items =
     (let ps = fold (\<lambda>i ps. if reason (pd_status i) = ''Warning''
            then add_to (message (pd_status i)) (pod_path (pd_pod i)) ps else ps) items []
      in Join ''; '' (map (\<lambda>(key, pods). key @ '': '' @ Join '', '' pods) (order ps)))"

definition list_errors :: "map_order \<Rightarrow> podDelete list \<Rightarrow> gerror list" where
  "list_errors order items =
     (let failedPods = fold (\<lambda>i ps. if reason (pd_status i) = ''Error''
            then (let msg = message (pd_status i);
                      msg = (if msg = '''' then ''unexpected error'' else msg)
                  in add_to msg (pod_path (pd_pod i)) ps) else ps) items []
      in map (\<lambda>(msg, pods). errorf (''cannot delete '' @ msg @ '': '' @ Join '', '' pods)) (order failedPods))"

fun collect_pods :: "podFilter \<Rightarrow> pod list \<Rightarrow> podDelete list option" where
  "collect_pods f [] = Some []"
| "collect_pods f (p # ps) = do {
     status \<leftarrow> f p;
     rest \<leftarrow> collect_pods f ps;
     Some (if delete status then \<lparr>pd_pod = p, pd_status = status\<rparr> # rest else rest)
   }"

text \<open>
  The list, nil where the selector does not parse or the pods cannot be listed, and the errors,
  nil where there is none; \<open>pods\<close> is what the server lists for the selector and the node.
\<close>

definition GetPodsForDeletion ::
  "map_order \<Rightarrow> drain_view \<Rightarrow> Helper \<Rightarrow> gerror option \<Rightarrow> gerror + pod list \<Rightarrow>
     (podDelete list option \<times> gerror list) option" where
  "GetPodsForDeletion order V d parse_err pods =
     (case parse_err of
        Some err \<Rightarrow> Some (None, [err])
      | None \<Rightarrow>
          (case pods of
             Inl err \<Rightarrow> Some (None, [err])
           | Inr items \<Rightarrow> do {
               items \<leftarrow> collect_pods (filter_pod V d) items;
               (let errs = list_errors order items
                in if length errs > 0 then Some (Some items, errs) else Some (Some items, []))
             }))"

section \<open>The filter contract\<close>

text \<open>
  What a filter promises: a status that deletes is \<open>Okay\<close> or a warning, one that does not is never
  \<open>Okay\<close>.
\<close>

definition lawful_status :: "podDeleteStatus \<Rightarrow> bool" where
  "lawful_status s = (reason s \<in> (if delete s then {''Okay'', ''Warning''} else {''Skip'', ''Warning'', ''Error''}))"

lemma lawful_statuses [simp]:
  "lawful_status makePodDeleteStatusOkay" "lawful_status makePodDeleteStatusSkip"
  "lawful_status (makePodDeleteStatusWithWarning b m)" "lawful_status (makePodDeleteStatusWithError m)"
  by (simp_all add: lawful_status_def status_defs)

definition iterates_map :: "map_order \<Rightarrow> bool" where
  "iterates_map order \<longleftrightarrow> (\<forall>m. length (order m) = length m \<and> set (order m) = set m)"

lemma iterates_map_Nil: "iterates_map order \<Longrightarrow> order [] = []"
  by (metis iterates_map_def length_0_conv)

locale pod_filter =
  fixes f :: podFilter
  assumes lawful: "f p = Some s \<Longrightarrow> lawful_status s"
begin

lemma deletable_not_error: "f p = Some s \<Longrightarrow> delete s \<Longrightarrow> reason s \<noteq> ''Error''"
  using lawful [of p s] by (auto simp: lawful_status_def)

lemma collected:
  "collect_pods f ps = Some items \<Longrightarrow>
     map pd_pod items = filter (\<lambda>p. \<exists>s. f p = Some s \<and> delete s) ps \<and>
     (\<forall>i\<in>set items. f (pd_pod i) = Some (pd_status i) \<and> delete (pd_status i))"
  by (induction ps arbitrary: items) (auto split: Option.bind_splits if_splits)

lemma collected_no_errors:
  assumes "collect_pods f ps = Some items" and "iterates_map order"
  shows "list_errors order items = []"
proof -
  have "\<forall>i\<in>set items. reason (pd_status i) \<noteq> ''Error''"
    using collected [OF assms(1)] deletable_not_error by blast
  then have "fold (\<lambda>i ps. if reason (pd_status i) = ''Error''
      then (let msg = message (pd_status i); msg = (if msg = '''' then ''unexpected error'' else msg)
            in add_to msg (pod_path (pd_pod i)) ps) else ps) items m = m" for m
    by (induction items) auto
  then show ?thesis by (simp add: list_errors_def iterates_map_Nil [OF assms(2)])
qed

end

interpretation skip_deleted: pod_filter "skipDeletedFilter V d" for V d
  by unfold_locales (auto simp: skipDeletedFilter_def split: if_splits)

interpretation daemon_set: pod_filter "daemonSetFilter V d" for V d
  by unfold_locales (auto simp: daemonSetFilter_def split: option.splits if_splits)

interpretation mirror_pod: pod_filter "mirrorPodFilter V d" for V d
  by unfold_locales (auto simp: mirrorPodFilter_def split: if_splits)

lemma pvc_loop_lawful: "pvc_loop V p vols = Some (Some s) \<Longrightarrow> lawful_status s \<and> \<not> delete s"
  by (induction vols) (auto simp: status_defs lawful_status_def split: option.splits sum.splits if_splits)

interpretation local_storage: pod_filter "localStorageFilter V d" for V d
  by unfold_locales (auto simp: localStorageFilter_def dest: pvc_loop_lawful
      split: option.splits if_splits Option.bind_splits)

interpretation unreplicated: pod_filter "unreplicatedFilter V d" for V d
  by unfold_locales (auto simp: unreplicatedFilter_def split: if_splits)

lemma apply_filters_lawful:
  assumes "\<forall>f\<in>set fs. pod_filter f" and "fs \<noteq> [] \<or> lawful_status s0" and "apply_filters fs s0 p = Some s"
  shows "lawful_status s"
  using assms
proof (induction fs arbitrary: s0)
  case Nil
  then show ?case by simp
next
  case (Cons f fs)
  from Cons.prems(3) obtain s1 where s1: "f p = Some s1" by (auto split: Option.bind_splits)
  then have "lawful_status s1" using Cons.prems(1) pod_filter.lawful by auto
  with s1 Cons show ?case by (auto split: if_splits)
qed

interpretation all_filters: pod_filter "filter_pod V d" for V d
proof unfold_locales
  have "\<forall>f\<in>set (makeFilters V d). pod_filter f"
    by (simp add: makeFilters_def skip_deleted.pod_filter_axioms daemon_set.pod_filter_axioms
        mirror_pod.pod_filter_axioms local_storage.pod_filter_axioms unreplicated.pod_filter_axioms)
  then show "lawful_status s" if "filter_pod V d p = Some s" for p s
    using apply_filters_lawful [of "makeFilters V d" zero_status p s] that
    by (simp add: filter_pod_def makeFilters_def)
qed

section \<open>Which pods go\<close>

definition finished_pod :: "pod \<Rightarrow> bool" where
  "finished_pod p \<longleftrightarrow> phase p \<in> {''Succeeded'', ''Failed''}"

definition daemon_pod :: "pod \<Rightarrow> string option" where
  "daemon_pod p = (case controller p of None \<Rightarrow> None
     | Some r \<Rightarrow> if owner_kind r = ''DaemonSet'' then Some (owner_name r) else None)"

text \<open>A claim that can be read and whose class does not mention local storage.\<close>

definition remote_claim :: "drain_view \<Rightarrow> pod \<Rightarrow> string \<Rightarrow> bool" where
  "remote_claim V p claim = (case get_pvc_class V (pod_namespace p) claim of
     Inr (Some (Some class)) \<Rightarrow> \<not> Contains class ''local'' | _ \<Rightarrow> False)"

definition may_go :: "drain_view \<Rightarrow> Helper \<Rightarrow> pod \<Rightarrow> bool" where
  "may_go V d p \<longleftrightarrow>
     \<not> shouldSkipPod (view_now V) p (SkipWaitForDeleteTimeoutSeconds d) \<and>
     (daemon_pod p = None \<or> finished_pod p \<or> Force d \<and>
       (\<exists>ds err. daemon_pod p = Some ds \<and> get_daemon_set V (pod_namespace p) ds = Some err \<and> is_not_found err)) \<and>
     annotations p ''kubernetes.io/config.mirror'' = None \<and>
     list_all (\<lambda>v. case pvc_claim v of None \<Rightarrow> True | Some c \<Rightarrow> remote_claim V p c) (volumes p) \<and>
     (\<not> hasLocalStorage p \<or> finished_pod p \<or> DeleteLocalData d) \<and>
     (controller p \<noteq> None \<or> finished_pod p \<or> Force d)"

lemma pvc_loop_None: "pvc_loop V p vols = Some None \<longleftrightarrow>
    list_all (\<lambda>v. case pvc_claim v of None \<Rightarrow> True | Some c \<Rightarrow> remote_claim V p c) vols"
  by (induction vols) (auto simp: remote_claim_def split: option.splits sum.splits if_splits)

lemma filter_deletes:
  "(\<exists>s. skipDeletedFilter V d p = Some s \<and> delete s) \<longleftrightarrow>
     \<not> shouldSkipPod (view_now V) p (SkipWaitForDeleteTimeoutSeconds d)"
  "(\<exists>s. daemonSetFilter V d p = Some s \<and> delete s) \<longleftrightarrow>
     (daemon_pod p = None \<or> finished_pod p \<or> Force d \<and>
       (\<exists>ds err. daemon_pod p = Some ds \<and> get_daemon_set V (pod_namespace p) ds = Some err \<and> is_not_found err))"
  "(\<exists>s. mirrorPodFilter V d p = Some s \<and> delete s) \<longleftrightarrow> annotations p ''kubernetes.io/config.mirror'' = None"
  "(\<exists>s. localStorageFilter V d p = Some s \<and> delete s) \<longleftrightarrow>
     list_all (\<lambda>v. case pvc_claim v of None \<Rightarrow> True | Some c \<Rightarrow> remote_claim V p c) (volumes p) \<and>
     (\<not> hasLocalStorage p \<or> finished_pod p \<or> DeleteLocalData d)"
  "(\<exists>s. unreplicatedFilter V d p = Some s \<and> delete s) \<longleftrightarrow> controller p \<noteq> None \<or> finished_pod p \<or> Force d"
      apply (simp add: skipDeletedFilter_def status_defs)
     apply (auto simp: daemonSetFilter_def daemon_pod_def finished_pod_def status_defs split: option.splits if_splits) [1]
    apply (simp add: mirrorPodFilter_def status_defs)
   apply (auto simp: localStorageFilter_def finished_pod_def status_defs pvc_loop_None [symmetric]
      dest: pvc_loop_lawful split: option.splits if_splits Option.bind_splits) [1]
  apply (auto simp: unreplicatedFilter_def finished_pod_def status_defs)
  done

lemma apply_filters_deletes:
  "fs \<noteq> [] \<Longrightarrow> (\<exists>s. apply_filters fs s0 p = Some s \<and> delete s) \<longleftrightarrow>
     list_all (\<lambda>f. \<exists>s. f p = Some s \<and> delete s) fs"
proof (induction fs arbitrary: s0)
  case Nil
  then show ?case by simp
next
  case (Cons f fs)
  show ?case
  proof (cases "\<exists>s. f p = Some s \<and> delete s")
    case True
    then obtain s where "f p = Some s" "delete s" by blast
    with Cons show ?thesis by (cases "fs = []") auto
  qed (auto split: Option.bind_splits if_splits)
qed

lemma filter_pod_deletes: "(\<exists>s. filter_pod V d p = Some s \<and> delete s) \<longleftrightarrow> may_go V d p"
proof -
  have "makeFilters V d \<noteq> []" by (simp add: makeFilters_def)
  then show ?thesis
    unfolding filter_pod_def apply_filters_deletes [OF \<open>makeFilters V d \<noteq> []\<close>]
    by (simp only: makeFilters_def list.pred_inject filter_deletes may_go_def simp_thms conj_assoc)
qed

lemma filter_pod_status:
  assumes "filter_pod V d p = Some s" and "delete s"
  shows "s = (if controller p = None \<and> \<not> finished_pod p
      then makePodDeleteStatusWithWarning True unmanagedWarning else makePodDeleteStatusOkay)"
  using assms
  by (auto simp: filter_pod_def makeFilters_def unreplicatedFilter_def finished_pod_def status_defs
      split: Option.bind_splits if_splits)

text \<open>
  C1. The pods that \<open>GetPodsForDeletion\<close> returns are, in the order of the server's list, exactly
  those that may go: not already terminating for too long, no mirror pod, no pod of a living
  daemon set unless it has finished, none with a volume claim of local or unknown class, none with
  local data unless it has finished or \<open>DeleteLocalData\<close> is set, and none without a controller
  unless it has finished or \<open>Force\<close> is set.
\<close>

theorem GetPodsForDeletion_exact:
  assumes "GetPodsForDeletion order V d None (Inr pods) = Some (Some items, errs)"
  shows "list_Pods items = filter (may_go V d) pods"
proof -
  have "collect_pods (filter_pod V d) pods = Some items"
    using assms by (auto simp: GetPodsForDeletion_def Let_def split: Option.bind_splits if_splits)
  from all_filters.collected [OF this] show ?thesis
    by (simp add: list_Pods_def filter_pod_deletes filter_id_conv)
qed

definition example_view :: drain_view where
  "example_view = \<lparr>view_now = 0, get_daemon_set = (\<lambda>_ _. None), get_pvc_class = (\<lambda>_ _. Inr (Some None))\<rparr>"

definition example_helper :: Helper where
  "example_helper = \<lparr>Force = True, GracePeriodSeconds = -1, IgnoreAllDaemonSets = False, Timeout = 0,
     DeleteLocalData = False, PodSelector = '''', DisableEviction = False,
     SkipWaitForDeleteTimeoutSeconds = 0\<rparr>"

definition drained_pod :: "string \<Rightarrow> owner_ref option \<Rightarrow> pod" where
  "drained_pod n c = \<lparr>pod_name = n, pod_namespace = ''ns'', uid = n, labels = Map.empty,
     annotations = Map.empty, deletion_timestamp = None, owner_references = [], controller = c,
     phase = ''Running'', conditions = [], init_container_statuses = [], container_statuses = [],
     volumes = [], priority = None, node_name = ''node''\<rparr>"

lemmas example_drain_defs = example_view_def example_helper_def drained_pod_def

definition example_pods :: "pod list" where
  "example_pods = [drained_pod ''lonely'' None, drained_pod ''agent'' (Some \<lparr>owner_kind = ''DaemonSet'',
     owner_name = ''ds''\<rparr>), drained_pod ''web'' (Some \<lparr>owner_kind = ''ReplicaSet'', owner_name = ''rs''\<rparr>)]"

definition example_list :: "podDelete list" where
  "example_list = [\<lparr>pd_pod = drained_pod ''lonely'' None,
       pd_status = makePodDeleteStatusWithWarning True unmanagedWarning\<rparr>,
     \<lparr>pd_pod = drained_pod ''web'' (Some \<lparr>owner_kind = ''ReplicaSet'', owner_name = ''rs''\<rparr>),
       pd_status = makePodDeleteStatusOkay\<rparr>]"

lemma example_GetPodsForDeletion:
  "GetPodsForDeletion (\<lambda>m. m) example_view example_helper None (Inr example_pods)
     = Some (Some example_list, [])"
  by (simp add: GetPodsForDeletion_def example_pods_def example_list_def example_drain_defs
      filter_pod_def makeFilters_def skipDeletedFilter_def shouldSkipPod_def daemonSetFilter_def
      mirrorPodFilter_def localStorageFilter_def hasLocalStorage_def unreplicatedFilter_def
      status_defs list_errors_def)

lemma GetPodsForDeletion_exact_witness:
  "list_Pods example_list = filter (may_go example_view example_helper) example_pods"
  by (rule GetPodsForDeletion_exact [OF example_GetPodsForDeletion])

text \<open>
  C12. \<open>GetPodsForDeletion\<close> never reports the pods that the filters reject with an error: they are
  dropped from the list before \<open>errors\<close> looks for them. The only errors it returns are those of the
  selector and of listing the pods.
\<close>

theorem GetPodsForDeletion_reports_no_pod:
  assumes "iterates_map order" and "GetPodsForDeletion order V d None (Inr pods) = Some (list, errs)"
  shows "errs = []"
  using assms all_filters.collected_no_errors [OF _ assms(1)]
  by (auto simp: GetPodsForDeletion_def Let_def split: Option.bind_splits if_splits)

lemma GetPodsForDeletion_reports_no_pod_witness:
  "\<exists>list errs. GetPodsForDeletion (\<lambda>m. m) example_view example_helper None (Inr example_pods)
     = Some (list, errs) \<and> errs = []"
  using GetPodsForDeletion_reports_no_pod [OF _ example_GetPodsForDeletion] example_GetPodsForDeletion
  by (simp add: iterates_map_def)

text \<open>
  Of the warnings of the filters only one reaches the caller, that of pods without a controller:
  the warnings about local storage and about orphaned daemon set pods are always replaced by the
  verdict of the last filter.
\<close>

theorem GetPodsForDeletion_warnings:
  assumes "GetPodsForDeletion order V d None (Inr pods) = Some (Some items, errs)"
    and "i \<in> set items"
  shows "if controller (pd_pod i) = None \<and> \<not> finished_pod (pd_pod i)
    then reason (pd_status i) = ''Warning'' \<and> message (pd_status i) = unmanagedWarning
    else reason (pd_status i) = ''Okay'' \<and> message (pd_status i) = ''''"
proof -
  have "collect_pods (filter_pod V d) pods = Some items"
    using assms(1) by (auto simp: GetPodsForDeletion_def Let_def split: Option.bind_splits if_splits)
  with assms(2) have "filter_pod V d (pd_pod i) = Some (pd_status i)" "delete (pd_status i)"
    using all_filters.collected by blast+
  from filter_pod_status [OF this] show ?thesis by (auto simp: status_defs)
qed

lemma GetPodsForDeletion_warnings_witness:
  "message (pd_status (hd example_list)) = unmanagedWarning"
  using GetPodsForDeletion_warnings [OF example_GetPodsForDeletion, of "hd example_list"]
  by (simp add: example_list_def drained_pod_def finished_pod_def)

section \<open>Calls to the server\<close>

text \<open>
  The calls, also those of \<open>evict.go\<close> and \<open>unsafe.go\<close>, which share the log. \<open>Done\<close> is the
  callback \<open>OnPodDeletedOrEvicted\<close> and \<open>PrintErr\<close> a line on \<open>ErrOut\<close>. A created or updated
  object is given by the fields the code sets.
\<close>

record pvc =
  pvc_name :: string
  storage_class :: "string option"
  volume_name :: string
  pvc_finalizers :: "string list"
  pvc_annotations :: "(string \<times> string) list"
  pvc_resource_version :: string

record volume_attachment =
  va_name :: string
  va_node :: string
  va_finalizers :: "string list"

datatype drain_call =
    ServerGroups
  | ServerResources string
  | DeletePodCall string string "int option"
  | EvictPodCall string string string "int option"
  | GetPodCall string string
  | Done string string bool
  | PatchNode string bool
  | UpdateNode string bool
  | PrintErr string
  | GetReplicaSet string string
  | ScaleReplicaSet string string int
  | ExecCall string string
  | GetPVC string string
  | DeletePVC string string
  | CreatePVC string pvc
  | ListPods string
  | ListVolumeAttachments
  | UpdateVolumeAttachment volume_attachment
  | DeleteVolumeAttachment string
  | GetNode string
  | GetNamespace string
  | FinalizeNamespace string "string list"
  | DeleteNamespace string

record api_group =
  group_name :: string
  preferred_version :: string

record api_resource =
  res_name :: string
  res_kind :: string

record drain_server =
  srv_groups :: "drain_call list \<Rightarrow> gerror + api_group list"
  srv_resources :: "drain_call list \<Rightarrow> gerror + api_resource list"
  srv_delete :: "drain_call list \<Rightarrow> string \<Rightarrow> string \<Rightarrow> gerror option"
  srv_get :: "drain_call list \<Rightarrow> string \<Rightarrow> string \<Rightarrow> pod option \<times> gerror option"
  srv_patch :: "drain_call list \<Rightarrow> gerror option"
  srv_now :: "drain_call list \<Rightarrow> int"
  srv_ctx_done :: "drain_call list \<Rightarrow> bool"

type_synonym 'a drain = "(drain_call list, 'a) state"

definition EvictionKind :: string where "EvictionKind = ''Eviction''"
definition EvictionSubresource :: string where "EvictionSubresource = ''pods/eviction''"

definition find_policy :: "api_group list \<Rightarrow> string option" where
  "find_policy groups = map_option preferred_version (find (\<lambda>g. group_name g = ''policy'') groups)"

definition CheckEvictionSupport :: "drain_server \<Rightarrow> (string \<times> gerror option) drain" where
  "CheckEvictionSupport S = do {
     groupList \<leftarrow> ask ServerGroups (srv_groups S);
     (case groupList of
        Inl err \<Rightarrow> ret ('''', Some err)
      | Inr groups \<Rightarrow>
          (case find_policy groups of
             None \<Rightarrow> ret ('''', None)
           | Some policyGroupVersion \<Rightarrow> do {
               resourceList \<leftarrow> ask (ServerResources ''v1'') (srv_resources S);
               (case resourceList of
                  Inl err \<Rightarrow> ret ('''', Some err)
                | Inr resources \<Rightarrow>
                    if list_ex (\<lambda>r. res_name r = EvictionSubresource \<and> res_kind r = EvictionKind) resources
                    then ret (policyGroupVersion, None)
                    else ret ('''', None))
             }))
   }"

definition makeDeleteOptions :: "Helper \<Rightarrow> int option" where
  "makeDeleteOptions d = (if GracePeriodSeconds d \<ge> 0 then Some (GracePeriodSeconds d) else None)"

definition DeletePod :: "drain_server \<Rightarrow> Helper \<Rightarrow> pod \<Rightarrow> gerror option drain" where
  "DeletePod S d p =
     ask (DeletePodCall (pod_namespace p) (pod_name p) (makeDeleteOptions d))
       (\<lambda>log. srv_delete S log (pod_namespace p) (pod_name p))"

text \<open>The call that \<open>EvictPod\<close> makes; its answers drive the goroutines of \<open>evictPods\<close>.\<close>

definition EvictPod :: "Helper \<Rightarrow> pod \<Rightarrow> string \<Rightarrow> drain_call" where
  "EvictPod d p policyGroupVersion =
     EvictPodCall (pod_namespace p) (pod_name p) policyGroupVersion (makeDeleteOptions d)"

text \<open>
  One round of \<open>waitForDelete\<close>: the pods still there, an error, or \<open>None\<close> for the panic on a nil
  pod without an error. \<open>Done\<close> marks where \<open>onDoneFn\<close> is called if it is set.
\<close>

fun pending_pods :: "drain_server \<Rightarrow> int \<Rightarrow> bool \<Rightarrow> pod list \<Rightarrow> (gerror + pod list) option drain" where
  "pending_pods S skip usingEviction [] = ret (Some (Inr []))"
| "pending_pods S skip usingEviction (p # ps) = do {
     answer \<leftarrow> ask (GetPodCall (pod_namespace p) (pod_name p))
       (\<lambda>log. (srv_get S log (pod_namespace p) (pod_name p), srv_now S log));
     (case answer of ((q, err), now) \<Rightarrow>
        if not_found_err err \<or> (case q of None \<Rightarrow> False | Some q \<Rightarrow> uid q \<noteq> uid p)
        then do {
          _ \<leftarrow> tell (Done (pod_namespace p) (pod_name p) usingEviction);
          pending_pods S skip usingEviction ps
        }
        else (case err of
          Some e \<Rightarrow> ret (Some (Inl e))
        | None \<Rightarrow>
            (case q of
               None \<Rightarrow> ret None
             | Some q \<Rightarrow>
                 if shouldSkipPod now q skip then pending_pods S skip usingEviction ps
                 else do {
                   rest \<leftarrow> pending_pods S skip usingEviction ps;
                   ret (map_option (map_sum (\<lambda>e. e) (\<lambda>pending. p # pending)) rest)
                 })))
   }"

text \<open>
  \<open>waitForDelete\<close>: \<open>wait.PollImmediate\<close> runs the round at once and then once per tick;
  \<open>ticks\<close> is the number of ticks before the timeout, \<open>timeout_err\<close> its error, and \<open>gtxt\<close> the global
  timeout as \<open>fmt\<close> prints a duration.
\<close>

fun waitForDelete ::
  "drain_server \<Rightarrow> int \<Rightarrow> bool \<Rightarrow> string \<Rightarrow> gerror \<Rightarrow> nat \<Rightarrow> pod list \<Rightarrow> (pod list \<times> gerror option) option drain" where
  "waitForDelete S skip usingEviction gtxt timeout_err ticks pods = do {
     r \<leftarrow> pending_pods S skip usingEviction pods;
     (case r of
        None \<Rightarrow> ret None
      | Some (Inl err) \<Rightarrow> ret (Some (pods, Some err))
      | Some (Inr []) \<Rightarrow> ret (Some ([], None))
      | Some (Inr pending) \<Rightarrow> do {
          done \<leftarrow> State (\<lambda>log. (srv_ctx_done S log, log));
          if done then ret (Some (pending, Some (errorf (''global timeout reached: '' @ gtxt))))
          else (case ticks of
            0 \<Rightarrow> ret (Some (pending, Some timeout_err))
          | Suc n \<Rightarrow> waitForDelete S skip usingEviction gtxt timeout_err n pending)
        })
   }"

declare waitForDelete.simps [simp del]

fun delete_all :: "drain_server \<Rightarrow> Helper \<Rightarrow> pod list \<Rightarrow> gerror option drain" where
  "delete_all S d [] = ret None"
| "delete_all S d (p # ps) = do {
     err \<leftarrow> DeletePod S d p;
     if err \<noteq> None \<and> \<not> not_found_err err then ret err else delete_all S d ps
   }"

definition deletePods ::
  "drain_server \<Rightarrow> Helper \<Rightarrow> string \<Rightarrow> gerror \<Rightarrow> nat \<Rightarrow> pod list \<Rightarrow> gerror option option drain" where
  "deletePods S d gtxt timeout_err ticks pods = do {
     err \<leftarrow> delete_all S d pods;
     if err \<noteq> None then ret (Some err)
     else do {
       r \<leftarrow> waitForDelete S (SkipWaitForDeleteTimeoutSeconds d) False gtxt timeout_err ticks pods;
       ret (map_option snd r)
     }
   }"

text \<open>\<open>evict\<close> is the run of \<open>evictPods\<close>, which another theory models.\<close>

definition DeleteOrEvictPods ::
  "drain_server \<Rightarrow> Helper \<Rightarrow> (pod list \<Rightarrow> string \<Rightarrow> gerror option option drain) \<Rightarrow> string \<Rightarrow> gerror \<Rightarrow> nat \<Rightarrow>
     pod list \<Rightarrow> gerror option option drain" where
  "DeleteOrEvictPods S d evict gtxt timeout_err ticks pods =
     (if pods = [] then ret (Some None)
      else if \<not> DisableEviction d then do {
        (policyGroupVersion, err) \<leftarrow> CheckEvictionSupport S;
        if err \<noteq> None then ret (Some err)
        else if length policyGroupVersion > 0 then evict pods policyGroupVersion
        else deletePods S d gtxt timeout_err ticks pods
      }
      else deletePods S d gtxt timeout_err ticks pods)"

definition RunNodeDrain where
  "RunNodeDrain aggregate order V S d evict gtxt timeout_err ticks parse_err pods =
     (case GetPodsForDeletion order V d parse_err pods of
        None \<Rightarrow> ret None
      | Some (items, errs) \<Rightarrow>
          if errs \<noteq> [] then ret (Some (aggregate errs))
          else (case items of
            None \<Rightarrow> ret None
          | Some items \<Rightarrow> do {
              let warnings = Warnings order items;
              _ \<leftarrow> (if warnings \<noteq> '''' then tell (PrintErr (''WARNING: '' @ warnings @ ''\<newline>'')) else ret ());
              DeleteOrEvictPods S d evict gtxt timeout_err ticks (list_Pods items)
            }))"

section \<open>Cordon\<close>

text \<open>
  The helper holds a pointer to the node; the functions return the node after the call. The
  patch is nil where it could not be created.
\<close>

record CordonHelper =
  ch_node :: node
  desired :: bool

definition NewCordonHelper :: "node \<Rightarrow> CordonHelper" where
  "NewCordonHelper n = \<lparr>ch_node = n, desired = False\<rparr>"

definition UpdateIfRequired :: "CordonHelper \<Rightarrow> bool \<Rightarrow> CordonHelper \<times> bool" where
  "UpdateIfRequired c want =
     (let c = c\<lparr>desired := want\<rparr> in (c, unschedulable (ch_node c) \<noteq> desired c))"

definition PatchOrReplace ::
  "drain_server \<Rightarrow> (node \<Rightarrow> gerror option) \<Rightarrow> (node \<Rightarrow> node \<Rightarrow> gerror option) \<Rightarrow> CordonHelper \<Rightarrow>
     (CordonHelper \<times> gerror option \<times> gerror option) drain" where
  "PatchOrReplace S marshal_err patch_err c =
     (case marshal_err (ch_node c) of
        Some err \<Rightarrow> ret (c, Some err, None)
      | None \<Rightarrow>
          let old = ch_node c; new = old\<lparr>unschedulable := desired c\<rparr>; c = c\<lparr>ch_node := new\<rparr>
          in case marshal_err new of
               Some err \<Rightarrow> ret (c, Some err, None)
             | None \<Rightarrow> do {
                 let patchErr = patch_err old new;
                 err \<leftarrow> ask ((if patchErr = None then PatchNode else UpdateNode) (n_name new) (desired c))
                   (srv_patch S);
                 ret (c, err, patchErr)
               })"

definition RunCordonOrUncordon where
  "RunCordonOrUncordon S marshal_err patch_err n want =
     (let (c, updateRequired) = UpdateIfRequired (NewCordonHelper n) want
      in if \<not> updateRequired then ret (ch_node c, None)
         else do {
           (c, err, patchErr) \<leftarrow> PatchOrReplace S marshal_err patch_err c;
           ret (ch_node c, if patchErr \<noteq> None then patchErr else err)
         })"

section \<open>Deleting and waiting\<close>

text \<open>
  What the answer to the question for a pod says: the pod is gone, because there is none of its name
  or only another one with another UID; or it has been terminating for longer than the time after
  which it is skipped; or the question failed, with an object of another UID beside the error. The
  last tells nothing of the pod, but the code takes it for the first. One of the three releases the
  pod from the wait.
\<close>

definition gone :: "drain_server \<Rightarrow> drain_call list \<Rightarrow> pod \<Rightarrow> bool" where
  "gone S log p \<longleftrightarrow> (case srv_get S log (pod_namespace p) (pod_name p) of (q, err) \<Rightarrow>
     not_found_err err \<or> (err = None \<and> (case q of None \<Rightarrow> False | Some q \<Rightarrow> uid q \<noteq> uid p)))"

definition overdue :: "drain_server \<Rightarrow> int \<Rightarrow> drain_call list \<Rightarrow> pod \<Rightarrow> bool" where
  "overdue S skip log p \<longleftrightarrow> (case srv_get S log (pod_namespace p) (pod_name p) of (q, err) \<Rightarrow>
     err = None \<and> (case q of None \<Rightarrow> False | Some q \<Rightarrow> uid q = uid p \<and> shouldSkipPod (srv_now S log) q skip))"

definition read_failed :: "drain_server \<Rightarrow> drain_call list \<Rightarrow> pod \<Rightarrow> bool" where
  "read_failed S log p \<longleftrightarrow> (case srv_get S log (pod_namespace p) (pod_name p) of (q, err) \<Rightarrow>
     err \<noteq> None \<and> \<not> not_found_err err \<and> (case q of None \<Rightarrow> False | Some q \<Rightarrow> uid q \<noteq> uid p))"

definition released :: "drain_server \<Rightarrow> int \<Rightarrow> drain_call list \<Rightarrow> pod \<Rightarrow> bool" where
  "released S skip log p \<longleftrightarrow> gone S log p \<or> overdue S skip log p \<or> read_failed S log p"

lemma released_iff:
  "released S skip log p \<longleftrightarrow> (case srv_get S log (pod_namespace p) (pod_name p) of (q, err) \<Rightarrow>
     not_found_err err \<or> (case q of None \<Rightarrow> False | Some q \<Rightarrow> uid q \<noteq> uid p
       \<or> (err = None \<and> shouldSkipPod (srv_now S log) q skip)))"
  by (auto simp: released_def gone_def overdue_def read_failed_def split: prod.split option.split)

lemma map_sum_Inr: "map_sum f g z = Inr r \<longleftrightarrow> (\<exists>x. z = Inr x \<and> r = g x)"
  by (cases z) auto

lemma extends_pending_pods: "extends (pending_pods S skip u ps)"
  by (induction ps) (simp_all only: pending_pods.simps, (intro extends_rules | assumption)+)

lemma extends_waitForDelete: "extends (waitForDelete S skip u gtxt terr ticks ps)"
proof (induction ticks arbitrary: ps)
  case 0
  show ?case
    unfolding waitForDelete.simps [of _ _ _ _ _ 0] nat.case
    by (intro extends_rules extends_pending_pods)
next
  case (Suc n)
  show ?case
    unfolding waitForDelete.simps [of _ _ _ _ _ "Suc n"] nat.case
    by (intro extends_rules extends_pending_pods Suc)
qed

text \<open>The pod was asked for after a log and before another, and the answer says \<open>says\<close>.\<close>

definition answered :: "(drain_call list \<Rightarrow> pod \<Rightarrow> bool) \<Rightarrow> drain_call list \<Rightarrow> drain_call list \<Rightarrow> pod \<Rightarrow> bool" where
  "answered says log log' p \<longleftrightarrow>
     (\<exists>at. prefix log at \<and> prefix (at @ [GetPodCall (pod_namespace p) (pod_name p)]) log' \<and> says at p)"

definition wait_over :: "drain_server \<Rightarrow> int \<Rightarrow> drain_call list \<Rightarrow> drain_call list \<Rightarrow> pod \<Rightarrow> bool" where
  "wait_over S skip = answered (released S skip)"

lemma answered_mono:
  "answered says log log' p \<Longrightarrow> prefix log0 log \<Longrightarrow> prefix log' log1 \<Longrightarrow> answered says log0 log1 p"
  unfolding answered_def by (meson prefix_order.order_trans)

lemma wait_over_mono:
  "wait_over S skip log log' p \<Longrightarrow> prefix log0 log \<Longrightarrow> prefix log' log1 \<Longrightarrow> wait_over S skip log0 log1 p"
  unfolding wait_over_def by (rule answered_mono)

lemma wait_over_cases:
  "wait_over S skip log log' p \<longleftrightarrow> answered (gone S) log log' p \<or> answered (overdue S skip) log log' p
     \<or> answered (read_failed S) log log' p"
  unfolding wait_over_def answered_def released_def by blast

lemma pending_pods_released:
  assumes "run_state (pending_pods S skip u ps) log = (Some (Inr rest), log')"
  shows "set rest \<subseteq> set ps \<and> (\<forall>p\<in>set ps - set rest. wait_over S skip log log' p)"
  using assms
proof (induction ps arbitrary: log rest log')
  case Nil
  then show ?case by simp
next
  case (Cons p ps)
  let ?asked = "log @ [GetPodCall (pod_namespace p) (pod_name p)]"
  obtain q err where a: "srv_get S log (pod_namespace p) (pod_name p) = (q, err)" by (cases "srv_get S log (pod_namespace p) (pod_name p)")
  show ?case
  proof (cases "released S skip log p")
    case True
    then obtain l where l: "run_state (pending_pods S skip u ps) l = (Some (Inr rest), log')" and asked: "prefix ?asked l"
      using Cons.prems by (auto simp: a released_iff split: option.splits if_splits)
    have "prefix l log'" by (rule extendsD [OF extends_pending_pods l])
    with asked True have "wait_over S skip log log' p"
      unfolding wait_over_def answered_def by (meson prefix_order.order_refl prefix_order.order_trans)
    moreover have "prefix log l" using asked by (metis prefix_order.order_trans prefixI)
    ultimately show ?thesis
      using Cons.IH [OF l] wait_over_mono [of S skip l log' _ log log'] by auto
  next
    case False
    then obtain r l where l: "run_state (pending_pods S skip u ps) l = (Some (Inr r), log')" "rest = p # r" "prefix log l"
      using Cons.prems
      by (auto simp: a released_iff map_sum_Inr split: option.splits if_splits prod.splits)
    with Cons.IH [OF l(1)] show ?thesis using wait_over_mono [of S skip l log' _ log log'] by auto
  qed
qed

lemma waitForDelete_released:
  assumes "run_state (waitForDelete S skip u gtxt terr ticks ps) log = (Some (rest, None), log')"
  shows "rest = [] \<and> (\<forall>p\<in>set ps. wait_over S skip log log' p)"
  using assms
proof (induction ticks arbitrary: ps log)
  case 0
  then obtain pend l where r: "run_state (pending_pods S skip u ps) log = (Some (Inr pend), l)"
    by (auto simp: waitForDelete.simps [of _ _ _ _ _ 0] split: option.splits sum.splits prod.splits)
  with 0 show ?case
    using pending_pods_released [OF r]
    by (auto simp: waitForDelete.simps [of _ _ _ _ _ 0] split: list.splits if_splits)
next
  case (Suc n)
  then obtain pend l where r: "run_state (pending_pods S skip u ps) log = (Some (Inr pend), l)"
    by (auto simp: waitForDelete.simps [of _ _ _ _ _ "Suc n"] split: option.splits sum.splits prod.splits)
  show ?case
  proof (cases pend)
    case Nil
    with Suc.prems r show ?thesis
      using pending_pods_released [OF r] by (auto simp: waitForDelete.simps [of _ _ _ _ _ "Suc n"])
  next
    case (Cons a as)
    with Suc.prems r have w: "run_state (waitForDelete S skip u gtxt terr n pend) l = (Some (rest, None), log')"
      by (auto simp: waitForDelete.simps [of _ _ _ _ _ "Suc n"] split: if_splits)
    have before: "prefix log l" and after: "prefix l log'"
      using extendsD [OF extends_pending_pods r] extendsD [OF extends_waitForDelete w] .
    show ?thesis
    proof (intro conjI ballI)
      show "rest = []" using Suc.IH [OF w] by blast
      fix p assume "p \<in> set ps"
      then show "wait_over S skip log log' p"
        using Suc.IH [OF w] pending_pods_released [OF r] before after
          wait_over_mono [of S skip l log' p log log'] wait_over_mono [of S skip log l p log log']
        by (cases "p \<in> set pend") auto
    qed
  qed
qed

lemma delete_all_calls:
  assumes "run_state (delete_all S d ps) log = (None, log')"
  shows "log' = log @ map (\<lambda>p. DeletePodCall (pod_namespace p) (pod_name p) (makeDeleteOptions d)) ps"
  using assms
proof (induction ps arbitrary: log)
  case Nil
  then show ?case by simp
next
  case (Cons p ps)
  then have "run_state (delete_all S d ps)
      (log @ [DeletePodCall (pod_namespace p) (pod_name p) (makeDeleteOptions d)]) = (None, log')"
    by (simp add: DeletePod_def split: if_splits)
  from Cons.IH [OF this] show ?case by simp
qed

lemma delete_all_accepted:
  assumes "run_state (delete_all S d ps) log = (None, log')" and "i < length ps"
  shows "\<forall>e. srv_delete S (log @ map (\<lambda>p. DeletePodCall (pod_namespace p) (pod_name p) (makeDeleteOptions d)) (take i ps))
      (pod_namespace (ps ! i)) (pod_name (ps ! i)) = Some e \<longrightarrow> is_not_found e"
  using assms
proof (induction ps arbitrary: log i)
  case (Cons p ps)
  have next_one: "run_state (delete_all S d ps)
      (log @ [DeletePodCall (pod_namespace p) (pod_name p) (makeDeleteOptions d)]) = (None, log')"
    using Cons.prems(1) by (simp add: DeletePod_def split: if_splits)
  show ?case
  proof (cases i)
    case 0
    with Cons.prems(1) show ?thesis by (auto simp: DeletePod_def split: if_splits)
  next
    case (Suc j)
    with Cons.IH [OF next_one, of j] Cons.prems(2) show ?thesis by simp
  qed
qed simp

text \<open>
  C13. When \<open>deletePods\<close> succeeds, it has sent a delete call for every pod, in order and with the
  configured grace period, before anything else; each was accepted or answered that the pod is not
  found; and after them every pod was asked for until an answer released it: the pod was not found
  or replaced by one with another UID, or terminating for longer than the configured time, or the
  question failed with an object of another UID beside the error. The server that always answers
  with such an error, an empty object as the generated clients return it, is the case of a property
  below.
\<close>

theorem deletePods_success:
  assumes "run_state (deletePods S d gtxt terr ticks pods) log = (Some None, log')"
  shows "prefix (log @ map (\<lambda>p. DeletePodCall (pod_namespace p) (pod_name p) (makeDeleteOptions d)) pods) log'
    \<and> (\<forall>i<length pods. \<forall>e. srv_delete S
          (log @ map (\<lambda>p. DeletePodCall (pod_namespace p) (pod_name p) (makeDeleteOptions d)) (take i pods))
          (pod_namespace (pods ! i)) (pod_name (pods ! i)) = Some e \<longrightarrow> is_not_found e)
    \<and> (\<forall>p\<in>set pods.
        let deleted = log @ map (\<lambda>p. DeletePodCall (pod_namespace p) (pod_name p) (makeDeleteOptions d)) pods
        in answered (gone S) deleted log' p
           \<or> answered (overdue S (SkipWaitForDeleteTimeoutSeconds d)) deleted log' p
           \<or> answered (read_failed S) deleted log' p)"
proof -
  obtain l rest where l: "run_state (delete_all S d pods) log = (None, l)"
    and w: "run_state (waitForDelete S (SkipWaitForDeleteTimeoutSeconds d) False gtxt terr ticks pods) l
      = (Some (rest, None), log')"
    using assms by (auto simp: deletePods_def split: prod.splits if_splits)
  show ?thesis
    using delete_all_calls [OF l] delete_all_accepted [OF l] extendsD [OF extends_waitForDelete w]
      waitForDelete_released [OF w]
    by (simp add: wait_over_cases)
qed

text \<open>A server whose client returns, as the generated clients do, an empty object beside an error.\<close>

definition failing_server :: drain_server where
  "failing_server = \<lparr>srv_groups = (\<lambda>_. Inr []), srv_resources = (\<lambda>_. Inr []), srv_delete = (\<lambda>_ _ _. None),
     srv_get = (\<lambda>_ _ _. (Some (drained_pod '''' None), Some (errorf ''etcd is unavailable''))),
     srv_patch = (\<lambda>_. None), srv_now = (\<lambda>_. 0), srv_ctx_done = (\<lambda>_. False)\<rparr>"

text \<open>A server that still has a pod when it is first asked for it, and then no longer.\<close>

definition slow_server :: drain_server where
  "slow_server = failing_server\<lparr>srv_get := (\<lambda>log ns n.
     if GetPodCall ns n \<in> set log then (Some (drained_pod '''' None), Some ((errorf ''gone'')\<lparr>is_not_found := True\<rparr>))
     else (Some (drained_pod n None), None))\<rparr>"

lemma deletePods_success_witness:
  "\<exists>log'. run_state (deletePods slow_server example_helper '''' (errorf ''timeout'') 1
      [drained_pod ''lonely'' None]) [] = (Some None, log')
    \<and> prefix [DeletePodCall ''ns'' ''lonely'' None] log'
    \<and> answered (gone slow_server) [DeletePodCall ''ns'' ''lonely'' None] log' (drained_pod ''lonely'' None)"
proof -
  let ?p = "drained_pod ''lonely'' None"
  obtain log' where run: "run_state (deletePods slow_server example_helper '''' (errorf ''timeout'') 1 [?p]) []
      = (Some None, log')"
    by (simp add: deletePods_def DeletePod_def makeDeleteOptions_def waitForDelete.simps shouldSkipPod_def
        slow_server_def failing_server_def example_drain_defs)
  have "\<not> overdue slow_server (SkipWaitForDeleteTimeoutSeconds example_helper) at ?p"
    and "\<not> read_failed slow_server at ?p" for at
    by (simp_all add: overdue_def read_failed_def shouldSkipPod_def slow_server_def failing_server_def
        example_drain_defs)
  then have "\<not> answered (overdue slow_server (SkipWaitForDeleteTimeoutSeconds example_helper)) l log' ?p"
    and "\<not> answered (read_failed slow_server) l log' ?p" for l
    by (simp_all add: answered_def)
  with run deletePods_success [OF run] show ?thesis
    by (simp add: makeDeleteOptions_def example_drain_defs)
qed

text \<open>
  C27. A client that returns an empty pod beside its error, as the generated clients do, makes the
  wait succeed at once: whatever the error, each pod counts as deleted because its UID is not the
  empty one.
\<close>

theorem waitForDelete_any_error_is_gone:
  assumes "\<And>log ns name. \<exists>q e. srv_get S log ns name = (Some q, Some e) \<and> uid q = ''''"
    and "\<forall>p\<in>set ps. uid p \<noteq> ''''"
  shows "fst (run_state (waitForDelete S skip u gtxt terr ticks ps) log) = Some ([], None)"
proof -
  have "fst (run_state (pending_pods S skip u ps) log) = Some (Inr [])" for log
    using assms(2)
  proof (induction ps arbitrary: log)
    case Nil
    then show ?case by simp
  next
    case (Cons p ps)
    obtain q e where "srv_get S log (pod_namespace p) (pod_name p) = (Some q, Some e)" "uid q = ''''"
      using assms(1) by blast
    moreover have "[] \<noteq> uid p" using Cons.prems by auto
    ultimately show ?case using Cons by simp
  qed
  then obtain l where "run_state (pending_pods S skip u ps) log = (Some (Inr []), l)"
    by (metis prod.collapse)
  then show ?thesis by (simp add: waitForDelete.simps)
qed

lemma waitForDelete_any_error_is_gone_witness:
  "fst (run_state (waitForDelete failing_server 0 False '''' (errorf ''timeout'') 3
     [drained_pod ''lonely'' None]) []) = Some ([], None)"
  by (rule waitForDelete_any_error_is_gone) (simp_all add: failing_server_def drained_pod_def)

text \<open>
  Cordoning a node that is already as desired makes no call; otherwise exactly one call is
  made, a patch or, where the patch could not be created, an update, and the node in memory is as
  desired afterwards.
\<close>

theorem RunCordonOrUncordon_calls:
  assumes "\<And>m. marshal_err m = None"
  shows "\<exists>err. run_state (RunCordonOrUncordon S marshal_err patch_err n want) log =
    ((n\<lparr>unschedulable := want\<rparr>, err),
     log @ (if unschedulable n = want then []
            else [if patch_err n (n\<lparr>unschedulable := want\<rparr>) = None then PatchNode (n_name n) want
                  else UpdateNode (n_name n) want]))"
proof -
  have "n\<lparr>unschedulable := want\<rparr> = n" if "unschedulable n = want"
    using that by (cases n) simp
  then show ?thesis
    using assms by (simp add: RunCordonOrUncordon_def UpdateIfRequired_def NewCordonHelper_def
        PatchOrReplace_def Let_def)
qed

lemma RunCordonOrUncordon_calls_witness:
  "\<exists>err. run_state (RunCordonOrUncordon failing_server (\<lambda>_. None) (\<lambda>_ _. None)
      \<lparr>n_name = ''n'', n_labels = Map.empty, n_conditions = [], taints = [], unschedulable = False\<rparr> True) []
    = ((\<lparr>n_name = ''n'', n_labels = Map.empty, n_conditions = [], taints = [], unschedulable = True\<rparr>, err),
       [PatchNode ''n'' True])"
  using RunCordonOrUncordon_calls [of "\<lambda>_. None" failing_server "\<lambda>_ _. None"
    "\<lparr>n_name = ''n'', n_labels = Map.empty, n_conditions = [], taints = [], unschedulable = False\<rparr>" True "[]"]
  by simp

end
