(* ===== verification/Drain_Concurrent.thy ===== *)
theory Drain_Concurrent
  imports Drain "HOL-Library.Multiset"
begin

text \<open>
  \<open>evictPods\<close> of \<open>drain.go\<close>: one goroutine per pod, which evicts the pod, waits for it to go and
  sends its result on the channel \<open>returnCh\<close> of capacity one, and the main goroutine, which
  receives until every pod has reported.

  A step of the relation is one step of one goroutine: the check of the context together with the
  eviction call, the end of the wait, a send, or a receive. The receiving loop polls the channel
  with a default case, so that it never blocks; its idle turns are no steps. The answers of the
  server and the end of the context are the choices of the steps.
\<close>

section \<open>Goroutines\<close>

datatype goroutine =
    Evicting
  | Terminating
  | Sending "gerror option"
  | Gone "gerror option"

datatype evict_answer = CtxDone | Answer "gerror option"

record eviction =
  goroutines :: "goroutine list"
  returnCh :: "gerror option option"
  doneCount :: nat
  evict_errors :: "gerror list"

text \<open>One turn of the evicting loop of the goroutine of a pod, from what it observes.\<close>

definition evict_turn :: "string \<Rightarrow> pod \<Rightarrow> evict_answer \<Rightarrow> goroutine" where
  "evict_turn gtxt p a =
     (case a of
        CtxDone \<Rightarrow> Sending (Some (errorf (''error when evicting pod '' @ [CHR 0x22] @ pod_name p @ [CHR 0x22]
          @ '': global timeout reached: '' @ gtxt)))
      | Answer None \<Rightarrow> Terminating
      | Answer (Some err) \<Rightarrow>
          if is_not_found err then Sending None
          else if is_too_many_requests err then Evicting
          else Sending (Some (errorf (''error when evicting pod '' @ [CHR 0x22] @ pod_name p @ [CHR 0x22]
            @ '': '' @ Error err))))"

definition wait_turn :: "pod \<Rightarrow> gerror option \<Rightarrow> goroutine" where
  "wait_turn p err =
     (case err of
        None \<Rightarrow> Sending None
      | Some e \<Rightarrow> Sending (Some (errorf (''error when waiting for pod '' @ [CHR 0x22] @ pod_name p
          @ [CHR 0x22] @ '' terminating: '' @ Error e))))"

definition evict_init :: "pod list \<Rightarrow> eviction" where
  "evict_init pods = \<lparr>goroutines = map (\<lambda>_. Evicting) pods, returnCh = None, doneCount = 0, evict_errors = []\<rparr>"

inductive evict_step :: "string \<Rightarrow> pod list \<Rightarrow> eviction \<Rightarrow> eviction \<Rightarrow> bool" for gtxt pods where
  evict: "i < length pods \<Longrightarrow> goroutines s ! i = Evicting \<Longrightarrow>
     evict_step gtxt pods s (s\<lparr>goroutines := (goroutines s)[i := evict_turn gtxt (pods ! i) a]\<rparr>)"
| wait_end: "i < length pods \<Longrightarrow> goroutines s ! i = Terminating \<Longrightarrow>
     evict_step gtxt pods s (s\<lparr>goroutines := (goroutines s)[i := wait_turn (pods ! i) r]\<rparr>)"
| send: "i < length pods \<Longrightarrow> goroutines s ! i = Sending r \<Longrightarrow> returnCh s = None \<Longrightarrow>
     evict_step gtxt pods s (s\<lparr>goroutines := (goroutines s)[i := Gone r], returnCh := Some r\<rparr>)"
| receive: "doneCount s < length pods \<Longrightarrow> returnCh s = Some r \<Longrightarrow>
     evict_step gtxt pods s (s\<lparr>returnCh := None, doneCount := doneCount s + 1,
       evict_errors := evict_errors s @ (case r of None \<Rightarrow> [] | Some e \<Rightarrow> [e])\<rparr>)"

inductive evict_reach :: "string \<Rightarrow> pod list \<Rightarrow> eviction \<Rightarrow> bool" for gtxt pods where
  start: "evict_reach gtxt pods (evict_init pods)"
| step: "evict_reach gtxt pods s \<Longrightarrow> evict_step gtxt pods s t \<Longrightarrow> evict_reach gtxt pods t"

inductive_cases evict_stepE: "evict_step gtxt pods s t"

text \<open>
  What \<open>evictPods\<close> returns once its loop has ended; \<open>aggregate\<close> is \<open>utilerrors.NewAggregate\<close>,
  which is nil for no errors.
\<close>

definition evictPods_result :: "(gerror list \<Rightarrow> gerror option) \<Rightarrow> pod list \<Rightarrow> eviction \<Rightarrow> gerror option option" where
  "evictPods_result aggregate pods s =
     (if doneCount s < length pods then None else Some (aggregate (evict_errors s)))"

section \<open>Invariant\<close>

fun outcome :: "goroutine \<Rightarrow> gerror option multiset" where
  "outcome (Gone r) = {#r#}"
| "outcome _ = {#}"

fun errors_of :: "gerror option \<Rightarrow> gerror multiset" where
  "errors_of None = {#}"
| "errors_of (Some e) = {#e#}"

definition outcomes :: "goroutine list \<Rightarrow> gerror option multiset" where
  "outcomes gs = \<Sum>\<^sub># (mset (map outcome gs))"

definition in_channel :: "eviction \<Rightarrow> gerror option multiset" where
  "in_channel s = (case returnCh s of None \<Rightarrow> {#} | Some r \<Rightarrow> {#r#})"

text \<open>Every result sent is in the channel or has been received, and errors are never lost.\<close>

definition evict_inv :: "pod list \<Rightarrow> eviction \<Rightarrow> bool" where
  "evict_inv pods s \<longleftrightarrow>
     length (goroutines s) = length pods \<and>
     size (outcomes (goroutines s)) = doneCount s + size (in_channel s) \<and>
     \<Sum>\<^sub># (image_mset errors_of (outcomes (goroutines s)))
       = mset (evict_errors s) + \<Sum>\<^sub># (image_mset errors_of (in_channel s))"

lemma outcomes_update:
  "i < length gs \<Longrightarrow> outcome (gs ! i) = {#} \<Longrightarrow> outcomes (gs[i := g]) = outcomes gs + outcome g"
proof -
  assume i: "i < length gs" and "outcome (gs ! i) = {#}"
  have split: "outcomes (xs @ x # ys) = outcomes xs + outcome x + outcomes ys" for xs x ys
    by (simp add: outcomes_def add.assoc)
  have "outcomes gs = outcomes (take i gs @ gs ! i # drop (Suc i) gs)"
    using i by (simp add: id_take_nth_drop [symmetric])
  also have "\<dots> = outcomes (take i gs) + outcomes (drop (Suc i) gs)"
    using \<open>outcome (gs ! i) = {#}\<close> by (simp only: split) simp
  finally show ?thesis
    using i by (simp add: upd_conv_take_nth_drop split)
qed

lemma outcome_turn [simp]: "outcome (evict_turn gtxt p a) = {#}" "outcome (wait_turn p r) = {#}"
  by (simp_all add: evict_turn_def wait_turn_def split: evict_answer.split option.split)

lemma evict_inv_init: "evict_inv pods (evict_init pods)"
  by (induction pods) (simp_all add: evict_inv_def evict_init_def outcomes_def in_channel_def)

lemma evict_inv_step:
  assumes "evict_inv pods s" and "evict_step gtxt pods s t"
  shows "evict_inv pods t"
  using assms(2,1)
proof cases
  case (receive r)
  with assms(1) show ?thesis
    by (cases r) (auto simp: evict_inv_def in_channel_def)
qed (auto simp: evict_inv_def in_channel_def outcomes_update)

lemma evict_reach_inv: "evict_reach gtxt pods s \<Longrightarrow> evict_inv pods s"
  by (induction rule: evict_reach.induct) (auto intro: evict_inv_init evict_inv_step)

lemma size_outcomes: "size (outcomes gs) = length (filter (\<lambda>g. \<exists>r. g = Gone r) gs)"
proof (induction gs)
  case Nil
  then show ?case by (simp add: outcomes_def)
next
  case (Cons g gs)
  then show ?case by (cases g) (simp_all add: outcomes_def)
qed

lemma all_gone:
  assumes "size (outcomes gs) = length gs" and "i < length gs"
  shows "\<exists>r. gs ! i = Gone r"
proof (rule ccontr)
  assume "\<nexists>r. gs ! i = Gone r"
  then have "length (filter (\<lambda>g. \<exists>r. g = Gone r) gs) < length gs"
    by (intro length_filter_less [of "gs ! i"]) (simp_all add: assms(2))
  with assms(1) show False by (simp add: size_outcomes)
qed

lemma evict_enabled:
  assumes inv: "evict_inv pods s" and "doneCount s < length pods"
  shows "\<exists>t. evict_step gtxt pods s t"
proof (cases "returnCh s")
  case (Some r)
  with assms(2) show ?thesis using receive by blast
next
  case None
  have len: "length (goroutines s) = length pods" using inv by (simp add: evict_inv_def)
  have "size (outcomes (goroutines s)) < length (goroutines s)"
    using assms None by (simp add: evict_inv_def in_channel_def)
  then obtain g where "g \<in> set (goroutines s)" "\<nexists>r. g = Gone r"
    by (metis (mono_tags, lifting) filter_True less_irrefl size_outcomes)
  then obtain i where i: "i < length pods" "goroutines s ! i = g" using len by (metis in_set_conv_nth)
  with \<open>\<nexists>r. g = Gone r\<close> None show ?thesis
    by (cases g) (use evict wait_end send in blast)+
qed

text \<open>
  C4. Whatever the server answers and however the goroutines interleave, \<open>evictPods\<close> is never
  stuck: as long as a result is missing, some goroutine can take a step, so the channel of capacity
  one causes no deadlock.
\<close>

theorem evictPods_no_deadlock:
  assumes "evict_reach gtxt pods s" and "evictPods_result aggregate pods s = None"
  shows "\<exists>t. evict_step gtxt pods s t"
  using evict_enabled [OF evict_reach_inv [OF assms(1)]] assms(2)
  by (simp add: evictPods_result_def split: if_splits)

lemma evictPods_no_deadlock_witness:
  "\<exists>t. evict_step ''1m0s'' [drained_pod ''a'' None, drained_pod ''b'' None]
     (evict_init [drained_pod ''a'' None, drained_pod ''b'' None]) t"
  by (rule evictPods_no_deadlock [where aggregate = "\<lambda>_. None", OF start])
    (simp add: evictPods_result_def evict_init_def)

text \<open>
  C7. When \<open>evictPods\<close> returns, every goroutine has ended, so that none leaks, and the errors it
  aggregates are those that the goroutines sent, each as often as it was sent.
\<close>

theorem evictPods_collects_all:
  assumes "evict_reach gtxt pods s" and "evictPods_result aggregate pods s = Some r"
  shows "\<exists>results. goroutines s = map Gone results \<and> length results = length pods \<and> returnCh s = None
    \<and> mset (evict_errors s) = mset (List.map_filter (\<lambda>x. x) results) \<and> r = aggregate (evict_errors s)"
proof -
  have inv: "evict_inv pods s" by (rule evict_reach_inv [OF assms(1)])
  have count: "\<not> doneCount s < length pods" and r: "r = aggregate (evict_errors s)"
    using assms(2) by (auto simp: evictPods_result_def split: if_splits)
  have le: "size (outcomes (goroutines s)) \<le> length pods"
    using inv by (simp add: evict_inv_def size_outcomes) (metis length_filter_le)
  moreover have "size (outcomes (goroutines s)) = doneCount s + size (in_channel s)"
    using inv by (simp add: evict_inv_def)
  ultimately have "size (in_channel s) = 0" using count by linarith
  then have "in_channel s = {#}" by simp
  with inv count le have full: "size (outcomes (goroutines s)) = length (goroutines s)"
    by (auto simp: evict_inv_def)
  from \<open>in_channel s = {#}\<close> have empty: "returnCh s = None" by (simp add: in_channel_def split: option.splits)
  define results where "results = map (\<lambda>g. case g of Gone r \<Rightarrow> r | _ \<Rightarrow> None) (goroutines s)"
  have gone: "goroutines s = map Gone results"
    by (rule nth_equalityI) (auto simp: results_def dest: all_gone [OF full])
  have "outcomes (map Gone rs) = mset rs" for rs
    by (induction rs) (simp_all add: outcomes_def)
  moreover have "\<Sum>\<^sub># (image_mset errors_of (mset rs)) = mset (List.map_filter (\<lambda>x. x) rs)" for rs
  proof (induction rs)
    case Nil
    then show ?case by simp
  next
    case (Cons x rs)
    then show ?case by (cases x) (simp_all add: map_filter_simps)
  qed
  ultimately have "mset (evict_errors s) = mset (List.map_filter (\<lambda>x. x) results)"
    using inv gone \<open>in_channel s = {#}\<close> by (simp add: evict_inv_def)
  moreover have "length results = length pods" using inv by (simp add: results_def evict_inv_def)
  ultimately show ?thesis using gone empty r by blast
qed

lemma evictPods_collects_all_witness:
  "\<exists>s results. evict_reach ''1m0s'' [drained_pod ''a'' None] s \<and> goroutines s = map Gone results
    \<and> length results = 1 \<and> mset (evict_errors s) = mset (List.map_filter (\<lambda>x. x) results)"
proof -
  let ?pods = "[drained_pod ''a'' None]"
  let ?s = "evict_init ?pods"
  let ?e = "(errorf ''gone'')\<lparr>is_not_found := True\<rparr>"
  have "evict_step ''1m0s'' ?pods ?s (?s\<lparr>goroutines := [Sending None]\<rparr>)" (is "evict_step _ _ _ ?t")
    using evict [of 0 ?pods ?s "''1m0s''" "Answer (Some ?e)"]
    by (simp add: evict_init_def evict_turn_def)
  moreover have "evict_step ''1m0s'' ?pods ?t (?t\<lparr>goroutines := [Gone None], returnCh := Some None\<rparr>)"
      (is "evict_step _ _ _ ?u")
    using send [of 0 ?pods ?t None "''1m0s''"] by (simp add: evict_init_def)
  moreover have "evict_step ''1m0s'' ?pods ?u (?u\<lparr>returnCh := None, doneCount := 1\<rparr>)"
      (is "evict_step _ _ _ ?v")
    using receive [of ?u ?pods None "''1m0s''"] by (simp add: evict_init_def)
  ultimately have v: "evict_reach ''1m0s'' ?pods ?v"
    using start step by meson
  moreover have "evictPods_result (\<lambda>_. None) ?pods ?v = Some None" by (simp add: evictPods_result_def)
  ultimately show ?thesis using evictPods_collects_all [OF v] by fastforce
qed
end
