(* ===== verification/Eviction.thy ===== *)
theory Eviction
  imports Drain
begin

text \<open>
  Evicting pods and draining nodes as the client does it: \<open>evict.go\<close>, \<open>unsafe.go\<close>, and
  \<open>GetPodReplicas\<close>, \<open>ScalePod\<close> and the node queries of \<open>shortcuts.go\<close>.

  The server is \<open>evict_server\<close>; its answers may depend on the whole log of calls. A result of
  type \<open>gerror option option\<close> is \<open>None\<close> for a panic, else the error returned, nil included.
\<close>

section \<open>Server\<close>

record evict_server =
  base :: drain_server
  conn :: "gerror option"
  rs_get :: "drain_call list \<Rightarrow> string \<Rightarrow> string \<Rightarrow> gerror + int option"
  rs_update :: "drain_call list \<Rightarrow> gerror option"
  exec_switchover :: "drain_call list \<Rightarrow> string \<times> string \<times> gerror option"
  pvc_get :: "drain_call list \<Rightarrow> string \<Rightarrow> string \<Rightarrow> gerror + pvc option"
  pvc_delete :: "drain_call list \<Rightarrow> gerror option"
  pvc_create :: "drain_call list \<Rightarrow> gerror option"
  list_node_pods :: "drain_call list \<Rightarrow> gerror + pod list"
  list_attachments :: "drain_call list \<Rightarrow> gerror + volume_attachment list"
  va_update :: "drain_call list \<Rightarrow> gerror option"
  va_delete :: "drain_call list \<Rightarrow> gerror option"
  node_get :: "drain_call list \<Rightarrow> gerror + node"
  node_update :: "drain_call list \<Rightarrow> gerror option"
  ns_get :: "drain_call list \<Rightarrow> gerror option"
  ns_finalize :: "drain_call list \<Rightarrow> gerror option"
  ns_delete :: "drain_call list \<Rightarrow> gerror option"

section \<open>Replicas\<close>

fun replicas_loop :: "evict_server \<Rightarrow> pod \<Rightarrow> owner_ref list \<Rightarrow> (gerror + int) option drain" where
  "replicas_loop S p [] = ret (Some (Inr 1))"
| "replicas_loop S p (owner # rest) =
     (if owner_kind owner = ''ReplicaSet'' then do {
        rs \<leftarrow> ask (GetReplicaSet (pod_namespace p) (owner_name owner))
          (\<lambda>log. rs_get S log (pod_namespace p) (owner_name owner));
        (case rs of
           Inl err \<Rightarrow> ret (Some (Inl err))
         | Inr replicas \<Rightarrow> ret (map_option Inr replicas))
      }
      else replicas_loop S p rest)"

definition GetPodReplicas :: "evict_server \<Rightarrow> pod \<Rightarrow> (gerror + int) option drain" where
  "GetPodReplicas S p =
     (case conn S of
        Some err \<Rightarrow> ret (Some (Inl err))
      | None \<Rightarrow> replicas_loop S p (owner_references p))"

fun scale_loop :: "evict_server \<Rightarrow> pod \<Rightarrow> int \<Rightarrow> owner_ref list \<Rightarrow> gerror option option drain" where
  "scale_loop S p replicas [] = ret (Some None)"
| "scale_loop S p replicas (owner # rest) =
     (if owner_kind owner = ''ReplicaSet'' then do {
        rs \<leftarrow> ask (GetReplicaSet (pod_namespace p) (owner_name owner))
          (\<lambda>log. rs_get S log (pod_namespace p) (owner_name owner));
        (case rs of
           Inl err \<Rightarrow> ret (Some (Some err))
         | Inr None \<Rightarrow> ret None
         | Inr (Some n) \<Rightarrow>
             if n \<noteq> replicas then do {
               err \<leftarrow> ask (ScaleReplicaSet (pod_namespace p) (owner_name owner) replicas) (rs_update S);
               if err \<noteq> None then ret (Some err) else scale_loop S p replicas rest
             }
             else scale_loop S p replicas rest)
      }
      else scale_loop S p replicas rest)"

definition ScalePod :: "evict_server \<Rightarrow> pod \<Rightarrow> int \<Rightarrow> gerror option option drain" where
  "ScalePod S p replicas =
     (case conn S of
        Some err \<Rightarrow> ret (Some (Some err))
      | None \<Rightarrow> scale_loop S p replicas (owner_references p))"

section \<open>EvictPod\<close>

text \<open>The fields of the drain helper that are not named keep Go's zero values.\<close>

definition getDrainHelper :: Helper where
  "getDrainHelper = \<lparr>Force = False, GracePeriodSeconds = 0, IgnoreAllDaemonSets = True,
     Timeout = 120 * 1000000000, DeleteLocalData = True, PodSelector = '''', DisableEviction = False,
     SkipWaitForDeleteTimeoutSeconds = 0\<rparr>"

text \<open>\<open>wait.PollImmediate\<close> until the claim is not found; the code ignores how it ends.\<close>

fun poll_pvc_gone :: "evict_server \<Rightarrow> string \<Rightarrow> string \<Rightarrow> nat \<Rightarrow> unit drain" where
  "poll_pvc_gone S ns name n = do {
     r \<leftarrow> ask (GetPVC ns name) (\<lambda>log. pvc_get S log ns name);
     (case n of
        0 \<Rightarrow> ret ()
      | Suc n \<Rightarrow> (case r of
          Inl err \<Rightarrow> if is_not_found err then ret () else poll_pvc_gone S ns name n
        | Inr _ \<Rightarrow> poll_pvc_gone S ns name n))
   }"

declare poll_pvc_gone.simps [simp del]

definition fresh_pvc :: "pvc \<Rightarrow> pvc" where
  "fresh_pvc c = c\<lparr>pvc_annotations := [], pvc_finalizers := [], pvc_resource_version := '''', volume_name := ''''\<rparr>"

fun recreate_pvcs :: "evict_server \<Rightarrow> nat \<Rightarrow> pod \<Rightarrow> volume list \<Rightarrow> gerror option option drain" where
  "recreate_pvcs S ticks p [] = ret (Some None)"
| "recreate_pvcs S ticks p (vol # vols) =
     (case pvc_claim vol of
        None \<Rightarrow> recreate_pvcs S ticks p vols
      | Some claim \<Rightarrow> do {
          r \<leftarrow> ask (GetPVC (pod_namespace p) claim) (\<lambda>log. pvc_get S log (pod_namespace p) claim);
          (case r of
             Inl err \<Rightarrow> ret (Some (Some err))
           | Inr None \<Rightarrow> ret None
           | Inr (Some c) \<Rightarrow>
               if (case storage_class c of None \<Rightarrow> True | Some class \<Rightarrow> Contains class ''local'')
               then do {
                 err \<leftarrow> ask (DeletePVC (pod_namespace p) (pvc_name c)) (pvc_delete S);
                 if err \<noteq> None then ret (Some err)
                 else do {
                   _ \<leftarrow> poll_pvc_gone S (pod_namespace p) (pvc_name c) ticks;
                   err \<leftarrow> ask (CreatePVC (pod_namespace p) (fresh_pvc c)) (pvc_create S);
                   if err \<noteq> None then ret (Some err) else recreate_pvcs S ticks p vols
                 }
               }
               else recreate_pvcs S ticks p vols)
        })"

text \<open>
  The part of \<open>EvictPod\<close> after scaling: the switchover of a database leader, the eviction, and the
  claims on local storage. \<open>drain_pod\<close> is \<open>drainer.DeleteOrEvictPods\<close> of the pod.
\<close>

definition evict_body :: "evict_server \<Rightarrow> nat \<Rightarrow> (pod \<Rightarrow> gerror option option drain) \<Rightarrow> pod \<Rightarrow> gerror option option drain" where
  "evict_body S ticks drain_pod p = do {
     failover \<leftarrow> (if labels p ''spilo-role'' = Some ''master'' then do {
         (stdout, stderr, err) \<leftarrow> ask (ExecCall (pod_namespace p) (pod_name p)) (exec_switchover S);
         ret (map_option (\<lambda>e. errorf (''failed to failover instance, aborting: '' @ Error e @ '' ''
           @ stderr @ '' '' @ stdout)) err)
       } else ret None);
     if failover \<noteq> None then ret (Some failover)
     else do {
       r \<leftarrow> drain_pod p;
       (case r of
          None \<Rightarrow> ret None
        | Some (Some err) \<Rightarrow> ret (Some (Some err))
        | Some None \<Rightarrow> recreate_pvcs S ticks p (volumes p))
     }
   }"

text \<open>
  The deferred scaling back runs whatever the body returns or panics with; its error is only logged,
  and its own panic is the panic of the whole.
\<close>

definition EvictPod_client :: "evict_server \<Rightarrow> nat \<Rightarrow> (pod \<Rightarrow> gerror option option drain) \<Rightarrow> pod \<Rightarrow> gerror option option drain" where
  "EvictPod_client S ticks drain_pod p =
     (if IsPodDaemonSet p \<or> IsPodFinished p \<or> IsDeleted p \<or> IsStaticPod p then ret (Some None)
      else case conn S of
        Some err \<Rightarrow> ret (Some (Some err))
      | None \<Rightarrow> do {
          replicas \<leftarrow> GetPodReplicas S p;
          (case replicas of
             None \<Rightarrow> ret None
           | Some (Inl err) \<Rightarrow> ret (Some (Some err))
           | Some (Inr n) \<Rightarrow>
               if n = 1 then do {
                 up \<leftarrow> ScalePod S p 2;
                 (case up of
                    None \<Rightarrow> ret None
                  | Some (Some err) \<Rightarrow> ret (Some (Some err))
                  | Some None \<Rightarrow> do {
                      r \<leftarrow> evict_body S ticks drain_pod p;
                      down \<leftarrow> ScalePod S p 1;
                      ret (if down = None then None else r)
                    })
               }
               else evict_body S ticks drain_pod p)
        })"

section \<open>Nodes\<close>

definition RemoveVolumeAttachment :: "evict_server \<Rightarrow> volume_attachment \<Rightarrow> gerror option drain" where
  "RemoveVolumeAttachment S va =
     (case conn S of
        Some err \<Rightarrow> ret (Some (errorf (''failed to get clientset: '' @ Error err)))
      | None \<Rightarrow> do {
          err \<leftarrow> (if length (va_finalizers va) > 0
                 then ask (UpdateVolumeAttachment (va\<lparr>va_finalizers := []\<rparr>)) (va_update S)
                 else ret None);
          (case err of
             Some e \<Rightarrow> ret (Some (errorf (''failed to remove finalizers from volume attachment ''
               @ va_name va @ '': '' @ Error e)))
           | None \<Rightarrow> do {
               err \<leftarrow> ask (DeleteVolumeAttachment (va_name va)) (va_delete S);
               ret (map_option (\<lambda>e. errorf (''failed to delete volume attachment '' @ va_name va
                 @ '': '' @ Error e)) err)
             })
        })"

fun evict_pods :: "(pod \<Rightarrow> gerror option option drain) \<Rightarrow> pod list \<Rightarrow> gerror option option drain" where
  "evict_pods evict [] = ret (Some None)"
| "evict_pods evict (p # ps) = do {
     r \<leftarrow> evict p;
     (case r of
        None \<Rightarrow> ret None
      | Some (Some err) \<Rightarrow> ret (Some (Some err))
      | Some None \<Rightarrow> evict_pods evict ps)
   }"

fun remove_attachments :: "evict_server \<Rightarrow> string \<Rightarrow> volume_attachment list \<Rightarrow> gerror option drain" where
  "remove_attachments S nodeName [] = ret None"
| "remove_attachments S nodeName (va # vas) =
     (if va_node va = nodeName then do {
        err \<leftarrow> RemoveVolumeAttachment S va;
        if err \<noteq> None then ret err else remove_attachments S nodeName vas
      }
      else remove_attachments S nodeName vas)"

definition EvictNode :: "evict_server \<Rightarrow> nat \<Rightarrow> (pod \<Rightarrow> gerror option option drain) \<Rightarrow> string \<Rightarrow> gerror option option drain" where
  "EvictNode S ticks drain_pod nodeName =
     (if conn S \<noteq> None then ret (Some None)
      else do {
        pods \<leftarrow> ask (ListPods nodeName) (list_node_pods S);
        (case pods of
           Inl err \<Rightarrow> ret (Some (Some err))
         | Inr items \<Rightarrow> do {
             r \<leftarrow> evict_pods (EvictPod_client S ticks drain_pod) items;
             (case r of
                None \<Rightarrow> ret None
              | Some (Some err) \<Rightarrow> ret (Some (Some err))
              | Some None \<Rightarrow> do {
                  vas \<leftarrow> ask ListVolumeAttachments (list_attachments S);
                  (case vas of
                     Inl err \<Rightarrow> ret (Some (Some err))
                   | Inr vas \<Rightarrow> do {
                       err \<leftarrow> remove_attachments S nodeName vas;
                       ret (Some err)
                     })
                })
           })
      })"

definition set_unschedulable :: "evict_server \<Rightarrow> bool \<Rightarrow> string \<Rightarrow> gerror option drain" where
  "set_unschedulable S b nodeName =
     (if conn S \<noteq> None then ret None
      else do {
        n \<leftarrow> ask (GetNode nodeName) (node_get S);
        (case n of
           Inl err \<Rightarrow> ret (Some err)
         | Inr n \<Rightarrow> ask (UpdateNode (n_name n) b) (node_update S))
      })"

definition Cordon :: "evict_server \<Rightarrow> string \<Rightarrow> gerror option drain" where
  "Cordon S nodeName = set_unschedulable S True nodeName"

definition Uncordon :: "evict_server \<Rightarrow> string \<Rightarrow> gerror option drain" where
  "Uncordon S nodeName = set_unschedulable S False nodeName"

definition DrainNode :: "evict_server \<Rightarrow> nat \<Rightarrow> (pod \<Rightarrow> gerror option option drain) \<Rightarrow> string \<Rightarrow> int \<Rightarrow> gerror option option drain" where
  "DrainNode S ticks drain_pod nodeName timeout = do {
     err \<leftarrow> Cordon S nodeName;
     (case err of
        Some e \<Rightarrow> ret (Some (Some (errorf (''error cordoning '' @ nodeName @ '': '' @ Error e))))
      | None \<Rightarrow> EvictNode S ticks drain_pod nodeName)
   }"

definition ForceDeleteNamespace :: "evict_server \<Rightarrow> string \<Rightarrow> int \<Rightarrow> gerror option drain" where
  "ForceDeleteNamespace S ns timeout =
     (let fail = (\<lambda>msg e. Some (errorf (''ForceDeleteNamespace: '' @ msg @ '': '' @ Error e)))
      in case conn S of
           Some e \<Rightarrow> ret (fail ''failed to get client set'' e)
         | None \<Rightarrow> do {
             err \<leftarrow> ask (GetNamespace ns) (ns_get S);
             (case err of
                Some e \<Rightarrow> ret (fail ''failed to get namespace'' e)
              | None \<Rightarrow> do {
                  err \<leftarrow> ask (FinalizeNamespace ns []) (ns_finalize S);
                  (case err of
                     Some e \<Rightarrow> ret (fail ''error removing finalisers'' e)
                   | None \<Rightarrow> do {
                       err \<leftarrow> ask (DeleteNamespace ns) (ns_delete S);
                       (case err of
                          Some e \<Rightarrow> ret (fail ''error deleting namespace'' e)
                        | None \<Rightarrow> ret None)
                     })
                })
           })"

section \<open>Node queries\<close>

definition GetMasterNode :: "gerror option \<Rightarrow> gerror + node list \<Rightarrow> string \<times> gerror option" where
  "GetMasterNode conn_err nodes =
     (case conn_err of
        Some err \<Rightarrow> ('''', Some (errorf (''GetMasterNode: Failed to get clientset: '' @ Error err)))
      | None \<Rightarrow>
          (case nodes of
             Inl err \<Rightarrow> ('''', Some err)
           | Inr items \<Rightarrow>
               (case find IsMasterNode items of
                  Some n \<Rightarrow> (n_name n, None)
                | None \<Rightarrow> ('''', Some (errorf ''no master nodes found'')))))"

definition GetMasterNodes :: "gerror option \<Rightarrow> gerror + node list \<Rightarrow> string list" where
  "GetMasterNodes conn_err nodes =
     (if conn_err \<noteq> None then []
      else case nodes of
        Inl err \<Rightarrow> []
      | Inr items \<Rightarrow> map n_name (filter IsMasterNode items))"

section \<open>Scaling up is undone\<close>

text \<open>
  The replicas of a replica set after a log of calls: each update that the server accepts sets
  them. A server tells the replicas when every read that it answers gives the current number, which
  is so when nobody else scales; it may refuse reads and updates whenever it likes.
\<close>

fun scale_call :: "string \<Rightarrow> string \<Rightarrow> drain_call \<Rightarrow> int \<Rightarrow> int" where
  "scale_call ns name (ScaleReplicaSet ns' name' k) n = (if ns' = ns \<and> name' = name then k else n)"
| "scale_call ns name _ n = n"

fun replicas_from :: "evict_server \<Rightarrow> string \<Rightarrow> string \<Rightarrow> int \<Rightarrow> drain_call list \<Rightarrow> drain_call list \<Rightarrow> int" where
  "replicas_from S ns name n pre [] = n"
| "replicas_from S ns name n pre (c # cs) =
     replicas_from S ns name (if rs_update S pre = None then scale_call ns name c n else n) (pre @ [c]) cs"

definition replicas_after :: "evict_server \<Rightarrow> (string \<Rightarrow> string \<Rightarrow> int) \<Rightarrow> string \<Rightarrow> string \<Rightarrow> drain_call list \<Rightarrow> int" where
  "replicas_after S init ns name log = replicas_from S ns name (init ns name) [] log"

definition tells_replicas :: "evict_server \<Rightarrow> (string \<Rightarrow> string \<Rightarrow> int) \<Rightarrow> bool" where
  "tells_replicas S init \<longleftrightarrow>
     (\<forall>log ns name r. rs_get S log ns name = Inr r \<longrightarrow> r = Some (replicas_after S init ns name log))"

definition refused :: "evict_server \<Rightarrow> drain_call list \<Rightarrow> drain_call \<Rightarrow> bool" where
  "refused S at c \<longleftrightarrow> (case c of
       GetReplicaSet ns name \<Rightarrow> \<exists>e. rs_get S at ns name = Inl e
     | ScaleReplicaSet ns name k \<Rightarrow> rs_update S at \<noteq> None
     | _ \<Rightarrow> False)"

text \<open>Between two logs, the server refused to read or to update a replica set.\<close>

definition scaling_refused :: "evict_server \<Rightarrow> drain_call list \<Rightarrow> drain_call list \<Rightarrow> bool" where
  "scaling_refused S log log' \<longleftrightarrow> (\<exists>at c. prefix log at \<and> prefix (at @ [c]) log' \<and> refused S at c)"

lemma scaling_refused_mono:
  "scaling_refused S log log' \<Longrightarrow> prefix log0 log \<Longrightarrow> prefix log' log1 \<Longrightarrow> scaling_refused S log0 log1"
  unfolding scaling_refused_def by (meson prefix_order.order_trans)

lemma scaling_refusedI: "refused S log c \<Longrightarrow> prefix (log @ [c]) log' \<Longrightarrow> scaling_refused S log log'"
  unfolding scaling_refused_def by blast

definition replica_sets :: "pod \<Rightarrow> owner_ref list" where
  "replica_sets p = filter (\<lambda>owner. owner_kind owner = ''ReplicaSet'') (owner_references p)"

lemma replicas_from_append:
  "replicas_from S ns name n pre (xs @ ys) = replicas_from S ns name (replicas_from S ns name n pre xs) (pre @ xs) ys"
  by (induction xs arbitrary: n pre) simp_all

lemma replicas_after_snoc [simp]:
  "replicas_after S init ns name (log @ [c]) =
     (if rs_update S log = None then scale_call ns name c (replicas_after S init ns name log)
      else replicas_after S init ns name log)"
  by (simp add: replicas_after_def replicas_from_append)

lemma extends_scale_loop: "extends (scale_loop S p k owners)"
  by (induction owners) (simp_all only: scale_loop.simps, (intro extends_rules | assumption)+)

lemma scale_loop_scales:
  assumes "tells_replicas S init" and "run_state (scale_loop S p k owners) log = (r, log')"
  shows "scaling_refused S log log' \<or> (r = Some None \<and>
    (\<forall>name. (\<exists>owner\<in>set owners. owner_kind owner = ''ReplicaSet'' \<and> owner_name owner = name)
        \<or> replicas_after S init (pod_namespace p) name log = k
      \<longrightarrow> replicas_after S init (pod_namespace p) name log' = k))"
  using assms(2)
proof (induction owners arbitrary: log)
  case Nil
  then show ?case by simp
next
  case (Cons owner owners)
  let ?ns = "pod_namespace p" and ?name = "owner_name owner"
  let ?get = "log @ [GetReplicaSet ?ns ?name]"
  let ?scale = "?get @ [ScaleReplicaSet ?ns ?name k]"
  have rest: "prefix l log'" if "run_state (scale_loop S p k owners) l = (r, log')" for l
    by (rule extendsD [OF extends_scale_loop that])
  consider (other) "owner_kind owner \<noteq> ''ReplicaSet''"
    | (unread) e where "owner_kind owner = ''ReplicaSet''" "rs_get S log ?ns ?name = Inl e"
    | (same) "owner_kind owner = ''ReplicaSet''" "rs_get S log ?ns ?name = Inr (Some k)"
    | (scaled) n where "owner_kind owner = ''ReplicaSet''" "rs_get S log ?ns ?name = Inr (Some n)" "n \<noteq> k"
    using assms(1) unfolding tells_replicas_def by (metis sum.exhaust)
  then show ?case
  proof cases
    case other
    with Cons show ?thesis by auto
  next
    case unread
    with Cons.prems have "log' = ?get" by simp
    with unread show ?thesis using scaling_refusedI [of S log "GetReplicaSet ?ns ?name" log'] by (simp add: refused_def)
  next
    case same
    with Cons.prems have l: "run_state (scale_loop S p k owners) ?get = (r, log')" by simp
    have "replicas_after S init ?ns ?name log = k" using same assms(1) by (fastforce simp: tells_replicas_def)
    with Cons.IH [OF l] scaling_refused_mono [of S ?get log' log log'] same show ?thesis by auto
  next
    case scaled
    show ?thesis
    proof (cases "rs_update S ?get")
      case (Some e)
      with scaled Cons.prems have "log' = ?scale" by simp
      with Some have "scaling_refused S ?get log'"
        using scaling_refusedI [of S ?get "ScaleReplicaSet ?ns ?name k" log'] by (simp add: refused_def)
      then show ?thesis using scaling_refused_mono [of S ?get log' log log'] by simp
    next
      case None
      with scaled Cons.prems have l: "run_state (scale_loop S p k owners) ?scale = (r, log')" by simp
      have "scaling_refused S log log'" if "scaling_refused S ?scale log'"
        using scaling_refused_mono [OF that, of log log'] by simp
      moreover have "replicas_after S init ?ns name ?scale = k"
        if "name = ?name \<or> replicas_after S init ?ns name log = k" for name
        using that None by (auto simp: replicas_after_snoc [of _ _ _ _ "log @ [_]"] simp del: append_assoc)
      ultimately show ?thesis using Cons.IH [OF l] by auto
    qed
  qed
qed

lemma ScalePod_scales:
  assumes "tells_replicas S init" and "conn S = None" and "run_state (ScalePod S p k) log = (r, log')"
  shows "scaling_refused S log log' \<or> (r = Some None \<and>
    (\<forall>owner\<in>set (replica_sets p). replicas_after S init (pod_namespace p) (owner_name owner) log' = k))"
  using scale_loop_scales [OF assms(1), of p k "owner_references p" log r log'] assms(2,3)
  by (auto simp: ScalePod_def replica_sets_def)

lemma replicas_loop_first:
  assumes "tells_replicas S init" and "run_state (replicas_loop S p owners) log = (r, log')"
    and "filter (\<lambda>owner. owner_kind owner = ''ReplicaSet'') owners = owner # rest"
  shows "prefix log log' \<and> (scaling_refused S log log' \<or>
    r = Some (Inr (replicas_after S init (pod_namespace p) (owner_name owner) log)))"
  using assms(2,3)
proof (induction owners)
  case (Cons o' owners)
  show ?case
  proof (cases "owner_kind o' = ''ReplicaSet''")
    case True
    with Cons.prems assms(1) show ?thesis
      using scaling_refusedI [of S log "GetReplicaSet (pod_namespace p) (owner_name owner)" log']
      by (auto simp: tells_replicas_def refused_def split: sum.splits)
  next
    case False
    with Cons show ?thesis by simp
  qed
qed simp

definition example_evict_server :: evict_server where
  "example_evict_server = \<lparr>base = failing_server, conn = None,
     rs_get = (\<lambda>log ns name. Inr (Some (1))), rs_update = (\<lambda>_. None),
     exec_switchover = (\<lambda>_. ('''', '''', None)), pvc_get = (\<lambda>_ _ n. Inr (Some \<lparr>pvc_name = n,
       storage_class = None, volume_name = ''pv'', pvc_finalizers = [''f''], pvc_annotations = [],
       pvc_resource_version = ''7''\<rparr>)), pvc_delete = (\<lambda>_. None), pvc_create = (\<lambda>_. None),
     list_node_pods = (\<lambda>_. Inr []), list_attachments = (\<lambda>_. Inr []), va_update = (\<lambda>_. None),
     va_delete = (\<lambda>_. None), node_get = (\<lambda>_. Inl (errorf ''no node'')), node_update = (\<lambda>_. None),
     ns_get = (\<lambda>_. None), ns_finalize = (\<lambda>_. None), ns_delete = (\<lambda>_. None)\<rparr>"

section \<open>Claims on local storage\<close>

text \<open>
  The protocol of the claims of a pod. A claim may be deleted right after it was read for a volume
  and found to be of local storage. A claim may be created right after such a deletion was accepted
  and the claim of that name was polled, with the poll over: the claim was not found, or it was found
  each time and the poll has run out of ticks. The new claim is the one that was read, freed of what
  ties it to its volume. Reads are free.
\<close>

definition local_claim :: "pvc \<Rightarrow> bool" where
  "local_claim c \<longleftrightarrow> (case storage_class c of None \<Rightarrow> True | Some class \<Rightarrow> Contains class ''local'')"

definition claim_gone :: "evict_server \<Rightarrow> drain_call list \<Rightarrow> string \<Rightarrow> string \<Rightarrow> bool" where
  "claim_gone S log ns name \<longleftrightarrow> (\<exists>e. pvc_get S log ns name = Inl e \<and> is_not_found e)"

definition read_local :: "evict_server \<Rightarrow> pod \<Rightarrow> drain_call list \<Rightarrow> pvc \<Rightarrow> bool" where
  "read_local S p log c \<longleftrightarrow> (\<exists>pre claim. log = pre @ [GetPVC (pod_namespace p) claim]
     \<and> (\<exists>vol\<in>set (volumes p). pvc_claim vol = Some claim)
     \<and> pvc_get S pre (pod_namespace p) claim = Inr (Some c) \<and> local_claim c)"

definition polled :: "evict_server \<Rightarrow> nat \<Rightarrow> string \<Rightarrow> string \<Rightarrow> drain_call list \<Rightarrow> drain_call list \<Rightarrow> bool" where
  "polled S ticks ns name log log' \<longleftrightarrow> (\<exists>k\<le>ticks. log' = log @ replicate (Suc k) (GetPVC ns name)
     \<and> (\<forall>j<k. \<not> claim_gone S (log @ replicate j (GetPVC ns name)) ns name)
     \<and> (k = ticks \<or> claim_gone S (log @ replicate k (GetPVC ns name)) ns name))"

definition claim_protocol :: "evict_server \<Rightarrow> nat \<Rightarrow> pod \<Rightarrow> drain_call list \<Rightarrow> drain_call \<Rightarrow> bool" where
  "claim_protocol S ticks p log call \<longleftrightarrow> (case call of
       GetPVC ns name \<Rightarrow> ns = pod_namespace p
     | DeletePVC ns name \<Rightarrow> ns = pod_namespace p \<and> (\<exists>c. read_local S p log c \<and> name = pvc_name c)
     | CreatePVC ns x \<Rightarrow> ns = pod_namespace p \<and> (\<exists>at c. read_local S p at c \<and> pvc_delete S at = None
         \<and> polled S ticks ns (pvc_name c) (at @ [DeletePVC ns (pvc_name c)]) log
         \<and> x = c\<lparr>pvc_annotations := [], pvc_finalizers := [], pvc_resource_version := '''', volume_name := ''''\<rparr>)
     | _ \<Rightarrow> False)"

lemma poll_pvc_gone_polls:
  "polled S n ns name log (snd (run_state (poll_pvc_gone S ns name n) log))"
proof (induction n arbitrary: log)
  case 0
  show ?case unfolding polled_def by (intro exI [of _ 0]) (simp add: poll_pvc_gone.simps)
next
  case (Suc n)
  let ?get = "GetPVC ns name"
  let ?polled = "snd (run_state (poll_pvc_gone S ns name (Suc n)) log)"
  show ?case
  proof (cases "claim_gone S log ns name")
    case True
    then show ?thesis
      unfolding polled_def
      by (intro exI [of _ 0]) (auto simp: poll_pvc_gone.simps [of _ _ _ "Suc n"] claim_gone_def)
  next
    case False
    obtain k where "k \<le> n" and k: "snd (run_state (poll_pvc_gone S ns name n) (log @ [?get]))
        = (log @ [?get]) @ replicate (Suc k) ?get"
      and found: "\<forall>j<k. \<not> claim_gone S ((log @ [?get]) @ replicate j ?get) ns name"
      and over: "k = n \<or> claim_gone S ((log @ [?get]) @ replicate k ?get) ns name"
      using Suc.IH [of "log @ [?get]"] unfolding polled_def by blast
    have "?polled = log @ replicate (Suc (Suc k)) ?get"
      using False k by (auto simp: poll_pvc_gone.simps [of _ _ _ "Suc n"] claim_gone_def split: sum.split)
    moreover have "\<not> claim_gone S (log @ replicate j ?get) ns name" if "j < Suc k" for j
      using False found that by (cases j) auto
    ultimately show ?thesis
      using \<open>k \<le> n\<close> over unfolding polled_def by (intro exI [of _ "Suc k"]) auto
  qed
qed

lemma poll_pvc_gone_at:
  assumes "ns = pod_namespace p"
  shows "obeys_at (claim_protocol S ticks p) (poll_pvc_gone S ns name n) log"
proof -
  have "calls_ok (claim_protocol S ticks p) l (replicate k (GetPVC ns name))" for l k
    by (induction k arbitrary: l) (simp_all add: claim_protocol_def assms)
  then show ?thesis using poll_pvc_gone_polls [of S n ns name log] unfolding polled_def obeys_at_def by metis
qed

lemma obeys_at_ask: "ok log c \<Longrightarrow> obeys_at ok (ask c f) log"
  by (simp add: obeys_at_def)

lemma recreate_pvcs_at_volumes:
  "set vols \<subseteq> set (volumes p) \<Longrightarrow> obeys_at (claim_protocol S ticks p) (recreate_pvcs S ticks p vols) log"
proof (induction vols arbitrary: log)
  case Nil
  then show ?case by (simp add: obeys_at_ret)
next
  case (Cons vol vols)
  let ?ns = "pod_namespace p"
  have rest: "obeys_at (claim_protocol S ticks p) (recreate_pvcs S ticks p vols) l" for l
    using Cons by simp
  show ?case
  proof (cases "pvc_claim vol")
    case None
    with rest show ?thesis by simp
  next
    case (Some claim)
    have local_read: "read_local S p (log @ [GetPVC ?ns claim]) c"
      if "pvc_get S log ?ns claim = Inr (Some c)" "local_claim c" for log c
      using that Some Cons.prems unfolding read_local_def by auto
    have create: "claim_protocol S ticks p l (CreatePVC ?ns (fresh_pvc c))"
      if "pvc_get S log ?ns claim = Inr (Some c)" "local_claim c" "pvc_delete S (log @ [GetPVC ?ns claim]) = None"
        "run_state (poll_pvc_gone S ?ns (pvc_name c) ticks) (log @ [GetPVC ?ns claim, DeletePVC ?ns (pvc_name c)]) = (u, l)"
      for log c u l
      using local_read [OF that(1,2)] that(3) poll_pvc_gone_polls [of S ticks ?ns "pvc_name c"
          "log @ [GetPVC ?ns claim, DeletePVC ?ns (pvc_name c)]"]
      unfolding claim_protocol_def that(4) fresh_pvc_def by fastforce
    have delete: "claim_protocol S ticks p (log @ [GetPVC ?ns claim]) (DeletePVC ?ns (pvc_name c))"
      if "pvc_get S log ?ns claim = Inr (Some c)" "local_claim c" for log c
      using local_read [OF that] by (auto simp: claim_protocol_def)
    have read: "claim_protocol S ticks p log (GetPVC ?ns claim)" for log by (simp add: claim_protocol_def)
    show ?thesis
      using Some
      by (auto simp: local_claim_def [symmetric] intro!: obeys_at_ret obeys_at_bind obeys_at_ask poll_pvc_gone_at
          read delete create rest split: option.split sum.split)
  qed
qed

text \<open>
  C20. Every call made while the claims of an evicted pod are replaced keeps to the protocol, whatever
  the server answers and wherever the loop stops: a claim is deleted only right after it was read and
  found to be of local storage, and created only after its deletion was accepted and its name was
  polled until it was not found or the ticks of the poll had run out; the new claim is bound to no
  volume and has no finalizers.
\<close>

theorem recreate_pvcs_safe:
  "\<exists>calls. snd (run_state (recreate_pvcs S ticks p (volumes p)) log) = log @ calls
    \<and> calls_ok (claim_protocol S ticks p) log calls"
  using recreate_pvcs_at_volumes [of "volumes p" p S ticks log] by (simp add: obeys_at_def)

text \<open>
  The end of the poll does not tell the claim's: a server that accepts the deletion and never lets the
  claim go is sent the new claim all the same.
\<close>

lemma claim_created_unseen:
  "snd (run_state (recreate_pvcs example_evict_server 0 (drained_pod ''db'' None)
      [\<lparr>vol_name = ''v'', empty_dir = False, pvc_claim = Some ''data''\<rparr>]) [])
    = [GetPVC ''ns'' ''data'', DeletePVC ''ns'' ''data'', GetPVC ''ns'' ''data'',
       CreatePVC ''ns'' (fresh_pvc \<lparr>pvc_name = ''data'', storage_class = None, volume_name = ''pv'',
         pvc_finalizers = [''f''], pvc_annotations = [], pvc_resource_version = ''7''\<rparr>)]"
  by (simp add: example_evict_server_def drained_pod_def poll_pvc_gone.simps)

section \<open>Unreachable clusters\<close>

text \<open>
  Draining a node reports success without any call when the client has no connection: \<open>Cordon\<close>
  and \<open>EvictNode\<close> turn the error of \<open>GetClientset\<close> into nil.
\<close>

theorem DrainNode_without_connection:
  assumes "conn S \<noteq> None"
  shows "run_state (DrainNode S ticks drain_pod nodeName timeout) log = (Some None, log)"
  using assms by (auto simp: DrainNode_def Cordon_def set_unschedulable_def EvictNode_def)

lemma DrainNode_without_connection_witness:
  "run_state (DrainNode (example_evict_server\<lparr>conn := Some (errorf ''no route to host'')\<rparr>) 0
     (\<lambda>_. ret (Some None)) ''node'' 5) [] = (Some None, [])"
  by (rule DrainNode_without_connection) simp

text \<open>The drain helper of the client asks for a grace period of zero seconds, not for the pod's own.\<close>

lemma client_grace_period_zero: "makeDeleteOptions getDrainHelper = Some 0"
  by (simp add: makeDeleteOptions_def getDrainHelper_def)

text \<open>
  \<open>ForceDeleteNamespace\<close> deletes the namespace only after the server has accepted that its
  finalizers are cleared.
\<close>

lemma ForceDeleteNamespace_success:
  assumes "run_state (ForceDeleteNamespace S ns timeout) log = (None, log')"
  shows "log' = log @ [GetNamespace ns, FinalizeNamespace ns [], DeleteNamespace ns]"
  using assms by (auto simp: ForceDeleteNamespace_def Let_def split: option.splits)

section \<open>A drained node\<close>

definition attachment_calls :: "volume_attachment \<Rightarrow> drain_call list" where
  "attachment_calls va =
     (if va_finalizers va = [] then [] else [UpdateVolumeAttachment (va\<lparr>va_finalizers := []\<rparr>)])
     @ [DeleteVolumeAttachment (va_name va)]"

lemma RemoveVolumeAttachment_success:
  assumes "run_state (RemoveVolumeAttachment S va) log = (None, log')" and "conn S = None"
  shows "log' = log @ attachment_calls va"
  using assms by (auto simp: RemoveVolumeAttachment_def attachment_calls_def split: option.splits if_splits)

lemma remove_attachments_success:
  assumes "run_state (remove_attachments S nodeName vas) log = (None, log')" and "conn S = None"
  shows "log' = log @ concat (map attachment_calls (filter (\<lambda>va. va_node va = nodeName) vas))"
  using assms(1)
proof (induction vas arbitrary: log)
  case (Cons va vas)
  show ?case
  proof (cases "va_node va = nodeName")
    case True
    obtain err l where l: "run_state (RemoveVolumeAttachment S va) log = (err, l)" by fastforce
    with Cons.prems True have "err = None" and rest: "run_state (remove_attachments S nodeName vas) l = (None, log')"
      by (auto split: if_splits)
    with l have "l = log @ attachment_calls va" using RemoveVolumeAttachment_success assms(2) by blast
    with Cons.IH [OF rest] True show ?thesis by simp
  next
    case False
    with Cons show ?thesis by simp
  qed
qed simp

text \<open>The logs between the pods of a loop that succeeded: the run of each pod leads to the next.\<close>

fun each_evicted :: "(pod \<Rightarrow> gerror option option drain) \<Rightarrow> pod list \<Rightarrow> drain_call list \<Rightarrow> drain_call list \<Rightarrow> bool" where
  "each_evicted evict [] log log' \<longleftrightarrow> log' = log"
| "each_evicted evict (p # ps) log log' \<longleftrightarrow>
     fst (run_state (evict p) log) = Some None \<and> each_evicted evict ps (snd (run_state (evict p) log)) log'"

lemma evict_pods_success:
  "run_state (evict_pods evict ps) log = (Some None, log') \<longleftrightarrow> each_evicted evict ps log log'"
proof (induction ps arbitrary: log)
  case (Cons p ps)
  obtain r l where "run_state (evict p) log = (r, l)" by fastforce
  then show ?case using Cons.IH by (auto split: option.splits)
qed auto

text \<open>The calls of a drain of a connected client that succeeds.\<close>

lemma DrainNode_calls:
  assumes "run_state (DrainNode S ticks drain_pod nodeName timeout) log = (Some None, log')" and "conn S = None"
  shows "\<exists>n items evicted vas. node_get S log = Inr n \<and> node_update S (log @ [GetNode nodeName]) = None
    \<and> list_node_pods S (log @ [GetNode nodeName, UpdateNode (n_name n) True]) = Inr items
    \<and> each_evicted (EvictPod_client S ticks drain_pod) items
        (log @ [GetNode nodeName, UpdateNode (n_name n) True, ListPods nodeName]) evicted
    \<and> list_attachments S evicted = Inr vas
    \<and> log' = evicted @ ListVolumeAttachments # concat (map attachment_calls (filter (\<lambda>va. va_node va = nodeName) vas))"
proof -
  have cordoned: "run_state (Cordon S nodeName) log =
    (case node_get S log of
       Inl err \<Rightarrow> (Some err, log @ [GetNode nodeName])
     | Inr n \<Rightarrow> (node_update S (log @ [GetNode nodeName]), log @ [GetNode nodeName, UpdateNode (n_name n) True]))"
    using assms(2) by (simp add: Cordon_def set_unschedulable_def split: sum.split)
  obtain n where n: "node_get S log = Inr n" "node_update S (log @ [GetNode nodeName]) = None"
    and node: "run_state (EvictNode S ticks drain_pod nodeName) (log @ [GetNode nodeName, UpdateNode (n_name n) True])
      = (Some None, log')"
    using assms(1) by (auto simp: DrainNode_def cordoned split: sum.splits option.splits)
  obtain items evicted where items: "list_node_pods S (log @ [GetNode nodeName, UpdateNode (n_name n) True]) = Inr items"
    and evict: "run_state (evict_pods (EvictPod_client S ticks drain_pod) items)
      (log @ [GetNode nodeName, UpdateNode (n_name n) True, ListPods nodeName]) = (Some None, evicted)"
    and rest: "\<exists>vas. list_attachments S evicted = Inr vas
      \<and> run_state (remove_attachments S nodeName vas) (evicted @ [ListVolumeAttachments]) = (None, log')"
    using node assms(2)
    by (auto simp: EvictNode_def split: sum.splits option.splits prod.splits)
  from rest obtain vas where "list_attachments S evicted = Inr vas"
    and "log' = (evicted @ [ListVolumeAttachments]) @ concat (map attachment_calls (filter (\<lambda>va. va_node va = nodeName) vas))"
    using remove_attachments_success [OF _ assms(2)] by blast
  with n items evict show ?thesis by (simp add: evict_pods_success) metis
qed

end
