(* ===== verification/Drain_Client.thy ===== *)
theory Drain_Client
  imports Drain_Concurrent Eviction
begin

text \<open>
  The drain of a node by the client with nothing left open between \<open>evict.go\<close> and package
  \<open>drain\<close>: \<open>evictPods\<close> of \<open>drain.go\<close> as it runs for the one pod that \<open>EvictPod\<close> of \<open>evict.go\<close>
  hands to \<open>DeleteOrEvictPods\<close>, and \<open>EvictPod\<close>, \<open>EvictNode\<close> and \<open>Drain\<close> on top of it.

  With one pod the main goroutine makes no call while the other one works, so the calls come in one
  order. The answer to an eviction is the parameter \<open>srv_evict\<close>, and \<open>turns\<close> is the number of
  evictions that fit before the deadline of the context: each refused one costs five seconds. The
  properties tell a pod that is gone from one that the code only takes for gone.
\<close>

section \<open>One goroutine\<close>

type_synonym evict_answers = "drain_call list \<Rightarrow> string \<Rightarrow> string \<Rightarrow> gerror option"

fun evict_goroutine ::
  "drain_server \<Rightarrow> evict_answers \<Rightarrow> Helper \<Rightarrow> string \<Rightarrow> gerror \<Rightarrow> nat \<Rightarrow> pod \<Rightarrow> string \<Rightarrow> nat \<Rightarrow> gerror option option drain" where
  "evict_goroutine S srv_evict d gtxt timeout_err ticks p policyGroupVersion turns = do {
     done \<leftarrow> State (\<lambda>log. (turns = 0 \<or> srv_ctx_done S log, log));
     if done then ret (Some (Some (errorf (''error when evicting pod '' @ [CHR 0x22] @ pod_name p @ [CHR 0x22]
       @ '': global timeout reached: '' @ gtxt))))
     else do {
       err \<leftarrow> ask (EvictPod d p policyGroupVersion) (\<lambda>log. srv_evict log (pod_namespace p) (pod_name p));
       (case err of
          None \<Rightarrow> do {
            r \<leftarrow> waitForDelete S (SkipWaitForDeleteTimeoutSeconds d) True gtxt timeout_err ticks [p];
            ret (case r of
                None \<Rightarrow> None
              | Some (_, None) \<Rightarrow> Some None
              | Some (_, Some e) \<Rightarrow> Some (Some (errorf (''error when waiting for pod '' @ [CHR 0x22] @ pod_name p
                  @ [CHR 0x22] @ '' terminating: '' @ Error e))))
          }
        | Some e \<Rightarrow>
            if is_not_found e then ret (Some None)
            else if is_too_many_requests e then (case turns of
                0 \<Rightarrow> ret None
              | Suc n \<Rightarrow> evict_goroutine S srv_evict d gtxt timeout_err ticks p policyGroupVersion n)
            else ret (Some (Some (errorf (''error when evicting pod '' @ [CHR 0x22] @ pod_name p @ [CHR 0x22]
              @ '': '' @ Error e)))))
     }
   }"

declare evict_goroutine.simps [simp del]

definition evictPods_one where
  "evictPods_one aggregate S srv_evict d gtxt timeout_err ticks turns p policyGroupVersion = do {
     r \<leftarrow> evict_goroutine S srv_evict d gtxt timeout_err ticks p policyGroupVersion turns;
     ret (map_option (\<lambda>err. aggregate (case err of None \<Rightarrow> [] | Some e \<Rightarrow> [e])) r)
   }"

text \<open>\<open>drainer.DeleteOrEvictPods(pod)\<close> with the helper of the client.\<close>

definition drain_one where
  "drain_one aggregate S srv_evict gtxt timeout_err ticks turns p =
     DeleteOrEvictPods (base S) getDrainHelper
       (\<lambda>_. evictPods_one aggregate (base S) srv_evict getDrainHelper gtxt timeout_err ticks turns p)
       gtxt timeout_err ticks [p]"

definition EvictPod_run where
  "EvictPod_run aggregate S srv_evict gtxt timeout_err ticks turns =
     EvictPod_client S ticks (drain_one aggregate S srv_evict gtxt timeout_err ticks turns)"

definition DrainNode_run where
  "DrainNode_run aggregate S srv_evict gtxt timeout_err ticks turns nodeName timeout =
     DrainNode S ticks (drain_one aggregate S srv_evict gtxt timeout_err ticks turns) nodeName timeout"

section \<open>Claims outlive their pod\<close>

text \<open>
  The wait for a pod since a log: its eviction was answered by not found, or its eviction or deletion
  was accepted and after it the pod was asked for and the answer said \<open>says\<close>. The pod was removed
  when the answer said that it is gone, and misjudged when the question failed.
\<close>

definition evicted_then :: "(drain_call list \<Rightarrow> pod \<Rightarrow> bool) \<Rightarrow> evict_answers \<Rightarrow> drain_call list \<Rightarrow> drain_call list \<Rightarrow> pod \<Rightarrow> bool" where
  "evicted_then says srv_evict log log' p \<longleftrightarrow>
     (\<exists>at pgv. prefix log at \<and> prefix (at @ [EvictPod getDrainHelper p pgv]) log'
        \<and> (case srv_evict at (pod_namespace p) (pod_name p) of
             Some e \<Rightarrow> is_not_found e
           | None \<Rightarrow> answered says (at @ [EvictPod getDrainHelper p pgv]) log' p))"

definition deleted_then :: "(drain_call list \<Rightarrow> pod \<Rightarrow> bool) \<Rightarrow> evict_server \<Rightarrow> drain_call list \<Rightarrow> drain_call list \<Rightarrow> pod \<Rightarrow> bool" where
  "deleted_then says S log log' p \<longleftrightarrow>
     (\<exists>at. prefix log at
        \<and> (\<forall>e. srv_delete (base S) at (pod_namespace p) (pod_name p) = Some e \<longrightarrow> is_not_found e)
        \<and> answered says (at @ [DeletePodCall (pod_namespace p) (pod_name p) (Some 0)]) log' p)"

definition waited_for :: "(drain_call list \<Rightarrow> pod \<Rightarrow> bool) \<Rightarrow> evict_server \<Rightarrow> evict_answers \<Rightarrow> drain_call list \<Rightarrow> drain_call list \<Rightarrow> pod \<Rightarrow> bool" where
  "waited_for says S srv_evict log log' p \<longleftrightarrow> evicted_then says srv_evict log log' p \<or> deleted_then says S log log' p"

definition removed :: "evict_server \<Rightarrow> evict_answers \<Rightarrow> drain_call list \<Rightarrow> drain_call list \<Rightarrow> pod \<Rightarrow> bool" where
  "removed S = waited_for (gone (base S)) S"

definition misjudged :: "evict_server \<Rightarrow> evict_answers \<Rightarrow> drain_call list \<Rightarrow> drain_call list \<Rightarrow> pod \<Rightarrow> bool" where
  "misjudged S = waited_for (read_failed (base S)) S"

definition taken_for_gone :: "evict_server \<Rightarrow> evict_answers \<Rightarrow> drain_call list \<Rightarrow> drain_call list \<Rightarrow> pod \<Rightarrow> bool" where
  "taken_for_gone S srv_evict log log' p \<longleftrightarrow> removed S srv_evict log log' p \<or> misjudged S srv_evict log log' p"

lemma waited_for_mono:
  assumes "waited_for says S ev log log' p" and "prefix log0 log" and "prefix log' log1"
  shows "waited_for says S ev log0 log1 p"
proof -
  have answer: "answered says at log' p \<Longrightarrow> answered says at log1 p" for at
    by (rule answered_mono [OF _ prefix_order.order_refl assms(3)])
  have "evicted_then says ev log log' p \<Longrightarrow> evicted_then says ev log0 log1 p"
    unfolding evicted_then_def
    by (elim exE conjE, intro exI conjI, erule prefix_order.order_trans [OF assms(2)],
        erule prefix_order.order_trans [OF _ assms(3)]) (auto intro: answer split: option.splits)
  moreover have "deleted_then says S log log' p \<Longrightarrow> deleted_then says S log0 log1 p"
    unfolding deleted_then_def using answer prefix_order.order_trans [OF assms(2)] by blast
  ultimately show ?thesis using assms(1) by (auto simp: waited_for_def)
qed

lemma taken_for_gone_mono:
  "taken_for_gone S ev log log' p \<Longrightarrow> prefix log0 log \<Longrightarrow> prefix log' log1 \<Longrightarrow> taken_for_gone S ev log0 log1 p"
  unfolding taken_for_gone_def removed_def misjudged_def using waited_for_mono by blast

text \<open>The helper of the client skips no pod that is terminating, however long it takes.\<close>

lemma not_overdue: "\<not> overdue S 0 log p"
  by (simp add: overdue_def shouldSkipPod_def split: prod.split option.split)

lemma wait_over_0: "wait_over S 0 log log' p \<longleftrightarrow> answered (gone S) log log' p \<or> answered (read_failed S) log log' p"
  unfolding wait_over_cases by (auto simp: answered_def not_overdue)

lemma evict_goroutine_removes:
  assumes "run_state (evict_goroutine (base S) ev getDrainHelper gtxt terr ticks p pgv turns) log = (Some None, log')"
  shows "evicted_then (gone (base S)) ev log log' p \<or> evicted_then (read_failed (base S)) ev log log' p"
  using assms
proof (induction turns arbitrary: log)
  case 0
  then show ?case by (simp add: evict_goroutine.simps [of _ _ _ _ _ _ _ _ 0])
next
  case (Suc n)
  note simps = evict_goroutine.simps [of _ _ _ _ _ _ _ _ "Suc n"]
  let ?ans = "ev log (pod_namespace p) (pod_name p)"
  let ?log = "log @ [EvictPod getDrainHelper p pgv]"
  have skip: "SkipWaitForDeleteTimeoutSeconds getDrainHelper = 0" by (simp add: getDrainHelper_def)
  have running: "\<not> srv_ctx_done (base S) log" using Suc.prems by (auto simp: simps)
  show ?case
  proof (cases ?ans)
    case None
    with Suc.prems running obtain rest where
      w: "run_state (waitForDelete (base S) 0 True gtxt terr ticks [p]) ?log = (Some (rest, None), log')"
      by (auto simp: simps skip split: prod.splits option.splits)
    have "prefix ?log log'" by (rule extendsD [OF extends_waitForDelete w])
    with None have "answered says ?log log' p \<Longrightarrow> evicted_then says ev log log' p" for says
      unfolding evicted_then_def by (intro exI [of _ log] exI [of _ pgv]) simp
    then show ?thesis using waitForDelete_released [OF w] by (auto simp: wait_over_0)
  next
    case (Some e)
    show ?thesis
    proof (cases "is_not_found e")
      case True
      with Some running Suc.prems show ?thesis
        unfolding evicted_then_def by (intro disjI1 exI [of _ log] exI [of _ pgv]) (simp add: simps)
    next
      case False
      with Some running Suc.prems have "run_state (evict_goroutine (base S) ev getDrainHelper gtxt terr ticks p pgv n) ?log
        = (Some None, log')" by (auto simp: simps split: if_splits)
      from Suc.IH [OF this] show ?thesis unfolding evicted_then_def by (metis append_prefixD)
    qed
  qed
qed

lemma evictPods_one_removes:
  assumes "run_state (evictPods_one aggregate (base S) ev getDrainHelper gtxt terr ticks turns p pgv) log = (Some None, log')"
    and "\<forall>e. aggregate [e] \<noteq> None"
  shows "evicted_then (gone (base S)) ev log log' p \<or> evicted_then (read_failed (base S)) ev log log' p"
proof -
  obtain r where r: "run_state (evict_goroutine (base S) ev getDrainHelper gtxt terr ticks p pgv turns) log = (Some r, log')"
    "aggregate (case r of None \<Rightarrow> [] | Some e \<Rightarrow> [e]) = None"
    using assms(1) by (auto simp: evictPods_one_def split: prod.splits)
  have "r = None" using r(2) assms(2) by (cases r) auto
  with r(1) show ?thesis using evict_goroutine_removes by blast
qed

lemma deletePods_one_removes:
  assumes "run_state (deletePods (base S) getDrainHelper gtxt terr ticks [p]) log = (Some None, log')"
  shows "deleted_then (gone (base S)) S log log' p \<or> deleted_then (read_failed (base S)) S log log' p"
proof -
  let ?log = "log @ [DeletePodCall (pod_namespace p) (pod_name p) (Some 0)]"
  have helper: "SkipWaitForDeleteTimeoutSeconds getDrainHelper = 0" "makeDeleteOptions getDrainHelper = Some 0"
    by (simp_all add: getDrainHelper_def makeDeleteOptions_def)
  obtain rest where ok: "\<forall>e. srv_delete (base S) log (pod_namespace p) (pod_name p) = Some e \<longrightarrow> is_not_found e"
    and w: "run_state (waitForDelete (base S) 0 False gtxt terr ticks [p]) ?log = (Some (rest, None), log')"
    using assms
    by (auto simp: deletePods_def DeletePod_def helper not_found_err_def split: prod.splits if_splits option.splits)
  show ?thesis
    using waitForDelete_released [OF w] ok unfolding deleted_then_def by (auto simp: wait_over_0)
qed

lemma extends_CheckEvictionSupport: "extends (CheckEvictionSupport S)"
  unfolding CheckEvictionSupport_def by (intro extends_rules)

lemma drain_one_removes:
  assumes "run_state (drain_one aggregate S ev gtxt terr ticks turns p) log = (Some None, log')"
    and "\<forall>e. aggregate [e] \<noteq> None"
  shows "taken_for_gone S ev log log' p"
proof -
  obtain pgv err l where c: "run_state (CheckEvictionSupport (base S)) log = ((pgv, err), l)" by (metis surj_pair)
  have helper: "\<not> DisableEviction getDrainHelper" by (simp add: getDrainHelper_def)
  have "taken_for_gone S ev l log' p"
    using assms(1) c evictPods_one_removes [OF _ assms(2), of S ev gtxt terr ticks turns p pgv l log']
      deletePods_one_removes [of S gtxt terr ticks p l log']
    by (auto simp: drain_one_def DeleteOrEvictPods_def helper taken_for_gone_def removed_def misjudged_def waited_for_def
        split: if_splits)
  then show ?thesis
    using extendsD [OF extends_CheckEvictionSupport c] taken_for_gone_mono by blast
qed


text \<open>Nothing but \<open>recreate_pvcs\<close> deletes a claim, and that only in the namespace of the pod.\<close>

definition no_claims :: "drain_call list \<Rightarrow> drain_call \<Rightarrow> bool" where
  "no_claims log c \<longleftrightarrow> (\<forall>ns n. c \<noteq> DeletePVC ns n)"

named_theorems claim_rules \<open>computations that delete no claim\<close>

lemma pending_pods_claims [claim_rules]: "obeys no_claims (pending_pods S skip u ps)"
  by (induction ps)
    (simp_all only: pending_pods.simps, (intro obeys_rules | assumption | simp add: no_claims_def)+)

lemma waitForDelete_claims [claim_rules]: "obeys no_claims (waitForDelete S skip u gtxt terr ticks ps)"
proof (induction ticks arbitrary: ps)
  case 0
  show ?case
    unfolding waitForDelete.simps [of _ _ _ _ _ 0] nat.case by (intro obeys_rules claim_rules)
next
  case (Suc n)
  show ?case
    unfolding waitForDelete.simps [of _ _ _ _ _ "Suc n"] nat.case by (intro obeys_rules claim_rules Suc)
qed

lemma deletePods_claims [claim_rules]: "obeys no_claims (deletePods S d gtxt terr ticks ps)"
proof -
  have "obeys no_claims (delete_all S d ps)"
    by (induction ps)
      (simp_all only: delete_all.simps DeletePod_def, (intro obeys_rules | assumption | simp add: no_claims_def)+)
  then show ?thesis unfolding deletePods_def by (intro obeys_rules claim_rules)
qed

lemma evict_goroutine_claims [claim_rules]:
  "obeys no_claims (evict_goroutine S ev d gtxt terr ticks p pgv turns)"
proof (induction turns)
  case 0
  show ?case
    unfolding evict_goroutine.simps [of _ _ _ _ _ _ _ _ 0] nat.case
    by (intro obeys_rules claim_rules) (simp add: EvictPod_def no_claims_def)
next
  case (Suc n)
  show ?case
    unfolding evict_goroutine.simps [of _ _ _ _ _ _ _ _ "Suc n"] nat.case
    by (intro obeys_rules claim_rules Suc) (simp add: EvictPod_def no_claims_def)
qed

lemma drain_one_claims [claim_rules]: "obeys no_claims (drain_one aggregate S ev gtxt terr ticks turns p)"
  unfolding drain_one_def DeleteOrEvictPods_def evictPods_one_def CheckEvictionSupport_def
  by (intro obeys_rules claim_rules) (simp_all add: no_claims_def)

lemma GetPodReplicas_claims [claim_rules]: "obeys no_claims (GetPodReplicas S p)"
proof -
  have "obeys no_claims (replicas_loop S p owners)" for owners
    by (induction owners)
      (simp_all only: replicas_loop.simps, (intro obeys_rules | assumption | simp add: no_claims_def)+)
  then show ?thesis unfolding GetPodReplicas_def by (intro obeys_rules)
qed

lemma ScalePod_claims [claim_rules]: "obeys no_claims (ScalePod S p k)"
proof -
  have "obeys no_claims (scale_loop S p k owners)" for owners
    by (induction owners)
      (simp_all only: scale_loop.simps, (intro obeys_rules | assumption | simp add: no_claims_def)+)
  then show ?thesis unfolding ScalePod_def by (intro obeys_rules)
qed

definition claims_of :: "pod \<Rightarrow> drain_call list \<Rightarrow> drain_call \<Rightarrow> bool" where
  "claims_of p log c \<longleftrightarrow> (\<forall>ns n. c = DeletePVC ns n \<longrightarrow> ns = pod_namespace p)"

lemma poll_pvc_gone_claims: "obeys (claims_of p) (poll_pvc_gone S ns name n)"
proof (induction n)
  case 0
  show ?case
    unfolding poll_pvc_gone.simps [of _ _ _ 0] nat.case by (intro obeys_rules) (simp add: claims_of_def)
next
  case (Suc n)
  show ?case
    unfolding poll_pvc_gone.simps [of _ _ _ "Suc n"] nat.case
    by (intro obeys_rules Suc) (simp add: claims_of_def)
qed

lemma recreate_pvcs_claims: "obeys (claims_of p) (recreate_pvcs S ticks p vols)"
  by (induction vols)
    (simp_all only: recreate_pvcs.simps,
     (intro obeys_rules poll_pvc_gone_claims | assumption | simp add: claims_of_def)+)

text \<open>A claim is deleted only of a pod that was taken for gone since a log.\<close>

definition claim_of_lost ::
  "evict_server \<Rightarrow> evict_answers \<Rightarrow> drain_call list \<Rightarrow> pod \<Rightarrow> drain_call list \<Rightarrow> drain_call \<Rightarrow> bool" where
  "claim_of_lost S ev log0 p log c \<longleftrightarrow>
     (\<forall>ns n. c = DeletePVC ns n \<longrightarrow> ns = pod_namespace p \<and> taken_for_gone S ev log0 log p)"

lemma no_claims_at: "obeys no_claims m \<Longrightarrow> obeys_at (claim_of_lost S ev log0 p) m log"
  by (erule obeys_at_mono) (simp add: no_claims_def claim_of_lost_def)


lemmas claims_at = drain_one_claims [THEN no_claims_at] GetPodReplicas_claims [THEN no_claims_at]
  ScalePod_claims [THEN no_claims_at]

lemma recreate_pvcs_at:
  assumes "taken_for_gone S ev log0 log p"
  shows "obeys_at (claim_of_lost S ev log0 p) (recreate_pvcs S ticks p vols) log"
  by (rule obeys_at_mono [OF recreate_pvcs_claims])
    (auto simp: claims_of_def claim_of_lost_def intro: taken_for_gone_mono [OF assms])

lemma evict_body_at:
  assumes "prefix log0 log" and "\<forall>e. aggregate [e] \<noteq> None"
  shows "obeys_at (claim_of_lost S ev log0 p)
    (evict_body S ticks (drain_one aggregate S ev gtxt terr ticks turns) p) log"
  unfolding evict_body_def
proof (rule obeys_at_bind)
  let ?failover = "if labels p ''spilo-role'' = Some ''master'' then do {
         (stdout, stderr, err) \<leftarrow> ask (ExecCall (pod_namespace p) (pod_name p)) (exec_switchover S);
         ret (map_option (\<lambda>e. errorf (''failed to failover instance, aborting: '' @ Error e @ '' ''
           @ stderr @ '' '' @ stdout)) err)
       } else ret None"
  have kept: "obeys no_claims ?failover" by (intro obeys_rules) (simp add: no_claims_def)
  then show "obeys_at (claim_of_lost S ev log0 p) ?failover log" by (rule no_claims_at)
  fix failover log1 assume "run_state ?failover log = (failover, log1)"
  then have log1: "prefix log0 log1" using obeys_extends [OF kept] assms(1) prefix_order.order_trans by blast
  show "obeys_at (claim_of_lost S ev log0 p) (if failover \<noteq> None then ret (Some failover)
     else do {
       r \<leftarrow> drain_one aggregate S ev gtxt terr ticks turns p;
       (case r of
          None \<Rightarrow> ret None
        | Some (Some err) \<Rightarrow> ret (Some (Some err))
        | Some None \<Rightarrow> recreate_pvcs S ticks p (volumes p))
     }) log1"
    using drain_one_removes [OF _ assms(2), of S ev gtxt terr ticks turns p log1] log1
      taken_for_gone_mono [of S ev log1 _ p log0]
    by (auto intro!: obeys_at_ret obeys_at_bind claims_at recreate_pvcs_at split: option.split)
qed

lemma EvictPod_run_at:
  assumes "prefix log0 log" and "\<forall>e. aggregate [e] \<noteq> None"
  shows "obeys_at (claim_of_lost S ev log0 p) (EvictPod_run aggregate S ev gtxt terr ticks turns p) log"
proof -
  have "prefix log0 log2" if "run_state (GetPodReplicas S p) log = (x, log1)" "run_state (ScalePod S p 2) log1 = (y, log2)"
    for x y log1 log2
    using obeys_extends [OF GetPodReplicas_claims that(1)] obeys_extends [OF ScalePod_claims that(2)] assms(1)
    by (meson prefix_order.order_trans)
  moreover have "prefix log0 log1" if "run_state (GetPodReplicas S p) log = (x, log1)" for x log1
    using obeys_extends [OF GetPodReplicas_claims that] assms(1) by (rule prefix_order.order_trans [rotated])
  ultimately show ?thesis
    unfolding EvictPod_run_def EvictPod_client_def
    by (auto intro!: obeys_at_ret obeys_at_bind claims_at evict_body_at assms(2)
        split: option.split sum.split)
qed


section \<open>Nodes\<close>

lemma evict_pods_at:
  assumes "\<And>p log. p \<in> set ps \<Longrightarrow> prefix log0 log \<Longrightarrow> obeys_at ok (evict p) log" and "prefix log0 log"
  shows "obeys_at ok (evict_pods evict ps) log"
  using assms
proof (induction ps arbitrary: log)
  case Nil
  then show ?case by (simp add: obeys_at_ret)
next
  case (Cons p ps)
  have one: "obeys_at ok (evict p) log" using Cons.prems by simp
  have "prefix log0 log1" if "run_state (evict p) log = (r, log1)" for r log1
    using obeys_at_extends [OF one that] Cons.prems(2) by (rule prefix_order.order_trans [rotated])
  then have "obeys_at ok (evict_pods evict ps) log1" if "run_state (evict p) log = (r, log1)" for r log1
    using Cons.IH [of log1] Cons.prems(1) that by auto
  then show ?case
    by (auto intro!: obeys_at_bind one obeys_at_ret split: option.split)
qed

text \<open>Every deleted claim is in the namespace of a pod of the node taken for gone since its pods were listed.\<close>

definition claims_of_node ::
  "evict_server \<Rightarrow> evict_answers \<Rightarrow> drain_call list \<Rightarrow> string \<Rightarrow> drain_call list \<Rightarrow> drain_call \<Rightarrow> bool" where
  "claims_of_node S srv_evict log0 nodeName log c \<longleftrightarrow> (\<forall>ns n. c = DeletePVC ns n \<longrightarrow>
     (\<exists>at items p. prefix log0 at \<and> list_node_pods S at = Inr items \<and> p \<in> set items \<and> pod_namespace p = ns
        \<and> taken_for_gone S srv_evict (at @ [ListPods nodeName]) log p))"

lemma node_no_claims: "obeys no_claims m \<Longrightarrow> obeys_at (claims_of_node S ev log0 nodeName) m log"
  by (erule obeys_at_mono) (simp add: no_claims_def claims_of_node_def)

lemma remove_attachments_claims: "obeys no_claims (remove_attachments S nodeName vas)"
proof -
  have one: "obeys no_claims (RemoveVolumeAttachment S va)" for va
    unfolding RemoveVolumeAttachment_def by (intro obeys_rules) (simp_all add: no_claims_def)
  show ?thesis
    by (induction vas) (simp_all only: remove_attachments.simps, (intro obeys_rules one | assumption)+)
qed

lemma calls_ok_claims: "calls_ok (claim_of_lost S ev (at @ [ListPods nodeName]) p) log cs \<Longrightarrow>
  prefix log0 at \<Longrightarrow> list_node_pods S at = Inr items \<Longrightarrow> p \<in> set items \<Longrightarrow>
  calls_ok (claims_of_node S ev log0 nodeName) log cs"
  by (erule calls_ok_mono [rotated]) (simp add: claim_of_lost_def claims_of_node_def, blast)

lemma EvictNode_at:
  assumes "prefix log0 log" and "\<forall>e. aggregate [e] \<noteq> None"
  shows "obeys_at (claims_of_node S ev log0 nodeName)
    (EvictNode S ticks (drain_one aggregate S ev gtxt terr ticks turns) nodeName) log"
proof -
  let ?evict = "EvictPod_client S ticks (drain_one aggregate S ev gtxt terr ticks turns)"
  let ?ok = "claims_of_node S ev log0 nodeName"
  have "obeys_at ?ok (?evict p) l"
    if "list_node_pods S log = Inr items" "p \<in> set items" "prefix (log @ [ListPods nodeName]) l" for items p l
    using EvictPod_run_at [OF that(3) assms(2), of S ev p gtxt terr ticks turns] calls_ok_claims [OF _ assms(1) that(1,2)]
    unfolding EvictPod_run_def obeys_at_def by blast
  then have "obeys_at ?ok (evict_pods ?evict items) (log @ [ListPods nodeName])"
    if "list_node_pods S log = Inr items" for items
    using that by (intro evict_pods_at [where ?log0.0 = "log @ [ListPods nodeName]"]) auto
  moreover have "obeys_at ?ok (ask (ListPods nodeName) (list_node_pods S)) l"
    "obeys_at ?ok (ask ListVolumeAttachments (list_attachments S)) l" for l
    by (intro node_no_claims obeys_rules, simp add: no_claims_def)+
  ultimately show ?thesis
    unfolding EvictNode_def
    by (auto intro!: obeys_at_ret obeys_at_bind remove_attachments_claims [THEN node_no_claims]
        split: option.split sum.split)
qed

text \<open>
  C6. However the servers answer, draining a node deletes a volume claim only when a pod of that
  namespace was listed on the node and has since been removed: its eviction was answered by not
  found, or its eviction or deletion was accepted and the pod was then not found or replaced by one
  with another UID. The one exception is a question for the pod, after the accepted eviction or
  deletion, that failed with an object of another UID beside the error: the code then takes the pod
  for gone.
\<close>

theorem DrainNode_claims_of_removed_pods:
  assumes "\<forall>e. aggregate [e] \<noteq> None"
    and "snd (run_state (DrainNode_run aggregate S srv_evict gtxt terr ticks turns nodeName timeout) log)
      = log @ pre @ DeletePVC ns name # post"
  shows "\<exists>at items p. prefix log at \<and> list_node_pods S at = Inr items \<and> p \<in> set items \<and> pod_namespace p = ns
    \<and> (removed S srv_evict (at @ [ListPods nodeName]) (log @ pre) p
      \<or> misjudged S srv_evict (at @ [ListPods nodeName]) (log @ pre) p)"
proof -
  have cordon: "obeys no_claims (Cordon S nodeName)"
    unfolding Cordon_def set_unschedulable_def by (intro obeys_rules) (simp_all add: no_claims_def)
  have "prefix log log1" if "run_state (Cordon S nodeName) log = (x, log1)" for x log1
    by (rule obeys_extends [OF cordon that])
  then have "obeys_at (claims_of_node S srv_evict log nodeName)
    (DrainNode_run aggregate S srv_evict gtxt terr ticks turns nodeName timeout) log"
    unfolding DrainNode_run_def DrainNode_def
    using EvictNode_at [OF _ assms(1)] node_no_claims [OF cordon]
    by (auto intro!: obeys_at_ret obeys_at_bind split: option.split)
  with assms(2) have "calls_ok (claims_of_node S srv_evict log nodeName) log (pre @ DeletePVC ns name # post)"
    by (auto simp: obeys_at_def)
  from calls_ok_split [OF this] show ?thesis by (simp add: claims_of_node_def taken_for_gone_def)
qed


definition first_error :: "gerror list \<Rightarrow> gerror option" where
  "first_error es = (case es of [] \<Rightarrow> None | e # _ \<Rightarrow> Some e)"

section \<open>Evicted pods\<close>

definition passed_over :: "pod \<Rightarrow> bool" where
  "passed_over p \<longleftrightarrow> IsPodDaemonSet p \<or> IsPodFinished p \<or> IsDeleted p \<or> IsStaticPod p"

lemmas extends_claims = claim_rules [THEN obeys_imp_extends] recreate_pvcs_claims [THEN obeys_imp_extends]

lemma extends_evict_body: "extends (evict_body S ticks (drain_one aggregate S ev gtxt terr ticks turns) p)"
  unfolding evict_body_def by (intro extends_rules extends_claims)

lemma extends_EvictPod_run: "extends (EvictPod_run aggregate S ev gtxt terr ticks turns p)"
  unfolding EvictPod_run_def EvictPod_client_def by (intro extends_rules extends_claims extends_evict_body)

lemma evict_body_success:
  assumes "run_state (evict_body S ticks (drain_one aggregate S ev gtxt terr ticks turns) p) log = (Some None, log')"
    and "\<forall>e. aggregate [e] \<noteq> None"
  shows "taken_for_gone S ev log log' p"
proof -
  obtain l1 l2 where l1: "l1 = log \<or> l1 = log @ [ExecCall (pod_namespace p) (pod_name p)]"
    and l2: "run_state (drain_one aggregate S ev gtxt terr ticks turns p) l1 = (Some None, l2)"
    and rest: "run_state (recreate_pvcs S ticks p (volumes p)) l2 = (Some None, log')"
    using assms(1) by (auto simp: evict_body_def split: prod.splits if_splits option.splits)
  have "prefix l2 log'" by (rule extendsD [OF extends_claims(8) rest])
  moreover have "prefix log l1" using l1 by auto
  ultimately show ?thesis using drain_one_removes [OF l2 assms(2)] taken_for_gone_mono by blast
qed

lemma run_EvictPod:
  assumes "\<not> passed_over p" and "conn S = None"
  shows "run_state (EvictPod_run aggregate S ev gtxt terr ticks turns p) log =
    (let body = evict_body S ticks (drain_one aggregate S ev gtxt terr ticks turns) p
     in case run_state (GetPodReplicas S p) log of (replicas, l0) \<Rightarrow>
       (case replicas of
          None \<Rightarrow> (None, l0)
        | Some (Inl err) \<Rightarrow> (Some (Some err), l0)
        | Some (Inr n) \<Rightarrow>
            if n \<noteq> 1 then run_state body l0
            else (case run_state (ScalePod S p 2) l0 of (up, l1) \<Rightarrow>
              (case up of
                 None \<Rightarrow> (None, l1)
               | Some (Some err) \<Rightarrow> (Some (Some err), l1)
               | Some None \<Rightarrow>
                   (case run_state body l1 of (r, l2) \<Rightarrow>
                     (case run_state (ScalePod S p 1) l2 of (down, l3) \<Rightarrow> (if down = None then None else r, l3)))))))"
  using assms
  by (auto simp: EvictPod_run_def EvictPod_client_def passed_over_def Let_def split: prod.split option.split sum.split)

lemma EvictPod_run_success:
  assumes "run_state (EvictPod_run aggregate S ev gtxt terr ticks turns p) log = (Some None, log')"
    and "\<forall>e. aggregate [e] \<noteq> None"
  shows "passed_over p \<or> taken_for_gone S ev log log' p"
proof (cases "passed_over p")
  case False
  have conn: "conn S = None"
    using assms(1) False by (cases "conn S") (auto simp: EvictPod_run_def EvictPod_client_def passed_over_def)
  obtain r0 l0 where l0: "run_state (GetPodReplicas S p) log = (r0, l0)" by fastforce
  obtain l1 l2 where
    l1: "l1 = l0 \<or> (\<exists>up. run_state (ScalePod S p 2) l0 = (up, l1))"
    and body: "run_state (evict_body S ticks (drain_one aggregate S ev gtxt terr ticks turns) p) l1 = (Some None, l2)"
    and l2: "log' = l2 \<or> (\<exists>down. run_state (ScalePod S p 1) l2 = (down, log'))"
    using assms(1) unfolding run_EvictPod [OF False conn] l0 Let_def
    by (auto split: prod.splits option.splits sum.splits if_splits)
  have "prefix log l0" by (rule extendsD [OF extends_claims(6) l0])
  moreover have "prefix l0 l1" using l1 extendsD [OF extends_claims(7)] by auto
  moreover have "prefix l2 log'" using l2 extendsD [OF extends_claims(7)] by auto
  ultimately show ?thesis
    using evict_body_success [OF body assms(2)] taken_for_gone_mono prefix_order.order_trans by metis
qed simp

lemma each_evicted_success:
  assumes "each_evicted (EvictPod_run aggregate S ev gtxt terr ticks turns) ps log log'"
    and "\<forall>e. aggregate [e] \<noteq> None"
  shows "prefix log log' \<and> (\<forall>p\<in>set ps. passed_over p \<or> taken_for_gone S ev log log' p)"
  using assms(1)
proof (induction ps arbitrary: log)
  case (Cons p ps)
  obtain l where l: "run_state (EvictPod_run aggregate S ev gtxt terr ticks turns p) log = (Some None, l)"
    and rest: "each_evicted (EvictPod_run aggregate S ev gtxt terr ticks turns) ps l log'"
    using Cons.prems by (auto simp: prod_eq_iff)
  have "prefix log l" by (rule extendsD [OF extends_EvictPod_run l])
  moreover have "prefix l log'" using Cons.IH [OF rest] by blast
  ultimately show ?case
    using Cons.IH [OF rest] EvictPod_run_success [OF l assms(2)] taken_for_gone_mono [of S ev l log' _ log log']
      taken_for_gone_mono [of S ev log l _ log log'] prefix_order.order_trans [of log l log'] by auto
qed simp

text \<open>
  C18. When draining a node succeeds on a connected client, the node was made unschedulable before its
  pods were listed. Each listed pod is of a daemon set, finished, being deleted or static, and was
  passed over; or it was removed: its eviction was answered by not found, or its eviction or deletion
  was accepted and the pod was then not found or replaced; or, after its accepted eviction or deletion,
  the question for it failed and the code took it for gone. Then the volume attachments of the
  node, and no others, were deleted, their finalizers first.
\<close>

theorem DrainNode_success:
  assumes "run_state (DrainNode_run aggregate S srv_evict gtxt terr ticks turns nodeName timeout) log = (Some None, log')"
    and "conn S = None" and "\<forall>e. aggregate [e] \<noteq> None"
  shows "\<exists>n items evicted vas. node_get S log = Inr n \<and> node_update S (log @ [GetNode nodeName]) = None
    \<and> list_node_pods S (log @ [GetNode nodeName, UpdateNode (n_name n) True]) = Inr items
    \<and> (let listed = log @ [GetNode nodeName, UpdateNode (n_name n) True, ListPods nodeName]
       in \<forall>p\<in>set items. passed_over p \<or> removed S srv_evict listed evicted p \<or> misjudged S srv_evict listed evicted p)
    \<and> list_attachments S evicted = Inr vas
    \<and> log' = evicted @ ListVolumeAttachments # concat (map attachment_calls (filter (\<lambda>va. va_node va = nodeName) vas))"
proof -
  obtain n items evicted vas where calls: "node_get S log = Inr n" "node_update S (log @ [GetNode nodeName]) = None"
    "list_node_pods S (log @ [GetNode nodeName, UpdateNode (n_name n) True]) = Inr items"
    "each_evicted (EvictPod_run aggregate S srv_evict gtxt terr ticks turns) items
      (log @ [GetNode nodeName, UpdateNode (n_name n) True, ListPods nodeName]) evicted"
    "list_attachments S evicted = Inr vas"
    "log' = evicted @ ListVolumeAttachments # concat (map attachment_calls (filter (\<lambda>va. va_node va = nodeName) vas))"
    using DrainNode_calls [OF assms(1) [unfolded DrainNode_run_def] assms(2)] by (auto simp: EvictPod_run_def)
  have "\<forall>p\<in>set items. passed_over p
      \<or> removed S srv_evict (log @ [GetNode nodeName, UpdateNode (n_name n) True, ListPods nodeName]) evicted p
      \<or> misjudged S srv_evict (log @ [GetNode nodeName, UpdateNode (n_name n) True, ListPods nodeName]) evicted p"
    using each_evicted_success [OF calls(4) assms(3)] by (simp add: taken_for_gone_def)
  with calls show ?thesis unfolding Let_def by blast
qed

section \<open>Scaling\<close>

text \<open>
  C17. A pod of a replica set with one replica is evicted with two, and then with one again: after its
  eviction every replica set of the pod has one replica, whatever the switchover, the eviction and
  the claims end in, errors and panics included. The only exception is a server that refuses to read
  or to update a replica set during this very eviction.
\<close>

theorem EvictPod_restores_replicas:
  assumes "tells_replicas S init" and "conn S = None"
    and "replica_sets p = owner # rest"
    and "replicas_after S init (pod_namespace p) (owner_name owner) log = 1"
    and "\<not> passed_over p"
  shows "\<exists>r log'. run_state (EvictPod_run aggregate S srv_evict gtxt terr ticks turns p) log = (r, log') \<and>
    ((\<forall>o'\<in>set (replica_sets p). replicas_after S init (pod_namespace p) (owner_name o') log' = 1)
     \<or> scaling_refused S log log')"
proof -
  let ?body = "evict_body S ticks (drain_one aggregate S srv_evict gtxt terr ticks turns) p"
  obtain r0 l0 where l0: "run_state (GetPodReplicas S p) log = (r0, l0)" by fastforce
  obtain up l1 where l1: "run_state (ScalePod S p 2) l0 = (up, l1)" by fastforce
  obtain r l2 where l2: "run_state ?body l1 = (r, l2)" by fastforce
  obtain down l3 where l3: "run_state (ScalePod S p 1) l2 = (down, l3)" by fastforce
  obtain r' log' where run: "run_state (EvictPod_run aggregate S srv_evict gtxt terr ticks turns p) log = (r', log')"
    by fastforce
  have pre: "prefix log l0" "prefix l0 l1" "prefix l1 l2" "prefix l2 l3"
    using extendsD [OF extends_claims(6) l0] extendsD [OF extends_claims(7) l1] extendsD [OF extends_evict_body l2]
      extendsD [OF extends_claims(7) l3] by blast+
  have first: "scaling_refused S log l0 \<or> r0 = Some (Inr 1)"
    using replicas_loop_first [OF assms(1) _ assms(3) [unfolded replica_sets_def]] l0 assms(2,4)
    by (auto simp: GetPodReplicas_def)
  have ends: "prefix l0 log' \<and> (r0 = Some (Inr 1) \<longrightarrow> prefix l1 log' \<and> (up = Some None \<longrightarrow> log' = l3))"
    using run pre extendsD [OF extends_evict_body, of S ticks aggregate srv_evict gtxt terr turns p l0]
    unfolding run_EvictPod [OF assms(5,2)] l0 l1 l2 l3 Let_def prod.case
    by (auto split: option.splits sum.splits if_splits intro: prefix_order.order_trans)
  have up: "scaling_refused S l0 l1 \<or> up = Some None" using ScalePod_scales [OF assms(1,2) l1] by blast
  have down: "scaling_refused S l2 l3 \<or>
    (\<forall>o'\<in>set (replica_sets p). replicas_after S init (pod_namespace p) (owner_name o') l3 = 1)"
    using ScalePod_scales [OF assms(1,2) l3] by blast
  have "prefix log l2" using pre by (meson prefix_order.order_trans)
  then show ?thesis
    using run first up down ends pre scaling_refused_mono [of S log l0 log log'] scaling_refused_mono [of S l0 l1 log log']
      scaling_refused_mono [of S l2 l3 log log'] by auto
qed

definition claim_pod :: pod where
  "claim_pod = (drained_pod ''db'' None)\<lparr>volumes := [\<lparr>vol_name = ''v'', empty_dir = False, pvc_claim = Some ''data''\<rparr>]\<rparr>"

definition evicting_server :: drain_server where
  "evicting_server = failing_server\<lparr>
     srv_groups := (\<lambda>_. Inr [\<lparr>group_name = ''policy'', preferred_version = ''policy/v1beta1''\<rparr>]),
     srv_resources := (\<lambda>_. Inr [\<lparr>res_name = EvictionSubresource, res_kind = EvictionKind\<rparr>]),
     srv_get := (\<lambda>_ _ _. (Some (drained_pod '''' None), Some ((errorf ''gone'')\<lparr>is_not_found := True\<rparr>)))\<rparr>"

definition claim_server :: evict_server where
  "claim_server = example_evict_server\<lparr>base := evicting_server,
     node_get := (\<lambda>_. Inr \<lparr>n_name = ''node'', n_labels = Map.empty, n_conditions = [], taints = [], unschedulable = False\<rparr>),
     list_node_pods := (\<lambda>_. Inr [claim_pod]),
     list_attachments := (\<lambda>_. Inr [\<lparr>va_name = ''a'', va_node = ''other'', va_finalizers = []\<rparr>,
       \<lparr>va_name = ''b'', va_node = ''node'', va_finalizers = [''f'']\<rparr>])\<rparr>"

definition claim_calls :: "drain_call list" where
  "claim_calls = [GetNode ''node'', UpdateNode ''node'' True, ListPods ''node'', ServerGroups, ServerResources ''v1'',
     EvictPodCall ''ns'' ''db'' ''policy/v1beta1'' (Some 0), GetPodCall ''ns'' ''db'', Done ''ns'' ''db'' True,
     GetPVC ''ns'' ''data'']"

definition later_calls :: "drain_call list" where
  "later_calls = [GetPVC ''ns'' ''data'', GetPVC ''ns'' ''data'',
     CreatePVC ''ns'' \<lparr>pvc_name = ''data'', storage_class = None, volume_name = [], pvc_finalizers = [],
       pvc_annotations = [], pvc_resource_version = []\<rparr>,
     ListVolumeAttachments, UpdateVolumeAttachment \<lparr>va_name = ''b'', va_node = ''node'', va_finalizers = []\<rparr>,
     DeleteVolumeAttachment ''b'']"

text \<open>This server answers no question with an error other than not found, so no pod is misjudged.\<close>

lemma never_misjudged: "\<not> read_failed evicting_server at p"
  by (simp add: read_failed_def evicting_server_def)

lemma claim_run:
  "run_state (DrainNode_run first_error claim_server (\<lambda>_ _ _. None) ''2m0s'' (errorf ''timeout'') 1 1 ''node'' 120) []
   = (Some None, claim_calls @ DeletePVC ''ns'' ''data'' # later_calls)"
  by (simp add: DrainNode_run_def DrainNode_def Cordon_def set_unschedulable_def EvictNode_def EvictPod_client_def
      GetPodReplicas_def ScalePod_def evict_body_def drain_one_def DeleteOrEvictPods_def getDrainHelper_def
      CheckEvictionSupport_def find_policy_def deletePods_def DeletePod_def makeDeleteOptions_def
      waitForDelete.simps poll_pvc_gone.simps fresh_pvc_def evictPods_one_def evict_goroutine.simps EvictPod_def
      first_error_def RemoveVolumeAttachment_def claim_calls_def later_calls_def
      IsPodDaemonSet_def IsPodFinished_def IsDeleted_def IsStaticPod_def drained_pod_def claim_pod_def
      claim_server_def example_evict_server_def evicting_server_def failing_server_def)

lemma claim_pod_only: "list_node_pods claim_server at = Inr [claim_pod]"
  by (simp add: claim_server_def)

lemma claim_base: "base claim_server = evicting_server"
  by (simp add: claim_server_def)

lemma not_misjudged: "misjudged claim_server (\<lambda>_ _ _. None) log log' p = False"
  by (simp add: misjudged_def waited_for_def evicted_then_def deleted_then_def answered_def claim_base never_misjudged)

lemma first_error_ok: "\<forall>e. first_error [e] \<noteq> None"
  by (simp add: first_error_def)

lemma DrainNode_claims_of_removed_pods_witness:
  "\<exists>at. removed claim_server (\<lambda>_ _ _. None) (at @ [ListPods ''node'']) claim_calls claim_pod"
proof -
  have run: "snd (run_state (DrainNode_run first_error claim_server (\<lambda>_ _ _. None) ''2m0s'' (errorf ''timeout'') 1 1
      ''node'' 120) []) = [] @ claim_calls @ DeletePVC ''ns'' ''data'' # later_calls"
    by (simp only: claim_run snd_conv append_Nil)
  from DrainNode_claims_of_removed_pods [OF first_error_ok run] show ?thesis
    by (auto simp: claim_pod_only not_misjudged)
qed


lemma DrainNode_success_witness:
  "\<exists>evicted. removed claim_server (\<lambda>_ _ _. None) [GetNode ''node'', UpdateNode ''node'' True, ListPods ''node''] evicted claim_pod
    \<and> claim_calls @ DeletePVC ''ns'' ''data'' # later_calls
      = evicted @ [ListVolumeAttachments, UpdateVolumeAttachment \<lparr>va_name = ''b'', va_node = ''node'', va_finalizers = []\<rparr>,
          DeleteVolumeAttachment ''b'']"
proof -
  have conn: "conn claim_server = None" by (simp add: claim_server_def example_evict_server_def)
  have kept: "\<not> passed_over claim_pod"
    by (simp add: passed_over_def claim_pod_def drained_pod_def IsPodDaemonSet_def IsPodFinished_def IsDeleted_def
        IsStaticPod_def)
  have attached: "list_attachments claim_server at = Inr [\<lparr>va_name = ''a'', va_node = ''other'', va_finalizers = []\<rparr>,
      \<lparr>va_name = ''b'', va_node = ''node'', va_finalizers = [''f'']\<rparr>]"
    and node: "node_get claim_server at = Inr n \<Longrightarrow> n_name n = ''node''" for at n
    by (auto simp: claim_server_def)
  show ?thesis
    using node DrainNode_success [OF claim_run conn first_error_ok] kept
    by (auto simp: claim_pod_only not_misjudged Let_def attached attachment_calls_def)
qed

definition replicated_pod :: pod where
  "replicated_pod = claim_pod\<lparr>owner_references := [\<lparr>owner_kind = ''ReplicaSet'', owner_name = ''rs''\<rparr>]\<rparr>"

definition scaling_server :: evict_server where
  "scaling_server = claim_server\<lparr>rs_get := (\<lambda>log ns name. Inr (Some (replicas_after claim_server (\<lambda>_ _. 1) ns name log)))\<rparr>"

lemma EvictPod_restores_replicas_witness:
  "\<exists>r log'. run_state (EvictPod_run first_error scaling_server (\<lambda>_ _ _. Some (errorf ''refused'')) ''2m0s''
      (errorf ''timeout'') 1 1 replicated_pod) [] = (r, log')
    \<and> replicas_after scaling_server (\<lambda>_ _. 1) ''ns'' ''rs'' log' = 1"
proof -
  have "replicas_from scaling_server ns name n pre cs = replicas_from claim_server ns name n pre cs" for ns name n pre cs
    by (induction cs arbitrary: n pre) (simp_all add: scaling_server_def)
  then have "tells_replicas scaling_server (\<lambda>_ _. 1)"
    by (simp add: tells_replicas_def replicas_after_def scaling_server_def)
  moreover have "conn scaling_server = None"
    by (simp add: scaling_server_def claim_server_def example_evict_server_def)
  moreover have "replica_sets replicated_pod = [\<lparr>owner_kind = ''ReplicaSet'', owner_name = ''rs''\<rparr>]"
    by (simp add: replica_sets_def replicated_pod_def)
  moreover have "\<not> passed_over replicated_pod"
    by (simp add: passed_over_def replicated_pod_def claim_pod_def drained_pod_def IsPodDaemonSet_def IsPodFinished_def
        IsDeleted_def IsStaticPod_def)
  moreover have "\<not> scaling_refused scaling_server log log'" for log log'
    by (auto simp: scaling_refused_def refused_def scaling_server_def claim_server_def example_evict_server_def
        split: drain_call.splits)
  ultimately show ?thesis
    using EvictPod_restores_replicas [of scaling_server "\<lambda>_ _. 1" replicated_pod "\<lparr>owner_kind = ''ReplicaSet'', owner_name = ''rs''\<rparr>"
        "[]" "[]" first_error "\<lambda>_ _ _. Some (errorf ''refused'')" "''2m0s''" "errorf ''timeout''" 1 1]
    by (simp add: replicas_after_def replicated_pod_def claim_pod_def drained_pod_def)
qed

section \<open>Retries\<close>

lemma evict_goroutine_retries:
  assumes "\<forall>i<k. \<not> srv_ctx_done S (log @ replicate i (EvictPod d p pgv))"
    and "\<forall>i<k. \<exists>e. srv_evict (log @ replicate i (EvictPod d p pgv)) (pod_namespace p) (pod_name p) = Some e
      \<and> is_too_many_requests e \<and> \<not> is_not_found e"
    and "k \<le> turns"
  shows "run_state (evict_goroutine S srv_evict d gtxt terr ticks p pgv turns) log =
    run_state (evict_goroutine S srv_evict d gtxt terr ticks p pgv (turns - k)) (log @ replicate k (EvictPod d p pgv))"
  using assms
proof (induction k arbitrary: log turns)
  case (Suc k)
  let ?c = "EvictPod d p pgv"
  from Suc.prems(3) obtain n where n: "turns = Suc n" "k \<le> n" by (cases turns) auto
  obtain e where e: "srv_evict log (pod_namespace p) (pod_name p) = Some e" "is_too_many_requests e" "\<not> is_not_found e"
    and running: "\<not> srv_ctx_done S log"
    using Suc.prems(1,2) by (metis append_Nil2 replicate_0 zero_less_Suc)
  have "run_state (evict_goroutine S srv_evict d gtxt terr ticks p pgv n) (log @ [?c]) =
    run_state (evict_goroutine S srv_evict d gtxt terr ticks p pgv (n - k)) ((log @ [?c]) @ replicate k ?c)"
    using Suc.prems(1,2) n(2) by (intro Suc.IH) (force dest: spec [of _ "Suc i" for i])+
  with e running n show ?case by (simp add: evict_goroutine.simps [of _ _ _ _ _ _ _ _ "Suc n"])
qed simp

text \<open>
  C24. While the server answers an eviction with too many requests and the context is not done, the
  goroutine of a pod sends the same eviction again. It stops at the deadline, with an error that says
  so, and at the first other answer: an acceptance starts the wait for the pod, not found is success,
  and any other error is returned with the name of the pod.
\<close>

theorem evictPods_retries:
  assumes "\<forall>i<k. \<not> srv_ctx_done S (log @ replicate i (EvictPod d p pgv))"
    and "\<forall>i<k. \<exists>e. srv_evict (log @ replicate i (EvictPod d p pgv)) (pod_namespace p) (pod_name p) = Some e
      \<and> is_too_many_requests e \<and> \<not> is_not_found e"
    and "k \<le> turns" and "sent = log @ replicate k (EvictPod d p pgv)"
    and "\<forall>e. srv_evict sent (pod_namespace p) (pod_name p) = Some e \<longrightarrow> is_not_found e \<or> \<not> is_too_many_requests e"
  shows "run_state (evictPods_one aggregate S srv_evict d gtxt terr ticks turns p pgv) log =
    (if k = turns \<or> srv_ctx_done S sent
     then (Some (aggregate [errorf (''error when evicting pod '' @ [CHR 0x22] @ pod_name p @ [CHR 0x22]
             @ '': global timeout reached: '' @ gtxt)]), sent)
     else case srv_evict sent (pod_namespace p) (pod_name p) of
       Some e \<Rightarrow> (Some (aggregate (if is_not_found e then []
           else [errorf (''error when evicting pod '' @ [CHR 0x22] @ pod_name p @ [CHR 0x22] @ '': '' @ Error e)])),
         sent @ [EvictPod d p pgv])
     | None \<Rightarrow>
         (case run_state (waitForDelete S (SkipWaitForDeleteTimeoutSeconds d) True gtxt terr ticks [p]) (sent @ [EvictPod d p pgv])
          of (ended, log') \<Rightarrow> (map_option (\<lambda>(_, err). aggregate (case err of None \<Rightarrow> []
               | Some e \<Rightarrow> [errorf (''error when waiting for pod '' @ [CHR 0x22] @ pod_name p @ [CHR 0x22]
                   @ '' terminating: '' @ Error e)])) ended, log')))"
proof -
  have start: "run_state (evict_goroutine S srv_evict d gtxt terr ticks p pgv turns) log =
    run_state (evict_goroutine S srv_evict d gtxt terr ticks p pgv (turns - k)) sent"
    unfolding assms(4) by (rule evict_goroutine_retries; fact assms)
  show ?thesis
  proof (cases "turns - k")
    case 0
    with assms(3) start show ?thesis by (simp add: evictPods_one_def evict_goroutine.simps [of _ _ _ _ _ _ _ _ 0])
  next
    case (Suc n)
    with assms(5) start show ?thesis
      by (auto simp: evictPods_one_def evict_goroutine.simps [of _ _ _ _ _ _ _ _ "Suc n"]
          split: option.split prod.split)
  qed
qed

lemma evictPods_retries_witness:
  "run_state (evictPods_one first_error evicting_server (\<lambda>log _ _. if length log < 2
        then Some ((errorf ''busy'')\<lparr>is_too_many_requests := True\<rparr>) else Some (errorf ''forbidden''))
      getDrainHelper ''2m0s'' (errorf ''timeout'') 1 5 claim_pod ''v1'') [] =
    (Some (Some (errorf (''error when evicting pod '' @ [CHR 0x22] @ ''db'' @ [CHR 0x22] @ '': forbidden''))),
     replicate 3 (EvictPod getDrainHelper claim_pod ''v1''))"
  using evictPods_retries [of 2 evicting_server "[]" getDrainHelper claim_pod "''v1''" "\<lambda>log _ _. if length log < 2
        then Some ((errorf ''busy'')\<lparr>is_too_many_requests := True\<rparr>) else Some (errorf ''forbidden'')"
      5 "replicate 2 (EvictPod getDrainHelper claim_pod ''v1'')" first_error "''2m0s''" "errorf ''timeout''" 1]
  by (simp add: evicting_server_def failing_server_def claim_pod_def drained_pod_def first_error_def
      numeral_3_eq_3 numeral_2_eq_2)

end
