(* ===== verification/Defaults.thy ===== *)
theory Defaults
  imports Kinds
begin

text \<open>
  The defaults that \<open>Apply\<close> fills in before it compares an object with the one in the cluster
  (\<open>defaults.go\<close>), so that an object that is already defaulted shows no change.

  The records have the fields of the API types that are read or written. \<open>defaulter\<close> is a scheme
  in which nothing is registered, whose method \<open>Default\<close> leaves every object alone. The
  conversion between an unstructured and a typed object is a parameter. A function that changes
  the object behind a pointer and returns the pointer is a function from the object to the object.
\<close>

section \<open>API types\<close>

record probe =
  FailureThreshold :: int
  PeriodSeconds :: int
  SuccessThreshold :: int
  TimeoutSeconds :: int
  HTTPGet_Scheme :: "string option"

record port =
  port_number :: int
  Protocol :: string

record env_field =
  env_name :: string
  env_value :: string
  env_field_ref :: "string option option"

record container =
  container_name :: string
  TerminationMessagePolicy :: string
  TerminationMessagePath :: string
  Ports :: "port list"
  Env :: "env_field list"
  ImagePullPolicy :: string
  LivenessProbe :: "probe option"
  ReadinessProbe :: "probe option"

record template_volume =
  tv_name :: string
  tv_config_map_mode :: "int option option"
  tv_secret_mode :: "int option option"

record pod_template =
  Containers :: "container list"
  InitContainers :: "container list"
  Volumes :: "template_volume list"
  TerminationGracePeriodSeconds :: "int option"
  ServiceAccountName :: string
  DeprecatedServiceAccount :: string
  DNSPolicy :: string
  RestartPolicy :: string
  SchedulerName :: string
  SecurityContext :: "obj_map option"

datatype int_or_string = FromInt int | FromString string

record rolling_update =
  MaxUnavailable :: "int_or_string option"
  MaxSurge :: "int_or_string option"
  Partition :: "int option"

record strategy =
  strategy_type :: string
  RollingUpdate :: "rolling_update option"

record daemon_set =
  ds_RevisionHistoryLimit :: "int option"
  ds_UpdateStrategy :: strategy
  ds_Template :: pod_template

record stateful_set =
  sts_RevisionHistoryLimit :: "int option"
  PodManagementPolicy :: string
  sts_UpdateStrategy :: strategy
  sts_Template :: pod_template

record deployment =
  ProgressDeadlineSeconds :: "int option"
  d_RevisionHistoryLimit :: "int option"
  d_Strategy :: strategy
  d_Template :: pod_template

record subject =
  subject_kind :: string
  subject_name :: string
  APIGroup :: string

record role_binding =
  role_ref :: string
  Subjects :: "subject list"

record crd_version =
  version_name :: string
  Served :: bool
  Storage :: bool

record crd =
  Conversion :: "string option"
  crd_kind :: string
  ListKind :: string
  Version :: string
  Versions :: "crd_version list"
  PreserveUnknownFields :: "bool option"

record service =
  svc_ports :: "port list"

section \<open>Defaulting functions\<close>

definition default_protocol :: "port \<Rightarrow> port" where
  "default_protocol port = (if Protocol port = '''' then port\<lparr>Protocol := ''TCP''\<rparr> else port)"

definition DefaultsService :: "service \<Rightarrow> service" where
  "DefaultsService svc = svc\<lparr>svc_ports := map default_protocol (svc_ports svc)\<rparr>"

definition default_subject :: "subject \<Rightarrow> subject" where
  "default_subject subject =
     (let subject = (if subject_kind subject = ''ServiceAccount'' then subject\<lparr>APIGroup := ''''\<rparr> else subject)
      in if subject_kind subject = ''User'' then subject\<lparr>APIGroup := ''rbac.authorization.k8s.io''\<rparr>
         else subject)"

text \<open>
  The loop of \<open>DefaultSubjects\<close> appends to \<open>subjects\<close>, the slice it ranges over, and not to
  \<open>_subjects\<close>. Appending never changes the elements that the slice already has.
\<close>

definition DefaultSubjects :: "subject list \<Rightarrow> subject list" where
  "DefaultSubjects subjects =
     fold (\<lambda>subject appended. subjects @ [default_subject subject]) subjects []"

definition DefaultsRoleBinding :: "role_binding option \<Rightarrow> role_binding option" where
  "DefaultsRoleBinding rb =
     (case rb of None \<Rightarrow> None | Some rb \<Rightarrow> Some (rb\<lparr>Subjects := DefaultSubjects (Subjects rb)\<rparr>))"

definition DefaultsClusterRoleBinding :: "role_binding option \<Rightarrow> role_binding option" where
  "DefaultsClusterRoleBinding rb =
     (case rb of None \<Rightarrow> None | Some rb \<Rightarrow> Some (rb\<lparr>Subjects := DefaultSubjects (Subjects rb)\<rparr>))"

definition DefaultsProbe :: "probe option \<Rightarrow> probe option" where
  "DefaultsProbe p =
     (case p of
        None \<Rightarrow> None
      | Some p \<Rightarrow>
          let p = (if FailureThreshold p = 0 then p\<lparr>FailureThreshold := 3\<rparr> else p);
              p = (if PeriodSeconds p = 0 then p\<lparr>PeriodSeconds := 10\<rparr> else p);
              p = (if SuccessThreshold p = 0 then p\<lparr>SuccessThreshold := 1\<rparr> else p);
              p = (if HTTPGet_Scheme p = Some '''' then p\<lparr>HTTPGet_Scheme := Some ''HTTP''\<rparr> else p);
              p = (if TimeoutSeconds p = 0 then p\<lparr>TimeoutSeconds := 1\<rparr> else p)
          in Some p)"

definition DefaultsCustomResourceDefinition :: "crd \<Rightarrow> crd" where
  "DefaultsCustomResourceDefinition c =
     (let c = (if Conversion c = None then c\<lparr>Conversion := Some ''None''\<rparr> else c);
          c = (if ListKind c = '''' then c\<lparr>ListKind := crd_kind c @ ''List''\<rparr> else c);
          c = (if length (Versions c) = 0
               then c\<lparr>Versions := [\<lparr>version_name = Version c, Served = True, Storage = True\<rparr>]\<rparr> else c)
      in c)"

definition DefaultsCustomResourceDefinitionV1Beta1 :: "crd \<Rightarrow> crd" where
  "DefaultsCustomResourceDefinitionV1Beta1 c =
     (let c = (if Conversion c = None then c\<lparr>Conversion := Some ''None''\<rparr> else c);
          c = (if ListKind c = '''' then c\<lparr>ListKind := crd_kind c @ ''List''\<rparr> else c);
          c = (if length (Versions c) = 0
               then c\<lparr>Versions := [\<lparr>version_name = Version c, Served = True, Storage = True\<rparr>]\<rparr> else c);
          c = (if PreserveUnknownFields c = None then c\<lparr>PreserveUnknownFields := Some True\<rparr> else c)
      in c)"

definition default_env :: "env_field \<Rightarrow> env_field" where
  "default_env env =
     (if env_field_ref env = Some (Some '''') then env\<lparr>env_field_ref := Some (Some ''v1'')\<rparr> else env)"

definition DefaultsContainer :: "container \<Rightarrow> container" where
  "DefaultsContainer c =
     (let c = (if TerminationMessagePolicy c = ''''
               then c\<lparr>TerminationMessagePolicy := ''File'', TerminationMessagePath := ''/dev/termination-log''\<rparr>
               else c);
          c = c\<lparr>Env := map default_env (Env c), Ports := map default_protocol (Ports c)\<rparr>;
          c = (if ImagePullPolicy c = '''' then c\<lparr>ImagePullPolicy := ''IfNotPresent''\<rparr> else c)
      in c\<lparr>LivenessProbe := DefaultsProbe (LivenessProbe c),
           ReadinessProbe := DefaultsProbe (ReadinessProbe c)\<rparr>)"

definition DefaultsContainers :: "container list \<Rightarrow> container list" where
  "DefaultsContainers containers = map DefaultsContainer containers"

definition defaultInt :: "int option \<Rightarrow> int \<Rightarrow> int option" where
  "defaultInt on def = (if on \<noteq> None then on else Some def)"

definition defaultInt64 :: "int option \<Rightarrow> int \<Rightarrow> int option" where
  "defaultInt64 on def = (if on \<noteq> None then on else Some def)"

definition default_volume :: "template_volume \<Rightarrow> template_volume" where
  "default_volume volume =
     (let volume = (if tv_config_map_mode volume = Some None
            then volume\<lparr>tv_config_map_mode := Some (Some 420)\<rparr> else volume)
      in if tv_secret_mode volume = Some None then volume\<lparr>tv_secret_mode := Some (Some 420)\<rparr> else volume)"

definition sync_service_account :: "pod_template \<Rightarrow> pod_template" where
  "sync_service_account p =
     (let p = (if ServiceAccountName p \<noteq> '''' \<and> ServiceAccountName p \<noteq> DeprecatedServiceAccount p
               then p\<lparr>DeprecatedServiceAccount := ServiceAccountName p\<rparr> else p)
      in if DeprecatedServiceAccount p \<noteq> '''' \<and> ServiceAccountName p \<noteq> DeprecatedServiceAccount p
         then p\<lparr>ServiceAccountName := DeprecatedServiceAccount p\<rparr> else p)"

definition DefaultsPod :: "pod_template \<Rightarrow> pod_template" where
  "DefaultsPod p =
     (let p = p\<lparr>Containers := DefaultsContainers (Containers p),
                InitContainers := DefaultsContainers (InitContainers p),
                Volumes := map default_volume (Volumes p),
                TerminationGracePeriodSeconds := defaultInt64 (TerminationGracePeriodSeconds p) 30\<rparr>;
          p = sync_service_account p;
          p = (if DNSPolicy p = '''' then p\<lparr>DNSPolicy := ''ClusterFirst''\<rparr> else p);
          p = (if RestartPolicy p = '''' then p\<lparr>RestartPolicy := ''Always''\<rparr> else p);
          p = (if SchedulerName p = '''' then p\<lparr>SchedulerName := ''default-scheduler''\<rparr> else p)
      in if SecurityContext p = None then p\<lparr>SecurityContext := Some []\<rparr> else p)"

text \<open>\<open>intStrPtr\<close> of a string or an int.\<close>

definition intStrPtr :: "int_or_string \<Rightarrow> int_or_string option" where
  "intStrPtr v = (case v of FromString s \<Rightarrow> Some (FromString s) | FromInt i \<Rightarrow> Some (FromInt i))"

definition intPtr :: "int \<Rightarrow> int option" where
  "intPtr i = Some i"

definition default_strategy :: "rolling_update \<Rightarrow> strategy \<Rightarrow> strategy" where
  "default_strategy rolling s =
     (if strategy_type s = '''' then \<lparr>strategy_type = ''RollingUpdate'', RollingUpdate = Some rolling\<rparr> else s)"

definition DefaultsDaemonSet :: "daemon_set \<Rightarrow> daemon_set" where
  "DefaultsDaemonSet d = d\<lparr>
     ds_RevisionHistoryLimit := defaultInt (ds_RevisionHistoryLimit d) 10,
     ds_UpdateStrategy := default_strategy
       \<lparr>MaxUnavailable = intStrPtr (FromInt 1), MaxSurge = None, Partition = None\<rparr> (ds_UpdateStrategy d),
     ds_Template := DefaultsPod (ds_Template d)\<rparr>"

definition DefaultsStatefulSet :: "stateful_set \<Rightarrow> stateful_set" where
  "DefaultsStatefulSet sts = sts\<lparr>
     sts_RevisionHistoryLimit := defaultInt (sts_RevisionHistoryLimit sts) 10,
     PodManagementPolicy := (if PodManagementPolicy sts = '''' then ''OrderedReady'' else PodManagementPolicy sts),
     sts_UpdateStrategy := default_strategy
       \<lparr>MaxUnavailable = None, MaxSurge = None, Partition = intPtr 0\<rparr> (sts_UpdateStrategy sts),
     sts_Template := DefaultsPod (sts_Template sts)\<rparr>"

definition DefaultsDeployment :: "deployment \<Rightarrow> deployment" where
  "DefaultsDeployment deploy = deploy\<lparr>
     ProgressDeadlineSeconds := defaultInt (ProgressDeadlineSeconds deploy) 600,
     d_RevisionHistoryLimit := defaultInt (d_RevisionHistoryLimit deploy) 10,
     d_Strategy := default_strategy
       \<lparr>MaxUnavailable = intStrPtr (FromString ''25%''), MaxSurge = intStrPtr (FromString ''25%''),
        Partition = None\<rparr> (d_Strategy deploy),
     d_Template := DefaultsPod (d_Template deploy)\<rparr>"

section \<open>Defaults of a dynamic object\<close>

text \<open>The conversions \<open>AsDeployment\<close> and the like, and back.\<close>

record conversions =
  AsDeployment :: "unstructured \<Rightarrow> gerror + deployment"
  AsDaemonSet :: "unstructured \<Rightarrow> gerror + daemon_set"
  AsStatefulSet :: "unstructured \<Rightarrow> gerror + stateful_set"
  AsService :: "unstructured \<Rightarrow> gerror + service"
  AsRoleBinding :: "unstructured \<Rightarrow> gerror + role_binding"
  AsClusterRoleBinding :: "unstructured \<Rightarrow> gerror + role_binding"
  of_deployment :: "deployment \<Rightarrow> gerror + obj_map"
  of_daemon_set :: "daemon_set \<Rightarrow> gerror + obj_map"
  of_stateful_set :: "stateful_set \<Rightarrow> gerror + obj_map"
  of_service :: "service \<Rightarrow> gerror + obj_map"
  of_role_binding :: "role_binding option \<Rightarrow> gerror + obj_map"
  add_creation_timestamp :: "unstructured \<Rightarrow> unstructured"
  with_object :: "unstructured \<Rightarrow> obj_map \<Rightarrow> unstructured"

definition ToUnstructured :: "conversions \<Rightarrow> unstructured \<Rightarrow> gerror + obj_map \<Rightarrow> gerror + unstructured option" where
  "ToUnstructured V obj out = (case out of Inl err \<Rightarrow> Inl err | Inr m \<Rightarrow> Inr (Some (with_object V obj m)))"

definition convert :: "(unstructured \<Rightarrow> gerror + 'a) \<Rightarrow> ('a \<Rightarrow> gerror + obj_map) \<Rightarrow> conversions \<Rightarrow> unstructured
    \<Rightarrow> gerror + unstructured option" where
  "convert dec enc V obj = (case dec obj of Inl err \<Rightarrow> Inl err | Inr x \<Rightarrow> ToUnstructured V obj (enc x))"

text \<open>
  \<open>add_creation_timestamp\<close> sets a missing creation time to nil; \<open>with_object\<close> replaces the map
  of an object, on which the accessors then work.
\<close>

definition Defaults_obj :: "conversions \<Rightarrow> unstructured option \<Rightarrow> gerror + unstructured option" where
  "Defaults_obj V obj =
     (case obj of
        None \<Rightarrow> Inr None
      | Some obj \<Rightarrow>
          let obj = add_creation_timestamp V obj
          in if IsDeployment obj then convert (AsDeployment V) (of_deployment V \<circ> DefaultsDeployment) V obj
             else if IsDaemonSet obj then convert (AsDaemonSet V) (of_daemon_set V \<circ> DefaultsDaemonSet) V obj
             else if IsStatefulSet obj then
               convert (AsStatefulSet V) (of_stateful_set V \<circ> DefaultsStatefulSet) V obj
             else if IsService obj then convert (AsService V) (of_service V \<circ> DefaultsService) V obj
             else if IsRoleBinding obj then
               convert (AsRoleBinding V) (of_role_binding V \<circ> DefaultsRoleBinding \<circ> Some) V obj
             else if IsClusterRoleBinding obj then
               convert (AsClusterRoleBinding V) (of_role_binding V \<circ> DefaultsClusterRoleBinding \<circ> Some) V obj
             else Inr (Some obj))"

section \<open>The defaulting contract\<close>

text \<open>
  What a defaulting function promises: its result has no default left to fill in, and an object
  without one comes back as it is. Such a function is idempotent and leaves exactly the complete
  objects alone, and so does its extension to lists.
\<close>

locale defaulting =
  fixes d :: "'a \<Rightarrow> 'a" and complete :: "'a \<Rightarrow> bool"
  assumes fills: "complete (d x)"
    and keeps: "complete x \<Longrightarrow> d x = x"
begin

lemma idempotent: "d (d x) = d x"
  by (rule keeps) (rule fills)

lemma fixpoint_iff: "d x = x \<longleftrightarrow> complete x"
  by (metis fills keeps)

lemma on_lists: "defaulting (map d) (list_all complete)"
  by unfold_locales (auto simp: list_all_iff fills keeps intro: map_idI)

end

definition complete_port :: "port \<Rightarrow> bool" where
  "complete_port p \<longleftrightarrow> Protocol p \<noteq> ''''"

definition complete_env :: "env_field \<Rightarrow> bool" where
  "complete_env e \<longleftrightarrow> env_field_ref e \<noteq> Some (Some '''')"

definition complete_probe :: "probe option \<Rightarrow> bool" where
  "complete_probe p \<longleftrightarrow> (case p of None \<Rightarrow> True | Some p \<Rightarrow> FailureThreshold p \<noteq> 0 \<and> PeriodSeconds p \<noteq> 0
     \<and> SuccessThreshold p \<noteq> 0 \<and> TimeoutSeconds p \<noteq> 0 \<and> HTTPGet_Scheme p \<noteq> Some '''')"

definition complete_volume :: "template_volume \<Rightarrow> bool" where
  "complete_volume v \<longleftrightarrow> tv_config_map_mode v \<noteq> Some None \<and> tv_secret_mode v \<noteq> Some None"

definition complete_container :: "container \<Rightarrow> bool" where
  "complete_container c \<longleftrightarrow> TerminationMessagePolicy c \<noteq> '''' \<and> ImagePullPolicy c \<noteq> '''' \<and>
     list_all complete_port (Ports c) \<and> list_all complete_env (Env c) \<and>
     complete_probe (LivenessProbe c) \<and> complete_probe (ReadinessProbe c)"

definition complete_pod :: "pod_template \<Rightarrow> bool" where
  "complete_pod p \<longleftrightarrow> list_all complete_container (Containers p) \<and>
     list_all complete_container (InitContainers p) \<and> list_all complete_volume (Volumes p) \<and>
     TerminationGracePeriodSeconds p \<noteq> None \<and> ServiceAccountName p = DeprecatedServiceAccount p \<and>
     DNSPolicy p \<noteq> '''' \<and> RestartPolicy p \<noteq> '''' \<and> SchedulerName p \<noteq> '''' \<and> SecurityContext p \<noteq> None"

interpretation port: defaulting default_protocol complete_port
  by unfold_locales (auto simp: default_protocol_def complete_port_def)

interpretation ports: defaulting "map default_protocol" "list_all complete_port"
  by (rule port.on_lists)

interpretation env: defaulting default_env complete_env
  by unfold_locales (auto simp: default_env_def complete_env_def)

interpretation envs: defaulting "map default_env" "list_all complete_env"
  by (rule env.on_lists)

interpretation probe: defaulting DefaultsProbe complete_probe
  by unfold_locales (auto simp: DefaultsProbe_def complete_probe_def Let_def split: option.splits)

interpretation volume: defaulting default_volume complete_volume
  by unfold_locales (auto simp: default_volume_def complete_volume_def Let_def)

interpretation volumes: defaulting "map default_volume" "list_all complete_volume"
  by (rule volume.on_lists)

interpretation container: defaulting DefaultsContainer complete_container
proof unfold_locales
  show "complete_container (DefaultsContainer c)" for c
    by (simp add: DefaultsContainer_def complete_container_def Let_def ports.fills envs.fills probe.fills)
  show "DefaultsContainer c = c" if "complete_container c" for c
    using that by (cases c)
      (simp add: DefaultsContainer_def complete_container_def Let_def ports.keeps envs.keeps probe.keeps)
qed

interpretation containers: defaulting DefaultsContainers "list_all complete_container"
  using container.on_lists by (simp add: DefaultsContainers_def [abs_def])

lemma sync_service_account_synced:
  "ServiceAccountName (sync_service_account p) = DeprecatedServiceAccount (sync_service_account p)"
  by (simp add: sync_service_account_def Let_def)

lemma sync_service_account_names:
  "ServiceAccountName (sync_service_account p) =
     (if ServiceAccountName p \<noteq> '''' then ServiceAccountName p else DeprecatedServiceAccount p)"
  "DeprecatedServiceAccount (sync_service_account p) = ServiceAccountName (sync_service_account p)"
  by (simp_all add: sync_service_account_def Let_def)

lemma sync_service_account_keeps:
  "Containers (sync_service_account p) = Containers p" "InitContainers (sync_service_account p) = InitContainers p"
  "Volumes (sync_service_account p) = Volumes p" "SchedulerName (sync_service_account p) = SchedulerName p"
  "TerminationGracePeriodSeconds (sync_service_account p) = TerminationGracePeriodSeconds p"
  "DNSPolicy (sync_service_account p) = DNSPolicy p" "RestartPolicy (sync_service_account p) = RestartPolicy p"
  "SecurityContext (sync_service_account p) = SecurityContext p"
  by (simp_all add: sync_service_account_def Let_def)

lemma sync_service_account_id:
  "ServiceAccountName p = DeprecatedServiceAccount p \<Longrightarrow> sync_service_account p = p"
  by (simp add: sync_service_account_def)

interpretation pod_template: defaulting DefaultsPod complete_pod
proof unfold_locales
  show "complete_pod (DefaultsPod p)" for p
    by (simp add: DefaultsPod_def complete_pod_def Let_def containers.fills volumes.fills
        defaultInt64_def sync_service_account_synced sync_service_account_keeps)
  show "DefaultsPod p = p" if "complete_pod p" for p
    using that by (cases p)
      (simp add: DefaultsPod_def complete_pod_def Let_def containers.keeps volumes.keeps
        defaultInt64_def sync_service_account_id)
qed

definition complete_deployment :: "deployment \<Rightarrow> bool" where
  "complete_deployment d \<longleftrightarrow> ProgressDeadlineSeconds d \<noteq> None \<and> d_RevisionHistoryLimit d \<noteq> None \<and>
     strategy_type (d_Strategy d) \<noteq> '''' \<and> complete_pod (d_Template d)"

definition complete_daemon_set :: "daemon_set \<Rightarrow> bool" where
  "complete_daemon_set d \<longleftrightarrow> ds_RevisionHistoryLimit d \<noteq> None \<and>
     strategy_type (ds_UpdateStrategy d) \<noteq> '''' \<and> complete_pod (ds_Template d)"

definition complete_stateful_set :: "stateful_set \<Rightarrow> bool" where
  "complete_stateful_set s \<longleftrightarrow> sts_RevisionHistoryLimit s \<noteq> None \<and> PodManagementPolicy s \<noteq> '''' \<and>
     strategy_type (sts_UpdateStrategy s) \<noteq> '''' \<and> complete_pod (sts_Template s)"

definition complete_crd :: "crd \<Rightarrow> bool" where
  "complete_crd c \<longleftrightarrow> Conversion c \<noteq> None \<and> ListKind c \<noteq> '''' \<and> Versions c \<noteq> []"

definition complete_crd_v1beta1 :: "crd \<Rightarrow> bool" where
  "complete_crd_v1beta1 c \<longleftrightarrow> complete_crd c \<and> PreserveUnknownFields c \<noteq> None"

interpretation deployment: defaulting DefaultsDeployment complete_deployment
proof unfold_locales
  show "complete_deployment (DefaultsDeployment x)" for x
    by (simp add: DefaultsDeployment_def complete_deployment_def defaultInt_def default_strategy_def pod_template.fills)
  show "DefaultsDeployment x = x" if "complete_deployment x" for x
    using that by (cases x) (simp add: DefaultsDeployment_def complete_deployment_def defaultInt_def
        default_strategy_def pod_template.keeps)
qed

interpretation daemon_set: defaulting DefaultsDaemonSet complete_daemon_set
proof unfold_locales
  show "complete_daemon_set (DefaultsDaemonSet x)" for x
    by (simp add: DefaultsDaemonSet_def complete_daemon_set_def defaultInt_def default_strategy_def pod_template.fills)
  show "DefaultsDaemonSet x = x" if "complete_daemon_set x" for x
    using that by (cases x) (simp add: DefaultsDaemonSet_def complete_daemon_set_def defaultInt_def
        default_strategy_def pod_template.keeps)
qed

interpretation stateful_set: defaulting DefaultsStatefulSet complete_stateful_set
proof unfold_locales
  show "complete_stateful_set (DefaultsStatefulSet x)" for x
    by (simp add: DefaultsStatefulSet_def complete_stateful_set_def defaultInt_def default_strategy_def pod_template.fills)
  show "DefaultsStatefulSet x = x" if "complete_stateful_set x" for x
    using that by (cases x) (simp add: DefaultsStatefulSet_def complete_stateful_set_def defaultInt_def
        default_strategy_def pod_template.keeps)
qed

interpretation service: defaulting DefaultsService "\<lambda>s. list_all complete_port (svc_ports s)"
proof unfold_locales
  show "list_all complete_port (svc_ports (DefaultsService x))" for x
    by (simp add: DefaultsService_def ports.fills)
  show "DefaultsService x = x" if "list_all complete_port (svc_ports x)" for x
    using that by (cases x) (simp add: DefaultsService_def ports.keeps)
qed

interpretation crd: defaulting DefaultsCustomResourceDefinition complete_crd
  by unfold_locales (auto simp: DefaultsCustomResourceDefinition_def complete_crd_def Let_def)

lemma crd_v1beta1_eq:
  "DefaultsCustomResourceDefinitionV1Beta1 c = (let c = DefaultsCustomResourceDefinition c
     in if PreserveUnknownFields c = None then c\<lparr>PreserveUnknownFields := Some True\<rparr> else c)"
  by (simp only: DefaultsCustomResourceDefinitionV1Beta1_def DefaultsCustomResourceDefinition_def Let_def)

interpretation crd_v1beta1: defaulting DefaultsCustomResourceDefinitionV1Beta1 complete_crd_v1beta1
proof unfold_locales
  have "complete_crd (c\<lparr>PreserveUnknownFields := b\<rparr>) = complete_crd c" for c b
    by (simp add: complete_crd_def)
  then show "complete_crd_v1beta1 (DefaultsCustomResourceDefinitionV1Beta1 c)" for c
    by (auto simp: crd_v1beta1_eq complete_crd_v1beta1_def crd.fills Let_def)
  show "DefaultsCustomResourceDefinitionV1Beta1 c = c" if "complete_crd_v1beta1 c" for c
    using that by (simp add: crd_v1beta1_eq complete_crd_v1beta1_def crd.keeps)
qed

section \<open>What a defaulted object has\<close>

text \<open>
  The relation of an object to its defaulted form, field by field and apart from the functions:
  a field that was unset has the default, one that was set has what it had, and the others are
  equal. A string is unset when it is empty, a number of a probe when it is zero, and a pointer when
  it is nil.
\<close>

definition filled :: "'a \<Rightarrow> 'a \<Rightarrow> 'a \<Rightarrow> 'a \<Rightarrow> bool" where
  "filled unset def x y \<longleftrightarrow> (x = unset \<longrightarrow> y = def) \<and> (x \<noteq> unset \<longrightarrow> y = x)"

definition port_filled :: "port \<Rightarrow> port \<Rightarrow> bool" where
  "port_filled x y \<longleftrightarrow> port_number y = port_number x \<and> filled '''' ''TCP'' (Protocol x) (Protocol y)"

definition env_filled :: "env_field \<Rightarrow> env_field \<Rightarrow> bool" where
  "env_filled x y \<longleftrightarrow> env_name y = env_name x \<and> env_value y = env_value x
     \<and> filled (Some (Some '''')) (Some (Some ''v1'')) (env_field_ref x) (env_field_ref y)"

definition probe_filled :: "probe \<Rightarrow> probe \<Rightarrow> bool" where
  "probe_filled x y \<longleftrightarrow> filled 0 3 (FailureThreshold x) (FailureThreshold y) \<and> filled 0 10 (PeriodSeconds x) (PeriodSeconds y)
     \<and> filled 0 1 (SuccessThreshold x) (SuccessThreshold y) \<and> filled 0 1 (TimeoutSeconds x) (TimeoutSeconds y)
     \<and> filled (Some '''') (Some ''HTTP'') (HTTPGet_Scheme x) (HTTPGet_Scheme y)"

definition container_filled :: "container \<Rightarrow> container \<Rightarrow> bool" where
  "container_filled x y \<longleftrightarrow> container_name y = container_name x
     \<and> filled '''' ''File'' (TerminationMessagePolicy x) (TerminationMessagePolicy y)
     \<and> TerminationMessagePath y = (if TerminationMessagePolicy x = '''' then ''/dev/termination-log'' else TerminationMessagePath x)
     \<and> list_all2 port_filled (Ports x) (Ports y) \<and> list_all2 env_filled (Env x) (Env y)
     \<and> filled '''' ''IfNotPresent'' (ImagePullPolicy x) (ImagePullPolicy y)
     \<and> rel_option probe_filled (LivenessProbe x) (LivenessProbe y)
     \<and> rel_option probe_filled (ReadinessProbe x) (ReadinessProbe y)"

definition volume_filled :: "template_volume \<Rightarrow> template_volume \<Rightarrow> bool" where
  "volume_filled x y \<longleftrightarrow> tv_name y = tv_name x
     \<and> filled (Some None) (Some (Some 420)) (tv_config_map_mode x) (tv_config_map_mode y)
     \<and> filled (Some None) (Some (Some 420)) (tv_secret_mode x) (tv_secret_mode y)"

definition template_filled :: "pod_template \<Rightarrow> pod_template \<Rightarrow> bool" where
  "template_filled x y \<longleftrightarrow> list_all2 container_filled (Containers x) (Containers y)
     \<and> list_all2 container_filled (InitContainers x) (InitContainers y)
     \<and> list_all2 volume_filled (Volumes x) (Volumes y)
     \<and> filled None (Some 30) (TerminationGracePeriodSeconds x) (TerminationGracePeriodSeconds y)
     \<and> filled '''' (DeprecatedServiceAccount x) (ServiceAccountName x) (ServiceAccountName y)
     \<and> DeprecatedServiceAccount y = ServiceAccountName y
     \<and> filled '''' ''ClusterFirst'' (DNSPolicy x) (DNSPolicy y)
     \<and> filled '''' ''Always'' (RestartPolicy x) (RestartPolicy y)
     \<and> filled '''' ''default-scheduler'' (SchedulerName x) (SchedulerName y)
     \<and> filled None (Some []) (SecurityContext x) (SecurityContext y)"

definition strategy_filled :: "rolling_update \<Rightarrow> strategy \<Rightarrow> strategy \<Rightarrow> bool" where
  "strategy_filled rolling x y \<longleftrightarrow> filled '''' ''RollingUpdate'' (strategy_type x) (strategy_type y)
     \<and> RollingUpdate y = (if strategy_type x = '''' then Some rolling else RollingUpdate x)"

definition crd_filled :: "crd \<Rightarrow> crd \<Rightarrow> bool" where
  "crd_filled x y \<longleftrightarrow> filled None (Some ''None'') (Conversion x) (Conversion y) \<and> crd_kind y = crd_kind x
     \<and> filled '''' (crd_kind x @ ''List'') (ListKind x) (ListKind y) \<and> Version y = Version x
     \<and> filled [] [\<lparr>version_name = Version x, Served = True, Storage = True\<rparr>] (Versions x) (Versions y)"

lemma map_filled: "(\<And>x. r x (f x)) \<Longrightarrow> list_all2 r xs (map f xs)"
  by (simp add: list_all2_conv_all_nth)

lemma port_fills: "port_filled x (default_protocol x)"
  by (simp add: port_filled_def filled_def default_protocol_def)

lemma probe_fills: "rel_option probe_filled x (DefaultsProbe x)"
  by (cases x) (simp_all add: probe_filled_def filled_def DefaultsProbe_def Let_def)

lemma container_fills: "container_filled x (DefaultsContainer x)"
proof -
  have "env_filled e (default_env e)" for e
    by (simp add: env_filled_def filled_def default_env_def)
  then show ?thesis
    by (simp add: container_filled_def DefaultsContainer_def Let_def map_filled port_fills probe_fills filled_def)
qed

lemma template_fills: "template_filled x (DefaultsPod x)"
proof -
  have "volume_filled v (default_volume v)" for v
    by (simp add: volume_filled_def filled_def default_volume_def Let_def)
  then show ?thesis
    by (simp add: template_filled_def DefaultsPod_def Let_def DefaultsContainers_def map_filled container_fills
        sync_service_account_keeps sync_service_account_names defaultInt64_def filled_def)
qed

lemma strategy_fills: "strategy_filled rolling x (default_strategy rolling x)"
  by (simp add: strategy_filled_def default_strategy_def filled_def)

section \<open>Properties\<close>


text \<open>
  Defaulting a second time changes nothing, so that an object that was applied shows no difference
  because of its defaults.
\<close>

lemma Defaults_idempotent:
  "DefaultsDeployment (DefaultsDeployment d) = DefaultsDeployment d
   \<and> DefaultsDaemonSet (DefaultsDaemonSet ds) = DefaultsDaemonSet ds
   \<and> DefaultsStatefulSet (DefaultsStatefulSet sts) = DefaultsStatefulSet sts
   \<and> DefaultsService (DefaultsService svc) = DefaultsService svc
   \<and> DefaultsCustomResourceDefinition (DefaultsCustomResourceDefinition c) = DefaultsCustomResourceDefinition c
   \<and> DefaultsCustomResourceDefinitionV1Beta1 (DefaultsCustomResourceDefinitionV1Beta1 c)
      = DefaultsCustomResourceDefinitionV1Beta1 c"
  by (simp add: deployment.idempotent daemon_set.idempotent stateful_set.idempotent service.idempotent
      crd.idempotent crd_v1beta1.idempotent)

text \<open>
  A deployment is left alone by its defaults exactly when every field they fill in is set: the
  two limits, the strategy, and in the pod template the message and pull policies, protocols,
  field references and probe numbers of its containers, the modes of its volumes, and its own
  policies, with the two names of the service account equal.
\<close>

theorem DefaultsDeployment_fixpoint:
  "DefaultsDeployment d = d \<longleftrightarrow> ProgressDeadlineSeconds d \<noteq> None \<and> d_RevisionHistoryLimit d \<noteq> None \<and>
     strategy_type (d_Strategy d) \<noteq> '''' \<and> complete_pod (d_Template d)"
  using deployment.fixpoint_iff by (simp add: complete_deployment_def)

text \<open>
  The defaults of a pod make its two service account fields equal: \<open>serviceAccountName\<close> wins
  over the deprecated \<open>serviceAccount\<close> where it is set.
\<close>

theorem DefaultsPod_service_account:
  "let p' = DefaultsPod p in
     ServiceAccountName p' = (if ServiceAccountName p \<noteq> '''' then ServiceAccountName p else DeprecatedServiceAccount p)
     \<and> DeprecatedServiceAccount p' = ServiceAccountName p'"
  by (simp add: DefaultsPod_def sync_service_account_names Let_def)

lemma fold_last: "fold (\<lambda>x acc. ys @ [f x]) xs [] = (if xs = [] then [] else ys @ [f (last xs)])"
proof (cases xs rule: rev_cases)
  case (snoc zs z)
  then show ?thesis by simp
qed simp

text \<open>
  C36. \<open>DefaultSubjects\<close> returns the subjects as they were, with the defaulted last one appended:
  no subject is defaulted in place, and every application makes a binding longer by one.
\<close>

theorem DefaultSubjects_appends:
  "DefaultSubjects subjects = (if subjects = [] then [] else subjects @ [default_subject (last subjects)])"
  by (simp add: DefaultSubjects_def fold_last)

end
