(* ===== verification/Builder.thy ===== *)
theory Builder
  imports Defaults "HOL-Library.AList"
begin

text \<open>
  The builders of \<open>builder.go\<close>.

  Label and annotation maps are shared: a \<open>DeploymentBuilder\<close> made by a \<open>Builder\<close> holds the
  builder's own maps, and so does the metadata of every object built. A map is therefore a
  reference into a \<open>store\<close>, \<open>None\<close> for a nil map, and an operation of a builder takes and returns
  the store. The order in which Go iterates over a map that is an argument is the order of the
  association list. \<open>replicas\<close>, to which a deployment holds a pointer, is its value when it is built.
\<close>

section \<open>Store of maps\<close>

type_synonym str_map = "(string \<times> string) list"
type_synonym map_ref = "nat option"

record map_store =
  cells :: "nat \<Rightarrow> str_map"
  fresh :: nat

definition deref :: "map_store \<Rightarrow> map_ref \<Rightarrow> str_map" where
  "deref S r = (case r of None \<Rightarrow> [] | Some a \<Rightarrow> cells S a)"

definition alloc :: "map_store \<Rightarrow> str_map \<Rightarrow> map_ref \<times> map_store" where
  "alloc S m = (Some (fresh S), S\<lparr>cells := (cells S)(fresh S := m), fresh := fresh S + 1\<rparr>)"

text \<open>\<open>m[k] = v\<close>, with the \<open>make\<close> that both \<open>Labels\<close> and \<open>Annotations\<close> do first for a nil map.\<close>

definition put :: "string \<times> string \<Rightarrow> map_ref \<times> map_store \<Rightarrow> map_ref \<times> map_store" where
  "put kv rS =
     (let (r, S) = rS; (r, S) = (if r = None then alloc S [] else (r, S))
      in case r of
           None \<Rightarrow> (r, S)
         | Some a \<Rightarrow> (r, S\<lparr>cells := (cells S)(a := AList.update (fst kv) (snd kv) (cells S a))\<rparr>))"

section \<open>Objects\<close>

record object_meta =
  om_name :: string
  om_namespace :: string
  om_labels :: map_ref
  om_annotations :: map_ref

datatype env_source = FieldPath string | SecretKey string string | ConfigMapKey string string

record env_var =
  ev_name :: string
  ev_value :: string
  ev_from :: "env_source option"

datatype env_from = ConfigMapEnv string | SecretEnv string

datatype volume_source = SecretVolume string int | ConfigMapVolume string

record volume_mount =
  vm_name :: string
  vm_path :: string
  vm_read_only :: bool

record pod_spec =
  ps_service_account :: string
  ps_volumes :: "(string \<times> volume_source) list"
  ps_command :: "string list"
  ps_name :: string
  ps_image :: string
  ps_pull_policy :: string
  ps_ports :: "port list"
  ps_mounts :: "volume_mount list"
  ps_env_from :: "env_from list"
  ps_env :: "env_var list"
  ps_args :: "string list"
  ps_resources :: string
  ps_restart_policy :: string
  ps_affinity :: "(string \<times> string) list option"

record template =
  tmpl_labels :: map_ref
  tmpl_spec :: pod_spec

datatype built_object =
    ConfigMapObj object_meta str_map
  | SecretObj object_meta string str_map
  | ServiceObj object_meta map_ref "(int \<times> int_or_string) list"
  | DeploymentObj object_meta int map_ref template
  | ServiceAccountObj object_meta
  | RoleBindingObj object_meta "subject list" string
  | ClusterRoleBindingObj object_meta "(subject \<times> string) list" string
  | CronJobObj object_meta string template string
  | PodObj object_meta pod_spec
  | JobObj object_meta template int int

record Builder =
  Objects :: "built_object list"
  Namespace :: string
  b_Labels :: map_ref
  b_Annotations :: map_ref

definition ObjectMeta :: "Builder \<Rightarrow> string \<Rightarrow> object_meta" where
  "ObjectMeta b name = \<lparr>om_name = name, om_namespace = Namespace b, om_labels = b_Labels b,
     om_annotations = b_Annotations b\<rparr>"

definition Append :: "built_object list \<Rightarrow> Builder \<Rightarrow> Builder" where
  "Append objects b = b\<lparr>Objects := Objects b @ objects\<rparr>"

definition AddLabels :: "map_ref \<Rightarrow> Builder \<Rightarrow> Builder" where
  "AddLabels r b = b\<lparr>b_Labels := r\<rparr>"

definition AddAnnotations :: "map_ref \<Rightarrow> Builder \<Rightarrow> Builder" where
  "AddAnnotations r b = b\<lparr>b_Annotations := r\<rparr>"

definition SetNamespace :: "string \<Rightarrow> Builder \<Rightarrow> Builder" where
  "SetNamespace ns b = b\<lparr>Namespace := ns\<rparr>"

definition Builder_ConfigMap :: "string \<Rightarrow> str_map \<Rightarrow> Builder \<Rightarrow> Builder" where
  "Builder_ConfigMap name data b = Append [ConfigMapObj (ObjectMeta b name) data] b"

definition Builder_Secret :: "string \<Rightarrow> str_map \<Rightarrow> Builder \<Rightarrow> Builder" where
  "Builder_Secret name data b = Append [SecretObj (ObjectMeta b name) ''opaque'' data] b"

section \<open>Deployments\<close>

record DeploymentBuilder =
  Name :: string
  Image :: string
  sa :: string
  replicas :: int
  args :: "string list"
  resources :: string
  volumeMounts :: "volume_mount list"
  dports :: "port list"
  dvolumes :: "(string \<times> volume_source) list"
  labels_ref :: map_ref
  annotations_ref :: map_ref
  env :: "env_var list"
  envFrom :: "env_from list"
  nodeAffinity :: "str_map option"
  podAffinity :: "(str_map option \<times> str_map \<times> string) option"
  cmd :: "string list"

text \<open>The builder that a \<open>DeploymentBuilder\<close> points to is kept beside it.\<close>

type_synonym deploying = "map_store \<times> Builder \<times> DeploymentBuilder"

definition new_deployment :: "string \<Rightarrow> string \<Rightarrow> string \<Rightarrow> map_ref \<Rightarrow> map_ref \<Rightarrow> DeploymentBuilder" where
  "new_deployment low name img l a = \<lparr>Name = name, Image = img, sa = '''', replicas = 1, args = [],
     resources = low, volumeMounts = [], dports = [], dvolumes = [], labels_ref = l, annotations_ref = a,
     env = [], envFrom = [], nodeAffinity = None, podAffinity = None, cmd = []\<rparr>"

text \<open>\<open>low\<close> is what \<open>LowResourceRequirements\<close> returns.\<close>

definition Builder_Deployment :: "string \<Rightarrow> string \<Rightarrow> string \<Rightarrow> map_store \<times> Builder \<Rightarrow> deploying" where
  "Builder_Deployment low name img = (\<lambda>(S, b).
     (S, b, new_deployment low name img (b_Labels b) (b_Annotations b)))"

definition Deployment :: "string \<Rightarrow> string \<Rightarrow> string \<Rightarrow> map_store \<Rightarrow> deploying" where
  "Deployment low name img S =
     (let (l, S) = alloc S []; (a, S) = alloc S []
      in (S, \<lparr>Objects = [], Namespace = '''', b_Labels = None, b_Annotations = None\<rparr>,
          new_deployment low name img l a))"

definition Command :: "string list \<Rightarrow> DeploymentBuilder \<Rightarrow> DeploymentBuilder" where
  "Command c d = d\<lparr>cmd := cmd d @ c\<rparr>"

definition EnvFromConfigMap :: "string \<Rightarrow> DeploymentBuilder \<Rightarrow> DeploymentBuilder" where
  "EnvFromConfigMap name d = d\<lparr>envFrom := envFrom d @ [ConfigMapEnv name]\<rparr>"

definition EnvFromSecret :: "string \<Rightarrow> DeploymentBuilder \<Rightarrow> DeploymentBuilder" where
  "EnvFromSecret name d = d\<lparr>envFrom := envFrom d @ [SecretEnv name]\<rparr>"

definition EnvVarFromField :: "string \<Rightarrow> string \<Rightarrow> DeploymentBuilder \<Rightarrow> DeploymentBuilder" where
  "EnvVarFromField e field d =
     d\<lparr>env := env d @ [\<lparr>ev_name = e, ev_value = '''', ev_from = Some (FieldPath field)\<rparr>]\<rparr>"

definition EnvVarFromSecret :: "string \<Rightarrow> string \<Rightarrow> string \<Rightarrow> DeploymentBuilder \<Rightarrow> DeploymentBuilder" where
  "EnvVarFromSecret e secret key d =
     d\<lparr>env := env d @ [\<lparr>ev_name = e, ev_value = '''', ev_from = Some (SecretKey secret key)\<rparr>]\<rparr>"

definition EnvVarFromConfigMap :: "string \<Rightarrow> string \<Rightarrow> string \<Rightarrow> DeploymentBuilder \<Rightarrow> DeploymentBuilder" where
  "EnvVarFromConfigMap e configmap key d =
     d\<lparr>env := env d @ [\<lparr>ev_name = e, ev_value = '''', ev_from = Some (ConfigMapKey configmap key)\<rparr>]\<rparr>"

definition EnvVars :: "str_map \<Rightarrow> DeploymentBuilder \<Rightarrow> DeploymentBuilder" where
  "EnvVars m d = d\<lparr>env := env d @ map (\<lambda>(k, v). \<lparr>ev_name = k, ev_value = v, ev_from = None\<rparr>) m\<rparr>"

text \<open>\<open>NodeAffinity\<close> returns nil for an empty map; the required expressions are the pairs of the map.\<close>

definition NodeAffinity :: "str_map \<Rightarrow> DeploymentBuilder \<Rightarrow> DeploymentBuilder option" where
  "NodeAffinity nodeReadinessLabel d =
     (if length nodeReadinessLabel = 0 then None else Some (d\<lparr>nodeAffinity := Some nodeReadinessLabel\<rparr>))"

definition PodAffinity :: "str_map \<Rightarrow> string \<Rightarrow> DeploymentBuilder \<Rightarrow> DeploymentBuilder" where
  "PodAffinity l topologyKey d = d\<lparr>podAffinity := Some (nodeAffinity d, l, topologyKey)\<rparr>"

definition Labels :: "str_map \<Rightarrow> deploying \<Rightarrow> deploying" where
  "Labels l = (\<lambda>(S, b, d). let (r, S) = fold put l (labels_ref d, S) in (S, b, d\<lparr>labels_ref := r\<rparr>))"

definition Annotations :: "str_map \<Rightarrow> deploying \<Rightarrow> deploying" where
  "Annotations a = (\<lambda>(S, b, d). let (r, S) = fold put a (annotations_ref d, S) in (S, b, d\<lparr>annotations_ref := r\<rparr>))"

definition Args :: "string list \<Rightarrow> DeploymentBuilder \<Rightarrow> DeploymentBuilder" where
  "Args a d = d\<lparr>args := a\<rparr>"

definition Replicas :: "int \<Rightarrow> DeploymentBuilder \<Rightarrow> DeploymentBuilder" where
  "Replicas n d = d\<lparr>replicas := sint (word_of_int n :: 32 word)\<rparr>"

definition Resources :: "string \<Rightarrow> DeploymentBuilder \<Rightarrow> DeploymentBuilder" where
  "Resources r d = d\<lparr>resources := r\<rparr>"

definition MountSecret :: "string \<Rightarrow> string \<Rightarrow> int \<Rightarrow> DeploymentBuilder \<Rightarrow> DeploymentBuilder" where
  "MountSecret secret path mode d =
     d\<lparr>dvolumes := dvolumes d @ [(secret, SecretVolume secret mode)],
       volumeMounts := volumeMounts d @ [\<lparr>vm_name = secret, vm_path = path, vm_read_only = True\<rparr>]\<rparr>"

definition MountConfigMap :: "string \<Rightarrow> string \<Rightarrow> DeploymentBuilder \<Rightarrow> DeploymentBuilder" where
  "MountConfigMap cm path d =
     d\<lparr>dvolumes := dvolumes d @ [(cm, ConfigMapVolume cm)],
       volumeMounts := volumeMounts d @ [\<lparr>vm_name = cm, vm_path = path, vm_read_only = False\<rparr>]\<rparr>"

definition Deployment_ServiceAccount :: "string \<Rightarrow> DeploymentBuilder \<Rightarrow> DeploymentBuilder" where
  "Deployment_ServiceAccount name d = d\<lparr>sa := name\<rparr>"

text \<open>\<open>GetLabels\<close> makes a new map of one pair where there are no labels.\<close>

definition GetLabels :: "map_store \<Rightarrow> DeploymentBuilder \<Rightarrow> map_ref \<times> map_store" where
  "GetLabels S d =
     (if length (deref S (labels_ref d)) = 0 then alloc S [(''name'', Name d)] else (labels_ref d, S))"

definition Ports :: "int list \<Rightarrow> DeploymentBuilder \<Rightarrow> DeploymentBuilder" where
  "Ports ps d = d\<lparr>dports := dports d @ map (\<lambda>p. \<lparr>port_number = p, Protocol = ''TCP''\<rparr>) ps\<rparr>"

definition PodSpec :: "DeploymentBuilder \<Rightarrow> pod_spec" where
  "PodSpec d = \<lparr>ps_service_account = sa d, ps_volumes = dvolumes d, ps_command = cmd d, ps_name = Name d,
     ps_image = Image d, ps_pull_policy = ''IfNotPresent'', ps_ports = dports d, ps_mounts = volumeMounts d,
     ps_env_from = envFrom d, ps_env = env d, ps_args = args d, ps_resources = resources d,
     ps_restart_policy = '''', ps_affinity = None\<rparr>"

definition PodTemplate :: "map_store \<Rightarrow> DeploymentBuilder \<Rightarrow> template \<times> map_store" where
  "PodTemplate S d = (let (l, S) = GetLabels S d in (\<lparr>tmpl_labels = l, tmpl_spec = PodSpec d\<rparr>, S))"

definition never_restart :: "template \<Rightarrow> template" where
  "never_restart t = t\<lparr>tmpl_spec := (tmpl_spec t)\<lparr>ps_restart_policy := ''Never''\<rparr>\<rparr>"

definition AsCronJob :: "string \<Rightarrow> deploying \<Rightarrow> built_object \<times> map_store" where
  "AsCronJob schedule = (\<lambda>(S, b, d). let (t, S) = PodTemplate S d
     in (CronJobObj (ObjectMeta b (Name d)) schedule (never_restart t) ''Forbid'', S))"

definition AsOneShotPod :: "deploying \<Rightarrow> built_object" where
  "AsOneShotPod = (\<lambda>(S, b, d). PodObj (ObjectMeta b (Name d)) ((PodSpec d)\<lparr>ps_restart_policy := ''Never''\<rparr>))"

definition AsOneShotJob :: "deploying \<Rightarrow> built_object \<times> map_store" where
  "AsOneShotJob = (\<lambda>(S, b, d). let (t, S) = PodTemplate S d
     in (JobObj (ObjectMeta b (Name d)) (never_restart t) 360 0, S))"

definition Expose :: "int list \<Rightarrow> deploying \<Rightarrow> deploying" where
  "Expose ps = (\<lambda>(S, b, d).
     let d = d\<lparr>dports := dports d @ map (\<lambda>p. \<lparr>port_number = p, Protocol = ''''\<rparr>) ps\<rparr>;
         servicePorts = map (\<lambda>p. (p, FromInt p)) ps;
         (l, S) = GetLabels S d
     in (S, Append [ServiceObj (ObjectMeta b (Name d)) l servicePorts] b, d))"

definition Build :: "deploying \<Rightarrow> map_store \<times> Builder" where
  "Build = (\<lambda>(S, b, d).
     let (sel, S) = GetLabels S d; (t, S) = PodTemplate S d
     in (S, Append [DeploymentObj (ObjectMeta b (Name d)) (replicas d) sel t] b))"

section \<open>Service accounts\<close>

text \<open>A \<open>ServiceAccountBuilder\<close> is the builder it embeds and a name.\<close>

definition Builder_ServiceAccount :: "string \<Rightarrow> Builder \<Rightarrow> Builder \<times> string" where
  "Builder_ServiceAccount name b = (Append [ServiceAccountObj (ObjectMeta b name)] b, name)"

definition AddRole :: "string \<Rightarrow> Builder \<times> string \<Rightarrow> Builder \<times> string" where
  "AddRole role = (\<lambda>(b, name).
     (Append [RoleBindingObj (ObjectMeta b (name @ ''-'' @ role))
       [\<lparr>subject_kind = ''ServiceAccount'', subject_name = name, APIGroup = ''''\<rparr>] role] b, name))"

definition AddClusterRole :: "string \<Rightarrow> Builder \<times> string \<Rightarrow> Builder \<times> string" where
  "AddClusterRole role = (\<lambda>(b, name).
     (Append [ClusterRoleBindingObj (ObjectMeta b (name @ ''-'' @ role))
       [(\<lparr>subject_kind = ''ServiceAccount'', subject_name = name, APIGroup = ''''\<rparr>, Namespace b)] role] b, name))"

section \<open>Webhooks\<close>

record webhook =
  wh_Name :: string
  FailurePolicy :: string
  SideEffects :: string
  MatchPolicy :: string
  wh_TimeoutSeconds :: int
  NamespaceSelector :: "(string \<times> string \<times> string list) list"
  ReviewVersions :: "string list"
  ClientConfig :: "(string \<times> string \<times> string \<times> string \<times> int) option"
  Rules :: "(string list \<times> string list \<times> string list) list"

text \<open>A configuration: its metadata, its hooks, and the service and certificate of the builder.\<close>

record WebhookConfigBuilder =
  wc_Name :: string
  wc_Namespace :: string
  Webhooks :: "webhook list"
  Service :: string
  CA :: string

text \<open>The hook being built: the hook, its own certificate and service, and its path.\<close>

record WebhookBuilder =
  hook :: webhook
  hook_CA :: string
  hook_Service :: string
  hook_Path :: string

definition Webhook_Build :: "WebhookConfigBuilder \<Rightarrow> string \<times> string \<times> webhook list" where
  "Webhook_Build b = (wc_Name b, '''', Webhooks b)"

text \<open>The mutating configuration: each hook with the policy of never being invoked again.\<close>

definition BuildMutating :: "WebhookConfigBuilder \<Rightarrow> string \<times> string \<times> (webhook \<times> string) list" where
  "BuildMutating b = (wc_Name b, '''', map (\<lambda>w. (w, ''Never'')) (Webhooks b))"

definition NewHook :: "string \<Rightarrow> string \<Rightarrow> WebhookConfigBuilder \<Rightarrow> WebhookBuilder" where
  "NewHook name path b = \<lparr>
     hook = \<lparr>wh_Name = name, FailurePolicy = ''Ignore'', SideEffects = ''None'', MatchPolicy = ''Equivalent'',
       wh_TimeoutSeconds = 5, NamespaceSelector = [], ReviewVersions = [''v1beta1''], ClientConfig = None,
       Rules = []\<rparr>,
     hook_CA = CA b, hook_Service = Service b, hook_Path = path\<rparr>"

definition WithNamespaceLabel :: "string \<Rightarrow> string list \<Rightarrow> WebhookBuilder \<Rightarrow> WebhookBuilder" where
  "WithNamespaceLabel l values b =
     (let op = (if length values = 0 then ''Exists'' else ''In'')
      in b\<lparr>hook := (hook b)\<lparr>NamespaceSelector := [(l, op, values)]\<rparr>\<rparr>)"

definition WithoutNamespaceLabel :: "string \<Rightarrow> string list \<Rightarrow> WebhookBuilder \<Rightarrow> WebhookBuilder" where
  "WithoutNamespaceLabel l values b =
     (let op = (if length values = 0 then ''DoesNotExist'' else ''NotIn'')
      in b\<lparr>hook := (hook b)\<lparr>NamespaceSelector := [(l, op, values)]\<rparr>\<rparr>)"

definition Match :: "string list \<Rightarrow> string list \<Rightarrow> string list \<Rightarrow> WebhookBuilder \<Rightarrow> WebhookBuilder" where
  "Match groups versions rs b =
     b\<lparr>hook := (hook b)\<lparr>Rules := Rules (hook b) @ [(groups, versions, rs)]\<rparr>\<rparr>"

definition Fail :: "WebhookBuilder \<Rightarrow> WebhookBuilder" where
  "Fail b = b\<lparr>hook := (hook b)\<lparr>FailurePolicy := ''Fail''\<rparr>\<rparr>"

definition Webhook_TimeoutSeconds :: "int \<Rightarrow> WebhookBuilder \<Rightarrow> WebhookBuilder" where
  "Webhook_TimeoutSeconds timeout b = b\<lparr>hook := (hook b)\<lparr>wh_TimeoutSeconds := timeout\<rparr>\<rparr>"

definition MatchKinds :: "string list \<Rightarrow> WebhookBuilder \<Rightarrow> WebhookBuilder" where
  "MatchKinds rs b = Match [''*''] [''*''] rs b"

definition MatchAny :: "WebhookBuilder \<Rightarrow> WebhookBuilder" where
  "MatchAny b = Match [''*''] [''*''] [''*''] b"

definition Webhook_Add :: "WebhookBuilder \<Rightarrow> WebhookConfigBuilder \<Rightarrow> WebhookConfigBuilder" where
  "Webhook_Add b c =
     c\<lparr>Webhooks := Webhooks c @ [(hook b)\<lparr>ClientConfig :=
       Some (hook_CA b, wc_Namespace c, wc_Name c, hook_Path b, 443)\<rparr>]\<rparr>"

section \<open>Properties\<close>

lemma deref_alloc: "deref (snd (alloc S m)) (fst (alloc S m)) = m"
  by (simp add: alloc_def deref_def)

lemma GetLabels_deref:
  assumes "GetLabels S d = (r, S')"
  shows "deref S' r = (if deref S (labels_ref d) = [] then [(''name'', Name d)] else deref S (labels_ref d))"
  using assms deref_alloc [of S "[(''name'', Name d)]"]
  by (auto simp: GetLabels_def split: if_splits)

definition allocated :: "map_store \<Rightarrow> map_ref \<Rightarrow> bool" where
  "allocated S r \<longleftrightarrow> (case r of None \<Rightarrow> True | Some a \<Rightarrow> a < fresh S)"

text \<open>
  C32. The deployment that \<open>Build\<close> appends selects its own pods: its selector and the labels of its
  pod template have the same pairs, the labels of the builder or, where it has none, the name.
\<close>

theorem Build_selector_matches:
  assumes "allocated S (labels_ref d)" and "Build (S, b, d) = (S', b')"
  shows "\<exists>meta n sel t. Objects b' = Objects b @ [DeploymentObj meta n sel t]
    \<and> deref S' sel = deref S' (tmpl_labels t)
    \<and> deref S' sel = (if deref S (labels_ref d) = [] then [(''name'', Name d)] else deref S (labels_ref d))"
proof -
  obtain sel S1 where 1: "GetLabels S d = (sel, S1)" by fastforce
  obtain l S2 where 2: "GetLabels S1 d = (l, S2)" by fastforce
  have S': "S' = S2" and b': "Objects b' = Objects b @ [DeploymentObj (ObjectMeta b (Name d)) (replicas d) sel
      \<lparr>tmpl_labels = l, tmpl_spec = PodSpec d\<rparr>]"
    using assms(2) 1 2 by (auto simp: Build_def PodTemplate_def Append_def)
  have keep: "deref S1 (labels_ref d) = deref S (labels_ref d)"
    using 1 assms(1) by (cases "labels_ref d")
      (auto simp: GetLabels_def alloc_def deref_def allocated_def split: if_splits)
  have sel: "deref S2 sel = deref S1 sel"
    using 1 2 by (auto simp: GetLabels_def alloc_def deref_def split: if_splits option.splits)
  show ?thesis
    using b' GetLabels_deref [OF 1] GetLabels_deref [OF 2] keep sel by (simp add: S')
qed

definition empty_store :: map_store where
  "empty_store = \<lparr>cells = (\<lambda>_. []), fresh = 0\<rparr>"

lemma Build_selector_matches_witness:
  "\<exists>meta n sel t. Objects (snd (Build (empty_store,
      \<lparr>Objects = [], Namespace = ''ns'', b_Labels = None, b_Annotations = None\<rparr>,
      new_deployment ''low'' ''web'' ''nginx'' None None))) = [DeploymentObj meta n sel t]
    \<and> deref (fst (Build (empty_store, \<lparr>Objects = [], Namespace = ''ns'', b_Labels = None, b_Annotations = None\<rparr>,
      new_deployment ''low'' ''web'' ''nginx'' None None))) sel = [(''name'', ''web'')]"
proof -
  let ?d = "new_deployment ''low'' ''web'' ''nginx'' None None"
  let ?b = "\<lparr>Objects = [], Namespace = ''ns'', b_Labels = None, b_Annotations = None\<rparr>"
  obtain S' b' where e: "Build (empty_store, ?b, ?d) = (S', b')" by fastforce
  have "allocated empty_store (labels_ref ?d)" by (simp add: allocated_def new_deployment_def)
  moreover have "deref empty_store (labels_ref ?d) = []" "Name ?d = ''web''"
    by (simp_all add: deref_def new_deployment_def)
  ultimately show ?thesis using Build_selector_matches [OF _ e] by (auto simp: e)
qed

lemma fold_put_shared:
  "fold put l (Some a, S) = (Some a, S\<lparr>cells := (cells S)(a := fold (\<lambda>(k, v). AList.update k v) l (cells S a))\<rparr>)"
proof (induction l arbitrary: S)
  case Nil
  then show ?case by simp
next
  case (Cons kv l)
  then show ?case by (cases kv; cases S) (simp add: put_def fun_upd_def cong: if_cong)
qed

text \<open>
  Labels that are added to a deployment made by a builder that has labels are added to the
  builder itself: every object that was or will be built with it shows them.
\<close>

theorem Labels_leak_into_Builder:
  assumes "b_Labels b = Some a"
    and "Labels l (Builder_Deployment low name img (S, b)) = (S', b', d')"
  shows "deref S' (om_labels (ObjectMeta b other)) = fold (\<lambda>(k, v). AList.update k v) l (cells S a)"
  using assms
  by (auto simp: Labels_def Builder_Deployment_def new_deployment_def fold_put_shared deref_def ObjectMeta_def)

lemma Labels_leak_into_Builder_witness:
  "\<exists>S' b' d'. Labels [(''tier'', ''db'')] (Builder_Deployment ''low'' ''db'' ''postgres''
      (\<lparr>cells = (\<lambda>_. [(''app'', ''shop'')]), fresh = 1\<rparr>,
       \<lparr>Objects = [], Namespace = ''ns'', b_Labels = Some 0, b_Annotations = None\<rparr>)) = (S', b', d')
    \<and> deref S' (om_labels (ObjectMeta \<lparr>Objects = [], Namespace = ''ns'', b_Labels = Some 0,
        b_Annotations = None\<rparr> ''settings'')) = [(''app'', ''shop''), (''tier'', ''db'')]"
proof -
  let ?b = "\<lparr>Objects = [], Namespace = ''ns'', b_Labels = Some 0, b_Annotations = None\<rparr>"
  let ?S = "\<lparr>cells = (\<lambda>_. [(''app'', ''shop'')]), fresh = 1\<rparr>"
  obtain S' b' d' where e: "Labels [(''tier'', ''db'')] (Builder_Deployment ''low'' ''db'' ''postgres'' (?S, ?b))
      = (S', b', d')" by (metis prod_cases3)
  show ?thesis using Labels_leak_into_Builder [OF _ e, of 0 "''settings''"] e by simp
qed

text \<open>
  No pod built ever has an affinity: \<open>PodSpec\<close> does not read what \<open>NodeAffinity\<close> and
  \<open>PodAffinity\<close> store, so that these calls change no deployment, job or pod.
\<close>

theorem PodSpec_ignores_affinity:
  "PodSpec (PodAffinity l topologyKey d) = PodSpec d
   \<and> ps_affinity (PodSpec d) = None
   \<and> map_option PodSpec (NodeAffinity m d) = (if m = [] then None else Some (PodSpec d))"
  by (simp add: PodSpec_def PodAffinity_def NodeAffinity_def)

text \<open>
  A hook that is added is served by a service with the name and namespace of the configuration;
  the service that was given to the configuration's builder is not used.
\<close>

theorem Webhook_Add_ignores_Service:
  "Webhooks (Webhook_Add (NewHook name path c) c) = Webhooks c @
     [(hook (NewHook name path c))\<lparr>ClientConfig := Some (CA c, wc_Namespace c, wc_Name c, path, 443)\<rparr>]
   \<and> Webhooks (Webhook_Add (NewHook name path (c\<lparr>Service := s\<rparr>)) (c\<lparr>Service := s\<rparr>))
     = Webhooks (Webhook_Add (NewHook name path c) c)"
  by (simp add: Webhook_Add_def NewHook_def)

end
