(* ===== verification/Conditions.thy ===== *)
theory Conditions
  imports Readiness "HOL-Library.AList"
begin

text \<open>
  The common conditions of \<open>conditions.go\<close> and \<open>api/v1/conditions.go\<close>: reading them from a
  dynamic object, setting one, and the readiness they give.

  The two passages through JSON, from the decoded list to the typed one and back, are parameters,
  and so is what remains of an instant that is encoded and decoded: its fraction of a second is lost.
  A field that a condition has in the object and the type \<open>Condition\<close> has not is lost when
  the conditions are written, since the typed ones are encoded; the properties speak of the
  fields of the type. \<open>SetCondition\<close> changes the object behind its pointer and updates the server; it
  returns the object, the objects sent and the error.
\<close>

record kcondition =
  kc_Type :: string
  kc_Status :: string
  kc_Reason :: "string option"
  kc_Message :: "string option"
  LastHeartbeatTime :: "int option"
  LastTransitionTime :: "int option"

record condition_codec =
  typed_conditions :: "val list \<Rightarrow> gerror + kcondition list"
  json_conditions :: "kcondition list \<Rightarrow> gerror + val list"
  json_time :: "int \<Rightarrow> int option"

definition GetConditions :: "condition_codec \<Rightarrow> unstructured option \<Rightarrow> gerror + kcondition list" where
  "GetConditions K item =
     (case item of
        None \<Rightarrow> Inl (errorf ''could not get conditions for nil object'')
      | Some item \<Rightarrow>
          (case as_map (get (Object item) ''status'') of
             None \<Rightarrow> Inr []
           | Some status \<Rightarrow>
               (case as_list (get status ''conditions'') of
                  None \<Rightarrow> Inr []
                | Some conditions \<Rightarrow>
                    if length conditions = 0 then Inr []
                    else case typed_conditions K conditions of
                      Inl err \<Rightarrow> Inl (wrapf err ''failed to unmarshal conditions'')
                    | Inr cs \<Rightarrow> Inr cs)))"

text \<open>The loop of \<open>SetCondition\<close>: the conditions, and whether one was found and changed.\<close>

definition set_one :: "int \<Rightarrow> string \<Rightarrow> string \<Rightarrow> kcondition \<Rightarrow> kcondition" where
  "set_one now kind status c =
     (if kc_Type c = kind
      then (if kc_Status c \<noteq> status then c\<lparr>kc_Status := status, LastTransitionTime := Some now\<rparr> else c)
             \<lparr>LastHeartbeatTime := Some now\<rparr>
      else c)"

definition set_condition :: "int \<Rightarrow> string \<Rightarrow> string \<Rightarrow> kcondition list \<Rightarrow> kcondition list \<times> bool" where
  "set_condition now kind status conditions =
     (let found = list_ex (\<lambda>c. kc_Type c = kind) conditions;
          changed = list_ex (\<lambda>c. kc_Type c = kind \<and> kc_Status c \<noteq> status) conditions;
          conditions = map (set_one now kind status) conditions
      in if \<not> found
         then (conditions @ [\<lparr>kc_Type = kind, kc_Status = status, kc_Reason = None, kc_Message = None,
                 LastHeartbeatTime = Some now, LastTransitionTime = Some now\<rparr>], True)
         else (conditions, changed))"

definition write_conditions :: "val list \<Rightarrow> unstructured \<Rightarrow> unstructured" where
  "write_conditions conditionsList item =
     (let itemStatus = (case as_map (get (Object item) ''status'') of None \<Rightarrow> [] | Some m \<Rightarrow> m);
          itemStatus = AList.update ''conditions'' (VList conditionsList) itemStatus
      in item\<lparr>Object := AList.update ''status'' (VMap itemStatus) (Object item)\<rparr>)"

definition SetCondition ::
  "condition_codec \<Rightarrow> (unstructured \<Rightarrow> gerror option) \<Rightarrow> int \<Rightarrow> unstructured \<Rightarrow> string \<Rightarrow> string \<Rightarrow>
     unstructured \<times> unstructured list \<times> gerror option" where
  "SetCondition K update now item kind status =
     (case GetConditions K (Some item) of
        Inl err \<Rightarrow> (item, [], Some (wrapf err ''failed to get conditions''))
      | Inr conditions \<Rightarrow>
          let (conditions, changed) = set_condition now kind status conditions
          in if \<not> changed then (item, [], None)
             else case json_conditions K conditions of
               Inl err \<Rightarrow> (item, [], Some (wrapf err ''failed to encode conditions to json''))
             | Inr conditionsList \<Rightarrow>
                 let item = write_conditions conditionsList item
                 in (item, [item], map_option (\<lambda>e. wrapf e ''failed to apply status'') (update item)))"

definition IsReadyWithConditions :: "condition_codec \<Rightarrow> unstructured option \<Rightarrow> ready" where
  "IsReadyWithConditions K item =
     (case GetConditions K item of
        Inl err \<Rightarrow> (False, ''failed to get conditions: '' @ Error err)
      | Inr conditions \<Rightarrow>
          let (found, ready) = fold (\<lambda>c (found, ready).
                if kc_Status c = ''Ready'' then (True, ready)
                else if kc_Status c = ''NotReady'' then (True, False) else (found, ready))
              conditions (False, True)
          in if \<not> found then (False, waiting_to ''for conditions'')
             else if \<not> ready then (False, waiting_to ''for conditions to be ready'')
             else (True, ''''))"

section \<open>Properties\<close>

lemma fold_ready_conditions:
  "fold (\<lambda>c (found, ready).
      if kc_Status c = ''Ready'' then (True, ready)
      else if kc_Status c = ''NotReady'' then (True, False) else (found, ready)) cs (f, r)
   = (f \<or> list_ex (\<lambda>c. kc_Status c = ''Ready'' \<or> kc_Status c = ''NotReady'') cs,
      r \<and> \<not> list_ex (\<lambda>c. kc_Status c = ''NotReady'') cs)"
  by (induction cs arbitrary: f r) auto

text \<open>
  An object is ready by its common conditions exactly when one of them has the status \<open>Ready\<close>
  and none the status \<open>NotReady\<close>; other statuses do not count.
\<close>

theorem IsReadyWithConditions_exact:
  "fst (IsReadyWithConditions K item) \<longleftrightarrow>
     (\<exists>cs. GetConditions K item = Inr cs \<and> list_ex (\<lambda>c. kc_Status c = ''Ready'') cs
        \<and> \<not> list_ex (\<lambda>c. kc_Status c = ''NotReady'') cs)"
  by (auto simp: IsReadyWithConditions_def fold_ready_conditions Let_def list_ex_iff split: sum.splits if_splits)

text \<open>
  What a typed list is after it was encoded and decoded: the same list, but for the fractions of
  its instants. So do the encoder of \<open>encoding/json\<close> and the time of apimachinery, which has whole
  seconds, and null for the zero time.
\<close>

definition via_json :: "condition_codec \<Rightarrow> kcondition \<Rightarrow> kcondition" where
  "via_json K c = c\<lparr>LastHeartbeatTime := Option.bind (LastHeartbeatTime c) (json_time K),
     LastTransitionTime := Option.bind (LastTransitionTime c) (json_time K)\<rparr>"

definition codec_ok :: "condition_codec \<Rightarrow> bool" where
  "codec_ok K \<longleftrightarrow> (\<forall>cs vs. json_conditions K cs = Inr vs \<longrightarrow>
     typed_conditions K vs = Inr (map (via_json K) cs) \<and> length vs = length cs)"

lemma set_condition_changed:
  assumes "set_condition now kind status cs = (cs', True)"
  shows "cs' \<noteq> []"
  using assms by (auto simp: set_condition_def Let_def split: if_splits)

lemma AList_get [simp]: "get (AList.update k v m) k' = (if k' = k then v else get m k')"
  by (simp add: get_def update_conv')

lemma write_conditions_frame:
  "k \<noteq> ''status'' \<Longrightarrow> get (Object (write_conditions vs item)) k = get (Object item) k"
  by (simp add: write_conditions_def Let_def)

text \<open>
  C33. \<open>SetCondition\<close> sends an update only when a condition of the kind has another status or there is
  none. It sends the object that it leaves, in which, read again, each old condition is at its place,
  unchanged unless it is of the kind: then it has the new status, the heartbeat of now, and the
  transition time of now where the status is new. A condition of the kind is added at the end, once,
  exactly when there was none. Instants come back without their fractions of a second. The rest
  of the object is as it was, and the error is that of the update.
\<close>

theorem SetCondition_sets:
  assumes "codec_ok K" and "GetConditions K (Some item) = Inr cs"
    and "SetCondition K update now item kind status = (item', [sent], err)"
  shows "sent = item' \<and> err = map_option (\<lambda>e. wrapf e ''failed to apply status'') (update item')
    \<and> ((\<forall>c\<in>set cs. kc_Type c \<noteq> kind) \<or> (\<exists>c\<in>set cs. kc_Type c = kind \<and> kc_Status c \<noteq> status))
    \<and> (\<forall>k. k \<noteq> ''status'' \<longrightarrow> get (Object item') k = get (Object item) k)
    \<and> (\<forall>m k. as_map (get (Object item) ''status'') = Some m \<longrightarrow> k \<noteq> ''conditions'' \<longrightarrow>
        (\<exists>m'. as_map (get (Object item') ''status'') = Some m' \<and> get m' k = get m k))
    \<and> GetConditions K (Some item') = Inr (map (via_json K)
        (map (\<lambda>c. if kc_Type c \<noteq> kind then c
             else c\<lparr>kc_Status := status, LastHeartbeatTime := Some now,
                    LastTransitionTime := if kc_Status c = status then LastTransitionTime c else Some now\<rparr>) cs
         @ (if \<exists>c\<in>set cs. kc_Type c = kind then []
            else [\<lparr>kc_Type = kind, kc_Status = status, kc_Reason = None, kc_Message = None,
                   LastHeartbeatTime = Some now, LastTransitionTime = Some now\<rparr>])))"
proof -
  obtain cs' vs where set: "set_condition now kind status cs = (cs', True)"
    and json: "json_conditions K cs' = Inr vs" and item': "item' = write_conditions vs item" and "sent = item'"
    and err: "err = map_option (\<lambda>e. wrapf e ''failed to apply status'') (update item')"
    using assms(2,3) by (auto simp: SetCondition_def Let_def split: prod.splits if_splits sum.splits)
  have "typed_conditions K vs = Inr (map (via_json K) cs') \<and> length vs = length cs'"
    using assms(1) json by (simp add: codec_ok_def)
  moreover from this have "vs \<noteq> []" using set_condition_changed [OF set] by auto
  ultimately have "GetConditions K (Some item') = Inr (map (via_json K) cs')"
    by (simp add: GetConditions_def item' write_conditions_def Let_def)
  moreover have "set_one now kind status = (\<lambda>c. if kc_Type c \<noteq> kind then c
      else c\<lparr>kc_Status := status, LastHeartbeatTime := Some now,
             LastTransitionTime := if kc_Status c = status then LastTransitionTime c else Some now\<rparr>)"
    by (auto simp: set_one_def fun_eq_iff)
  ultimately have "GetConditions K (Some item') = Inr (map (via_json K)
        (map (\<lambda>c. if kc_Type c \<noteq> kind then c
             else c\<lparr>kc_Status := status, LastHeartbeatTime := Some now,
                    LastTransitionTime := if kc_Status c = status then LastTransitionTime c else Some now\<rparr>) cs
         @ (if \<exists>c\<in>set cs. kc_Type c = kind then []
            else [\<lparr>kc_Type = kind, kc_Status = status, kc_Reason = None, kc_Message = None,
                   LastHeartbeatTime = Some now, LastTransitionTime = Some now\<rparr>])))"
    using set by (auto simp: set_condition_def Let_def list_ex_iff split: if_splits)
  moreover have "(\<forall>c\<in>set cs. kc_Type c \<noteq> kind) \<or> (\<exists>c\<in>set cs. kc_Type c = kind \<and> kc_Status c \<noteq> status)"
    using set by (auto simp: set_condition_def Let_def list_ex_iff split: if_splits)
  moreover have "\<forall>k. k \<noteq> ''status'' \<longrightarrow> get (Object item') k = get (Object item) k"
    by (simp add: item' write_conditions_frame)
  moreover have "\<forall>m k. as_map (get (Object item) ''status'') = Some m \<longrightarrow> k \<noteq> ''conditions'' \<longrightarrow>
      (\<exists>m'. as_map (get (Object item') ''status'') = Some m' \<and> get m' k = get m k)"
    by (simp add: item' write_conditions_def Let_def)
  ultimately show ?thesis using \<open>sent = item'\<close> err by blast
qed

text \<open>A codec for the example, which keeps the whole seconds of instants counted in tenths.\<close>

definition example_codec :: condition_codec where
  "example_codec = \<lparr>
     typed_conditions = (\<lambda>vs. Inr (map (\<lambda>v. case v of VStr s \<Rightarrow> \<lparr>kc_Type = ''Synced'', kc_Status = s,
       kc_Reason = None, kc_Message = None, LastHeartbeatTime = Some 90, LastTransitionTime = Some 90\<rparr>
       | _ \<Rightarrow> undefined) vs)),
     json_conditions = (\<lambda>cs. if list_all (\<lambda>c. c = \<lparr>kc_Type = ''Synced'', kc_Status = kc_Status c,
       kc_Reason = None, kc_Message = None, LastHeartbeatTime = Some 95, LastTransitionTime = Some 95\<rparr>) cs
       then Inr (map (\<lambda>c. VStr (kc_Status c)) cs) else Inl (errorf ''no json'')),
     json_time = (\<lambda>t. Some (t div 10 * 10))\<rparr>"

definition example_item :: unstructured where
  "example_item = \<lparr>u_kind = ''Database'', u_apiVersion = ''v1'', u_name = ''d'', u_namespace = ''n'', Object = []\<rparr>"

lemma example_codec_ok: "codec_ok example_codec"
proof -
  have "map (\<lambda>v. case v of VStr s \<Rightarrow> \<lparr>kc_Type = ''Synced'', kc_Status = s, kc_Reason = None, kc_Message = None,
      LastHeartbeatTime = Some 90, LastTransitionTime = Some 90\<rparr> | _ \<Rightarrow> undefined) (map (\<lambda>c. VStr (kc_Status c)) cs)
      = map (via_json example_codec) cs"
    if "list_all (\<lambda>c. c = \<lparr>kc_Type = ''Synced'', kc_Status = kc_Status c,
       kc_Reason = None, kc_Message = None, LastHeartbeatTime = Some 95, LastTransitionTime = Some 95\<rparr>) cs" for cs
    using that
  proof (induction cs)
    case (Cons c cs)
    then have "via_json example_codec c = \<lparr>kc_Type = ''Synced'', kc_Status = kc_Status c, kc_Reason = None,
      kc_Message = None, LastHeartbeatTime = Some 90, LastTransitionTime = Some 90\<rparr>"
      by (cases c) (auto simp: via_json_def example_codec_def)
    with Cons show ?case by simp
  qed simp
  then show ?thesis by (auto simp: codec_ok_def example_codec_def split: if_splits)
qed

lemma SetCondition_sets_witness:
  "\<exists>item'. SetCondition example_codec (\<lambda>_. None) 95 example_item ''Synced'' ''Ready'' = (item', [item'], None)
    \<and> GetConditions example_codec (Some item') = Inr [\<lparr>kc_Type = ''Synced'', kc_Status = ''Ready'', kc_Reason = None,
        kc_Message = None, LastHeartbeatTime = Some 90, LastTransitionTime = Some 90\<rparr>]"
proof -
  have none: "GetConditions example_codec (Some example_item) = Inr []"
    by (simp add: GetConditions_def example_item_def get_def)
  obtain item' where "SetCondition example_codec (\<lambda>_. None) 95 example_item ''Synced'' ''Ready'' = (item', [item'], None)"
    by (simp add: SetCondition_def GetConditions_def example_item_def get_def set_condition_def example_codec_def Let_def)
  with SetCondition_sets [OF example_codec_ok none this] show ?thesis
    by (auto simp: via_json_def example_codec_def)
qed

text \<open>
  When no status changes, nothing is written: neither the object nor the server gets the new
  heartbeat time that the loop has computed.
\<close>

lemma SetCondition_unchanged:
  assumes "GetConditions K (Some item) = Inr cs" and "list_ex (\<lambda>c. kc_Type c = kind) cs"
    and "list_all (\<lambda>c. kc_Type c = kind \<longrightarrow> kc_Status c = status) cs"
  shows "SetCondition K update now item kind status = (item, [], None)"
  using assms by (auto simp: SetCondition_def set_condition_def Let_def list_ex_iff list_all_iff)
end
