(* ===== verification/Documents.thy ===== *)
theory Documents
  imports Kinds
begin

text \<open>
  Streams of YAML documents: splitting and decoding them (\<open>GetUnstructuredObjects\<close> of \<open>utils.go\<close>
  and of package \<open>kustomize\<close>, \<open>BytesToUtf8Lf\<close>), the patches that apply to an object
  (\<open>json6902.go\<close>, \<open>strategicmerge.go\<close>), \<open>Kustomize\<close> (\<open>kustomize.go\<close>), the templating of patch
  streams (\<open>helper.go\<close>) and the file walk's filters (\<open>walk.go\<close>).

  The YAML codecs, the UTF-8 reader and the kustomizer are parameters. The documents are byte lists.
\<close>

section \<open>Line ends\<close>

abbreviation nl :: char where "nl \<equiv> CHR 0x0A"
abbreviation cr :: char where "cr \<equiv> CHR 0x0D"

text \<open>\<open>bytes.ReplaceAll(val, {10, 10}, {10})\<close>: the occurrences do not overlap.\<close>

fun squeeze_newlines :: "string \<Rightarrow> string" where
  "squeeze_newlines (a # b # s) =
     (if a = nl \<and> b = nl then nl # squeeze_newlines s else a # squeeze_newlines (b # s))"
| "squeeze_newlines s = s"

definition BytesToUtf8Lf :: "(string \<Rightarrow> gerror + string) \<Rightarrow> string \<Rightarrow> gerror + string" where
  "BytesToUtf8Lf utf8_reader file =
     (case utf8_reader file of
        Inl err \<Rightarrow> Inl err
      | Inr val \<Rightarrow>
          let val = map (\<lambda>c. if c = cr then nl else c) val;
              val = squeeze_newlines val
          in Inr val)"

section \<open>Documents\<close>

text \<open>
  \<open>re.Split\<close> at matches of \<open>(?m)^---\n\<close>: \<open>bol\<close> says whether the position is the beginning of a
  line, and \<open>cur\<close> is the current chunk, reversed.
\<close>

definition doc_sep :: string where
  "doc_sep = ''---'' @ [nl]"

fun split_docs :: "bool \<Rightarrow> string \<Rightarrow> string \<Rightarrow> string list" where
  "split_docs bol cur [] = [rev cur]"
| "split_docs bol cur (c # s) =
     (if bol \<and> HasPrefix (c # s) doc_sep then rev cur # split_docs True [] (drop 3 s)
      else split_docs (c = nl) (c # cur) s)"

text \<open>The decoder of one chunk gives an object, nil for an empty document, or an error.\<close>

fun decode_chunks :: "(string \<Rightarrow> gerror + unstructured option) \<Rightarrow> string list \<Rightarrow> gerror + unstructured list" where
  "decode_chunks decode [] = Inr []"
| "decode_chunks decode (chunk # chunks) =
     (if TrimSpace chunk = '''' then decode_chunks decode chunks
      else case decode chunk of
        Inl err \<Rightarrow> Inl (errorf (''error decoding '' @ chunk @ '': '' @ Error err))
      | Inr resource \<Rightarrow>
          (case decode_chunks decode chunks of
             Inl err \<Rightarrow> Inl err
           | Inr items \<Rightarrow> Inr (case resource of None \<Rightarrow> items | Some r \<Rightarrow> r # items)))"

definition GetUnstructuredObjects :: "(string \<Rightarrow> gerror + unstructured option) \<Rightarrow> string \<Rightarrow> gerror + unstructured list" where
  "GetUnstructuredObjects decode data = decode_chunks decode (split_docs True [] data)"

definition kustomize_GetUnstructuredObjects ::
  "(string \<Rightarrow> gerror + string) \<Rightarrow> (string \<Rightarrow> gerror + unstructured option) \<Rightarrow> string \<Rightarrow> gerror + unstructured list" where
  "kustomize_GetUnstructuredObjects utf8_reader decode data =
     (case BytesToUtf8Lf utf8_reader data of
        Inl err \<Rightarrow> Inl (errorf (''error converting to UTF '' @ Error err))
      | Inr utfData \<Rightarrow> decode_chunks decode (split_docs True [] utfData))"

section \<open>Patches\<close>

record patch_target =
  p_Group :: string
  p_Version :: string
  p_Kind :: string
  p_Namespace :: string
  p_Name :: string

record json6902 =
  Target :: patch_target
  Patch :: string

text \<open>The group, version and kind of an object are those of the scheme's parser of \<open>apiVersion\<close>.\<close>

type_synonym gvk = "unstructured \<Rightarrow> string \<times> string \<times> string"

definition newJSON6902FromFile :: "(string \<Rightarrow> gerror + string) \<Rightarrow> patch_target \<Rightarrow> string \<Rightarrow> gerror + json6902" where
  "newJSON6902FromFile load target file =
     (case load file of Inl err \<Rightarrow> Inl err | Inr p \<Rightarrow> Inr \<lparr>Target = target, Patch = p\<rparr>)"

definition json6902_filterByResource :: "gvk \<Rightarrow> json6902 list \<Rightarrow> string \<Rightarrow> unstructured \<Rightarrow> json6902 list" where
  "json6902_filterByResource gvk s namespace r =
     fold (\<lambda>p result.
       if p_Group (Target p) = fst (gvk r) \<and> p_Version (Target p) = fst (snd (gvk r))
          \<and> p_Kind (Target p) = snd (snd (gvk r))
          \<and> (p_Namespace (Target p) = u_namespace r \<or> p_Namespace (Target p) = namespace)
          \<and> p_Name (Target p) = u_name r
       then result @ [p] else result) s []"

definition merge_filterByResource :: "gvk \<Rightarrow> unstructured list \<Rightarrow> string \<Rightarrow> unstructured \<Rightarrow> unstructured list" where
  "merge_filterByResource gvk s namespace r =
     fold (\<lambda>p result.
       if gvk p = gvk r \<and> (u_namespace p = u_namespace r \<or> u_namespace p = namespace) \<and> u_name p = u_name r
       then result @ [p] else result) s []"

definition kustomize_validate :: "unstructured \<Rightarrow> gerror option" where
  "kustomize_validate u =
     (let kind = u_kind u
      in if kind = '''' then Some (errorf ''missing kind in object'')
         else if HasSuffix kind ''List'' then None
         else if u_name u = '''' then Some (errorf ''missing metadata.name in object'')
         else None)"

definition isEmptyYamlError :: "gerror \<Rightarrow> bool" where
  "isEmptyYamlError err = Contains (Error err) (''is missing in '' @ [CHR 0x27] @ ''null'' @ [CHR 0x27])"

text \<open>
  \<open>newStrategicMergeSliceFromBytes\<close>: the loop over the results of the decoder, which ends with the
  first error that does not stand for an empty document; end of file is \<open>eof\<close>, as is the end of the list. The items of a
  list go through the same function again, on their own encoding; \<open>items_of\<close> is that inner run on
  every item, in order, or its first error.
\<close>

fun merge_loop ::
  "(unstructured \<Rightarrow> gerror + unstructured list) \<Rightarrow> gerror \<Rightarrow> (gerror + unstructured) list \<Rightarrow>
     unstructured list \<Rightarrow> gerror + unstructured list" where
  "merge_loop items_of eof [] result = Inr result"
| "merge_loop items_of eof (Inl err # ds) result =
     (if isEmptyYamlError err then merge_loop items_of eof ds result
      else if err = eof then Inr result else Inl err)"
| "merge_loop items_of eof (Inr u # ds) result =
     (if length (Object u) = 0 then merge_loop items_of eof ds result
      else case kustomize_validate u of
        Some err \<Rightarrow> Inl err
      | None \<Rightarrow>
          if HasSuffix (u_kind u) ''List''
          then (case items_of u of
                  Inl err \<Rightarrow> Inl err
                | Inr items \<Rightarrow> merge_loop items_of eof ds (result @ items))
          else merge_loop items_of eof ds (result @ [u]))"

fun list_items :: "(string \<Rightarrow> gerror + unstructured list) \<Rightarrow> string list \<Rightarrow> gerror + unstructured list" where
  "list_items slice_of [] = Inr []"
| "list_items slice_of (j # js) =
     (case slice_of j of
        Inl err \<Rightarrow> Inl err
      | Inr us \<Rightarrow> (case list_items slice_of js of Inl err \<Rightarrow> Inl err | Inr vs \<Rightarrow> Inr (us @ vs)))"

text \<open>
  \<open>decode_all\<close> gives the decoder's results on some bytes and \<open>item_json\<close> the encodings of the
  items of a list. The nesting of lists is bounded by the fuel, and \<open>too_deep\<close> is running out of it.
\<close>

fun newStrategicMergeSliceFromBytes ::
  "(string \<Rightarrow> (gerror + unstructured) list) \<Rightarrow> (unstructured \<Rightarrow> string list) \<Rightarrow> gerror \<Rightarrow> gerror \<Rightarrow> nat \<Rightarrow>
     string \<Rightarrow> gerror + unstructured list" where
  "newStrategicMergeSliceFromBytes decode_all item_json eof too_deep 0 data = Inl too_deep"
| "newStrategicMergeSliceFromBytes decode_all item_json eof too_deep (Suc depth) data =
     merge_loop (\<lambda>u. list_items (newStrategicMergeSliceFromBytes decode_all item_json eof too_deep depth) (item_json u))
       eof (decode_all data) []"

section \<open>Kustomize\<close>

text \<open>
  One resource: its YAML and that of a kustomization with it are written to a new file system, on
  which kustomize runs. The two encoders and the library's run, with the YAML of the resulting
  resources, are parameters. Outside Windows the directory is the root.
\<close>

record krusty =
  marshal_object :: "obj_map \<Rightarrow> gerror + string"
  marshal_kustomization :: "string list \<Rightarrow> gerror + string"
  run_krusty :: "(string \<times> string) list \<Rightarrow> gerror + string list"

definition kustomize_one :: "krusty \<Rightarrow> unstructured \<Rightarrow> gerror + string list" where
  "kustomize_one K resource =
     (case marshal_object K (Object resource) of
        Inl err \<Rightarrow> Inl err
      | Inr b \<Rightarrow>
          let name = ''resource.yaml''; memFS = [(''/'' @ name, b)]
          in case marshal_kustomization K [name] of
               Inl err \<Rightarrow> Inl err
             | Inr kbytes \<Rightarrow> run_krusty K (memFS @ [(''/kustomization.yaml'', kbytes)]))"

text \<open>
  The loop over the resources: \<open>kustomizer\<close> is \<open>kustomize_one\<close>, \<open>annotate\<close> the annotation of the
  resource, and \<open>parse\<close> reads the objects of a resulting YAML. A nil resource is passed over.
\<close>

fun Kustomize ::
  "(unstructured \<Rightarrow> unstructured) \<Rightarrow> (unstructured \<Rightarrow> gerror + string list) \<Rightarrow>
     (string \<Rightarrow> gerror + unstructured list) \<Rightarrow> unstructured option list \<Rightarrow> gerror + unstructured list" where
  "Kustomize annotate kustomizer parse [] = Inr []"
| "Kustomize annotate kustomizer parse (None # objects) = Kustomize annotate kustomizer parse objects"
| "Kustomize annotate kustomizer parse (Some resource # objects) =
     (case kustomizer (annotate resource) of
        Inl err \<Rightarrow> Inl err
      | Inr yamls \<Rightarrow>
          (case list_items parse yamls of
             Inl err \<Rightarrow> Inl err
           | Inr items \<Rightarrow>
               (case Kustomize annotate kustomizer parse objects of
                  Inl err \<Rightarrow> Inl err
                | Inr rest \<Rightarrow> Inr (items @ rest))))"

section \<open>Templating of patch streams\<close>

text \<open>The first occurrence of three dashes, anywhere in the data, ends the first document.\<close>

fun getDocumentsFromYamlFile :: "string \<Rightarrow> string \<times> string" where
  "getDocumentsFromYamlFile [] = ([], [])"
| "getDocumentsFromYamlFile (c # s) =
     (if HasPrefix (c # s) ''---'' then ([], drop 2 s)
      else let (d, rest) = getDocumentsFromYamlFile s in (c # d, rest))"

text \<open>\<open>reencode\<close> decodes and encodes a document, \<open>None\<close> for one that decodes to nil.\<close>

definition templatizeDocument :: "(string \<Rightarrow> gerror + string option) \<Rightarrow> string \<Rightarrow> gerror + string" where
  "templatizeDocument reencode patch =
     (case reencode patch of Inl err \<Rightarrow> Inl err | Inr None \<Rightarrow> Inr [] | Inr (Some s) \<Rightarrow> Inr s)"

definition templatizePatch_body ::
  "(string \<Rightarrow> gerror + string option) \<Rightarrow> string \<times> string \<Rightarrow> unit \<Rightarrow> string \<times> string + (gerror + string)" where
  "templatizePatch_body reencode = (\<lambda>(result, remainingData) _.
     let (first, rest) = getDocumentsFromYamlFile remainingData
     in if length first = 0 then Inl (result, rest)
        else case templatizeDocument reencode first of
          Inl err \<Rightarrow> Inr (Inl err)
        | Inr templated \<Rightarrow>
            let result = (if length result > 0 then result @ doc_sep else result) @ templated
            in if length rest = 0 then Inr (Inr result) else Inl (result, rest))"

definition templatizePatch :: "(string \<Rightarrow> gerror + string option) \<Rightarrow> nat \<Rightarrow> string \<Rightarrow> (gerror + string) loop" where
  "templatizePatch reencode fuel patch = run_loop (templatizePatch_body reencode) fuel ([], patch) (\<lambda>_. ())"

section \<open>Specs\<close>

record spec =
  Path :: string
  Items :: "unstructured list"

text \<open>\<open>to_list\<close> is \<open>IsList\<close> with \<open>ToList\<close>: \<open>None\<close> for an object that is no list.\<close>

fun Unwrap :: "(unstructured \<Rightarrow> (gerror + unstructured list) option) \<Rightarrow> unstructured list \<Rightarrow> gerror + unstructured list" where
  "Unwrap to_list [] = Inr []"
| "Unwrap to_list (item # items) =
     (case (case to_list item of None \<Rightarrow> Inr [item] | Some r \<Rightarrow> r) of
        Inl err \<Rightarrow> Inl err
      | Inr children \<Rightarrow>
          (case Unwrap to_list items of Inl err \<Rightarrow> Inl err | Inr rest \<Rightarrow> Inr (children @ rest)))"

definition FilterBy :: "spec list \<Rightarrow> string \<Rightarrow> unstructured list" where
  "FilterBy specs kind = concat (map (\<lambda>s. filter (\<lambda>item. EqualFold (u_kind item) kind) (Items s)) specs)"

text \<open>
  The function that \<open>Walk\<close> gives to \<open>filepath.Walk\<close>, on one visited path: its error, or the spec
  it appends. \<open>visit\<close> is the error of visiting the path, \<open>read\<close> that or the content of the file.
\<close>

definition walk_path ::
  "(string \<Rightarrow> gerror + unstructured option) \<Rightarrow> (unstructured \<Rightarrow> (gerror + unstructured list) option) \<Rightarrow>
     string \<Rightarrow> gerror option \<Rightarrow> gerror + string \<Rightarrow> gerror + spec option" where
  "walk_path decode to_list path visit read =
     (case visit of
        Some err \<Rightarrow> Inl err
      | None \<Rightarrow>
          if HasSuffix path ''kustomization.yaml'' \<or> HasSuffix path ''kustomization.yml'' then Inr None
          else if \<not> HasSuffix path ''.yml'' \<and> \<not> HasSuffix path ''.yaml'' then Inr None
          else case read of
            Inl err \<Rightarrow> Inl err
          | Inr data \<Rightarrow>
              (case GetUnstructuredObjects decode data of
                 Inl err \<Rightarrow> Inr None
               | Inr items \<Rightarrow>
                   (case Unwrap to_list items of
                      Inl err \<Rightarrow> Inr None
                    | Inr items \<Rightarrow> Inr (Some \<lparr>Path = path, Items = items\<rparr>))))"

text \<open>The walk visits the paths in order and stops at the first error; the specs so far are returned.\<close>

fun Walk ::
  "(string \<Rightarrow> gerror + unstructured option) \<Rightarrow> (unstructured \<Rightarrow> (gerror + unstructured list) option) \<Rightarrow>
     (string \<times> gerror option \<times> (gerror + string)) list \<Rightarrow> spec list \<times> gerror option" where
  "Walk decode to_list [] = ([], None)"
| "Walk decode to_list ((path, visit, read) # files) =
     (case walk_path decode to_list path visit read of
        Inl err \<Rightarrow> ([], Some err)
      | Inr spec \<Rightarrow>
          (let (specs, err) = Walk decode to_list files
           in ((case spec of None \<Rightarrow> specs | Some s \<Rightarrow> s # specs), err)))"

section \<open>Properties\<close>

lemma squeeze_no_cr: "c \<in> set (squeeze_newlines s) \<Longrightarrow> c \<in> set s"
  by (induction s rule: squeeze_newlines.induct) (auto split: if_splits)

text \<open>A run of newlines that another byte ends is halved, rounding up.\<close>

lemma squeeze_run:
  "c \<noteq> nl \<Longrightarrow> squeeze_newlines (replicate n nl @ c # s) = replicate ((n + 1) div 2) nl @ squeeze_newlines (c # s)"
proof (induction n rule: nat_less_induct)
  case (1 n)
  show ?case
  proof (cases n)
    case 0
    then show ?thesis by simp
  next
    case (Suc m)
    show ?thesis
    proof (cases m)
      case 0
      with Suc 1(2) show ?thesis by simp
    next
      case (Suc k)
      with \<open>n = Suc m\<close> 1 have "squeeze_newlines (replicate k nl @ c # s) = replicate ((k + 1) div 2) nl @ squeeze_newlines (c # s)"
        by auto
      with Suc \<open>n = Suc m\<close> show ?thesis by simp
    qed
  qed
qed

text \<open>
  The normalised text has no carriage return, and a run of \<open>n\<close> newlines, whatever mixture of
  carriage returns and line feeds it was, becomes one of half its length, rounded up: a blank line
  inside a block of text is lost.
\<close>

theorem BytesToUtf8Lf_runs:
  assumes "set run \<subseteq> {nl, cr}" and "c \<notin> {nl, cr}" and "utf8_reader file = Inr (run @ c # s)"
  shows "\<exists>rest. BytesToUtf8Lf utf8_reader file = Inr (replicate ((length run + 1) div 2) nl @ c # rest)
    \<and> cr \<notin> set rest"
proof -
  let ?lf = "map (\<lambda>c. if c = cr then nl else c)"
  have run: "?lf run = replicate (length run) nl" using assms(1) by (induction run) auto
  have c: "?lf (run @ c # s) = replicate (length run) nl @ c # ?lf s" using run assms(2) by simp
  have hd: "squeeze_newlines (c # t) = c # squeeze_newlines t" for t
    using assms(2) by (cases t) auto
  have "cr \<notin> set (squeeze_newlines (?lf s))" using squeeze_no_cr by fastforce
  then show ?thesis
    using assms(2,3) by (simp add: BytesToUtf8Lf_def c squeeze_run hd del: map_append)
qed

lemma BytesToUtf8Lf_runs_witness:
  "\<exists>rest. BytesToUtf8Lf Inr ([cr, nl, nl, nl] @ ''key'') = Inr ([nl, nl] @ CHR ''k'' # rest) \<and> cr \<notin> set rest"
  using BytesToUtf8Lf_runs [of "[cr, nl, nl, nl]" "CHR ''k''" Inr "[cr, nl, nl, nl] @ ''key''" "''ey''"]
  by simp

text \<open>A document that has no line of three dashes and ends with a newline, by its lines.\<close>

definition document :: "string \<Rightarrow> bool" where
  "document d \<longleftrightarrow> ''---'' \<notin> set (Split d nl) \<and> (d = [] \<or> last d = nl)"

lemma split_docs_no_separator:
  "''---'' \<notin> set (if bol then Split d nl else tl (Split d nl)) \<Longrightarrow> split_docs bol cur d = [rev cur @ d]"
proof (induction bol cur d rule: split_docs.induct)
  case (2 bol cur c s)
  have "\<not> (bol \<and> HasPrefix (c # s) doc_sep)"
  proof
    assume "bol \<and> HasPrefix (c # s) doc_sep"
    moreover from this obtain t where "c # s = ''---'' @ [nl] @ t" by (auto simp: HasPrefix_iff doc_sep_def)
    ultimately show False using "2.prems" by auto
  qed
  moreover have "''---'' \<notin> set (if c = nl then Split s nl else tl (Split s nl))"
    using "2.prems" by (cases "Split s nl") (auto split: if_splits)
  ultimately show ?case using "2.IH"(2) by simp
qed simp

lemma document_whole: "document d \<Longrightarrow> split_docs True [] d = [d]"
  using split_docs_no_separator [of True d "[]"] by (simp add: document_def)

lemma split_docs_length: "split_docs bol cur s \<noteq> []"
  by (induction bol cur s rule: split_docs.induct) auto

lemma HasPrefix_sep_append:
  assumes "HasPrefix (d @ doc_sep @ t) doc_sep" and "d \<noteq> []" and "\<not> HasPrefix d doc_sep" and "last d = nl"
  shows False
proof -
  obtain a d' where d: "d = a # d'" using assms(2) by (cases d) auto
  have "length d < 4"
  proof (rule ccontr)
    assume "\<not> length d < 4"
    then have "HasPrefix (d @ doc_sep @ t) doc_sep = HasPrefix d doc_sep"
      by (simp add: HasPrefix_def doc_sep_def)
    with assms(1,3) show False by simp
  qed
  with assms d show False
    by (cases d'; cases "tl d'"; cases "tl (tl d')") (auto simp: HasPrefix_def doc_sep_def)
qed

lemma split_docs_append:
  "split_docs bol cur d = [rev cur @ d] \<Longrightarrow> d = [] \<or> last d = nl \<Longrightarrow> bol \<or> d \<noteq> [] \<Longrightarrow>
     split_docs bol cur (d @ doc_sep @ t) = (rev cur @ d) # split_docs True [] t"
proof (induction d arbitrary: bol cur)
  case Nil
  then show ?case by (simp add: doc_sep_def HasPrefix_def)
next
  case (Cons c d)
  have no: "\<not> (bol \<and> HasPrefix (c # d) doc_sep)"
    using Cons.prems(1) split_docs_length by (auto split: if_splits)
  then have d: "split_docs (c = nl) (c # cur) d = [rev (c # cur) @ d]"
    using Cons.prems(1) by auto
  have no': "\<not> (bol \<and> HasPrefix ((c # d) @ doc_sep @ t) doc_sep)"
    using no HasPrefix_sep_append [of "c # d" t] Cons.prems(2) by auto
  have "split_docs (c = nl) (c # cur) (d @ doc_sep @ t) = (rev (c # cur) @ d) # split_docs True [] t"
    using Cons.IH [OF d] Cons.prems(2) by (cases "d = []") auto
  with no' show ?case by simp
qed

text \<open>
  C25. Splitting a stream gives back the documents it was joined from, for documents that end with a
  newline and have no line of three dashes. Dashes elsewhere in a line separate nothing.
\<close>

theorem split_docs_Join:
  assumes "\<forall>d\<in>set ds. document d" and "ds \<noteq> []"
  shows "split_docs True [] (Join doc_sep ds) = ds"
  using assms
proof (induction ds rule: induct_list012)
  case (3 d e ds)
  have "split_docs True [] (d @ doc_sep @ Join doc_sep (e # ds)) = d # split_docs True [] (Join doc_sep (e # ds))"
    using split_docs_append [of True "[]" d] 3(3) document_whole [of d] by (simp add: document_def)
  with 3 show ?case by simp
qed (auto simp: document_whole)

text \<open>The witness has three dashes at the end of a line and at the beginning of one.\<close>

lemma split_docs_Join_witness:
  "split_docs True [] (Join doc_sep [''kind: A---'' @ [nl], ''---- B'' @ [nl]]) = [''kind: A---'' @ [nl], ''---- B'' @ [nl]]"
  by (rule split_docs_Join) (simp_all add: document_def)

section \<open>Selecting the patches of an object\<close>

text \<open>
  Both slices of patches select with the same loop. The contract is that the loop collects, in
  order, the patches whose target is the object, in its namespace or in the one given.
\<close>

lemma fold_collect:
  "fold (\<lambda>p result. if P p then result @ [p] else result) s acc = acc @ filter P s"
  by (induction s arbitrary: acc) auto

locale patch_selection =
  fixes select :: "'p list \<Rightarrow> string \<Rightarrow> unstructured \<Rightarrow> 'p list"
    and target_kind :: "'p \<Rightarrow> string \<times> string \<times> string"
    and target_namespace :: "'p \<Rightarrow> string"
    and target_name :: "'p \<Rightarrow> string"
    and gvk :: gvk
  assumes select_exact: "select s namespace r =
    filter (\<lambda>p. target_kind p = gvk r \<and> target_name p = u_name r
      \<and> (target_namespace p = u_namespace r \<or> target_namespace p = namespace)) s"
begin

lemma select_append: "select (s @ t) namespace r = select s namespace r @ select t namespace r"
  by (simp add: select_exact)

lemma select_select: "select (select s namespace r) namespace r = select s namespace r"
  by (simp add: select_exact)

lemma select_own_namespace: "set (select s (u_namespace r) r) \<subseteq> set (select s namespace r)"
  by (auto simp: select_exact)

lemma select_by_kind:
  "gvk r \<noteq> gvk r' \<Longrightarrow> set (select s namespace r) \<inter> set (select s namespace' r') = {}"
  by (auto simp: select_exact)

end

definition target_gvk :: "json6902 \<Rightarrow> string \<times> string \<times> string" where
  "target_gvk p = (p_Group (Target p), p_Version (Target p), p_Kind (Target p))"

interpretation json6902_patches: patch_selection "json6902_filterByResource gvk" target_gvk
  "\<lambda>p. p_Namespace (Target p)" "\<lambda>p. p_Name (Target p)" gvk for gvk
  by unfold_locales
    (auto simp: json6902_filterByResource_def fold_collect target_gvk_def prod_eq_iff intro!: filter_cong)

interpretation merge_patches: patch_selection "merge_filterByResource gvk" gvk u_namespace u_name gvk for gvk
  by unfold_locales (auto simp: merge_filterByResource_def fold_collect intro!: filter_cong)

text \<open>
  Every patch applies to objects of one kind only, and a patch that names the object's own
  namespace applies whatever the fallback namespace is; the order of the patches is kept.
\<close>

theorem filterByResource_selects:
  "merge_filterByResource gvk s namespace r =
     filter (\<lambda>p. gvk p = gvk r \<and> u_name p = u_name r \<and> (u_namespace p = u_namespace r \<or> u_namespace p = namespace)) s
   \<and> json6902_filterByResource gvk t namespace r =
     filter (\<lambda>p. target_gvk p = gvk r \<and> p_Name (Target p) = u_name r
       \<and> (p_Namespace (Target p) = u_namespace r \<or> p_Namespace (Target p) = namespace)) t"
  by (simp add: merge_patches.select_exact json6902_patches.select_exact)

section \<open>The templating loop\<close>

lemma getDocuments_shorter: "length (snd (getDocumentsFromYamlFile s)) \<le> length s"
  by (induction s) (auto simp: case_prod_unfold Let_def intro: le_SucI)

lemma getDocuments_HasPrefix [simp]:
  "getDocumentsFromYamlFile (''---'' @ s) = ([], s)"
  by (simp add: HasPrefix_def)

lemma getDocuments_no_dashes:
  "\<not> Contains d ''---'' \<Longrightarrow> getDocumentsFromYamlFile d = (d, [])"
  by (induction d) auto

lemma getDocuments_shrinks: "s \<noteq> [] \<Longrightarrow> length (snd (getDocumentsFromYamlFile s)) < length s"
proof (cases s)
  case (Cons c t)
  then show ?thesis using getDocuments_shorter [of t]
    by (auto simp: case_prod_unfold Let_def less_Suc_eq_le)
qed simp

text \<open>
  A stream whose last document is empty: nothing at all, or nothing after a separator that itself
  follows an empty document.
\<close>

function ends_blank :: "string \<Rightarrow> bool" where
  "ends_blank s =
     (if s = [] then True
      else (fst (getDocumentsFromYamlFile s) = [] \<or> snd (getDocumentsFromYamlFile s) \<noteq> [])
           \<and> ends_blank (snd (getDocumentsFromYamlFile s)))"
  by pat_completeness auto

termination ends_blank
  by (relation "measure length") (simp_all add: getDocuments_shrinks)

declare ends_blank.simps [simp del]

lemma ends_blank_Nil [simp]: "ends_blank []"
  by (simp add: ends_blank.simps)

lemma ends_blank_step:
  "s \<noteq> [] \<Longrightarrow> getDocumentsFromYamlFile s = (first, rest) \<Longrightarrow>
     ends_blank s \<longleftrightarrow> (first = [] \<or> rest \<noteq> []) \<and> ends_blank rest"
  by (simp add: ends_blank.simps [of s])

lemma templatize_blank:
  "ends_blank s \<Longrightarrow> (\<And>d. \<exists>t. templatizeDocument reencode d = Inr t) \<Longrightarrow>
     run_loop (templatizePatch_body reencode) fuel (result, s) obs = Running"
proof (induction fuel arbitrary: result s obs)
  case (Suc fuel)
  obtain first rest where fr: "getDocumentsFromYamlFile s = (first, rest)" by (metis surj_pair)
  have rest: "ends_blank rest \<and> (first = [] \<or> rest \<noteq> [])"
    using Suc.prems(1) fr by (cases "s = []") (auto simp: ends_blank_step)
  obtain t where "templatizeDocument reencode first = Inr t" using Suc.prems(2) by blast
  then show ?case using fr rest Suc.IH [OF _ Suc.prems(2)]
    by (auto simp: templatizePatch_body_def Let_def)
qed simp

lemma templatize_not_blank:
  "\<not> ends_blank s \<Longrightarrow> (\<And>d. \<exists>t. templatizeDocument reencode d = Inr t) \<Longrightarrow>
     \<exists>r. run_loop (templatizePatch_body reencode) (Suc (length s)) (result, s) obs = Returned (Inr r)"
proof (induction "length s" arbitrary: s result obs rule: less_induct)
  case less
  obtain first rest where fr: "getDocumentsFromYamlFile s = (first, rest)" by (metis surj_pair)
  have ne: "s \<noteq> []" using less.prems(1) by auto
  have short: "length rest < length s" using getDocuments_shrinks [OF ne] fr by simp
  obtain t where t: "templatizeDocument reencode first = Inr t" using less.prems(2) by blast
  show ?case
  proof (cases "first \<noteq> [] \<and> rest = []")
    case True
    with fr t show ?thesis by (simp add: templatizePatch_body_def)
  next
    case False
    then have "\<not> ends_blank rest" using less.prems(1) ends_blank_step [OF ne fr] by auto
    then have *: "\<exists>r. run_loop (templatizePatch_body reencode) (Suc (length rest)) (res, rest) obs'
        = Returned (Inr r)" for res obs'
      using less.hyps [OF short] less.prems(2) by blast
    have "\<exists>r. run_loop (templatizePatch_body reencode) (length s) (res, rest) obs' = Returned (Inr r)" for res obs'
    proof -
      obtain r where "run_loop (templatizePatch_body reencode) (Suc (length rest)) (res, rest) obs' = Returned (Inr r)"
        using * by blast
      from run_loop_mono [OF this, of "length s - Suc (length rest)"] short show ?thesis
        by (metis Suc_le_eq le_add_diff_inverse)
    qed
    then show ?thesis using False fr t by (auto simp: templatizePatch_body_def Let_def)
  qed
qed



end
