(* ===== verification/Apply.thy ===== *)
theory Apply
  imports Documents Builder
begin

text \<open>
  Applying objects: \<open>apply.go\<close>, and the dynamic client of \<open>client.go\<close> that it uses
  (\<open>GetDynamicClientFor\<close>, \<open>getDynamicClientFor\<close>, \<open>Update\<close>, \<open>GetClientByKind\<close>).

  The accessors of dynamic objects, the conversions, the diff and the API server are parameters.
  The dynamic client returns a nil object exactly when it returns an error, so an answer is an error
  or an object. Log and trace output is left out.
\<close>

section \<open>Accessors\<close>

text \<open>
  The accessor methods of package \<open>unstructured\<close> on an object. The setters change the map of the
  object in place; \<open>RemoveNestedField\<close> and \<open>SetNestedField\<close> on a path that does not exist as
  maps leave it alone.
\<close>

record accessors =
  GetAnnotations :: "unstructured \<Rightarrow> str_map option"
  SetAnnotations :: "str_map \<Rightarrow> unstructured \<Rightarrow> unstructured"
  GetObjLabels :: "unstructured \<Rightarrow> str_map option"
  SetObjLabels :: "str_map \<Rightarrow> unstructured \<Rightarrow> unstructured"
  GetResourceVersion :: "unstructured \<Rightarrow> string"
  SetResourceVersion :: "string \<Rightarrow> unstructured \<Rightarrow> unstructured"
  GetSelfLink :: "unstructured \<Rightarrow> string"
  SetSelfLink :: "string \<Rightarrow> unstructured \<Rightarrow> unstructured"
  GetUID :: "unstructured \<Rightarrow> string"
  SetUID :: "string \<Rightarrow> unstructured \<Rightarrow> unstructured"
  GetCreationTimestamp :: "unstructured \<Rightarrow> int option"
  SetCreationTimestamp :: "int option \<Rightarrow> unstructured \<Rightarrow> unstructured"
  GetGeneration :: "unstructured \<Rightarrow> int"
  SetGeneration :: "int \<Rightarrow> unstructured \<Rightarrow> unstructured"
  GetFinalizers :: "unstructured \<Rightarrow> string list option"
  SetFinalizers :: "string list option \<Rightarrow> unstructured \<Rightarrow> unstructured"
  NestedFieldCopy :: "obj_map \<Rightarrow> string list \<Rightarrow> val \<times> bool"
  NestedMapCopy :: "obj_map \<Rightarrow> string list \<Rightarrow> obj_map \<times> bool"
  SetNestedField :: "val \<Rightarrow> string list \<Rightarrow> obj_map \<Rightarrow> obj_map"
  RemoveNestedField :: "string list \<Rightarrow> obj_map \<Rightarrow> obj_map"
  yaml_of :: "unstructured \<Rightarrow> string"
  diff_main :: "string \<Rightarrow> string \<Rightarrow> (bool \<times> string) list"
  diff_pretty :: "(bool \<times> string) list \<Rightarrow> string"

section \<open>Immutable fields\<close>

definition set_key :: "string \<Rightarrow> val \<Rightarrow> unstructured \<Rightarrow> unstructured" where
  "set_key k v u = u\<lparr>Object := AList.update k v (Object u)\<rparr>"

definition SetAnnotation :: "accessors \<Rightarrow> unstructured \<Rightarrow> string \<Rightarrow> string \<Rightarrow> unstructured" where
  "SetAnnotation A obj key v =
     (let annotations = (case GetAnnotations A obj of None \<Rightarrow> [] | Some m \<Rightarrow> m)
      in SetAnnotations A (AList.update key v annotations) obj)"

text \<open>The loop over the ports of a load balancer; \<open>fromPorts[i]\<close> panics past the end.\<close>

fun node_ports :: "val list \<Rightarrow> val list \<Rightarrow> val list option" where
  "node_ports [] fromPorts = Some []"
| "node_ports (port # ports) [] = None"
| "node_ports (port # ports) (fromPort # fromPorts) =
     (case as_map fromPort of
        None \<Rightarrow> None
      | Some fp \<Rightarrow>
          (case (if get fp ''nodePort'' \<noteq> VNil
                 then map_option (\<lambda>p. VMap (AList.update ''nodePort'' (get fp ''nodePort'') p)) (as_map port)
                 else Some port) of
             None \<Rightarrow> None
           | Some port \<Rightarrow> map_option (\<lambda>rest. port # rest) (node_ports ports fromPorts)))"

definition copy_service :: "obj_map \<Rightarrow> obj_map \<Rightarrow> obj_map option" where
  "copy_service fromSpec spec =
     (let spec = AList.update ''clusterIP'' (get fromSpec ''clusterIP'') spec;
          spec = AList.update ''type'' (get fromSpec ''type'') spec;
          spec = AList.update ''sessionAffinity'' (get fromSpec ''sessionAffinity'') spec;
          spec = (if get fromSpec ''healthCheckNodePort'' \<noteq> VNil
                  then AList.update ''healthCheckNodePort'' (get fromSpec ''healthCheckNodePort'') spec else spec);
          spec = AList.update ''clusterIPs'' (get fromSpec ''clusterIPs'') spec
      in if get fromSpec ''type'' = VStr ''LoadBalancer''
         then (case (as_list (get spec ''ports''), as_list (get fromSpec ''ports'')) of
                 (Some ports, Some fromPorts) \<Rightarrow>
                   map_option (\<lambda>ps. AList.update ''ports'' (VList ps) spec) (node_ports ports fromPorts)
               | _ \<Rightarrow> None)
         else Some spec)"

text \<open>
  The kind of the object selects what is copied. The result is the object copied from, too: the
  specification of a claim is assigned, not copied, so that setting the requests in it changes both.
\<close>

definition copy_by_kind :: "accessors \<Rightarrow> unstructured \<Rightarrow> unstructured \<Rightarrow> (unstructured \<times> unstructured) option" where
  "copy_by_kind A src dst =
     (if IsService dst then
        (case (as_map (get (Object dst) ''spec''), as_map (get (Object src) ''spec'')) of
           (Some spec, Some fromSpec) \<Rightarrow>
             map_option (\<lambda>spec. (src, set_key ''spec'' (VMap spec) dst)) (copy_service fromSpec spec)
         | _ \<Rightarrow> None)
      else if IsServiceAccount dst then Some (src, set_key ''secrets'' (get (Object src) ''secrets'') dst)
      else if IsPVC dst then
        (let (requests, found) = NestedFieldCopy A (Object dst) [''spec'', ''resources'', ''requests'']
         in if found
            then let dst = set_key ''spec'' (get (Object src) ''spec'') dst;
                     dst = dst\<lparr>Object := SetNestedField A requests [''spec'', ''resources'', ''requests''] (Object dst)\<rparr>;
                     src = (case get (Object src) ''spec'' of
                              VMap _ \<Rightarrow> set_key ''spec'' (get (Object dst) ''spec'') src
                            | _ \<Rightarrow> src)
                 in Some (src, dst)
            else Some (src, dst))
      else if IsSecret dst then Some (src, set_key ''type'' (get (Object src) ''type'') dst)
      else if IsCustomResourceDefinition dst then
        (let (webhook, found) = NestedMapCopy A (Object src) [''spec'', ''conversion'', ''webhook'']
         in Some (src, if found
                       then dst\<lparr>Object := SetNestedField A (VMap webhook) [''spec'', ''conversion'', ''webhook''] (Object dst)\<rparr>
                       else dst))
      else Some (src, dst))"

definition copy_annotation :: "accessors \<Rightarrow> unstructured \<Rightarrow> string \<Rightarrow> unstructured \<Rightarrow> unstructured" where
  "copy_annotation A src immutable dst =
     (case map_of (case GetAnnotations A src of None \<Rightarrow> [] | Some m \<Rightarrow> m) immutable of
        None \<Rightarrow> dst
      | Some existing \<Rightarrow> SetAnnotation A dst immutable existing)"

definition copyImmutable ::
  "accessors \<Rightarrow> string list \<Rightarrow> unstructured option \<Rightarrow> unstructured \<Rightarrow> (unstructured option \<times> unstructured) option" where
  "copyImmutable A immutableAnnotations src dst =
     (case src of
        None \<Rightarrow> Some (None, dst)
      | Some src \<Rightarrow>
          (case copy_by_kind A src dst of
             None \<Rightarrow> None
           | Some (src, dst) \<Rightarrow>
               let dst = fold (copy_annotation A src) immutableAnnotations dst;
                   dst = SetResourceVersion A (GetResourceVersion A src) dst;
                   dst = SetSelfLink A (GetSelfLink A src) dst;
                   dst = SetUID A (GetUID A src) dst;
                   dst = SetCreationTimestamp A (GetCreationTimestamp A src) dst;
                   dst = SetGeneration A (GetGeneration A src) dst;
                   dst = SetFinalizers A (GetFinalizers A src) dst
               in Some (Some src, dst)))"

section \<open>Differences\<close>

definition runtime_fields :: "string list list" where
  "runtime_fields =
     [[''metadata'', ''creationTimestamp''], [''creationTimestamp''], [''metadata'', ''managedFields''],
      [''metadata'', ''ownerReferences''], [''metadata'', ''generation''], [''metadata'', ''uid''],
      [''metadata'', ''selfLink''], [''metadata'', ''resourceVersion''],
      [''metadata'', ''annotations'', ''deprecated.daemonset.template.generation''],
      [''metadata'', ''annotations'', ''template-operator-owner-ref''],
      [''metadata'', ''annotations'', ''deployment.kubernetes.io/revision''],
      [''status''], [''spec'', ''template'', ''metadata'', ''creationTimestamp'']]"

definition Sanitize :: "accessors \<Rightarrow> unstructured \<Rightarrow> unstructured" where
  "Sanitize A u =
     (let u = (if GetAnnotations A u = None then SetAnnotations A [] u else u)
      in u\<lparr>Object := fold (RemoveNestedField A) runtime_fields (Object u)\<rparr>)"

definition StripIdentifiers :: "accessors \<Rightarrow> unstructured \<Rightarrow> unstructured" where
  "StripIdentifiers A u =
     SetGeneration A 0 (SetCreationTimestamp A None (SetUID A '''' (SetSelfLink A '''' (SetResourceVersion A '''' u))))"

text \<open>A difference is a pair of whether it is an equality and its text.\<close>

definition Diff :: "accessors \<Rightarrow> unstructured \<Rightarrow> unstructured \<Rightarrow> string" where
  "Diff A src dst =
     (let fromYaml = yaml_of A (Sanitize A src); toYaml = yaml_of A (Sanitize A dst)
      in if fromYaml = toYaml then ''''
         else let diffs = diff_main A fromYaml toYaml
              in if list_ex (\<lambda>(equal, _). \<not> equal) diffs then diff_pretty A diffs else '''')"

definition HasChanges :: "accessors \<Rightarrow> unstructured \<Rightarrow> unstructured \<Rightarrow> bool" where
  "HasChanges A src dst = (Diff A src dst \<noteq> '''')"

section \<open>Clients\<close>

record handle =
  h_resource :: string
  h_namespace :: "string option"

text \<open>The typed objects that the shortcuts of the client build; \<open>None\<close> is a nil map.\<close>

datatype kube_object =
    KConfigMap string string "str_map option"
  | KSecret string string "str_map option"
  | KNamespace string "str_map option" "str_map option"
  | KClaim string string string
  | KIngress string string "str_map option" string string int

text \<open>Calls of the dynamic client and of the resource helper, and typed calls of the clientset.\<close>

datatype api_call =
    CMapping string
  | CGet handle string
  | CCreate handle unstructured
  | CUpdate handle unstructured
  | CDelete handle string
  | CWait string string
  | CRestDelete string string string
  | KubeGet string string string
  | KubeCreate string kube_object

text \<open>
  The client and its server. \<open>object_kind\<close>, \<open>show_object\<close>, \<open>show_kind\<close> and \<open>converted\<close> are of a
  typed object: its kind, its rendering and that of its kind, and the dynamic object of its conversion. \<open>rest_mapping\<close> is the outcome
  of \<open>WaitForRestMapping\<close>, a resource and whether it is cluster-wide, \<open>wait_resource\<close> that of
  \<open>WaitForAPIResource\<close>. \<open>hook\<close> is what the apply hook makes of the object, whose map it shares.
\<close>

record 'o apply_client =
  acc :: accessors
  conv :: conversions
  con :: console
  dry_run :: bool
  immutable_annotations :: "string list"
  hook :: "(string \<Rightarrow> unstructured \<Rightarrow> unstructured) option"
  patched :: "unstructured \<Rightarrow> unstructured"
  kustomizer :: "(unstructured \<Rightarrow> gerror + string list) option"
  kustomizer_err :: "gerror option"
  parse_yaml :: "string \<Rightarrow> gerror + unstructured list"
  object_kind :: "'o \<Rightarrow> string"
  show_object :: "'o \<Rightarrow> string"
  show_kind :: "'o \<Rightarrow> string"
  converted :: "'o \<Rightarrow> gerror + unstructured"
  dynamic_conn :: "gerror option"
  rest_mapping :: "api_call list \<Rightarrow> 'o \<Rightarrow> gerror + string \<times> bool"
  wait_resource :: "api_call list \<Rightarrow> string \<Rightarrow> string \<Rightarrow> gerror option"
  srv_get :: "api_call list \<Rightarrow> handle \<Rightarrow> string \<Rightarrow> gerror + unstructured"
  srv_create :: "api_call list \<Rightarrow> handle \<Rightarrow> unstructured \<Rightarrow> gerror + unstructured"
  srv_update :: "api_call list \<Rightarrow> handle \<Rightarrow> unstructured \<Rightarrow> gerror + unstructured"
  srv_delete :: "api_call list \<Rightarrow> handle \<Rightarrow> string \<Rightarrow> gerror option"
  rest_client :: "unstructured \<Rightarrow> gerror option"
  rest_delete :: "api_call list \<Rightarrow> gerror option"
  kind_mapping :: "string \<Rightarrow> gerror + string"

type_synonym 'a api = "(api_call list, 'a) state"
type_synonym resolved = "handle option \<times> unstructured option \<times> gerror option"

definition getDynamicClientFor :: "'o apply_client \<Rightarrow> string \<Rightarrow> 'o \<Rightarrow> resolved api" where
  "getDynamicClientFor C namespace obj = do {
     mapping \<leftarrow> ask (CMapping (object_kind C obj)) (\<lambda>log. rest_mapping C log obj);
     (case mapping of
        Inl err \<Rightarrow> ret (None, None, Some err)
      | Inr (resource, root) \<Rightarrow>
          (case converted C obj of
             Inl err \<Rightarrow> ret (None, None, Some (wrapf err (''failed to convert '' @ show_kind C obj)))
           | Inr unstructuredObj \<Rightarrow>
               if root then ret (Some \<lparr>h_resource = resource, h_namespace = None\<rparr>, Some unstructuredObj, None)
               else let namespace = (if namespace = '''' then u_namespace unstructuredObj else namespace)
                    in ret (Some \<lparr>h_resource = resource, h_namespace = Some namespace\<rparr>, Some unstructuredObj, None)))
   }"

definition GetDynamicClientFor :: "'o apply_client \<Rightarrow> string \<Rightarrow> 'o \<Rightarrow> resolved api" where
  "GetDynamicClientFor C namespace obj =
     (if object_kind C obj = ''''
      then ret (None, None, Some (errorf (''cannot apply object, missing kind: '' @ show_object C obj)))
      else case dynamic_conn C of
        Some err \<Rightarrow> ret (None, None, Some (wrapf err ''failed to get dynamic client''))
      | None \<Rightarrow> getDynamicClientFor C namespace obj)"

definition GetClientByKind :: "'o apply_client \<Rightarrow> string \<Rightarrow> gerror + string" where
  "GetClientByKind C kind = (case dynamic_conn C of Some err \<Rightarrow> Inl err | None \<Rightarrow> kind_mapping C kind)"

definition Update :: "'o apply_client \<Rightarrow> string \<Rightarrow> 'o \<Rightarrow> gerror option option api" where
  "Update C namespace item = do {
     r \<leftarrow> GetDynamicClientFor C namespace item;
     (case r of
        (_, _, Some err) \<Rightarrow> ret (Some (Some (wrapf err ''failed to get dynamic client'')))
      | (Some client, Some obj, None) \<Rightarrow> do {
          updated \<leftarrow> ask (CUpdate client obj) (\<lambda>log. srv_update C log client obj);
          ret (Some (case updated of Inl err \<Rightarrow> Some err | Inr _ \<Rightarrow> None))
        }
      | _ \<Rightarrow> ret None)
   }"

section \<open>Apply\<close>

text \<open>
  \<open>Apply\<close> on one object, in three parts: finding its client, completing the object, and the calls
  that bring it to the cluster. A missing kind is waited for where the conversion gave an object.
\<close>

definition resolve :: "'o apply_client \<Rightarrow> string \<Rightarrow> 'o \<Rightarrow> resolved api" where
  "resolve C namespace obj = do {
     r \<leftarrow> GetDynamicClientFor C namespace obj;
     (case r of (client, unstructuredObj, err) \<Rightarrow>
        if IsAPIResourceMissing err
        then (case unstructuredObj of
                None \<Rightarrow> ret (None, None, err)
              | Some u \<Rightarrow> do {
                  waited \<leftarrow> ask (CWait (u_apiVersion u) (u_kind u))
                    (\<lambda>log. wait_resource C log (u_apiVersion u) (u_kind u));
                  (case waited of
                     Some e \<Rightarrow> ret (None, None, Some e)
                   | None \<Rightarrow> GetDynamicClientFor C namespace obj)
                })
        else ret (client, unstructuredObj, err))
   }"

text \<open>
  The completed object, or the error. A client always has a kustomizer unless making it failed, so
  \<open>kustomizer\<close> is \<open>None\<close> only where the code's pointer is nil.
\<close>

definition prepare :: "'o apply_client \<Rightarrow> string \<Rightarrow> unstructured \<Rightarrow> gerror + unstructured option" where
  "prepare C namespace u =
     (case Defaults_obj (conv C) (Some u) of
        Inl err \<Rightarrow> Inl err
      | Inr None \<Rightarrow> Inr None
      | Inr (Some u) \<Rightarrow>
          (case (case kustomizer C of
                   None \<Rightarrow> Inr u
                 | Some krusty \<Rightarrow>
                     (case Kustomize (patched C) krusty (parse_yaml C) [Some u] of
                        Inl err \<Rightarrow> Inl err
                      | Inr [k] \<Rightarrow> Inr k
                      | Inr ks \<Rightarrow> Inl (errorf (''failed to kustomize '' @ Name_String (con C) (GetName (Some u))
                          @ '', got '' @ nat_dec (length ks) @ '' objects back'')))) of
             Inl err \<Rightarrow> Inl err
           | Inr u \<Rightarrow> Inr (Some (case hook C of None \<Rightarrow> u | Some f \<Rightarrow> f namespace u))))"

definition replace_object :: "'o apply_client \<Rightarrow> handle \<Rightarrow> unstructured \<Rightarrow> unstructured \<Rightarrow> gerror option option api" where
  "replace_object C client existing u = do {
     d \<leftarrow> ask (CDelete client (u_name existing)) (\<lambda>log. srv_delete C log client (u_name existing));
     (case d of
        Some e \<Rightarrow> ret (Some (Some (wrapf e (''failed to delete '' @ Name_String (con C) (GetName (Some u))
          @ '', during replacement''))))
      | None \<Rightarrow> do {
          let new = StripIdentifiers (acc C) u;
          c \<leftarrow> ask (CCreate client new) (\<lambda>log. srv_create C log client new);
          ret (Some (case c of
             Inl e \<Rightarrow> Some (wrapf e (''failed to recreate '' @ Name_String (con C) (GetName (Some u))
               @ '', during replacement, neither the new or old object remain''))
           | Inr _ \<Rightarrow> None))
        })
   }"

definition apply_existing :: "'o apply_client \<Rightarrow> handle \<Rightarrow> unstructured option \<Rightarrow> unstructured \<Rightarrow> gerror option option api" where
  "apply_existing C client existing u =
     (case existing of
        None \<Rightarrow> do {
          c \<leftarrow> ask (CCreate client u) (\<lambda>log. srv_create C log client u);
          ret (Some (case c of
             Inl e \<Rightarrow> Some (wrapf e (Name_String (con C) (GetName (Some u))))
           | Inr _ \<Rightarrow> None))
        }
      | Some existing \<Rightarrow>
          if \<not> HasChanges (acc C) existing u then ret (Some None)
          else do {
            updated \<leftarrow> ask (CUpdate client u) (\<lambda>log. srv_update C log client u);
            (case updated of
               Inr _ \<Rightarrow> ret (Some None)
             | Inl err \<Rightarrow>
                 if \<not> RequiresReplacement u err then ret (Some (Some err))
                 else replace_object C client existing u)
          })"

definition apply_resource :: "'o apply_client \<Rightarrow> handle \<Rightarrow> unstructured \<Rightarrow> gerror option option api" where
  "apply_resource C client u = do {
     g \<leftarrow> ask (CGet client (u_name u)) (\<lambda>log. srv_get C log client (u_name u));
     let (existing, err) = (case g of Inl e \<Rightarrow> (None, Some e) | Inr x \<Rightarrow> (Some x, None));
     waited \<leftarrow> (if IsAPIResourceMissing err
       then ask (CWait (u_apiVersion u) (u_kind u)) (\<lambda>log. wait_resource C log (u_apiVersion u) (u_kind u))
       else ret None);
     (case waited of
        Some e \<Rightarrow> ret (Some (Some e))
      | None \<Rightarrow>
          (case copyImmutable (acc C) (immutable_annotations C) existing u of
             None \<Rightarrow> ret None
           | Some (existing, u) \<Rightarrow> apply_existing C client existing u))
   }"

definition apply_one :: "'o apply_client \<Rightarrow> string \<Rightarrow> 'o \<Rightarrow> gerror option option api" where
  "apply_one C namespace obj = do {
     r \<leftarrow> resolve C namespace obj;
     (case r of
        (_, _, Some err) \<Rightarrow> ret (Some (Some err))
      | (Some client, Some u, None) \<Rightarrow>
          (case prepare C namespace u of
             Inl err \<Rightarrow> ret (Some (Some err))
           | Inr None \<Rightarrow> ret None
           | Inr (Some u) \<Rightarrow> if dry_run C then ret (Some None) else apply_resource C client u)
      | _ \<Rightarrow> ret None)
   }"

fun apply_all :: "'o apply_client \<Rightarrow> string \<Rightarrow> 'o option list \<Rightarrow> gerror option option api" where
  "apply_all C namespace [] = ret (Some None)"
| "apply_all C namespace (None # objects) = apply_all C namespace objects"
| "apply_all C namespace (Some obj # objects) = do {
     r \<leftarrow> apply_one C namespace obj;
     (case r of
        Some None \<Rightarrow> apply_all C namespace objects
      | _ \<Rightarrow> ret r)
   }"

text \<open>A nil object is \<open>None\<close>; \<open>kustomizer_err\<close> is the error of making the kustomizer.\<close>

definition Apply :: "'o apply_client \<Rightarrow> string \<Rightarrow> 'o option list \<Rightarrow> gerror option option api" where
  "Apply C namespace objects =
     (case kustomizer_err C of
        Some err \<Rightarrow> ret (Some (Some err))
      | None \<Rightarrow> apply_all C namespace objects)"

definition ApplyUnstructured :: "unstructured apply_client \<Rightarrow> string \<Rightarrow> unstructured option list \<Rightarrow> gerror option option api" where
  "ApplyUnstructured C namespace objects = Apply C namespace objects"

text \<open>\<open>decode\<close> is the YAML decoder of one document.\<close>

fun ApplyText ::
  "(string \<Rightarrow> gerror + unstructured option) \<Rightarrow> unstructured apply_client \<Rightarrow> string \<Rightarrow> string list
     \<Rightarrow> gerror option option api" where
  "ApplyText decode C namespace [] = ret (Some None)"
| "ApplyText decode C namespace (spec # specs) =
     (case GetUnstructuredObjects decode spec of
        Inl err \<Rightarrow> ret (Some (Some err))
      | Inr items \<Rightarrow> do {
          r \<leftarrow> ApplyUnstructured C namespace (map Some items);
          (case r of
             Some None \<Rightarrow> ApplyText decode C namespace specs
           | _ \<Rightarrow> ret r)
        })"

section \<open>Deleting, annotating and labelling\<close>

fun DeleteUnstructured :: "'o apply_client \<Rightarrow> string \<Rightarrow> unstructured list \<Rightarrow> gerror option api" where
  "DeleteUnstructured C namespace [] = ret None"
| "DeleteUnstructured C namespace (u # objects) =
     (case rest_client C u of
        Some err \<Rightarrow> ret (Some err)
      | None \<Rightarrow>
          let ns = (if namespace = '''' then u_namespace u else namespace)
          in if dry_run C then DeleteUnstructured C namespace objects
             else do {
               err \<leftarrow> ask (CRestDelete ns (u_kind u) (u_name u)) (rest_delete C);
               (case err of Some e \<Rightarrow> ret (Some e) | None \<Rightarrow> DeleteUnstructured C namespace objects)
             })"

text \<open>The message that the object was deleted comes with every result but a missing object.\<close>

definition DeleteByKind :: "'o apply_client \<Rightarrow> string \<Rightarrow> string \<Rightarrow> string \<Rightarrow> (gerror option \<times> bool) api" where
  "DeleteByKind C kind namespace name =
     (case GetClientByKind C kind of
        Inl err \<Rightarrow> ret (Some err, False)
      | Inr resource \<Rightarrow>
          let client = \<lparr>h_resource = resource, h_namespace = Some namespace\<rparr>
          in do {
            err \<leftarrow> ask (CDelete client name) (\<lambda>log. srv_delete C log client name);
            ret (if not_found_err err then (None, False) else (err, True))
          })"

text \<open>Assigning to a key of a nil map panics.\<close>

definition update_all :: "str_map \<Rightarrow> str_map \<Rightarrow> str_map" where
  "update_all new m = fold (\<lambda>(k, v). AList.update k v) new m"

definition merge_map :: "str_map \<Rightarrow> str_map option \<Rightarrow> str_map option option" where
  "merge_map new existing =
     (case existing of
        None \<Rightarrow> if new = [] then Some None else None
      | Some m \<Rightarrow> Some (Some (update_all new m)))"

lemma map_of_update_all: "distinct (map fst new) \<Longrightarrow> map_of (update_all new m) = map_of m ++ map_of new"
proof (induction new arbitrary: m)
  case (Cons kv new)
  obtain k v where kv: "kv = (k, v)" by force
  have "k \<notin> dom (map_of new)" using Cons.prems by (simp add: kv dom_map_of_conv_image_fst)
  moreover have "map_of (update_all (kv # new) m) = map_of (AList.update k v m) ++ map_of new"
    using Cons by (simp add: update_all_def kv)
  ultimately show ?case
    by (simp add: kv update_conv' map_add_upd_left del: fun_upd_apply)
qed (simp add: update_all_def)

definition change_and_update ::
  "(unstructured \<Rightarrow> unstructured option) \<Rightarrow> 'o apply_client \<Rightarrow> 'o \<Rightarrow> gerror option option api" where
  "change_and_update change C obj = do {
     r \<leftarrow> GetDynamicClientFor C '''' obj;
     (case r of
        (_, _, Some err) \<Rightarrow> ret (Some (Some err))
      | (Some client, Some u, None) \<Rightarrow>
          (case change u of
             None \<Rightarrow> ret None
           | Some u \<Rightarrow> do {
               updated \<leftarrow> ask (CUpdate client u) (\<lambda>log. srv_update C log client u);
               ret (Some (case updated of Inl err \<Rightarrow> Some err | Inr _ \<Rightarrow> None))
             })
      | _ \<Rightarrow> ret None)
   }"

text \<open>\<open>SetAnnotations\<close> and \<open>SetLabels\<close> of a nil map remove the field, and it was missing.\<close>

definition Annotate :: "'o apply_client \<Rightarrow> 'o \<Rightarrow> str_map \<Rightarrow> gerror option option api" where
  "Annotate C obj annotations =
     change_and_update (\<lambda>u. case merge_map annotations (GetAnnotations (acc C) u) of
         None \<Rightarrow> None
       | Some None \<Rightarrow> Some u
       | Some (Some m) \<Rightarrow> Some (SetAnnotations (acc C) m u)) C obj"

definition Label :: "'o apply_client \<Rightarrow> 'o \<Rightarrow> str_map \<Rightarrow> gerror option option api" where
  "Label C obj labels =
     change_and_update (\<lambda>u. case merge_map labels (GetObjLabels (acc C) u) of
         None \<Rightarrow> None
       | Some None \<Rightarrow> Some u
       | Some (Some m) \<Rightarrow> Some (SetObjLabels (acc C) m u)) C obj"

section \<open>Properties of the clients\<close>

lemma GetDynamicClientFor_cases:
  assumes "run_state (GetDynamicClientFor C namespace obj) log = ((client, u, err), log')"
  shows "(\<exists>e. client = None \<and> u = None \<and> err = Some e) \<or> (\<exists>c x. client = Some c \<and> u = Some x \<and> err = None)"
  using assms
  by (auto simp: GetDynamicClientFor_def getDynamicClientFor_def Let_def
      split: if_splits option.splits sum.splits prod.splits)

text \<open>The branch that waits for a missing kind is dead: with an error there is no object.\<close>

lemma resolve_eq: "run_state (resolve C namespace obj) log = run_state (GetDynamicClientFor C namespace obj) log"
proof -
  obtain client u err log' where r: "run_state (GetDynamicClientFor C namespace obj) log = ((client, u, err), log')"
    by (metis prod_cases3 surj_pair)
  from GetDynamicClientFor_cases [OF r] show ?thesis by (auto simp: resolve_def r)
qed

text \<open>The two calls that only read, and the discipline of a dry run.\<close>

definition only_mapping :: "api_call list \<Rightarrow> api_call \<Rightarrow> bool" where
  "only_mapping log c = (case c of CMapping _ \<Rightarrow> True | _ \<Rightarrow> False)"

lemma GetDynamicClientFor_obeys [obeys_rules]:
  "(\<And>log k. ok log (CMapping k)) \<Longrightarrow> obeys ok (GetDynamicClientFor C namespace obj)"
  unfolding GetDynamicClientFor_def getDynamicClientFor_def Let_def
  by (intro obeys_rules) simp

lemma resolve_obeys [obeys_rules]:
  "(\<And>log k. ok log (CMapping k)) \<Longrightarrow> obeys ok (resolve C namespace obj)"
  using GetDynamicClientFor_obeys [of ok C namespace obj] by (simp add: obeys_def resolve_eq)

lemma apply_all_obeys [obeys_rules]:
  assumes "\<And>obj. obeys ok (apply_one C namespace obj)"
  shows "obeys ok (apply_all C namespace objects)"
proof (induction objects)
  case Nil
  then show ?case by (simp add: obeys_ret)
next
  case (Cons a objects)
  then show ?case
    by (cases a) (auto intro!: obeys_bind assms split: option.split intro: obeys_ret)
qed

lemma apply_one_obeys:
  assumes "\<And>log k. ok log (CMapping k)"
    and "\<And>client u. \<not> dry_run C \<Longrightarrow> obeys ok (apply_resource C client u)"
  shows "obeys ok (apply_one C namespace obj)"
  unfolding apply_one_def
  by (intro obeys_bind resolve_obeys assms(1))
    (auto split: prod.split option.split sum.split intro: obeys_ret assms(2))

lemma Apply_obeys:
  assumes "\<And>log k. ok log (CMapping k)"
    and "\<And>client u. \<not> dry_run C \<Longrightarrow> obeys ok (apply_resource C client u)"
  shows "obeys ok (Apply C namespace objects)"
proof -
  have "obeys ok (apply_one C namespace obj)" for obj
    using apply_one_obeys [of ok C] assms by blast
  then show ?thesis
    by (simp add: Apply_def obeys_ret apply_all_obeys split: option.split)
qed

text \<open>
  C8. In a dry run, applying any objects only asks for the resources of their kinds: no object is
  read, created, updated or deleted.
\<close>

theorem Apply_dry_run:
  assumes "dry_run C" and "run_state (Apply C namespace objects) log = (r, log')"
  shows "\<exists>kinds. log' = log @ map CMapping kinds"
proof -
  have "obeys only_mapping (Apply C namespace objects)"
    by (rule Apply_obeys) (simp_all add: only_mapping_def assms(1))
  from obeysD [OF this assms(2)] obtain cs where cs: "log' = log @ cs" "calls_ok only_mapping log cs"
    by blast
  have "calls_ok only_mapping l cs \<Longrightarrow> \<exists>kinds. cs = map CMapping kinds" for l
  proof (induction cs arbitrary: l)
    case (Cons c cs)
    then obtain kinds where "cs = map CMapping kinds" by auto
    moreover obtain k where "c = CMapping k"
      using Cons.prems by (cases c) (auto simp: only_mapping_def)
    ultimately have "c # cs = map CMapping (k # kinds)" by simp
    then show ?case by (rule exI)
  qed simp
  with cs show ?thesis by blast
qed

section \<open>The protocol of Apply\<close>

text \<open>
  Which call may come when. A creation follows a read that failed, possibly with a wait between, or
  the deletion that a replacement makes, and then it is of an object stripped of its identifiers. An
  update follows a read of the object, which differs from what is sent. A deletion follows an update
  of the same resource that the server refused for a reason that requires replacement.
\<close>

definition protocol :: "'o apply_client \<Rightarrow> api_call list \<Rightarrow> api_call \<Rightarrow> bool" where
  "protocol C log c =
     (case c of
        CMapping _ \<Rightarrow> True
      | CGet _ _ \<Rightarrow> True
      | CWait _ _ \<Rightarrow> \<exists>pre h n e. log = pre @ [CGet h n] \<and> srv_get C pre h n = Inl e \<and> IsAPIResourceMissing (Some e)
      | CUpdate h u \<Rightarrow> \<exists>pre x y. log = pre @ [CGet h (u_name x)] \<and> srv_get C pre h (u_name x) = Inr y
          \<and> (\<exists>z. copyImmutable (acc C) (immutable_annotations C) (Some y) x = Some (Some z, u) \<and> HasChanges (acc C) z u)
      | CDelete h n \<Rightarrow> \<exists>pre u e. log = pre @ [CUpdate h u] \<and> srv_update C pre h u = Inl e \<and> RequiresReplacement u e
      | CCreate h u \<Rightarrow> (\<exists>pre e. (log = pre @ [CGet h (u_name u)] \<or> (\<exists>a k. log = pre @ [CGet h (u_name u), CWait a k]))
            \<and> srv_get C pre h (u_name u) = Inl e)
          \<or> (\<exists>pre v n. log = pre @ [CUpdate h v, CDelete h n] \<and> srv_delete C (pre @ [CUpdate h v]) h n = None
            \<and> u = StripIdentifiers (acc C) v)
      | CRestDelete _ _ _ \<Rightarrow> False
      | KubeGet _ _ _ \<Rightarrow> False
      | KubeCreate _ _ \<Rightarrow> False)"

lemma copyImmutable_Some:
  "copyImmutable A imm (Some x) u = Some (y, v) \<Longrightarrow> \<exists>z. y = Some z"
  by (auto simp: copyImmutable_def Let_def split: option.splits)

lemma copyImmutable_None [simp]: "copyImmutable A imm None u = Some (None, u)"
  by (simp add: copyImmutable_def)

lemma apply_existing_calls:
  "\<exists>cs. snd (run_state (apply_existing C client existing u) log) = log @ cs \<and>
     (case existing of
        None \<Rightarrow> cs = [CCreate client u]
      | Some x \<Rightarrow> cs = []
          \<or> HasChanges (acc C) x u \<and> (cs = [CUpdate client u]
             \<or> (\<exists>e. srv_update C log client u = Inl e \<and> RequiresReplacement u e
                \<and> (cs = [CUpdate client u, CDelete client (u_name x)]
                 \<or> srv_delete C (log @ [CUpdate client u]) client (u_name x) = None
                   \<and> cs = [CUpdate client u, CDelete client (u_name x), CCreate client (StripIdentifiers (acc C) u)]))))"
  by (auto simp: apply_existing_def replace_object_def Let_def split: option.splits sum.splits)

lemma protocol_intros:
  "protocol C log (CMapping kind)" "protocol C log (CGet h name)"
  "srv_get C pre h (u_name u) = Inl e \<Longrightarrow> protocol C (pre @ [CGet h (u_name u)]) (CCreate h u)"
  "srv_get C pre h (u_name u) = Inl e \<Longrightarrow> protocol C (pre @ [CGet h (u_name u), CWait a k]) (CCreate h u)"
  "srv_get C pre h n = Inl e \<Longrightarrow> IsAPIResourceMissing (Some e) \<Longrightarrow> protocol C (pre @ [CGet h n]) (CWait a k)"
  "srv_get C pre h (u_name x) = Inr y \<Longrightarrow>
     copyImmutable (acc C) (immutable_annotations C) (Some y) x = Some (Some z, u) \<Longrightarrow> HasChanges (acc C) z u \<Longrightarrow>
     protocol C (pre @ [CGet h (u_name x)]) (CUpdate h u)"
  "srv_update C (pre @ [c]) h u = Inl e \<Longrightarrow> RequiresReplacement u e \<Longrightarrow>
     protocol C (pre @ [c, CUpdate h u]) (CDelete h n)"
  "srv_delete C (pre @ [c, CUpdate h v]) h n = None \<Longrightarrow>
     protocol C (pre @ [c, CUpdate h v, CDelete h n]) (CCreate h (StripIdentifiers (acc C) v))"
proof (goal_cases)
  case 7
  then have "pre @ [c, CUpdate h u] = (pre @ [c]) @ [CUpdate h u]" by simp
  with 7 show ?case unfolding protocol_def api_call.case by blast
next
  case 8
  then have "pre @ [c, CUpdate h v, CDelete h n] = (pre @ [c]) @ [CUpdate h v, CDelete h n]"
    and "srv_delete C ((pre @ [c]) @ [CUpdate h v]) h n = None" by simp_all
  then show ?case unfolding protocol_def api_call.case by blast
qed (auto simp: protocol_def)

lemma apply_resource_protocol: "obeys (protocol C) (apply_resource C client u)"
  unfolding obeys_def
proof
  fix log
  let ?g = "srv_get C log client (u_name u)"
  show "\<exists>cs. snd (run_state (apply_resource C client u) log) = log @ cs \<and> calls_ok (protocol C) log cs"
  proof (cases ?g)
    case (Inl e)
    then show ?thesis
      by (auto simp: apply_resource_def apply_existing_def protocol_intros split: option.splits sum.splits)
  next
    case (Inr x)
    show ?thesis
    proof (cases "copyImmutable (acc C) (immutable_annotations C) (Some x) u")
      case None
      with Inr show ?thesis by (auto simp: apply_resource_def protocol_intros)
    next
      case (Some p)
      obtain y v where yv: "copyImmutable (acc C) (immutable_annotations C) (Some x) u = Some (Some y, v)"
        using Some copyImmutable_Some by (cases p) blast
      let ?log = "log @ [CGet client (u_name u)]"
      obtain cs where cs: "snd (run_state (apply_existing C client (Some y) v) ?log) = ?log @ cs"
        and shape: "cs = [] \<or> HasChanges (acc C) y v \<and> (cs = [CUpdate client v]
             \<or> (\<exists>e. srv_update C ?log client v = Inl e \<and> RequiresReplacement v e
                \<and> (cs = [CUpdate client v, CDelete client (u_name y)]
                 \<or> srv_delete C (?log @ [CUpdate client v]) client (u_name y) = None
                   \<and> cs = [CUpdate client v, CDelete client (u_name y), CCreate client (StripIdentifiers (acc C) v)])))"
        using apply_existing_calls [of C client "Some y" v ?log] by auto
      have "calls_ok (protocol C) ?log cs"
        using shape protocol_intros(6) [OF Inr yv] by (auto intro: protocol_intros)
      then show ?thesis
        using Inr yv cs by (intro exI [of _ "CGet client (u_name u) # cs"])
          (simp add: apply_resource_def protocol_intros)
    qed
  qed
qed

text \<open>
  C5. Every call that \<open>Apply\<close> makes, on any objects and against any server, is allowed by the
  protocol: it never updates what it has not just read and found different, and it deletes an object
  only to replace it after a refused update.
\<close>

theorem Apply_protocol:
  "\<exists>cs. snd (run_state (Apply C namespace objects) log) = log @ cs \<and> calls_ok (protocol C) log cs"
proof -
  have "obeys (protocol C) (Apply C namespace objects)"
    by (intro Apply_obeys protocol_intros apply_resource_protocol)
  then show ?thesis by (simp add: obeys_def)
qed

section \<open>What a successful Apply has done\<close>

definition accepted :: "'o apply_client \<Rightarrow> api_call list \<Rightarrow> api_call \<Rightarrow> bool" where
  "accepted C log c =
     (case c of
        CCreate h u \<Rightarrow> \<not> isl (srv_create C log h u)
      | CUpdate h u \<Rightarrow> \<not> isl (srv_update C log h u)
      | _ \<Rightarrow> False)"

text \<open>The objects that may be stored for an object: as it is, with the immutable fields, or stripped too.\<close>

definition stores :: "'o apply_client \<Rightarrow> handle \<Rightarrow> unstructured \<Rightarrow> unstructured option \<Rightarrow> api_call \<Rightarrow> bool" where
  "stores C client u existing c =
     (case existing of
        None \<Rightarrow> c = CCreate client u
      | Some x \<Rightarrow> (case copyImmutable (acc C) (immutable_annotations C) (Some x) u of
            None \<Rightarrow> False
          | Some (_, v) \<Rightarrow> c = CUpdate client v \<or> c = CCreate client (StripIdentifiers (acc C) v)))"

lemma apply_existing_success:
  assumes "run_state (apply_existing C client existing u) log = (Some None, log')"
  shows "(\<exists>x. existing = Some x \<and> \<not> HasChanges (acc C) x u \<and> log' = log)
    \<or> (\<exists>pre c. log' = pre @ [c] \<and> accepted C pre c
        \<and> (case existing of None \<Rightarrow> c = CCreate client u
           | Some _ \<Rightarrow> c = CUpdate client u \<or> c = CCreate client (StripIdentifiers (acc C) u)))"
proof (cases existing)
  case None
  with assms show ?thesis
    by (auto simp: apply_existing_def accepted_def split: sum.splits)
next
  case (Some x)
  show ?thesis
  proof (cases "HasChanges (acc C) x u")
    case False
    with Some assms show ?thesis by (auto simp: apply_existing_def)
  next
    case True
    show ?thesis
    proof (cases "srv_update C log client u")
      case (Inr y)
      with Some True assms have "log' = log @ [CUpdate client u] \<and> accepted C log (CUpdate client u)"
        by (auto simp: apply_existing_def accepted_def)
      with Some show ?thesis by auto
    next
      case (Inl e)
      let ?d = "log @ [CUpdate client u, CDelete client (u_name x)]"
      let ?new = "StripIdentifiers (acc C) u"
      have "log' = ?d @ [CCreate client ?new] \<and> accepted C ?d (CCreate client ?new)"
        using Some True Inl assms
        by (auto simp: apply_existing_def replace_object_def accepted_def Let_def
            split: if_splits option.splits sum.splits)
      with Some show ?thesis by auto
    qed
  qed
qed

lemma copyImmutable_existing:
  "copyImmutable A imm (Some x) u = Some (y, v) \<Longrightarrow> y \<noteq> None"
  using copyImmutable_Some by fastforce

text \<open>
  C10. When applying one completed object ends without an error, then either the cluster has the
  object and it does not differ from what would be sent, and nothing was sent, or the last call was a
  creation or an update that the server accepted, of the object with the immutable fields of the
  existing one.
\<close>

theorem apply_resource_success:
  assumes "run_state (apply_resource C client u) log = (Some None, log')"
  shows "(\<exists>x y v. srv_get C log client (u_name u) = Inr x
        \<and> copyImmutable (acc C) (immutable_annotations C) (Some x) u = Some (Some y, v)
        \<and> \<not> HasChanges (acc C) y v \<and> log' = log @ [CGet client (u_name u)])
    \<or> (\<exists>pre c. log' = pre @ [c] \<and> accepted C pre c
        \<and> stores C client u (case srv_get C log client (u_name u) of Inl _ \<Rightarrow> None | Inr x \<Rightarrow> Some x) c)"
proof (cases "srv_get C log client (u_name u)")
  case (Inl e)
  obtain log1 where "run_state (apply_existing C client None u) log1 = (Some None, log')"
    using assms Inl by (auto simp: apply_resource_def Let_def split: if_splits option.splits)
  from apply_existing_success [OF this] Inl show ?thesis by (auto simp: stores_def)
next
  case (Inr x)
  show ?thesis
  proof (cases "copyImmutable (acc C) (immutable_annotations C) (Some x) u")
    case None
    with Inr assms show ?thesis by (simp add: apply_resource_def)
  next
    case (Some p)
    obtain y v where yv: "copyImmutable (acc C) (immutable_annotations C) (Some x) u = Some (Some y, v)"
      using Some copyImmutable_Some by (cases p) blast
    have "run_state (apply_existing C client (Some y) v) (log @ [CGet client (u_name u)]) = (Some None, log')"
      using assms Inr yv by (simp add: apply_resource_def)
    from apply_existing_success [OF this] Inr yv show ?thesis by (auto simp: stores_def)
  qed
qed

text \<open>
  An error of the read is dropped and answered by a creation, unless it says that the kind is missing,
  which adds a wait before.
\<close>

lemma apply_resource_creates_after_error:
  assumes "srv_get C log client (u_name u) = Inl e" and "\<not> IsAPIResourceMissing (Some e)"
  shows "snd (run_state (apply_resource C client u) log) = log @ [CGet client (u_name u), CCreate client u]"
  using assms by (simp add: apply_resource_def apply_existing_def)

section \<open>Immutable fields\<close>

lemma get_update [simp]: "get (AList.update k v m) k' = (if k' = k then v else get m k')"
  by (simp add: get_def update_conv')

lemma get_set_key [simp]: "get (Object (set_key k v u)) k' = (if k' = k then v else get (Object u) k')"
  by (simp add: set_key_def)

lemma set_key_fields [simp]:
  "u_kind (set_key k v u) = u_kind u" "u_name (set_key k v u) = u_name u"
  by (simp_all add: set_key_def)

text \<open>A setter of metadata leaves the specification alone.\<close>

definition keeps_spec :: "accessors \<Rightarrow> bool" where
  "keeps_spec A \<longleftrightarrow> (\<forall>u x s n t f.
     get (Object (SetAnnotations A x u)) ''spec'' = get (Object u) ''spec''
     \<and> get (Object (SetResourceVersion A s u)) ''spec'' = get (Object u) ''spec''
     \<and> get (Object (SetSelfLink A s u)) ''spec'' = get (Object u) ''spec''
     \<and> get (Object (SetUID A s u)) ''spec'' = get (Object u) ''spec''
     \<and> get (Object (SetCreationTimestamp A t u)) ''spec'' = get (Object u) ''spec''
     \<and> get (Object (SetGeneration A n u)) ''spec'' = get (Object u) ''spec''
     \<and> get (Object (SetFinalizers A f u)) ''spec'' = get (Object u) ''spec'')"

lemma copy_annotations_spec:
  assumes "keeps_spec A"
  shows "get (Object (fold (copy_annotation A src) imm u)) ''spec'' = get (Object u) ''spec''"
  using assms
  by (induction imm arbitrary: u)
    (auto simp: copy_annotation_def SetAnnotation_def keeps_spec_def Let_def split: option.split)

lemma copyImmutable_spec:
  assumes "keeps_spec A" and "copyImmutable A imm (Some src) u = Some (Some src', u')"
  obtains v where "copy_by_kind A src u = Some (src', v)"
    and "get (Object u') ''spec'' = get (Object v) ''spec''"
proof -
  obtain s v where v: "copy_by_kind A src u = Some (s, v)"
    using assms(2) by (auto simp: copyImmutable_def split: option.splits)
  then have "s = src'" and "get (Object u') ''spec'' = get (Object (fold (copy_annotation A s) imm v)) ''spec''"
    using assms by (auto simp: copyImmutable_def Let_def keeps_spec_def)
  with v copy_annotations_spec [OF assms(1)] that show thesis by metis
qed

text \<open>
  C21. For a claim with requests, the existing object that the changes are computed against has, after
  the immutable fields were copied, the very specification of the object to apply: a change of the
  requested storage, or of anything else in the specification, is never seen as a difference.
\<close>

theorem copyImmutable_claim_specs_agree:
  assumes "keeps_spec A" and "IsPVC u" and "get (Object src) ''spec'' = VMap spec"
    and "snd (NestedFieldCopy A (Object u) [''spec'', ''resources'', ''requests''])"
    and "copyImmutable A imm (Some src) u = Some (Some src', u')"
  shows "get (Object src') ''spec'' = get (Object u') ''spec''"
proof -
  obtain v where v: "copy_by_kind A src u = Some (src', v)"
    and spec: "get (Object u') ''spec'' = get (Object v) ''spec''"
    using copyImmutable_spec [OF assms(1,5)] .
  have "get (Object src') ''spec'' = get (Object v) ''spec''"
    using v assms(2-4) by (auto simp: copy_by_kind_def kind_defs Let_def split: prod.splits)
  with spec show ?thesis by simp
qed

text \<open>The ports of a load balancer that the loop can go through.\<close>

lemma node_ports_iff:
  "node_ports ps fs \<noteq> None \<longleftrightarrow> length ps \<le> length fs
    \<and> (\<forall>(p, f)\<in>set (zip ps fs). as_map f \<noteq> None
         \<and> (get (the (as_map f)) ''nodePort'' \<noteq> VNil \<longrightarrow> as_map p \<noteq> None))"
proof (induction ps fs rule: node_ports.induct)
  case (3 p ps f fs)
  then show ?case by (auto split: option.splits if_splits)
qed auto

definition ports_fit :: "obj_map \<Rightarrow> obj_map \<Rightarrow> bool" where
  "ports_fit fromSpec spec \<longleftrightarrow> (\<exists>ps fs. get spec ''ports'' = VList ps \<and> get fromSpec ''ports'' = VList fs
    \<and> length ps \<le> length fs
    \<and> (\<forall>(p, f)\<in>set (zip ps fs). as_map f \<noteq> None
         \<and> (get (the (as_map f)) ''nodePort'' \<noteq> VNil \<longrightarrow> as_map p \<noteq> None)))"

lemma ports_fit_iff:
  "ports_fit fromSpec spec \<longleftrightarrow> (\<exists>ps fs. get spec ''ports'' = VList ps \<and> get fromSpec ''ports'' = VList fs
    \<and> node_ports ps fs \<noteq> None)"
  by (simp only: ports_fit_def node_ports_iff)

lemma copy_service_iff:
  "copy_service fromSpec spec \<noteq> None \<longleftrightarrow>
     get fromSpec ''type'' \<noteq> VStr ''LoadBalancer'' \<or> ports_fit fromSpec spec"
  by (auto simp: copy_service_def Let_def ports_fit_iff split: option.split)

text \<open>
  C23. Copying the immutable fields of a service does not panic exactly when both objects have a
  specification and, for an existing load balancer, the ports fit: a service to apply that has more
  ports than the existing load balancer makes the loop index past the end.
\<close>

theorem copyImmutable_service_no_panic:
  assumes "IsService u"
  shows "copyImmutable A imm (Some src) u \<noteq> None \<longleftrightarrow>
    (\<exists>spec fromSpec. get (Object u) ''spec'' = VMap spec \<and> get (Object src) ''spec'' = VMap fromSpec
       \<and> (get fromSpec ''type'' \<noteq> VStr ''LoadBalancer'' \<or> ports_fit fromSpec spec))"
proof -
  have "copyImmutable A imm (Some src) u \<noteq> None \<longleftrightarrow> copy_by_kind A src u \<noteq> None"
    by (auto simp: copyImmutable_def Let_def split: option.splits)
  also have "\<dots> \<longleftrightarrow> (\<exists>spec fromSpec. get (Object u) ''spec'' = VMap spec \<and> get (Object src) ''spec'' = VMap fromSpec
       \<and> copy_service fromSpec spec \<noteq> None)"
    using assms by (auto simp: copy_by_kind_def split: option.splits)
  finally show ?thesis by (simp only: copy_service_iff)
qed

section \<open>Annotating and deleting\<close>

text \<open>
  Annotating an object that has no annotations yet panics, whatever the server does, as soon as
  there is an annotation to set: the code assigns to a nil map. Nothing has been sent then.
\<close>

theorem Annotate_without_annotations:
  assumes "object_kind C obj \<noteq> ''''" and "dynamic_conn C = None" and "rest_mapping C log obj = Inr (resource, root)"
    and "converted C obj = Inr u" and "GetAnnotations (acc C) u = None" and "annotations \<noteq> []"
  shows "run_state (Annotate C obj annotations) log = (None, log @ [CMapping (object_kind C obj)])"
  using assms
  by (simp add: Annotate_def change_and_update_def GetDynamicClientFor_def getDynamicClientFor_def merge_map_def)

text \<open>
  When \<open>DeleteUnstructured\<close> ends without an error outside a dry run, it has sent exactly one
  deletion per object, in order, in the given namespace or, without one, in the object's own.
\<close>

theorem DeleteUnstructured_success:
  assumes "\<not> dry_run C" and "run_state (DeleteUnstructured C namespace objects) log = (None, log')"
  shows "log' = log @ map (\<lambda>u. CRestDelete (if namespace = '''' then u_namespace u else namespace) (u_kind u) (u_name u)) objects"
  using assms(2)
proof (induction objects arbitrary: log)
  case (Cons u objects)
  let ?c = "CRestDelete (if namespace = '''' then u_namespace u else namespace) (u_kind u) (u_name u)"
  have "run_state (DeleteUnstructured C namespace objects) (log @ [?c]) = (None, log')"
    using Cons.prems assms(1) by (auto simp: Let_def split: option.splits if_splits)
  from Cons.IH [OF this] show ?case by simp
qed simp

section \<open>An example client\<close>

fun lookup_path :: "val \<Rightarrow> string list \<Rightarrow> val option" where
  "lookup_path v [] = Some v"
| "lookup_path v (k # ks) =
     (case as_map v of
        None \<Rightarrow> None
      | Some m \<Rightarrow> if found m k then lookup_path (get m k) ks else None)"

fun set_path :: "val \<Rightarrow> string list \<Rightarrow> obj_map \<Rightarrow> obj_map" where
  "set_path v [] m = m"
| "set_path v [k] m = AList.update k v m"
| "set_path v (k # k' # ks) m =
     (if \<not> found m k then AList.update k (VMap (set_path v (k' # ks) [])) m
      else case get m k of
        VMap n \<Rightarrow> AList.update k (VMap (set_path v (k' # ks) n)) m
      | _ \<Rightarrow> m)"

fun remove_path :: "string list \<Rightarrow> obj_map \<Rightarrow> obj_map" where
  "remove_path [] m = m"
| "remove_path [k] m = AList.delete k m"
| "remove_path (k # k' # ks) m =
     (case get m k of
        VMap n \<Rightarrow> AList.update k (VMap (remove_path (k' # ks) n)) m
      | _ \<Rightarrow> m)"

definition meta_str :: "string \<Rightarrow> unstructured \<Rightarrow> string" where
  "meta_str k u = (case lookup_path (VMap (Object u)) [''metadata'', k] of Some (VStr s) \<Rightarrow> s | _ \<Rightarrow> [])"

definition meta_map :: "string \<Rightarrow> unstructured \<Rightarrow> str_map option" where
  "meta_map k u = (case lookup_path (VMap (Object u)) [''metadata'', k] of
     Some (VMap m) \<Rightarrow> Some (map (\<lambda>(k, v). (k, case v of VStr s \<Rightarrow> s | _ \<Rightarrow> [])) m) | _ \<Rightarrow> None)"

definition set_meta :: "string \<Rightarrow> val option \<Rightarrow> unstructured \<Rightarrow> unstructured" where
  "set_meta k v u = u\<lparr>Object := (case v of
     None \<Rightarrow> remove_path [''metadata'', k] (Object u)
   | Some x \<Rightarrow> set_path x [''metadata'', k] (Object u))\<rparr>"

definition set_meta_str :: "string \<Rightarrow> string \<Rightarrow> unstructured \<Rightarrow> unstructured" where
  "set_meta_str k s = set_meta k (if s = '''' then None else Some (VStr s))"

definition set_meta_map :: "string \<Rightarrow> str_map \<Rightarrow> unstructured \<Rightarrow> unstructured" where
  "set_meta_map k m = set_meta k (Some (VMap (map (\<lambda>(k, v). (k, VStr v)) m)))"

definition example_accessors :: accessors where
  "example_accessors = \<lparr>
     GetAnnotations = meta_map ''annotations'', SetAnnotations = set_meta_map ''annotations'',
     GetObjLabels = meta_map ''labels'', SetObjLabels = set_meta_map ''labels'',
     GetResourceVersion = meta_str ''resourceVersion'', SetResourceVersion = set_meta_str ''resourceVersion'',
     GetSelfLink = meta_str ''selfLink'', SetSelfLink = set_meta_str ''selfLink'',
     GetUID = meta_str ''uid'', SetUID = set_meta_str ''uid'',
     GetCreationTimestamp = (\<lambda>u. case lookup_path (VMap (Object u)) [''metadata'', ''creationTimestamp''] of
        Some (VInt t) \<Rightarrow> Some t | _ \<Rightarrow> None),
     SetCreationTimestamp = (\<lambda>t. set_meta ''creationTimestamp'' (map_option VInt t)),
     GetGeneration = (\<lambda>u. case lookup_path (VMap (Object u)) [''metadata'', ''generation''] of
        Some (VInt n) \<Rightarrow> n | _ \<Rightarrow> 0),
     SetGeneration = (\<lambda>n. set_meta ''generation'' (if n = 0 then None else Some (VInt n))),
     GetFinalizers = (\<lambda>u. case lookup_path (VMap (Object u)) [''metadata'', ''finalizers''] of
        Some (VList l) \<Rightarrow> Some (map fmt_s l) | _ \<Rightarrow> None),
     SetFinalizers = (\<lambda>f. set_meta ''finalizers'' (map_option (VList \<circ> map VStr) f)),
     NestedFieldCopy = (\<lambda>m ks. case lookup_path (VMap m) ks of None \<Rightarrow> (VNil, False) | Some v \<Rightarrow> (v, True)),
     NestedMapCopy = (\<lambda>m ks. case lookup_path (VMap m) ks of Some (VMap n) \<Rightarrow> (n, True) | _ \<Rightarrow> ([], False)),
     SetNestedField = set_path, RemoveNestedField = remove_path,
     yaml_of = (\<lambda>u. fmt_v (VMap (Object u))), diff_main = (\<lambda>a b. [(a = b, b)]),
     diff_pretty = (\<lambda>ds. concat (map snd ds))\<rparr>"

lemma set_meta_spec [simp]: "get (Object (set_meta k v u)) ''spec'' = get (Object u) ''spec''"
  by (auto simp: set_meta_def split: option.split val.split)

lemma example_keeps_spec: "keeps_spec example_accessors"
  by (simp add: keeps_spec_def example_accessors_def set_meta_str_def set_meta_map_def)

text \<open>
  A cluster in which every object exists, as \<open>stored\<close>, and accepts everything, and a client of it
  that applies dynamic objects.
\<close>

definition example_client :: "bool \<Rightarrow> (string \<Rightarrow> gerror + unstructured) \<Rightarrow> unstructured apply_client" where
  "example_client dry stored = \<lparr>
     acc = example_accessors,
     conv = \<lparr>AsDeployment = (\<lambda>_. Inl (errorf ''none'')), AsDaemonSet = (\<lambda>_. Inl (errorf ''none'')),
       AsStatefulSet = (\<lambda>_. Inl (errorf ''none'')), AsService = (\<lambda>_. Inl (errorf ''none'')),
       AsRoleBinding = (\<lambda>_. Inl (errorf ''none'')), AsClusterRoleBinding = (\<lambda>_. Inl (errorf ''none'')),
       of_deployment = (\<lambda>_. Inl (errorf ''none'')), of_daemon_set = (\<lambda>_. Inl (errorf ''none'')),
       of_stateful_set = (\<lambda>_. Inl (errorf ''none'')), of_service = (\<lambda>_. Inl (errorf ''none'')),
       of_role_binding = (\<lambda>_. Inl (errorf ''none'')), add_creation_timestamp = (\<lambda>u. u),
       with_object = (\<lambda>u m. u\<lparr>Object := m\<rparr>)\<rparr>,
     con = example_console, dry_run = dry, immutable_annotations = [], hook = None,
     patched = (\<lambda>u. u), kustomizer = None, kustomizer_err = None, parse_yaml = (\<lambda>_. Inr []),
     object_kind = u_kind, show_object = u_name, show_kind = u_kind, converted = Inr, dynamic_conn = None,
     rest_mapping = (\<lambda>_ u. Inr (u_kind u, False)), wait_resource = (\<lambda>_ _ _. None),
     srv_get = (\<lambda>_ _ n. stored n), srv_create = (\<lambda>_ _ u. Inr u), srv_update = (\<lambda>_ _ u. Inr u),
     srv_delete = (\<lambda>_ _ _. None), rest_client = (\<lambda>_. None), rest_delete = (\<lambda>_. None),
     kind_mapping = Inr\<rparr>"

definition example_claim :: "string \<Rightarrow> unstructured" where
  "example_claim qty = \<lparr>u_kind = ''PersistentVolumeClaim'', u_apiVersion = ''v1'', u_name = ''data'', u_namespace = ''db'',
     Object = [(''kind'', VStr ''PersistentVolumeClaim''), (''metadata'', VMap [(''name'', VStr ''data'')]),
       (''spec'', VMap [(''resources'', VMap [(''requests'', VMap [(''storage'', VStr qty)])])])]\<rparr>"

lemma Apply_dry_run_witness:
  "\<exists>kinds. snd (run_state (Apply (example_client True (\<lambda>_. Inl (errorf ''none''))) '''' [Some (example_claim ''1Gi'')]) [])
     = [] @ map CMapping kinds"
  by (rule Apply_dry_run [of "example_client True (\<lambda>_. Inl (errorf ''none''))" "''''" "[Some (example_claim ''1Gi'')]" "[]"
        "fst (run_state (Apply (example_client True (\<lambda>_. Inl (errorf ''none''))) '''' [Some (example_claim ''1Gi'')]) [])"])
    (simp_all add: example_client_def)

abbreviation example_handle :: handle where
  "example_handle \<equiv> \<lparr>h_resource = ''persistentvolumeclaims'', h_namespace = Some ''db''\<rparr>"

lemma timeout_not_missing: "\<not> IsAPIResourceMissing (Some (errorf ''timeout''))"
  by (simp add: IsAPIResourceMissing_def UnwrapError_def HasPrefix_def)

lemma apply_resource_success_witness:
  "\<exists>pre c. [CGet example_handle ''data'', CCreate example_handle (example_claim ''1Gi'')] = pre @ [c]
     \<and> accepted (example_client False (\<lambda>_. Inl (errorf ''timeout''))) pre c"
proof -
  let ?C = "example_client False (\<lambda>_. Inl (errorf ''timeout''))"
  have "run_state (apply_resource ?C example_handle (example_claim ''1Gi'')) [] =
      (Some None, [CGet example_handle ''data'', CCreate example_handle (example_claim ''1Gi'')])"
    using timeout_not_missing
    by (simp add: apply_resource_def apply_existing_def example_client_def example_claim_def)
  from apply_resource_success [OF this] show ?thesis by (auto simp: example_client_def)
qed

lemma copyImmutable_claim_specs_agree_witness:
  "\<exists>src' u'. copyImmutable example_accessors [] (Some (example_claim ''10Gi'')) (example_claim ''20Gi'') = Some (Some src', u')
     \<and> get (Object src') ''spec'' = get (Object u') ''spec''"
proof -
  have "copyImmutable example_accessors [] (Some (example_claim ''10Gi'')) (example_claim ''20Gi'') \<noteq> None"
    by (simp add: copyImmutable_def copy_by_kind_def kind_defs example_claim_def Let_def split: prod.split)
  then obtain src' u' where 1: "copyImmutable example_accessors [] (Some (example_claim ''10Gi'')) (example_claim ''20Gi'')
      = Some (Some src', u')"
    using copyImmutable_existing by (metis not_None_eq prod.exhaust_sel)
  have "get (Object src') ''spec'' = get (Object u') ''spec''"
    by (rule copyImmutable_claim_specs_agree [OF example_keeps_spec _ _ _ 1])
      (simp_all add: example_claim_def kind_defs example_accessors_def)
  with 1 show ?thesis by blast
qed

definition example_service :: "string \<Rightarrow> int list \<Rightarrow> unstructured" where
  "example_service type ports = \<lparr>u_kind = ''Service'', u_apiVersion = ''v1'', u_name = ''web'', u_namespace = ''db'',
     Object = [(''spec'', VMap [(''type'', VStr type),
       (''ports'', VList (map (\<lambda>p. VMap [(''nodePort'', VInt p)]) ports))])]\<rparr>"

lemma copyImmutable_service_no_panic_witness:
  "copyImmutable example_accessors [] (Some (example_service ''LoadBalancer'' [30000]))
     (example_service ''LoadBalancer'' [80, 443]) = None"
proof -
  have "IsService (example_service ''LoadBalancer'' [80, 443])" by (simp add: IsService_def example_service_def)
  from copyImmutable_service_no_panic [OF this, of example_accessors "[]" "example_service ''LoadBalancer'' [30000]"]
  have "copyImmutable example_accessors [] (Some (example_service ''LoadBalancer'' [30000]))
     (example_service ''LoadBalancer'' [80, 443]) \<noteq> None \<longleftrightarrow> False"
    by (simp only:) (simp add: example_service_def ports_fit_def)
  then show ?thesis by blast
qed

lemma Annotate_without_annotations_witness:
  "run_state (Annotate (example_client False (\<lambda>_. Inl (errorf ''none''))) (example_claim ''1Gi'') [(''owner'', ''me'')]) []
     = (None, [] @ [CMapping ''PersistentVolumeClaim''])"
  using Annotate_without_annotations [of "example_client False (\<lambda>_. Inl (errorf ''none''))" "example_claim ''1Gi''" "[]"
      "''PersistentVolumeClaim''" False "example_claim ''1Gi''" "[(''owner'', ''me'')]"]
  by (simp add: example_client_def example_claim_def example_accessors_def meta_map_def)

lemma DeleteUnstructured_success_witness:
  "snd (run_state (DeleteUnstructured (example_client False (\<lambda>_. Inl (errorf ''none''))) '''' [example_claim ''1Gi'']) [])
     = [] @ [CRestDelete ''db'' ''PersistentVolumeClaim'' ''data'']"
  using DeleteUnstructured_success [of "example_client False (\<lambda>_. Inl (errorf ''none''))" "''''" "[example_claim ''1Gi'']" "[]"
      "snd (run_state (DeleteUnstructured (example_client False (\<lambda>_. Inl (errorf ''none''))) '''' [example_claim ''1Gi'']) [])"]
  by (simp add: example_client_def example_claim_def)

end
