(* ===== verification/Env_Vars.thy ===== *)
theory Env_Vars
  imports Kinds "HOL-Library.AList"
begin

text \<open>
  Environment variables with values in secrets and config maps: \<open>EnvVar\<close> of \<open>types.go\<close>, and
  \<open>GetSecretV2\<close>, \<open>GetConfigMapV2\<close>, \<open>GetEnvValue\<close> and \<open>GetEnvValueFromCache\<close> of
  \<open>shortcuts.go\<close>.

  The reads of secrets and config maps are parameters, and so is the cache, a package outside the
  repository: \<open>cache_get\<close> finds the value of a key that has not expired, and \<open>cache_set\<close> stores one.
\<close>

section \<open>Variables\<close>

record key_selector =
  sel_name :: string
  sel_key :: string
  sel_optional :: "bool option"

record EnvVarSource =
  ConfigMapKeyRef :: "key_selector option"
  SecretKeyRef :: "key_selector option"

record EnvVar =
  e_Name :: string
  e_Value :: string
  e_ValueFrom :: "EnvVarSource option"

text \<open>A nil \<open>ValueFrom\<close> makes \<open>GetKey\<close> panic.\<close>

definition GetKey :: "EnvVar \<Rightarrow> string option" where
  "GetKey e =
     (case e_ValueFrom e of
        None \<Rightarrow> None
      | Some src \<Rightarrow>
          Some (case SecretKeyRef src of
             Some s \<Rightarrow> sel_key s
           | None \<Rightarrow> (case ConfigMapKeyRef src of Some c \<Rightarrow> sel_key c | None \<Rightarrow> '''')))"

definition GetCacheKey :: "EnvVar \<Rightarrow> string" where
  "GetCacheKey e =
     (case e_ValueFrom e of
        None \<Rightarrow> e_Name e
      | Some src \<Rightarrow>
          (case SecretKeyRef src of
             Some s \<Rightarrow> e_Name e @ sel_name s @ sel_key s
           | None \<Rightarrow>
               (case ConfigMapKeyRef src of
                  Some c \<Rightarrow> e_Name e @ sel_name c @ sel_key c
                | None \<Rightarrow> e_Name e)))"

definition IsEmpty :: "EnvVar \<Rightarrow> bool" where
  "IsEmpty e \<longleftrightarrow> e_Value e = '''' \<and> e_ValueFrom e = None"

section \<open>Reading\<close>

text \<open>The data of a secret or config map by namespace and name, or the error of the read.\<close>

type_synonym str_data = "(string \<times> string) list"

record kube_reader =
  reader_conn :: "gerror option"
  read_secret :: "string \<Rightarrow> string \<Rightarrow> gerror + str_data"
  read_configmap :: "string \<Rightarrow> string \<Rightarrow> gerror + str_data"

definition GetSecretV2 :: "kube_reader \<Rightarrow> string \<Rightarrow> string \<Rightarrow> gerror + str_data" where
  "GetSecretV2 K namespace name =
     (case reader_conn K of Some err \<Rightarrow> Inl err | None \<Rightarrow> read_secret K namespace name)"

definition GetConfigMapV2 :: "kube_reader \<Rightarrow> string \<Rightarrow> string \<Rightarrow> gerror + str_data" where
  "GetConfigMapV2 K namespace name =
     (case reader_conn K of Some err \<Rightarrow> Inl err | None \<Rightarrow> read_configmap K namespace name)"

text \<open>\<open>GetSecret\<close> and \<open>GetConfigMap\<close> give nil for any error.\<close>

definition GetSecret :: "kube_reader \<Rightarrow> string \<Rightarrow> string \<Rightarrow> str_data option" where
  "GetSecret K namespace name =
     (case reader_conn K of
        Some err \<Rightarrow> None
      | None \<Rightarrow> (case read_secret K namespace name of Inl err \<Rightarrow> None | Inr d \<Rightarrow> Some d))"

definition GetConfigMap :: "kube_reader \<Rightarrow> string \<Rightarrow> string \<Rightarrow> str_data option" where
  "GetConfigMap K namespace name =
     (case reader_conn K of
        Some err \<Rightarrow> None
      | None \<Rightarrow> (case read_configmap K namespace name of Inl err \<Rightarrow> None | Inr d \<Rightarrow> Some d))"

definition HasSecret :: "kube_reader \<Rightarrow> string \<Rightarrow> string \<Rightarrow> bool" where
  "HasSecret K ns name =
     (case reader_conn K of
        Some err \<Rightarrow> False
      | None \<Rightarrow> (case read_secret K ns name of Inl err \<Rightarrow> False | Inr d \<Rightarrow> True))"

definition HasConfigMap :: "kube_reader \<Rightarrow> string \<Rightarrow> string \<Rightarrow> bool" where
  "HasConfigMap K ns name =
     (case reader_conn K of
        Some err \<Rightarrow> False
      | None \<Rightarrow> (case read_configmap K ns name of Inl err \<Rightarrow> False | Inr d \<Rightarrow> True))"

text \<open>One reference: \<open>what\<close> is secret or configmap, as the messages have it.\<close>

definition value_from ::
  "(string \<Rightarrow> string \<Rightarrow> gerror + str_data) \<Rightarrow> string \<Rightarrow> EnvVar \<Rightarrow> string \<Rightarrow> key_selector \<Rightarrow> string \<times> string \<times> gerror option" where
  "value_from get_data what input namespace ref =
     (case get_data namespace (sel_name ref) of
        Inl err \<Rightarrow> ('''', '''', Some (errorf (''Could not get contents of '' @ what @ '' '' @ sel_name ref
          @ '' from namespace '' @ namespace @ '': '' @ Error err)))
      | Inr data \<Rightarrow>
          (case map_of data (sel_key ref) of
             None \<Rightarrow> (e_Name input, '''', Some (errorf (''Could not find key '' @ sel_key ref @ '' in '' @ what @ '' '' @ sel_name ref)))
           | Some v \<Rightarrow> (e_Name input, v, None)))"

definition must_specify :: "string \<times> string \<times> gerror option" where
  "must_specify = ('''', '''', Some (errorf ''must specify either value or valueFrom''))"

definition GetEnvValue :: "kube_reader \<Rightarrow> EnvVar \<Rightarrow> string \<Rightarrow> string \<times> string \<times> gerror option" where
  "GetEnvValue K input namespace =
     (if e_Value input \<noteq> '''' then (e_Name input, e_Value input, None)
      else case e_ValueFrom input of
        None \<Rightarrow> must_specify
      | Some src \<Rightarrow>
          (case SecretKeyRef src of
             Some ref \<Rightarrow> value_from (GetSecretV2 K) ''secret'' input namespace ref
           | None \<Rightarrow>
               (case ConfigMapKeyRef src of
                  Some ref \<Rightarrow> value_from (GetConfigMapV2 K) ''configmap'' input namespace ref
                | None \<Rightarrow> must_specify)))"

text \<open>The cache of values is one for the whole process; the expiry is that of the entry to store.\<close>

record 'c env_cache =
  cache_get :: "'c \<Rightarrow> string \<Rightarrow> string option"
  cache_set :: "string \<Rightarrow> string \<Rightarrow> int \<Rightarrow> 'c \<Rightarrow> 'c"

definition GetEnvValueFromCache ::
  "'c env_cache \<Rightarrow> kube_reader \<Rightarrow> EnvVar \<Rightarrow> string \<Rightarrow> int \<Rightarrow> 'c \<Rightarrow> (string \<times> string \<times> gerror option) \<times> 'c" where
  "GetEnvValueFromCache E K input namespace expiry c =
     (case e_ValueFrom input of
        None \<Rightarrow> ((e_Name input, e_Value input, None), c)
      | Some _ \<Rightarrow>
          (case cache_get E c (GetCacheKey input) of
             Some v \<Rightarrow> ((e_Name input, v, None), c)
           | None \<Rightarrow>
               (case GetEnvValue K input namespace of
                  (_, _, Some err) \<Rightarrow> (('''', '''', Some err), c)
                | (_, v, None) \<Rightarrow> ((e_Name input, v, None), cache_set E (GetCacheKey input) v expiry c))))"

section \<open>Properties\<close>

text \<open>The data that a reference of a variable names, in a namespace.\<close>

definition source_value :: "kube_reader \<Rightarrow> string \<Rightarrow> EnvVarSource \<Rightarrow> string option" where
  "source_value K namespace src =
     (case SecretKeyRef src of
        Some r \<Rightarrow> Option.bind (GetSecret K namespace (sel_name r)) (\<lambda>d. map_of d (sel_key r))
      | None \<Rightarrow>
          (case ConfigMapKeyRef src of
             Some r \<Rightarrow> Option.bind (GetConfigMap K namespace (sel_name r)) (\<lambda>d. map_of d (sel_key r))
           | None \<Rightarrow> None))"

lemma value_from_None:
  "value_from get_data what input namespace ref = (n, v, None) \<longleftrightarrow>
     n = e_Name input \<and> (\<exists>d. get_data namespace (sel_name ref) = Inr d \<and> map_of d (sel_key ref) = Some v)"
  by (auto simp: value_from_def split: sum.split option.split)

lemma GetSecretV2_Inr: "GetSecretV2 K ns n = Inr d \<longleftrightarrow> GetSecret K ns n = Some d"
  by (auto simp: GetSecretV2_def GetSecret_def split: option.split sum.split)

lemma GetConfigMapV2_Inr: "GetConfigMapV2 K ns n = Inr d \<longleftrightarrow> GetConfigMap K ns n = Some d"
  by (auto simp: GetConfigMapV2_def GetConfigMap_def split: option.split sum.split)

text \<open>
  C38. A variable has a value exactly when it is written in it or its reference leads to one: a
  literal value wins over a reference, a secret over a config map, and a literal empty value counts
  as none.
\<close>

theorem GetEnvValue_exact:
  "GetEnvValue K input namespace = (n, v, None) \<longleftrightarrow>
     n = e_Name input
     \<and> (if e_Value input \<noteq> '''' then v = e_Value input
        else \<exists>src. e_ValueFrom input = Some src \<and> source_value K namespace src = Some v)"
  by (auto simp: GetEnvValue_def must_specify_def value_from_None source_value_def GetSecretV2_Inr GetConfigMapV2_Inr
      bind_eq_Some_conv split: option.splits)

text \<open>
  The contract of a cache: a value stored is found again under its key, and other keys do not change.
\<close>

definition cache_laws :: "'c env_cache \<Rightarrow> bool" where
  "cache_laws E \<longleftrightarrow> (\<forall>c k v t. cache_get E (cache_set E k v t c) k = Some v)
     \<and> (\<forall>c k k' v t. k' \<noteq> k \<longrightarrow> cache_get E (cache_set E k v t c) k' = cache_get E c k')"

lemma cached_after_read:
  assumes "cache_laws E" and "e_ValueFrom input \<noteq> None"
    and "GetEnvValueFromCache E K input namespace expiry c = ((n, v, None), c')"
  shows "cache_get E c' (GetCacheKey input) = Some v"
  using assms by (auto simp: GetEnvValueFromCache_def cache_laws_def split: option.splits prod.splits)

text \<open>
  C37. Once a variable was read through the cache, every variable with the same cache key gets the
  same value until it expires, whatever namespace it is asked for and whatever the cluster holds
  there: the key is the bare concatenation of the variable's name, the object's name and the key in
  it, and has neither the namespace nor the kind of the object.
\<close>

theorem GetEnvValueFromCache_shares_keys:
  assumes "cache_laws E" and "e_ValueFrom a \<noteq> None" and "e_ValueFrom b \<noteq> None"
    and "GetCacheKey a = GetCacheKey b"
    and "GetEnvValueFromCache E K a namespace expiry c = ((n, v, None), c')"
  shows "GetEnvValueFromCache E K' b namespace' expiry' c' = ((e_Name b, v, None), c')"
  using cached_after_read [OF assms(1,2,5)] assms(3,4) by (auto simp: GetEnvValueFromCache_def)

definition list_cache :: "str_data env_cache" where
  "list_cache = \<lparr>cache_get = map_of, cache_set = (\<lambda>k v t c. AList.update k v c)\<rparr>"

lemma list_cache_laws: "cache_laws list_cache"
  by (simp add: cache_laws_def list_cache_def update_conv')

definition secret_var :: "string \<Rightarrow> string \<Rightarrow> string \<Rightarrow> EnvVar" where
  "secret_var n s k = \<lparr>e_Name = n, e_Value = '''',
     e_ValueFrom = Some \<lparr>ConfigMapKeyRef = None, SecretKeyRef = Some \<lparr>sel_name = s, sel_key = k, sel_optional = None\<rparr>\<rparr>\<rparr>"

definition configmap_var :: "string \<Rightarrow> string \<Rightarrow> string \<Rightarrow> EnvVar" where
  "configmap_var n s k = \<lparr>e_Name = n, e_Value = '''',
     e_ValueFrom = Some \<lparr>ConfigMapKeyRef = Some \<lparr>sel_name = s, sel_key = k, sel_optional = None\<rparr>, SecretKeyRef = None\<rparr>\<rparr>"

definition two_namespaces :: kube_reader where
  "two_namespaces = \<lparr>reader_conn = None,
     read_secret = (\<lambda>ns n. if ns = ''prod'' then Inr [(''pass'', ''s3cret'')] else Inr [(''pass'', ''guest'')]),
     read_configmap = (\<lambda>ns n. Inr [(''word'', ''public'')])\<rparr>"

text \<open>
  In one namespace the config map entry of the second variable is not the secret of the first one.
\<close>

lemma GetEnvValueFromCache_shares_keys_witness:
  "GetEnvValue two_namespaces (configmap_var ''DB'' ''app'' ''word'') ''test'' = (''DB'', ''public'', None)
   \<and> (\<exists>c'. GetEnvValueFromCache list_cache two_namespaces (secret_var ''DB'' ''appword'' ''pass'') ''prod'' 60 []
          = ((''DB'', ''s3cret'', None), c')
       \<and> GetEnvValueFromCache list_cache two_namespaces (secret_var ''DB'' ''appword'' ''pass'') ''test'' 60 c'
          = ((''DB'', ''s3cret'', None), c')
       \<and> GetEnvValueFromCache list_cache two_namespaces (configmap_var ''DBapp'' ''wordp'' ''ass'') ''test'' 60 c'
          = ((''DBapp'', ''s3cret'', None), c'))"
proof -
  let ?a = "secret_var ''DB'' ''appword'' ''pass''"
  let ?b = "configmap_var ''DBapp'' ''wordp'' ''ass''"
  obtain c' where c': "GetEnvValueFromCache list_cache two_namespaces ?a ''prod'' 60 [] = ((''DB'', ''s3cret'', None), c')"
    by (simp add: GetEnvValueFromCache_def GetEnvValue_def value_from_def GetSecretV2_def GetCacheKey_def
        secret_var_def two_namespaces_def list_cache_def)
  have "GetEnvValueFromCache list_cache two_namespaces ?b ''test'' 60 c' = ((e_Name ?b, ''s3cret'', None), c')"
    and "GetEnvValueFromCache list_cache two_namespaces ?a ''test'' 60 c' = ((e_Name ?a, ''s3cret'', None), c')"
    by (rule GetEnvValueFromCache_shares_keys [OF list_cache_laws _ _ _ c'];
        simp add: secret_var_def configmap_var_def GetCacheKey_def)+
  with c' show ?thesis
    by (auto simp: secret_var_def configmap_var_def GetEnvValue_def value_from_def GetConfigMapV2_def two_namespaces_def)
qed

text \<open>
  The cache and the direct read disagree on a variable that has neither a value nor a reference:
  the direct read fails, the cached one returns an empty value without an error.
\<close>

theorem GetEnvValueFromCache_empty_variable:
  assumes "IsEmpty input"
  shows "GetEnvValueFromCache E K input namespace expiry c = ((e_Name input, '''', None), c)
    \<and> snd (snd (GetEnvValue K input namespace)) \<noteq> None"
  using assms by (simp add: IsEmpty_def GetEnvValueFromCache_def GetEnvValue_def must_specify_def)

lemma GetEnvValueFromCache_empty_variable_witness:
  "snd (snd (GetEnvValue two_namespaces \<lparr>e_Name = ''DB'', e_Value = '''', e_ValueFrom = None\<rparr> ''test'')) \<noteq> None"
  using GetEnvValueFromCache_empty_variable [of "\<lparr>e_Name = ''DB'', e_Value = '''', e_ValueFrom = None\<rparr>"
      list_cache two_namespaces "''test''" 60 "[]"]
  by (simp add: IsEmpty_def)

end
