(* ===== verification/Shortcuts.thy ===== *)
theory Shortcuts
  imports Apply Env_Vars
begin

text \<open>
  The shortcuts of the client: the rest of \<open>shortcuts.go\<close>, and the decoding hooks of \<open>helper.go\<close>.

  Typed reads and writes go through the clientset, whose answers are parameters; what is applied
  goes through \<open>Apply\<close> on the typed objects built here.
\<close>

section \<open>The client\<close>

text \<open>
  A namespace is read as its labels and annotations, \<open>None\<close> for a nil map; an ingress and a claim as
  whether they are there. The typed client returns no usable object with an error.
\<close>

record shortcut_client =
  applier :: "kube_object apply_client"
  reader :: kube_reader
  sc_conn :: "gerror option"
  namespace_get :: "api_call list \<Rightarrow> string \<Rightarrow> gerror + str_map option \<times> str_map option"
  ingress_get :: "api_call list \<Rightarrow> string \<Rightarrow> string \<Rightarrow> gerror option"
  claim_get :: "api_call list \<Rightarrow> string \<Rightarrow> string \<Rightarrow> gerror option"
  kube_create :: "api_call list \<Rightarrow> kube_object \<Rightarrow> gerror option"
  parse_quantity :: "string \<Rightarrow> gerror option"

section \<open>Create or update\<close>

definition CreateOrUpdateConfigMap :: "shortcut_client \<Rightarrow> string \<Rightarrow> string \<Rightarrow> str_map option \<Rightarrow> gerror option option api" where
  "CreateOrUpdateConfigMap C name ns data =
     (if dry_run (applier C) then ret (Some None)
      else Apply (applier C) ns [Some (KConfigMap name ns data)])"

definition CreateOrUpdateSecret :: "shortcut_client \<Rightarrow> string \<Rightarrow> string \<Rightarrow> str_map option \<Rightarrow> gerror option option api" where
  "CreateOrUpdateSecret C name ns data =
     (if dry_run (applier C) then ret (Some None)
      else Apply (applier C) ns [Some (KSecret name ns data)])"

text \<open>\<open>HasSecret\<close> takes the namespace first; it is called with the name first.\<close>

definition GetOrCreateSecret :: "shortcut_client \<Rightarrow> string \<Rightarrow> string \<Rightarrow> str_map option \<Rightarrow> gerror option option api" where
  "GetOrCreateSecret C name ns data =
     (if HasSecret (reader C) name ns then ret (Some None) else CreateOrUpdateSecret C name ns data)"

text \<open>
  The namespace to apply. Of an existing one the labels and annotations are given here; its other
  fields stay as they were read.
\<close>

definition namespace_object ::
  "string \<Rightarrow> str_map option \<Rightarrow> str_map option \<Rightarrow> (str_map option \<times> str_map option) option \<Rightarrow> kube_object" where
  "namespace_object name labels annotations existing =
     (case existing of
        None \<Rightarrow> KNamespace name labels annotations
      | Some (cmLabels, cmAnnotations) \<Rightarrow>
          let labels = (case cmLabels of
                None \<Rightarrow> labels
              | Some m \<Rightarrow> Some (update_all (case labels of None \<Rightarrow> [] | Some l \<Rightarrow> l) m));
              annotations = (case cmAnnotations of
                None \<Rightarrow> annotations
              | Some m \<Rightarrow> (case annotations of None \<Rightarrow> None | Some a \<Rightarrow> Some (update_all a m)))
          in KNamespace name labels annotations)"

definition CreateOrUpdateNamespace ::
  "shortcut_client \<Rightarrow> string \<Rightarrow> str_map option \<Rightarrow> str_map option \<Rightarrow> gerror option option api" where
  "CreateOrUpdateNamespace C name labels annotations =
     (case sc_conn C of
        Some err \<Rightarrow> ret (Some (Some err))
      | None \<Rightarrow> do {
          cm \<leftarrow> ask (KubeGet ''Namespace'' '''' name) (\<lambda>log. namespace_get C log name);
          let existing = (case cm of Inl err \<Rightarrow> None | Inr x \<Rightarrow> Some x);
          if dry_run (applier C) then ret (Some None)
          else Apply (applier C) '''' [Some (namespace_object name labels annotations existing)]
        })"

definition ExposeIngress ::
  "shortcut_client \<Rightarrow> string \<Rightarrow> string \<Rightarrow> string \<Rightarrow> int \<Rightarrow> str_map option \<Rightarrow> gerror option api" where
  "ExposeIngress C namespace service domain port annotations =
     (case sc_conn C of
        Some err \<Rightarrow> ret (Some (errorf (''exposeIngress: failed to get client set: '' @ Error err)))
      | None \<Rightarrow> do {
          missing \<leftarrow> ask (KubeGet ''Ingress'' namespace service) (\<lambda>log. ingress_get C log namespace service);
          if missing = None then ret None
          else if dry_run (applier C) then ret None
          else do {
            let ingress = KIngress service namespace annotations domain service
                  (sint (word_of_int port :: 32 word));
            err \<leftarrow> ask (KubeCreate namespace ingress) (\<lambda>log. kube_create C log ingress);
            ret (map_option (\<lambda>e. errorf (''exposeIngress: failed to create ingress: '' @ Error e)) err)
          }
        })"

definition GetOrCreatePVC :: "shortcut_client \<Rightarrow> string \<Rightarrow> string \<Rightarrow> string \<Rightarrow> string \<Rightarrow> gerror option api" where
  "GetOrCreatePVC C namespace name qty storage_class =
     (case sc_conn C of
        Some err \<Rightarrow> ret (Some (errorf (''getOrCreatePVC: failed to get client set: '' @ Error err)))
      | None \<Rightarrow>
          (case parse_quantity C qty of
             Some err \<Rightarrow> ret (Some (errorf (''getOrCreatePVC: failed to parse quantity: '' @ Error err)))
           | None \<Rightarrow> do {
               err \<leftarrow> ask (KubeGet ''PersistentVolumeClaim'' namespace name) (\<lambda>log. claim_get C log namespace name);
               (case err of
                  None \<Rightarrow> ret None
                | Some e \<Rightarrow>
                    if is_not_found e
                    then ask (KubeCreate namespace (KClaim name storage_class qty))
                      (\<lambda>log. kube_create C log (KClaim name storage_class qty))
                    else ret (Some (errorf (''getOrCreatePVC: failed to create PVC: '' @ Error e))))
             }))"

section \<open>Queries\<close>

text \<open>The namespace of a client by kind; an object that is not found is nil without an error.\<close>

definition GetByKind :: "'o apply_client \<Rightarrow> string \<Rightarrow> string \<Rightarrow> string \<Rightarrow> (gerror + unstructured option) api" where
  "GetByKind C kind namespace name =
     (case GetClientByKind C kind of
        Inl err \<Rightarrow> ret (Inl err)
      | Inr resource \<Rightarrow>
          let client = \<lparr>h_resource = resource, h_namespace = Some namespace\<rparr>
          in do {
            item \<leftarrow> ask (CGet client name) (\<lambda>log. srv_get C log client name);
            ret (case item of
               Inl err \<Rightarrow> if is_not_found err then Inr None else Inl err
             | Inr u \<Rightarrow> Inr (Some u))
          })"

definition Refresh :: "'o apply_client \<Rightarrow> unstructured \<Rightarrow> (gerror + unstructured option) api" where
  "Refresh C item = GetByKind C (u_kind item) (u_namespace item) (u_name item)"

record api_resource =
  ar_name :: string
  ar_group :: string
  ar_version :: string

fun find_resource ::
  "(string \<Rightarrow> gerror + string) \<Rightarrow> string \<Rightarrow> string \<Rightarrow> api_resource list \<Rightarrow> api_resource option" where
  "find_resource singularizer name groupVersion [] = None"
| "find_resource singularizer name groupVersion (r # rs) =
     (if ar_name r = name \<or> singularizer (ar_name r) = Inr name
      then Some (r\<lparr>ar_group := fst (group_version groupVersion), ar_version := snd (group_version groupVersion)\<rparr>)
      else find_resource singularizer name groupVersion rs)"

fun find_in_lists ::
  "(string \<Rightarrow> gerror + string) \<Rightarrow> string \<Rightarrow> (string \<times> api_resource list) list \<Rightarrow> api_resource option" where
  "find_in_lists singularizer name [] = None"
| "find_in_lists singularizer name ((groupVersion, rs) # groups) =
     (case find_resource singularizer name groupVersion rs of
        Some r \<Rightarrow> Some r
      | None \<Rightarrow> find_in_lists singularizer name groups)"

text \<open>\<open>mapper\<close> is the error of getting the rest mapper, or its singularizer.\<close>

definition GetAPIResource ::
  "gerror option \<Rightarrow> gerror + (string \<Rightarrow> gerror + string) \<Rightarrow> gerror + (string \<times> api_resource list) list \<Rightarrow> string
     \<Rightarrow> gerror + api_resource" where
  "GetAPIResource conn mapper preferred name =
     (case conn of
        Some err \<Rightarrow> Inl (wrapf err ''failed to get clientset'')
      | None \<Rightarrow>
          (case mapper of
             Inl err \<Rightarrow> Inl (wrapf err ''failed to get rest mapper'')
           | Inr singularizer \<Rightarrow>
               (case preferred of
                  Inl err \<Rightarrow> Inl (wrapf err ''failed to get server resources'')
                | Inr preferred_lists \<Rightarrow>
                    (case find_in_lists singularizer name preferred_lists of
                       Some r \<Rightarrow> Inr r
                     | None \<Rightarrow> Inl (errorf (''no resource with name '' @ name @ '' found''))))))"

text \<open>\<open>pods\<close> is the answer to the list by label: an error, or the items.\<close>

definition GetFirstPodByLabelSelector ::
  "gerror option \<Rightarrow> (string \<Rightarrow> string \<Rightarrow> gerror + 'pod list) \<Rightarrow> string \<Rightarrow> string \<Rightarrow> gerror + 'pod" where
  "GetFirstPodByLabelSelector conn list_pods namespace labelSelector =
     (case conn of
        Some err \<Rightarrow> Inl (errorf (''GetFirstPodByLabelSelector: Failed to get clientset: '' @ Error err))
      | None \<Rightarrow>
          (case list_pods namespace labelSelector of
             Inl err \<Rightarrow> Inl (errorf (''GetFirstPodByLabelSelector: Failed to query for '' @ labelSelector
               @ '' in namespace '' @ namespace @ '': '' @ Error err))
           | Inr [] \<Rightarrow> Inl (errorf (''GetFirstPodByLabelSelector: No pods found for query for '' @ labelSelector
               @ '' in namespace '' @ namespace @ '': <nil>''))
           | Inr (p # ps) \<Rightarrow> Inr p))"

text \<open>\<open>list_events\<close> groups the events of a namespace that a selector of name, namespace, kind and UID takes.\<close>

definition GetEventsFor ::
  "gerror option \<Rightarrow> (string \<Rightarrow> string \<times> string \<times> string \<times> string \<Rightarrow> gerror + 'event list) \<Rightarrow> string
     \<Rightarrow> unstructured \<Rightarrow> string \<Rightarrow> gerror + 'event list" where
  "GetEventsFor conn list_events kind obj uid =
     (case conn of
        Some err \<Rightarrow> Inl err
      | None \<Rightarrow> list_events (u_namespace obj) (u_name obj, u_namespace obj, kind, uid))"

section \<open>Decoding into typed objects\<close>

text \<open>
  The hooks for the decoder that \<open>Get\<close> falls back to. The data is a string or something else, the
  target type is one of the types the hooks know, and a hook that does not apply returns the data.
\<close>

datatype target_type = DurationType | MetaDurationType | MetaTimeType | Int64Kind | OtherType

datatype decoded = Raw string | NotString | DurationVal int | MetaDurationVal int | MetaTimeVal int | Int64Val int

type_synonym hook = "target_type \<Rightarrow> decoded \<Rightarrow> decoded \<times> gerror option"

definition decode_hook ::
  "(target_type \<Rightarrow> bool) \<Rightarrow> string \<Rightarrow> (string \<Rightarrow> gerror + int) \<Rightarrow> (int \<Rightarrow> decoded) \<Rightarrow> hook" where
  "decode_hook applies msg parse result t data =
     (case data of
        Raw s \<Rightarrow>
          if \<not> applies t then (data, None)
          else (case parse s of
                  Inl err \<Rightarrow> (data, Some (errorf (msg @ Error err)))
                | Inr d \<Rightarrow> (result d, None))
      | _ \<Rightarrow> (data, None))"

text \<open>A \<open>time.Duration\<close> is of kind int64.\<close>

definition decodeStringToTimeDuration :: "(string \<Rightarrow> gerror + int) \<Rightarrow> hook" where
  "decodeStringToTimeDuration ParseDuration =
     decode_hook (\<lambda>t. t = DurationType) ''decodeStringToTimeDuration: Failed to parse duration: '' ParseDuration DurationVal"

definition decodeStringToDuration :: "(string \<Rightarrow> gerror + int) \<Rightarrow> hook" where
  "decodeStringToDuration ParseDuration =
     decode_hook (\<lambda>t. t = MetaDurationType) ''decodeStringToDuration: Failed to parse duration: '' ParseDuration MetaDurationVal"

definition decodeStringToTime :: "(string \<Rightarrow> gerror + int) \<Rightarrow> hook" where
  "decodeStringToTime ParseTime =
     decode_hook (\<lambda>t. t = MetaTimeType) ''decodeStringToTime: failed to decode to time: '' ParseTime MetaTimeVal"

definition decodeStringToInt64 :: "(string \<Rightarrow> gerror + int) \<Rightarrow> hook" where
  "decodeStringToInt64 ParseDuration =
     decode_hook (\<lambda>t. t = Int64Kind \<or> t = DurationType) ''decodeStringToDuration: Failed to parse duration: ''
       ParseDuration Int64Val"

text \<open>The hooks in the order of \<open>Get\<close>, each on the result of the one before, up to the first error.\<close>

fun run_hooks :: "hook list \<Rightarrow> target_type \<Rightarrow> decoded \<Rightarrow> decoded \<times> gerror option" where
  "run_hooks [] t data = (data, None)"
| "run_hooks (h # hs) t data =
     (case h t data of
        (data, Some err) \<Rightarrow> (data, Some err)
      | (data, None) \<Rightarrow> run_hooks hs t data)"

definition Get_hooks :: "(string \<Rightarrow> gerror + int) \<Rightarrow> (string \<Rightarrow> gerror + int) \<Rightarrow> hook" where
  "Get_hooks ParseTime ParseDuration =
     run_hooks [decodeStringToTime ParseTime, decodeStringToDuration ParseDuration,
       decodeStringToTimeDuration ParseDuration, decodeStringToInt64 ParseDuration]"

text \<open>
  \<open>Get\<close> fills a typed object: \<open>fill\<close> gives the object, filled as far as it came, and its error;
  \<open>new_decoder\<close> is the error of making the fallback decoder, and \<open>decode\<close> runs it with the hooks.
\<close>

definition Get ::
  "'o apply_client \<Rightarrow> (obj_map \<Rightarrow> 'o \<Rightarrow> 'o \<times> gerror option) \<Rightarrow> gerror option \<Rightarrow> (obj_map \<Rightarrow> 'o \<Rightarrow> 'o \<times> gerror option)
     \<Rightarrow> string \<Rightarrow> string \<Rightarrow> 'o \<Rightarrow> ('o \<times> gerror option) option api" where
  "Get C fill new_decoder decode namespace name obj = do {
     r \<leftarrow> GetDynamicClientFor C namespace obj;
     (case r of
        (_, _, Some err) \<Rightarrow> ret (Some (obj, Some err))
      | (Some client, _, None) \<Rightarrow> do {
          u \<leftarrow> ask (CGet client name) (\<lambda>log. srv_get C log client name);
          (case u of
             Inl err \<Rightarrow> ret (Some (obj, Some (errorf (''get: failed to get client: '' @ Error err))))
           | Inr u \<Rightarrow>
               (case fill (Object u) obj of
                  (obj, None) \<Rightarrow> ret (Some (obj, None))
                | (obj, Some _) \<Rightarrow>
                    (case new_decoder of
                       Some err \<Rightarrow> ret (Some (obj, Some (errorf (''get: failed to decode config: '' @ Error err))))
                     | None \<Rightarrow> ret (Some (decode (Object u) obj)))))
        }
      | _ \<Rightarrow> ret None)
   }"

section \<open>Properties\<close>

text \<open>
  What is applied for an existing namespace has all its labels and the given ones, the given ones
  winning. Its annotations are merged the same way when some are given; but where none are given, not
  even an empty map, those that the namespace has are dropped.
\<close>

theorem namespace_object_merges:
  assumes "distinct (map fst (case labels of None \<Rightarrow> [] | Some l \<Rightarrow> l))"
    and "distinct (map fst (case annotations of None \<Rightarrow> [] | Some a \<Rightarrow> a))"
  shows "\<exists>l a. namespace_object name labels annotations (Some (Some cl, Some ca)) = KNamespace name (Some l) a
    \<and> map_of l = map_of cl ++ map_of (case labels of None \<Rightarrow> [] | Some l \<Rightarrow> l)
    \<and> (case annotations of
         None \<Rightarrow> a = None
       | Some given \<Rightarrow> \<exists>m. a = Some m \<and> map_of m = map_of ca ++ map_of given)"
  using assms by (cases annotations) (auto simp: namespace_object_def map_of_update_all)

lemma namespace_object_merges_witness:
  "\<exists>l. namespace_object ''db'' (Some [(''team'', ''b'')]) None (Some (Some [(''team'', ''a''), (''env'', ''x'')], Some [(''k'', ''v'')]))
     = KNamespace ''db'' (Some l) None \<and> map_of l ''team'' = Some ''b'' \<and> map_of l ''env'' = Some ''x''"
proof -
  have "\<exists>l a. namespace_object ''db'' (Some [(''team'', ''b'')]) None (Some (Some [(''team'', ''a''), (''env'', ''x'')], Some [(''k'', ''v'')]))
      = KNamespace ''db'' (Some l) a
    \<and> map_of l = map_of [(''team'', ''a''), (''env'', ''x'')] ++ map_of (case Some [(''team'', ''b'')] of None \<Rightarrow> [] | Some l \<Rightarrow> l)
    \<and> (case None of
         None \<Rightarrow> a = None
       | Some given \<Rightarrow> \<exists>m. a = Some m \<and> map_of m = map_of [(''k'', ''v'')] ++ map_of given)"
    by (rule namespace_object_merges) simp_all
  then show ?thesis by (auto simp: map_add_def)
qed

text \<open>
  \<open>GetOrCreateSecret\<close> looks for a secret of the namespace's name in a namespace of the secret's
  name. So where that is missing, a secret that exists is applied again with the new data; and where
  it exists, a secret that is missing is not created.
\<close>

theorem GetOrCreateSecret_looks_elsewhere:
  assumes "reader_conn (reader C) = None" and "\<not> dry_run (applier C)"
  shows "(\<forall>err. read_secret (reader C) name ns = Inl err \<longrightarrow>
      GetOrCreateSecret C name ns data = Apply (applier C) ns [Some (KSecret name ns data)])
    \<and> (\<forall>d. read_secret (reader C) name ns = Inr d \<longrightarrow>
      run_state (GetOrCreateSecret C name ns data) log = (Some None, log))"
  using assms by (simp add: GetOrCreateSecret_def HasSecret_def CreateOrUpdateSecret_def)

definition example_shortcuts :: shortcut_client where
  "example_shortcuts =
     (let E = example_client False (\<lambda>_. Inl (errorf ''none''))
      in \<lparr>applier = \<lparr>acc = acc E, conv = conv E, con = con E, dry_run = False, immutable_annotations = [], hook = None,
            patched = (\<lambda>u. u), kustomizer = None, kustomizer_err = None, parse_yaml = (\<lambda>_. Inr []),
            object_kind = (\<lambda>_. ''Secret''), show_object = (\<lambda>_. ''''), show_kind = (\<lambda>_. ''''),
            converted = (\<lambda>_. Inl (errorf ''none'')), dynamic_conn = None, rest_mapping = (\<lambda>_ _. Inr (''secrets'', False)),
            wait_resource = (\<lambda>_ _ _. None), srv_get = srv_get E, srv_create = srv_create E, srv_update = srv_update E,
            srv_delete = srv_delete E, rest_client = rest_client E, rest_delete = rest_delete E, kind_mapping = Inr\<rparr>,
          reader = \<lparr>reader_conn = None,
            read_secret = (\<lambda>ns n. if ns = ''db'' \<and> n = ''pw'' then Inr [] else Inl (errorf ''none'')),
            read_configmap = (\<lambda>_ _. Inl (errorf ''none''))\<rparr>,
          sc_conn = None, namespace_get = (\<lambda>_ _. Inl (errorf ''none'')), ingress_get = (\<lambda>_ _ _. None),
          claim_get = (\<lambda>_ _ _. None), kube_create = (\<lambda>_ _. None), parse_quantity = (\<lambda>_. None)\<rparr>)"

text \<open>The secret exists and is applied; with the names interchanged it is missing and is not.\<close>

lemma GetOrCreateSecret_looks_elsewhere_witness:
  "GetOrCreateSecret example_shortcuts ''pw'' ''db'' None
     = Apply (applier example_shortcuts) ''db'' [Some (KSecret ''pw'' ''db'' None)]
   \<and> run_state (GetOrCreateSecret example_shortcuts ''db'' ''pw'' None) [] = (Some None, [])"
proof -
  have "reader_conn (reader example_shortcuts) = None" and "\<not> dry_run (applier example_shortcuts)"
    and "read_secret (reader example_shortcuts) ''pw'' ''db'' = Inl (errorf ''none'')"
    and "read_secret (reader example_shortcuts) ''db'' ''pw'' = Inr []"
    by (simp_all add: example_shortcuts_def Let_def)
  then show ?thesis using GetOrCreateSecret_looks_elsewhere [of example_shortcuts] by blast
qed

text \<open>
  \<open>GetOrCreatePVC\<close> creates a claim exactly when the read has said that there is none, and any
  other error of the read, of the connection or of the quantity reaches the caller.
\<close>

theorem GetOrCreatePVC_creates_iff:
  "KubeCreate namespace (KClaim name storage_class qty) \<in> set (drop (length log) (snd (run_state (GetOrCreatePVC C namespace name qty storage_class) log)))
     \<longleftrightarrow> sc_conn C = None \<and> parse_quantity C qty = None \<and> not_found_err (claim_get C log namespace name)"
  by (auto simp: GetOrCreatePVC_def split: option.splits)

text \<open>The singular and plural names of a resource.\<close>

definition answers_to :: "(string \<Rightarrow> gerror + string) \<Rightarrow> string \<Rightarrow> api_resource \<Rightarrow> bool" where
  "answers_to singularizer name r \<longleftrightarrow> ar_name r = name \<or> singularizer (ar_name r) = Inr name"

lemma find_resource_exact:
  "find_resource s name gv rs =
     (case filter (answers_to s name) rs of
        [] \<Rightarrow> None
      | r # _ \<Rightarrow> Some (r\<lparr>ar_group := fst (group_version gv), ar_version := snd (group_version gv)\<rparr>))"
  by (induction rs) (auto simp: answers_to_def)

text \<open>
  \<open>GetAPIResource\<close> finds the first resource, in the order of the server's lists, that has the name
  or singularises to it, with the group and version of its list; resources that cannot be
  singularised are passed over, and it fails only when there is none.
\<close>

theorem GetAPIResource_first:
  "GetAPIResource None (Inr s) (Inr groups) name =
     (case filter (\<lambda>(gv, r). answers_to s name r) (concat (map (\<lambda>(gv, rs). map (Pair gv) rs) groups)) of
        [] \<Rightarrow> Inl (errorf (''no resource with name '' @ name @ '' found''))
      | (gv, r) # _ \<Rightarrow> Inr (r\<lparr>ar_group := fst (group_version gv), ar_version := snd (group_version gv)\<rparr>))"
proof -
  have *: "filter (\<lambda>(gv, r). answers_to s name r) (map (Pair gv) rs) = map (Pair gv) (filter (answers_to s name) rs)" for gv rs
    by (induction rs) auto
  have "find_in_lists s name groups =
     (case filter (\<lambda>(gv, r). answers_to s name r) (concat (map (\<lambda>(gv, rs). map (Pair gv) rs) groups)) of
        [] \<Rightarrow> None
      | (gv, r) # _ \<Rightarrow> Some (r\<lparr>ar_group := fst (group_version gv), ar_version := snd (group_version gv)\<rparr>))"
    by (induction groups) (auto simp: find_resource_exact * split: list.split)
  then show ?thesis by (simp add: GetAPIResource_def split: list.split)
qed

text \<open>
  A string decoded into an integer of 64 bits is read as a duration, never as a number: it fails
  exactly where it does not parse as one, and a duration target gets its duration.
\<close>

theorem Get_hooks_int64:
  "Get_hooks ParseTime ParseDuration Int64Kind (Raw s) =
     (case ParseDuration s of
        Inl err \<Rightarrow> (Raw s, Some (errorf (''decodeStringToDuration: Failed to parse duration: '' @ Error err)))
      | Inr d \<Rightarrow> (Int64Val d, None))
   \<and> Get_hooks ParseTime ParseDuration DurationType (Raw s) =
     (case ParseDuration s of
        Inl err \<Rightarrow> (Raw s, Some (errorf (''decodeStringToTimeDuration: Failed to parse duration: '' @ Error err)))
      | Inr d \<Rightarrow> (DurationVal d, None))"
  by (simp add: Get_hooks_def decodeStringToTime_def decodeStringToDuration_def decodeStringToTimeDuration_def
      decodeStringToInt64_def decode_hook_def split: sum.split)

end
