(* ===== verification/Templating.thy ===== *)
theory Templating
  imports Kinds "HOL-Library.AList"
begin

text \<open>
  Package \<open>ktemplate\<close>: the functions of templates (\<open>functions.go\<close>, \<open>kget.go\<close>, \<open>jsonpath.go\<close>),
  templating a text (\<open>ktemplate.go\<close>) and the fields of a structure (\<open>structtemplater.go\<close>), and the
  tables of a markdown document (\<open>markdown.go\<close>).

  The template engine, the libraries of functions, the JSON and YAML codecs, the JSON query, the
  markdown parser and the walk over a structure by reflection are parameters.
\<close>

section \<open>Functions\<close>

text \<open>A map of functions is an association list with distinct names; \<open>'f\<close> is the type of functions.\<close>

type_synonym 'f func_map = "(string \<times> 'f) list"

record 'f Functions =
  RightDelim :: string
  LeftDelim :: string
  Custom :: "'f func_map option"

definition NewFunctions :: "'f Functions" where
  "NewFunctions = \<lparr>RightDelim = '''', LeftDelim = '''', Custom = None\<rparr>"

definition the_map :: "'f func_map option \<Rightarrow> 'f func_map" where
  "the_map m = (case m of None \<Rightarrow> [] | Some m \<Rightarrow> m)"

text \<open>\<open>gomplate\<close> and \<open>common\<close> are the functions of the two libraries, \<open>kget\<close> and the next two the own ones.\<close>

definition FuncMap :: "'f func_map \<Rightarrow> 'f func_map \<Rightarrow> 'f \<Rightarrow> 'f \<Rightarrow> 'f \<Rightarrow> 'f Functions \<Rightarrow> 'f func_map" where
  "FuncMap gomplate common kget jsonPath parseMarkdownTables f =
     (let fm = AList.update ''kget'' kget gomplate;
          fm = AList.update ''jsonPath'' jsonPath fm;
          fm = AList.update ''parseMarkdownTables'' parseMarkdownTables fm;
          fm = fold (\<lambda>(k, v). AList.update k v) (the_map (Custom f)) fm
      in fold (\<lambda>(funcName, v) fm. if map_of fm funcName = None then AList.update funcName v fm else fm) common fm)"

text \<open>
  The API server for \<open>KGet\<close>: config maps and services as the JSON of their encoding, or an error of
  the read or of the encoding; secrets as their data.
\<close>

record kget_server =
  configmap_json :: "string \<Rightarrow> string \<Rightarrow> gerror + string"
  secret_data :: "string \<Rightarrow> string \<Rightarrow> gerror + (string \<times> string) list"
  service_json :: "string \<Rightarrow> string \<Rightarrow> gerror + string"
  gjson :: "string \<Rightarrow> string \<Rightarrow> string"

definition KGet :: "kget_server \<Rightarrow> string \<Rightarrow> string \<Rightarrow> string" where
  "KGet K path jsonpath =
     (let parts = Split path (CHR ''/'')
      in if length parts \<noteq> 3 then ''''
         else let kind = parts ! 0; namespace = parts ! 1; name = parts ! 2
              in if kind = ''configmap'' \<or> kind = ''cm''
                 then (case configmap_json K namespace name of Inl err \<Rightarrow> '''' | Inr json \<Rightarrow> gjson K json jsonpath)
                 else if kind = ''secret''
                 then (case secret_data K namespace name of
                         Inl err \<Rightarrow> ''''
                       | Inr data \<Rightarrow> (case map_of data jsonpath of None \<Rightarrow> '''' | Some v \<Rightarrow> v))
                 else if kind = ''service'' \<or> kind = ''svc''
                 then (case service_json K namespace name of Inl err \<Rightarrow> '''' | Inr json \<Rightarrow> gjson K json jsonpath)
                 else '''')"

definition JSONPath :: "('v \<Rightarrow> gerror + string) \<Rightarrow> (string \<Rightarrow> string \<Rightarrow> string) \<Rightarrow> 'v \<Rightarrow> string \<Rightarrow> string" where
  "JSONPath marshal gjson_get object jsonpath =
     (case marshal object of Inl err \<Rightarrow> '''' | Inr json \<Rightarrow> gjson_get json jsonpath)"

section \<open>Templating a text\<close>

text \<open>
  The engine: \<open>funcs\<close> is \<open>FuncMap\<close>, \<open>parse\<close> parses a template with delimiters, \<open>None\<close> for the default
  ones, \<open>reencode\<close> turns the variables into a map by way of YAML, and \<open>execute\<close> runs a template.
\<close>

record ('f, 't, 'v) engine =
  funcs :: "'f Functions \<Rightarrow> 'f func_map"
  parse :: "(string \<times> string) option \<Rightarrow> 'f func_map \<Rightarrow> string \<Rightarrow> gerror + 't"
  reencode_vars :: "'v \<Rightarrow> gerror + 'v"
  execute :: "'t \<Rightarrow> 'v \<Rightarrow> gerror + string"

definition first_line :: "string \<Rightarrow> string" where
  "first_line s = hd (Split s (CHR 0x0A))"

definition Functions_Template :: "('f, 't, 'v) engine \<Rightarrow> 'f Functions \<Rightarrow> string \<Rightarrow> 'v \<Rightarrow> string \<times> gerror option" where
  "Functions_Template E f template vars =
     (if TrimSpace template = '''' then ('''', None)
      else let delims = (if LeftDelim f \<noteq> '''' then Some (LeftDelim f, RightDelim f) else None)
           in case parse E delims (funcs E f) template of
             Inl err \<Rightarrow> ('''', Some (errorf (''invalid template '' @ first_line template @ '': '' @ Error err)))
           | Inr tpl \<Rightarrow>
               (case reencode_vars E vars of
                  Inl err \<Rightarrow> ('''', Some err)
                | Inr unstructured \<Rightarrow>
                    (case execute E tpl unstructured of
                       Inl err \<Rightarrow> ('''', Some (errorf (''error executing template '' @ first_line template @ '': '' @ Error err)))
                     | Inr out \<Rightarrow> (out, None))))"

section \<open>Templating a structure\<close>

record ('f, 'v) StructTemplater =
  Values :: "(string \<times> 'v) list"
  IgnoreFields :: "(string \<times> string) list"
  Funcs :: "'f func_map option"
  DelimSets :: "(string \<times> string) list"
  ValueFunctions :: bool
  RequiredTag :: string

text \<open>
  The functions made for a call: \<open>const_fun v\<close> is the function without arguments that returns \<open>v\<close>.
  The map \<open>Custom\<close> is the map \<open>Funcs\<close> itself, unless that is nil, so the functions added for the
  values are added to \<open>Funcs\<close> too: the second component is \<open>Funcs\<close> afterwards. (The templater
  keeps no functions from one call to the next, since the method has a value receiver.)
\<close>

definition make_functions :: "('v \<Rightarrow> 'f) \<Rightarrow> ('f, 'v) StructTemplater \<Rightarrow> 'f Functions \<times> 'f func_map option" where
  "make_functions const_fun w =
     (if ValueFunctions w
      then let custom = fold (\<lambda>(k, v). AList.update k (const_fun v)) (Values w) (the_map (Funcs w))
           in (NewFunctions\<lparr>Custom := Some custom\<rparr>, if Funcs w = None then None else Some custom)
      else (NewFunctions\<lparr>Custom := Funcs w\<rparr>, Funcs w))"

fun template_delims ::
  "('f, 't, 'vs) engine \<Rightarrow> 'f Functions \<Rightarrow> 'vs \<Rightarrow> (string \<times> string) list \<Rightarrow> string \<Rightarrow> string \<times> gerror option" where
  "template_delims E f vars [] val = (val, None)"
| "template_delims E f vars ((l, r) # delims) val =
     (case Functions_Template E (f\<lparr>LeftDelim := l, RightDelim := r\<rparr>) val vars of
        (val, Some err) \<Rightarrow> (val, Some err)
      | (val, None) \<Rightarrow> template_delims E f vars delims val)"

text \<open>\<open>vars\<close> is the map \<open>Values\<close> as the engine takes it.\<close>

definition Struct_Template ::
  "('f, 't, 'vs) engine \<Rightarrow> ('v \<Rightarrow> 'f) \<Rightarrow> ((string \<times> 'v) list \<Rightarrow> 'vs) \<Rightarrow> ('f, 'v) StructTemplater \<Rightarrow> string
     \<Rightarrow> (string \<times> gerror option) \<times> 'f func_map option" where
  "Struct_Template E const_fun vars w val =
     (if TrimSpace val = '''' then ((val, None), Funcs w)
      else let (f, custom) = make_functions const_fun w;
               delims = (if length (DelimSets w) = 0 then [(''{{'', ''}}'')] else DelimSets w)
           in (template_delims E f (vars (Values w)) delims val, custom))"

text \<open>
  A field: whether it can be set, its name, the name of its type, its tags and its value. Keys and
  values of a map that are not strings are kept as they are. The order of a map is that of the walk
  over its keys.
\<close>

datatype 'x field_value =
    StringField string
  | MapField "((string + 'x) \<times> (string + 'x)) list"
  | OtherField 'x

record 'x field =
  can_set :: bool
  f_name :: string
  f_type :: string
  f_tag :: "string \<Rightarrow> string"
  f_value :: "'x field_value"

datatype walk_result = Continue | SkipEntry | Fail gerror

definition template_part :: "(string \<Rightarrow> string \<times> gerror option) \<Rightarrow> string + 'x \<Rightarrow> gerror + (string + 'x)" where
  "template_part tmpl v =
     (case v of
        Inl s \<Rightarrow> (case tmpl s of (t, None) \<Rightarrow> Inr (Inl t) | (t, Some err) \<Rightarrow> Inl err)
      | Inr x \<Rightarrow> Inr (Inr x))"

fun template_map ::
  "(string \<Rightarrow> string \<times> gerror option) \<Rightarrow> ((string + 'x) \<times> (string + 'x)) list \<Rightarrow> ((string + 'x) \<times> (string + 'x)) list
     \<Rightarrow> gerror + ((string + 'x) \<times> (string + 'x)) list" where
  "template_map tmpl [] newMap = Inr newMap"
| "template_map tmpl ((key, val) # entries) newMap =
     (case template_part tmpl key of
        Inl err \<Rightarrow> Inl err
      | Inr newKey \<Rightarrow>
          (case template_part tmpl val of
             Inl err \<Rightarrow> Inl err
           | Inr newVal \<Rightarrow> template_map tmpl entries (AList.update newKey newVal newMap)))"

definition StructField ::
  "(string \<Rightarrow> string \<times> gerror option) \<Rightarrow> ('f, 'v) StructTemplater \<Rightarrow> 'x field \<Rightarrow> 'x field \<times> walk_result" where
  "StructField tmpl w f =
     (if \<not> can_set f then (f, Continue)
      else if list_ex (\<lambda>(key, v). key = f_name f \<and> v = f_type f) (IgnoreFields w) then (f, SkipEntry)
      else if RequiredTag w \<noteq> '''' \<and> f_tag f (RequiredTag w) \<noteq> ''true'' then (f, SkipEntry)
      else case f_value f of
        StringField s \<Rightarrow>
          (case tmpl s of
             (val, Some err) \<Rightarrow> (f, Fail err)
           | (val, None) \<Rightarrow> (f\<lparr>f_value := StringField val\<rparr>, Continue))
      | MapField entries \<Rightarrow>
          if length entries \<noteq> 0
          then (case template_map tmpl entries [] of
                  Inl err \<Rightarrow> (f, Fail err)
                | Inr newMap \<Rightarrow> (f\<lparr>f_value := MapField newMap\<rparr>, Continue))
          else (f, Continue)
      | OtherField x \<Rightarrow> (f, Continue))"

section \<open>Markdown tables\<close>

text \<open>The nodes of a document that the code tells apart; \<open>MNode\<close> is any other one.\<close>

datatype md =
    MText string
  | MLink string "md list"
  | MRow "md list"
  | MHeader "md list"
  | MBody "md list"
  | MTable "md list"
  | MDocument "md list"
  | MNode "md list"

fun children :: "md \<Rightarrow> md list" where
  "children (MText s) = []"
| "children (MLink d ns) = ns"
| "children (MRow ns) = ns"
| "children (MHeader ns) = ns"
| "children (MBody ns) = ns"
| "children (MTable ns) = ns"
| "children (MDocument ns) = ns"
| "children (MNode ns) = ns"

lemma size_member: "(x :: md) \<in> set xs \<Longrightarrow> size x < Suc (size_list size xs)"
  by (induction xs) auto

lemma size_children [termination_simp]: "n \<in> set (children m) \<Longrightarrow> size n < size m"
  using size_member [of n "children m"] by (cases m) auto

record MarkdownTable =
  Columns :: "string list"
  Rows :: "string list list"

fun extractMultipleRowCell :: "md list \<Rightarrow> string" where
  "extractMultipleRowCell [] = ''''"
| "extractMultipleRowCell (c # cs) =
     (case c of
        MText content \<Rightarrow> if content \<noteq> '''' then content else extractMultipleRowCell cs
      | MLink destination _ \<Rightarrow> destination
      | _ \<Rightarrow> extractMultipleRowCell cs)"

definition row_cell :: "md \<Rightarrow> string" where
  "row_cell c = (if length (children c) = 0 then '''' else extractMultipleRowCell (children c))"

function extractTableRow :: "md \<Rightarrow> string list list" where
  "extractTableRow node =
     (case node of
        MRow cells \<Rightarrow> [map row_cell cells]
      | _ \<Rightarrow> concat (map extractTableRow (children node)))"
  by pat_completeness auto

termination extractTableRow
  by (relation "measure size") (auto simp: size_member)

declare extractTableRow.simps [simp del]

definition extractTableBody :: "md list \<Rightarrow> string list list" where
  "extractTableBody ns = concat (map extractTableRow ns)"

text \<open>A header skips one level: the children of a child that is no text are searched, not the child.\<close>

fun text_of :: "md \<Rightarrow> string option" where
  "text_of (MText s) = Some s"
| "text_of _ = None"

function extractTableHeader :: "md \<Rightarrow> string list" where
  "extractTableHeader node =
     concat (map (\<lambda>c. case text_of c of
         Some s \<Rightarrow> if s \<noteq> '''' then [s] else []
       | None \<Rightarrow> concat (map extractTableHeader (children c))) (children node))"
  by pat_completeness auto

termination extractTableHeader
  by (relation "measure size") (auto dest!: size_children)

declare extractTableHeader.simps [simp del]

definition extractTable :: "md list \<Rightarrow> MarkdownTable" where
  "extractTable ns = fold (\<lambda>n table. case n of
       MHeader _ \<Rightarrow> table\<lparr>Columns := extractTableHeader n\<rparr>
     | MBody rs \<Rightarrow> table\<lparr>Rows := extractTableBody rs\<rparr>
     | _ \<Rightarrow> table) ns \<lparr>Columns = [], Rows = []\<rparr>"

fun extractTextFromNode :: "md \<Rightarrow> MarkdownTable list option" where
  "extractTextFromNode (MDocument ns) =
     Some (concat (map (\<lambda>t. case t of None \<Rightarrow> [] | Some tt \<Rightarrow> tt) (map extractTextFromNode ns)))"
| "extractTextFromNode (MTable ns) = Some [extractTable ns]"
| "extractTextFromNode _ = None"

definition ParseMarkdownTables :: "(string \<Rightarrow> md) \<Rightarrow> string \<Rightarrow> MarkdownTable list option" where
  "ParseMarkdownTables parser input = extractTextFromNode (parser input)"

section \<open>Properties\<close>

lemma map_of_fold_update:
  "map_of (fold (\<lambda>(k, v). AList.update k v) new m) k = (case map_of (rev new) k of Some v \<Rightarrow> Some v | None \<Rightarrow> map_of m k)"
  by (induction new arbitrary: m) (auto simp: update_conv' map_add_def split: option.splits)

lemma map_of_fold_add:
  "map_of (fold (\<lambda>(k, v) fm. if map_of fm k = None then AList.update k v fm else fm) new m) k
     = (case map_of m k of Some v \<Rightarrow> Some v | None \<Rightarrow> map_of new k)"
proof (induction new arbitrary: m)
  case (Cons kv new)
  obtain k' v where "kv = (k', v)" by force
  with Cons show ?case by (cases "map_of m k' = None") (auto simp: update_conv' split: option.split)
qed (simp split: option.split)

lemma map_of_rev_distinct: "distinct (map fst xs) \<Longrightarrow> map_of (rev xs) = map_of xs"
  by (subst map_of_inject_set) (simp_all flip: rev_map)

text \<open>
  Which function a name stands for: a custom function wins over the own three, these over those of
  gomplate, and the common functions only fill in names that are left.
\<close>

theorem FuncMap_precedence:
  assumes "distinct (map fst (the_map (Custom f)))"
  shows "map_of (FuncMap gomplate common kget jsonPath parseMarkdownTables f) name =
    (case map_of (the_map (Custom f)) name of
       Some v \<Rightarrow> Some v
     | None \<Rightarrow>
         if name = ''kget'' then Some kget
         else if name = ''jsonPath'' then Some jsonPath
         else if name = ''parseMarkdownTables'' then Some parseMarkdownTables
         else case map_of gomplate name of Some v \<Rightarrow> Some v | None \<Rightarrow> map_of common name)"
  using assms
  by (simp add: FuncMap_def map_of_fold_add map_of_fold_update map_of_rev_distinct update_conv' split: option.split)

lemma FuncMap_precedence_witness:
  "map_of (FuncMap [(''kget'', 1)] [(''f'', 2)] (3 :: nat) 4 5
     \<lparr>RightDelim = '''', LeftDelim = '''', Custom = Some [(''jsonPath'', 6)]\<rparr>) ''jsonPath'' = Some 6"
  using FuncMap_precedence [of "\<lparr>RightDelim = '''', LeftDelim = '''', Custom = Some [(''jsonPath'', 6 :: nat)]\<rparr>"
      "[(''kget'', 1)]" "[(''f'', 2)]" 3 4 5 "''jsonPath''"]
  by (simp add: the_map_def)

text \<open>
  Templating a text with functions for the values adds a function for every value to the map of
  functions that the caller gave, and it stays there after the call.
\<close>

theorem Struct_Template_leaks_values:
  assumes "ValueFunctions w" and "Funcs w = Some fs" and "distinct (map fst (Values w))" and "TrimSpace val \<noteq> ''''"
    and "map_of (Values w) k = Some v"
  shows "\<exists>fs'. snd (Struct_Template E const_fun vars w val) = Some fs' \<and> map_of fs' k = Some (const_fun v)"
proof -
  have fold: "fold (\<lambda>(k, v). AList.update k (const_fun v)) kvs m =
      fold (\<lambda>(k, f). AList.update k f) (map (\<lambda>(k, v). (k, const_fun v)) kvs) m" for kvs :: "(string \<times> _) list" and m
    by (induction kvs arbitrary: m) auto
  have "distinct (map fst (map (\<lambda>(k, v). (k, const_fun v)) (Values w)))"
    using assms(3) by (simp add: comp_def case_prod_unfold)
  from map_of_rev_distinct [OF this]
  have "map_of (rev (map (\<lambda>(k, v). (k, const_fun v)) (Values w))) k = Some (const_fun v)"
    using assms(5) by (simp only:) (simp add: map_of_map)
  then show ?thesis
    using assms(1,2,4) by (simp add: Struct_Template_def make_functions_def fold map_of_fold_update Let_def)
qed

text \<open>
  Visiting a field changes nothing but its value, and not even that where the field cannot be set,
  is ignored, misses the required tag, is neither a string nor a map, or where templating fails on any
  part of it: a map is replaced only when all its keys and values could be templated.
\<close>

theorem StructField_frame:
  "case StructField tmpl w f of (f', r) \<Rightarrow>
     f' = f\<lparr>f_value := f_value f'\<rparr>
     \<and> (r \<noteq> Continue \<or> \<not> can_set f \<or> (\<exists>x. f_value f = OtherField x) \<longrightarrow> f' = f)
     \<and> (can_set f \<and> (f_name f, f_type f) \<in> set (IgnoreFields w) \<longrightarrow> r = SkipEntry)"
  by (auto simp: StructField_def list_ex_iff split: field_value.split sum.split option.split prod.split)

definition text_cell :: "string \<Rightarrow> md" where
  "text_cell s = MNode [MText s]"

lemma header_of_texts:
  "'''' \<notin> set names \<Longrightarrow> extractTableHeader (MHeader [MRow (map text_cell names)]) = names"
proof -
  assume ne: "'''' \<notin> set names"
  have "extractTableHeader (text_cell s) = (if s \<noteq> '''' then [s] else [])" for s
    by (simp add: extractTableHeader.simps text_cell_def)
  with ne have "concat (map (extractTableHeader \<circ> text_cell) names) = names"
    by (induction names) auto
  then show ?thesis by (simp add: extractTableHeader.simps [of "MHeader _"])
qed

lemma extractTableBody_rows: "extractTableBody (map MRow rows) = map (map row_cell) rows"
  by (induction rows) (auto simp: extractTableBody_def extractTableRow.simps)

text \<open>
  A table whose header has one row of cells, each a text, has as columns these texts, and every
  row has one entry for each of its cells.
\<close>

theorem extractTable_regular:
  assumes "'''' \<notin> set names"
  shows "extractTextFromNode (MDocument [MTable [MHeader [MRow (map text_cell names)], MBody (map MRow rows)]])
    = Some [\<lparr>Columns = names, Rows = map (map row_cell) rows\<rparr>]"
  using header_of_texts [OF assms] by (simp add: extractTable_def extractTableBody_rows)

lemma extractTable_regular_witness:
  "extractTextFromNode (MDocument [MTable [MHeader [MRow [text_cell ''API'', text_cell ''Auth'']],
      MBody [MRow [MNode [MLink ''https://x'' [MText ''X'']], MNode []]]]])
    = Some [\<lparr>Columns = [''API'', ''Auth''], Rows = [[''https://x'', '''']]\<rparr>]"
  using extractTable_regular [of "[''API'', ''Auth'']" "[[MNode [MLink ''https://x'' [MText ''X'']], MNode []]]"]
  by (simp add: row_cell_def)

text \<open>
  A header cell that is a link or empty gives no column, but the cells under it stay: the columns
  after it no longer stand over their cells.
\<close>

theorem extractTable_misaligned:
  assumes "c = MNode [MLink destination [MText t]] \<or> c = MNode []" and "'''' \<notin> set names"
  shows "\<exists>table. extractTextFromNode (MDocument [MTable [MHeader [MRow (c # map text_cell names)], MBody [MRow (x # cells)]]])
      = Some [table] \<and> Columns table = names \<and> Rows table = [row_cell x # map row_cell cells]"
proof -
  have "extractTableHeader c = []"
    using assms(1) by (auto simp: extractTableHeader.simps)
  then have "extractTableHeader (MHeader [MRow (c # map text_cell names)]) = names"
    using header_of_texts [OF assms(2)] by (simp add: extractTableHeader.simps [of "MHeader _"])
  then show ?thesis
    using extractTableBody_rows [of "[x # cells]"] by (simp add: extractTable_def)
qed

lemma extractTable_misaligned_witness:
  "\<exists>table. extractTextFromNode (MDocument [MTable [MHeader [MRow [MNode [], text_cell ''Auth'']],
      MBody [MRow [text_cell ''x'', text_cell ''y'']]]]) = Some [table]
    \<and> Columns table = [''Auth''] \<and> Rows table = [[''x'', ''y'']]"
  using extractTable_misaligned [of "MNode []" "''''" "''''" "[''Auth'']" "text_cell ''x''" "[text_cell ''y'']"]
  by (simp add: row_cell_def text_cell_def)

text \<open>An engine that returns its template.\<close>

definition plain_engine :: "(nat, string, unit) engine" where
  "plain_engine = \<lparr>funcs = (\<lambda>f. the_map (Custom f)), parse = (\<lambda>_ _ s. Inr s), reencode_vars = Inr, execute = (\<lambda>t _. Inr t)\<rparr>"

definition value_templater :: "(nat, nat) StructTemplater" where
  "value_templater = \<lparr>Values = [(''port'', 8080)], IgnoreFields = [(''Secret'', ''string'')], Funcs = Some [(''add'', 1)],
     DelimSets = [], ValueFunctions = True, RequiredTag = ''''\<rparr>"

lemma Struct_Template_leaks_values_witness:
  "\<exists>fs'. snd (Struct_Template plain_engine (\<lambda>v. v) (\<lambda>_. ()) value_templater ''{{port}}'') = Some fs' \<and> map_of fs' ''port'' = Some 8080"
  by (rule Struct_Template_leaks_values [of value_templater "[(''add'', 1)]"])
    (simp_all add: value_templater_def TrimSpace_def trim_by_def is_space_def)

lemma StructField_frame_witness:
  "snd (StructField (\<lambda>s. (s @ s, None)) value_templater
     \<lparr>can_set = True, f_name = ''Secret'', f_type = ''string'', f_tag = (\<lambda>_. ''''), f_value = (StringField ''x'' :: nat field_value)\<rparr>)
     = SkipEntry"
  using StructField_frame [where tmpl = "\<lambda>s. (s @ s, None)" and w = value_templater
      and f = "\<lparr>can_set = True, f_name = ''Secret'', f_type = ''string'', f_tag = (\<lambda>_. ''''), f_value = (StringField ''x'' :: nat field_value)\<rparr>"]
  by (simp add: value_templater_def split: prod.splits)

end
