(* ===== verification/Cluster_Tests.thy ===== *)
theory Cluster_Tests
  imports Pods
begin

text \<open>
  The checks of \<open>tests.go\<close> that report into a \<open>console.TestResults\<close>: of the pods of a deployment, a
  stateful set, a daemon set or a namespace.

  The results are the list of what was reported, in order. The answers of the cluster are parameters;
  a list that fails is empty, and a typed read that fails gives an empty object.
\<close>

section \<open>Results\<close>

datatype report = Failf string string | Passf string string

record event =
  ev_type :: string
  ev_reason :: string
  ev_message :: string

text \<open>
  \<open>workload\<close> reads a workload by kind, namespace and name: its error and the labels its selector
  stands for, which are empty for an empty object. \<open>pods_by_labels\<close> lists by labels, \<open>ns_pods\<close> lists
  a namespace, and \<open>format_text\<close> is what formatting makes of a text without arguments.
\<close>

record test_cluster =
  workload :: "string \<Rightarrow> string \<Rightarrow> string \<Rightarrow> gerror option \<times> (string \<times> string) list"
  pods_by_labels :: "string \<Rightarrow> (string \<times> string) list \<Rightarrow> pod list"
  ns_pods :: "string \<Rightarrow> gerror + pod list"
  ns_error :: "string \<Rightarrow> gerror option"
  pod_events :: "string \<Rightarrow> string \<Rightarrow> gerror + event list"
  format_text :: "string \<Rightarrow> string"

section \<open>Pods\<close>

text \<open>A nil client is \<open>None\<close>. The events are those of the namespace that the callers give.\<close>

definition TestPod :: "string \<Rightarrow> test_cluster option \<Rightarrow> string \<Rightarrow> pod \<Rightarrow> gerror option" where
  "TestPod testName client events_ns p =
     (case client of
        None \<Rightarrow> Some (errorf (testName @ '': failed to get kubernetes client''))
      | Some T \<Rightarrow>
          if phase p = ''Running'' \<or> phase p = ''Succeeded'' then None
          else case pod_events T events_ns (pod_name p) of
            Inl err \<Rightarrow> Some (errorf (pod_name p @ '' => '' @ phase p @ '', failed to get events '' @ Error err))
          | Inr events \<Rightarrow>
              let msg = fold (\<lambda>e msg. if ev_type e = ''Normal'' then msg
                    else msg @ ev_reason e @ '': '' @ ev_message e @ '' '') events '''';
                  msg = (if node_name p = '''' then msg @ ''nodeName=<blank>: pod not scheduled yet '' else msg)
              in Some (errorf (pod_namespace p @ ''/'' @ pod_name p @ ''='' @ phase p @ '' '' @ msg @ '' '')))"

definition TrimSuffix :: "string \<Rightarrow> string \<Rightarrow> string" where
  "TrimSuffix s suf = (if HasSuffix s suf then take (length s - length suf) s else s)"

fun failures :: "(pod \<Rightarrow> gerror option) \<Rightarrow> pod list \<Rightarrow> gerror list" where
  "failures test [] = []"
| "failures test (p # ps) = (case test p of None \<Rightarrow> failures test ps | Some err \<Rightarrow> err # failures test ps)"

definition TestPodsByLabels ::
  "test_cluster option \<Rightarrow> string \<Rightarrow> string \<Rightarrow> (string \<times> string) list \<Rightarrow> report list" where
  "TestPodsByLabels client testName ns labelMap =
     (case client of
        None \<Rightarrow> [Failf testName ''failed to get kubernetes client'']
      | Some T \<Rightarrow>
          let ps = pods_by_labels T ns labelMap
          in if length ps = 0 then [Failf testName (''No pods found for '' @ testName)]
             else let fails = failures (TestPod testName client ns) ps;
                      failed = (if length fails > 0
                        then let message = ''['' @ testName @ ''] '' @ nat_dec (length fails) @ '' of ''
                                   @ nat_dec (length ps) @ '' pods failed: '';
                                 message = fold (\<lambda>err m. m @ Error err @ ''. '') fails message;
                                 message = TrimSuffix message '' ''
                             in [Failf testName (format_text T message)]
                        else [])
                  in failed @ [Passf testName (''['' @ testName @ ''] '' @ nat_dec (length ps) @ '' of ''
                       @ nat_dec (length ps) @ '' pods passed'')])"

section \<open>Workloads\<close>

definition test_workload :: "string \<Rightarrow> string \<Rightarrow> test_cluster option \<Rightarrow> string \<Rightarrow> string \<Rightarrow> report list" where
  "test_workload kind missing client ns name =
     (case client of
        None \<Rightarrow> [Failf name ''failed to get kubernetes client'']
      | Some T \<Rightarrow>
          (let (err, labelMap) = workload T kind ns name
           in if not_found_err err then [Failf name missing]
              else TestPodsByLabels client name ns labelMap))"

definition TestDeploy :: "test_cluster option \<Rightarrow> string \<Rightarrow> string \<Rightarrow> report list" where
  "TestDeploy = test_workload ''Deployment'' ''deployment not found''"

definition TestStatefulSet :: "test_cluster option \<Rightarrow> string \<Rightarrow> string \<Rightarrow> report list" where
  "TestStatefulSet = test_workload ''StatefulSet'' ''statefulset not found''"

definition TestDaemonSet :: "test_cluster option \<Rightarrow> string \<Rightarrow> string \<Rightarrow> report list" where
  "TestDaemonSet = test_workload ''DaemonSet'' ''daemonset not found''"

section \<open>Namespaces\<close>

definition GetOwner :: "pod \<Rightarrow> string" where
  "GetOwner p = pod_name p"

fun test_pods :: "(pod \<Rightarrow> gerror option) \<Rightarrow> string \<Rightarrow> pod list \<Rightarrow> nat \<Rightarrow> report list \<times> nat" where
  "test_pods test ns [] failed = ([], failed)"
| "test_pods test ns (p # ps) failed =
     (case test p of
        None \<Rightarrow> test_pods test ns ps failed
      | Some err \<Rightarrow>
          (let (out, n) = test_pods test ns ps (failed + 1)
           in (Failf ns (GetOwner p @ '' '' @ Error err) # out, n)))"

definition TestNamespace :: "test_cluster option \<Rightarrow> string \<Rightarrow> report list" where
  "TestNamespace client ns =
     (case client of
        None \<Rightarrow> [Failf ns ''failed to get kubernetes client'']
      | Some T \<Rightarrow>
          (case ns_pods T ns of
             Inl err \<Rightarrow> [Failf ns (''Failed to get pods for '' @ ns @ '': '' @ Error err)]
           | Inr ps \<Rightarrow>
               if length ps = 0
               then if not_found_err (ns_error T ns)
                    then [Failf ns (''['' @ ns @ ''] namespace not found, skipping'')]
                    else [Failf ns (''['' @ ns @ ''] Expected pods but none running'')]
               else let (out, failed) = test_pods (TestPod ns client ns) ns ps 0
                    in out @ (if failed > 0
                       then [Failf ns (''['' @ ns @ ''] '' @ nat_dec failed @ '' of '' @ nat_dec (length ps) @ '' pods failed: '')]
                       else [Passf ns (''['' @ ns @ ''] '' @ nat_dec (length ps) @ '' of '' @ nat_dec (length ps) @ '' pods passed'')])))"

section \<open>Properties\<close>

definition passes :: "report list \<Rightarrow> bool" where
  "passes rs \<longleftrightarrow> list_ex (\<lambda>r. case r of Passf _ _ \<Rightarrow> True | Failf _ _ \<Rightarrow> False) rs"

definition fails :: "report list \<Rightarrow> bool" where
  "fails rs \<longleftrightarrow> list_ex (\<lambda>r. case r of Passf _ _ \<Rightarrow> False | Failf _ _ \<Rightarrow> True) rs"

lemma TestPod_None: "TestPod t (Some T) ns p = None \<longleftrightarrow> phase p = ''Running'' \<or> phase p = ''Succeeded''"
  by (auto simp: TestPod_def Let_def split: sum.split)

lemma failures_Nil: "failures test ps = [] \<longleftrightarrow> (\<forall>p\<in>set ps. test p = None)"
  by (induction ps) (auto split: option.splits)

lemma test_pods_exact:
  "snd (test_pods test ns ps n) = n + length (failures test ps)
   \<and> fst (test_pods test ns ps n) = map (\<lambda>(p, err). Failf ns (GetOwner p @ '' '' @ Error err))
       (concat (map (\<lambda>p. case test p of None \<Rightarrow> [] | Some err \<Rightarrow> [(p, err)]) ps))"
  by (induction ps arbitrary: n) (auto simp: case_prod_unfold Let_def split: option.split)

lemma test_pods_reports:
  "fst (test_pods (TestPod ns (Some T) ns) ns ps n)
   = map (\<lambda>p. Failf ns (GetOwner p @ '' '' @ Error (the (TestPod ns (Some T) ns p))))
       (filter (\<lambda>p. phase p \<noteq> ''Running'' \<and> phase p \<noteq> ''Succeeded'') ps)"
proof (induction ps arbitrary: n)
  case Nil
  show ?case by simp
next
  case (Cons p ps)
  show ?case
    using TestPod_None [of ns T ns p] Cons.IH
    by (cases "TestPod ns (Some T) ns p") (auto simp: case_prod_unfold Let_def)
qed

text \<open>
  C40. A namespace passes exactly when its pods can be listed, there are some, and all run or have
  succeeded; it fails exactly when it does not pass. Where there are pods, what comes before the
  summary is one report for each pod that neither runs nor has succeeded, in their order, with its
  name and the error of its check.
\<close>

theorem TestNamespace_exact:
  "(passes (TestNamespace (Some T) ns) \<longleftrightarrow>
      (\<exists>ps. ns_pods T ns = Inr ps \<and> ps \<noteq> [] \<and> (\<forall>p\<in>set ps. phase p = ''Running'' \<or> phase p = ''Succeeded'')))
   \<and> (fails (TestNamespace (Some T) ns) \<longleftrightarrow> \<not> passes (TestNamespace (Some T) ns))
   \<and> (\<forall>ps. ns_pods T ns = Inr ps \<and> ps \<noteq> [] \<longrightarrow>
        butlast (TestNamespace (Some T) ns)
        = map (\<lambda>p. Failf ns (GetOwner p @ '' '' @ Error (the (TestPod ns (Some T) ns p))))
            (filter (\<lambda>p. phase p \<noteq> ''Running'' \<and> phase p \<noteq> ''Succeeded'') ps))"
proof (cases "ns_pods T ns")
  case (Inl err)
  then show ?thesis by (simp add: TestNamespace_def passes_def fails_def)
next
  case (Inr ps)
  let ?t = "TestPod ns (Some T) ns"
  have some: "concat (map (\<lambda>p. case ?t p of None \<Rightarrow> [] | Some err \<Rightarrow> [(p, err)]) ps) = [] \<longleftrightarrow> failures ?t ps = []"
    by (induction ps) (auto split: option.split)
  have all: "failures ?t ps = [] \<longleftrightarrow> (\<forall>p\<in>set ps. phase p = ''Running'' \<or> phase p = ''Succeeded'')"
    by (simp add: failures_Nil TestPod_None)
  have reports: "\<forall>ps. ns_pods T ns = Inr ps \<and> ps \<noteq> [] \<longrightarrow>
        butlast (TestNamespace (Some T) ns)
        = map (\<lambda>p. Failf ns (GetOwner p @ '' '' @ Error (the (TestPod ns (Some T) ns p))))
            (filter (\<lambda>p. phase p \<noteq> ''Running'' \<and> phase p \<noteq> ''Succeeded'') ps)"
    by (simp add: TestNamespace_def case_prod_unfold Let_def test_pods_reports butlast_append)
  have "(passes (TestNamespace (Some T) ns) \<longleftrightarrow>
      (\<exists>ps. ns_pods T ns = Inr ps \<and> ps \<noteq> [] \<and> (\<forall>p\<in>set ps. phase p = ''Running'' \<or> phase p = ''Succeeded'')))
   \<and> (fails (TestNamespace (Some T) ns) \<longleftrightarrow> \<not> passes (TestNamespace (Some T) ns))"
  proof (cases "failures ?t ps = []")
    case True
    then have "fst (test_pods ?t ns ps 0) = []" and "snd (test_pods ?t ns ps 0) = 0"
      using some test_pods_exact [of ?t ns ps 0] by simp_all
    then show ?thesis using Inr True all
      by (auto simp: TestNamespace_def passes_def fails_def case_prod_unfold Let_def)
  next
    case False
    then have "fst (test_pods ?t ns ps 0) \<noteq> []" and "snd (test_pods ?t ns ps 0) > 0"
      and "\<not> passes (fst (test_pods ?t ns ps 0))"
      using some test_pods_exact [of ?t ns ps 0] by (auto simp: passes_def list_ex_iff)
    then show ?thesis using Inr False all
      by (auto simp: TestNamespace_def passes_def fails_def case_prod_unfold Let_def)
  qed
  with reports show ?thesis by blast
qed

text \<open>
  The check of pods by labels reports a pass for every selection that has a pod, also when it has
  just reported that pods failed: only the failure depends on the pods.
\<close>

theorem TestPodsByLabels_always_passes:
  "(passes (TestPodsByLabels (Some T) name ns labelMap) \<longleftrightarrow> pods_by_labels T ns labelMap \<noteq> [])
   \<and> (fails (TestPodsByLabels (Some T) name ns labelMap) \<longleftrightarrow>
        pods_by_labels T ns labelMap = []
        \<or> (\<exists>p\<in>set (pods_by_labels T ns labelMap). phase p \<noteq> ''Running'' \<and> phase p \<noteq> ''Succeeded''))"
  by (auto simp: TestPodsByLabels_def passes_def fails_def Let_def failures_Nil TestPod_None)

text \<open>
  A workload that could not be read, for any reason but its absence, is tested as if it had the
  empty selector: the pods without any label condition decide.
\<close>

theorem test_workload_read_error:
  assumes "workload T kind ns name = (Some err, [])" and "\<not> is_not_found err"
  shows "test_workload kind missing (Some T) ns name = TestPodsByLabels (Some T) name ns []"
  using assms by (simp add: test_workload_def)

definition example_pod :: "string \<Rightarrow> string \<Rightarrow> pod" where
  "example_pod name ph = \<lparr>pod_name = name, pod_namespace = ''db'', uid = '''', labels = Map.empty, annotations = Map.empty,
     deletion_timestamp = None, owner_references = [], controller = None, phase = ph, conditions = [],
     init_container_statuses = [], container_statuses = [], volumes = [], priority = None, node_name = ''''\<rparr>"

definition example_cluster :: test_cluster where
  "example_cluster = \<lparr>workload = (\<lambda>_ _ _. (Some (errorf ''forbidden''), [])),
     pods_by_labels = (\<lambda>_ _. [example_pod ''a'' ''Running'', example_pod ''b'' ''Pending'']),
     ns_pods = (\<lambda>_. Inr [example_pod ''a'' ''Running'', example_pod ''b'' ''Pending'']), ns_error = (\<lambda>_. None),
     pod_events = (\<lambda>_ _. Inr []), format_text = (\<lambda>s. s)\<rparr>"

lemma TestNamespace_exact_witness:
  "fails (TestNamespace (Some example_cluster) ''db'') \<and> \<not> passes (TestNamespace (Some example_cluster) ''db'')
   \<and> butlast (TestNamespace (Some example_cluster) ''db'')
     = [Failf ''db'' (''b '' @ Error (the (TestPod ''db'' (Some example_cluster) ''db'' (example_pod ''b'' ''Pending''))))]"
  using TestNamespace_exact [of example_cluster "''db''"]
  by (simp add: example_cluster_def example_pod_def GetOwner_def)

lemma test_workload_read_error_witness:
  "test_workload ''Deployment'' ''deployment not found'' (Some example_cluster) ''db'' ''web''
      = TestPodsByLabels (Some example_cluster) ''web'' ''db'' []"
  by (rule test_workload_read_error [where err = "errorf ''forbidden''"]) (simp_all add: example_cluster_def)

end
