(* ===== verification/Commands.thy ===== *)
theory Commands
  imports Waiting "HOL-Library.AList"
begin

text \<open>
  Running commands in the cluster (\<open>execute.go\<close>, with \<open>read\<close> and \<open>safeString\<close> of \<open>helper.go\<close>) and
  making kubeconfig files (\<open>kubeconfig.go\<close>).

  The SPDY executor, the pod API, the certificate library and the encoders are parameters.
\<close>

section \<open>Executing in a pod\<close>

text \<open>A nil buffer is \<open>None\<close>.\<close>

definition safeString :: "string option \<Rightarrow> string" where
  "safeString buf = (case buf of None \<Rightarrow> '''' | Some b \<Rightarrow> if length b = 0 then '''' else b)"

text \<open>The stream is opened and, unless that failed, read to its end.\<close>

definition read :: "gerror + gerror + string \<Rightarrow> string" where
  "read req =
     (case req of
        Inl err \<Rightarrow> ''Failed to stream logs '' @ Error err
      | Inr (Inl err) \<Rightarrow> ''Failed to stream logs '' @ Error err
      | Inr (Inr data) \<Rightarrow> data)"

text \<open>
  \<open>executor\<close> is the error of making the executor for a pod, container and command, and \<open>stream\<close> what
  it wrote to both streams and its error.
\<close>

definition ExecutePodf ::
  "gerror option \<Rightarrow> gerror option \<Rightarrow> (string \<Rightarrow> string \<Rightarrow> string \<Rightarrow> string list \<Rightarrow> gerror option)
     \<Rightarrow> (string \<Rightarrow> string \<Rightarrow> string \<Rightarrow> string list \<Rightarrow> string \<times> string \<times> gerror option)
     \<Rightarrow> string \<Rightarrow> string \<Rightarrow> string \<Rightarrow> string list \<Rightarrow> string \<times> string \<times> gerror option" where
  "ExecutePodf conn_err config executor stream namespace name container command =
     (case conn_err of
        Some err \<Rightarrow> ('''', '''', Some (errorf (''executePodf: Failed to get clientset: '' @ Error err)))
      | None \<Rightarrow>
          (case config of
             Some err \<Rightarrow> ('''', '''', Some (errorf (''ExecutePodf: Failed to get REST config: '' @ Error err)))
           | None \<Rightarrow>
               (case executor namespace name container command of
                  Some err \<Rightarrow> ('''', '''', Some (errorf (''ExecutePodf: Failed to get SPDY Executor: '' @ Error err)))
                | None \<Rightarrow>
                    (let (stdout, stderr, err) = stream namespace name container command;
                         out = safeString (Some stdout); errs = safeString (Some stderr)
                     in (case err of
                           Some e \<Rightarrow> (out, errs, Some (errorf (''exec returned an error: '' @ Error e)))
                         | None \<Rightarrow> (out, errs, None))))))"

section \<open>Executing on a node\<close>

record job_spec =
  js_restart :: string
  js_node :: string
  js_host_volumes :: "(string \<times> string) list"
  js_container :: string
  js_image :: string
  js_command :: "string list"
  js_mounts :: "(string \<times> string) list"
  js_privileged :: bool
  js_tolerate_all :: bool
  js_host_network :: bool
  js_host_pid :: bool
  js_host_ipc :: bool

definition NewCommandJob :: "string \<Rightarrow> string \<Rightarrow> job_spec" where
  "NewCommandJob node command = \<lparr>js_restart = ''Never'', js_node = node, js_host_volumes = [(''root'', ''/'')],
     js_container = ''shell'', js_image = ''docker.io/ubuntu:18.04'',
     js_command = [''sh'', ''-c'', ''chroot /chroot bash -c '' @ [CHR 0x22] @ command @ [CHR 0x22]],
     js_mounts = [(''root'', ''/chroot'')], js_privileged = True, js_tolerate_all = True,
     js_host_network = True, js_host_pid = True, js_host_ipc = True\<rparr>"

datatype exec_call =
    CreateJobPod string job_spec
  | AwaitJobPod string
  | ReadJobLogs string string
  | DeleteJobPod string

text \<open>
  The server: the name of the pod created and its first container, \<open>None\<close> where it has none, and
  the outcome of \<open>WaitForPod\<close> for the phase Succeeded, \<open>None\<close> being its panic.
\<close>

record exec_server =
  ex_conn :: "gerror option"
  ex_create :: "exec_call list \<Rightarrow> gerror + string \<times> string option"
  ex_await :: "exec_call list \<Rightarrow> string \<Rightarrow> gerror option option"
  ex_logs :: "exec_call list \<Rightarrow> string \<Rightarrow> gerror + gerror + string"

text \<open>The deferred deletion runs on every way out after the creation, a panic included.\<close>

definition Executef ::
  "exec_server \<Rightarrow> string \<Rightarrow> string \<Rightarrow> string \<Rightarrow> (exec_call list, (string \<times> gerror option) option) state" where
  "Executef S node timestamp command =
     (case ex_conn S of
        Some err \<Rightarrow> ret (Some ('''', Some (errorf (''executef: Failed to get clientset: '' @ Error err))))
      | None \<Rightarrow> do {
          let spec = NewCommandJob node command;
          p \<leftarrow> ask (CreateJobPod (''command-'' @ node @ ''-'' @ timestamp) spec) (ex_create S);
          (case p of
             Inl err \<Rightarrow> ret (Some ('''', Some (errorf (''executef: Failed to create pod: '' @ Error err))))
           | Inr (name, None) \<Rightarrow> do {
               _ \<leftarrow> tell (DeleteJobPod name);
               ret None
             }
           | Inr (name, Some container) \<Rightarrow> do {
               w \<leftarrow> ask (AwaitJobPod name) (\<lambda>log. ex_await S log name);
               (case w of
                  None \<Rightarrow> do {
                    _ \<leftarrow> tell (DeleteJobPod name);
                    ret None
                  }
                | Some err \<Rightarrow> do {
                    logs \<leftarrow> ask (ReadJobLogs name container) (\<lambda>log. ex_logs S log name);
                    _ \<leftarrow> tell (DeleteJobPod name);
                    ret (Some (case err of
                       Some e \<Rightarrow> (read logs, Some (errorf (''failed to execute command, pod did not complete: '' @ Error e)))
                     | None \<Rightarrow> (read logs, None)))
                  })
             })
        })"

section \<open>Kubeconfig files\<close>

record kube_cluster =
  Server :: string
  InsecureSkipTLSVerify :: bool

record kube_context =
  Cluster :: string
  AuthInfo :: string
  ctx_Namespace :: string

datatype auth_info = ClientCert string string | AuthProvider string "(string \<times> string) list"

record kube_config =
  Clusters :: "(string \<times> kube_cluster) list"
  Contexts :: "(string \<times> kube_context) list"
  AuthInfos :: "(string \<times> auth_info) list"
  CurrentContext :: string

text \<open>
  \<open>client_cert\<close> makes a certificate for a user and group and signs it for some time: the encoded key
  and certificate, or the error of signing. \<open>write\<close> is the encoder of the file.
\<close>

definition CreateKubeConfig ::
  "(string \<Rightarrow> string \<Rightarrow> int \<Rightarrow> gerror + string \<times> string) \<Rightarrow> (kube_config \<Rightarrow> gerror + 'file) \<Rightarrow>
     string \<Rightarrow> string \<Rightarrow> string \<Rightarrow> string \<Rightarrow> int \<Rightarrow> gerror + 'file" where
  "CreateKubeConfig client_cert write clusterName endpoint group_name user expiry =
     (let contextName = user @ ''@'' @ clusterName
      in case client_cert user group_name expiry of
           Inl err \<Rightarrow> Inl (errorf (''createKubeConfig: failed to sign certificate: '' @ Error err))
         | Inr (key, cert) \<Rightarrow>
             let endpoint = (if \<not> Contains endpoint '':'' then endpoint @ '':6443'' else endpoint)
             in write \<lparr>Clusters = [(clusterName, \<lparr>Server = ''https://'' @ endpoint, InsecureSkipTLSVerify = True\<rparr>)],
                  Contexts = [(contextName, \<lparr>Cluster = clusterName, AuthInfo = contextName, ctx_Namespace = ''kube-system''\<rparr>)],
                  AuthInfos = [(contextName, ClientCert key cert)], CurrentContext = contextName\<rparr>)"

text \<open>The arguments of the prefix test are those of the code: is the endpoint a prefix of the scheme.\<close>

definition oidc_url :: "string \<Rightarrow> string" where
  "oidc_url url = (if \<not> HasPrefix ''https://'' url then ''https://'' @ url else url)"

definition CreateOIDCKubeConfig ::
  "string \<Rightarrow> (kube_config \<Rightarrow> gerror + 'file) \<Rightarrow> string \<Rightarrow> string \<Rightarrow> string \<Rightarrow> string \<Rightarrow> string \<Rightarrow> string \<Rightarrow> gerror + 'file" where
  "CreateOIDCKubeConfig ca_base64 write clusterName endpoint idpURL idToken accessToken refreshToken =
     (let endpoint = oidc_url endpoint; idpURL = oidc_url idpURL; user = ''sso@'' @ clusterName
      in write \<lparr>Clusters = [(clusterName, \<lparr>Server = endpoint @ '':6443'', InsecureSkipTLSVerify = True\<rparr>)],
           Contexts = [(clusterName, \<lparr>Cluster = clusterName, AuthInfo = user, ctx_Namespace = ''''\<rparr>)],
           AuthInfos = [(user, AuthProvider ''oidc''
             [(''client-id'', ''kubernetes''), (''client-secret'', ''ZXhhbXBsZS1hcHAtc2VjcmV0''),
              (''extra-scopes'', ''offline_access openid profile email groups''),
              (''idp-certificate-authority-data'', ca_base64), (''idp-issuer-url'', idpURL),
              (''id-token'', idToken), (''access-token'', accessToken), (''refresh-token'', refreshToken)])],
           CurrentContext = clusterName\<rparr>)"

fun multi_loop ::
  "(string \<Rightarrow> gerror + string \<times> string) \<Rightarrow> string \<Rightarrow> (string \<times> string) list \<Rightarrow> kube_config \<Rightarrow> gerror + kube_config" where
  "multi_loop cert_for user [] cfg = Inr cfg"
| "multi_loop cert_for user ((clusterName, endpoint) # clusters) cfg =
     (case cert_for clusterName of
        Inl err \<Rightarrow> Inl (errorf (''createKubeConfig: failed to sign certificate: '' @ Error err))
      | Inr (key, cert) \<Rightarrow>
          let ctx = user @ ''@'' @ clusterName
          in multi_loop cert_for user clusters (cfg\<lparr>
               Clusters := AList.update clusterName \<lparr>Server = endpoint, InsecureSkipTLSVerify = True\<rparr> (Clusters cfg),
               Contexts := AList.update clusterName \<lparr>Cluster = clusterName, AuthInfo = ctx, ctx_Namespace = ''kube-system''\<rparr> (Contexts cfg),
               AuthInfos := AList.update ctx (ClientCert key cert) (AuthInfos cfg)\<rparr>))"

text \<open>The clusters are a map, in the order of the iteration; \<open>None\<close> stands for no file.\<close>

definition CreateMultiKubeConfig ::
  "(string \<Rightarrow> gerror + string \<times> string) \<Rightarrow> (kube_config \<Rightarrow> gerror + 'file) \<Rightarrow> (string \<times> string) list \<Rightarrow> string \<Rightarrow> gerror + 'file" where
  "CreateMultiKubeConfig cert_for write clusters user =
     (if length clusters < 1
      then Inl (errorf ''CreateMultiKubeConfig failed since it was given an empty cluster map'')
      else case multi_loop cert_for user clusters \<lparr>Clusters = [], Contexts = [], AuthInfos = [], CurrentContext = ''''\<rparr> of
        Inl err \<Rightarrow> Inl err
      | Inr cfg \<Rightarrow> write cfg)"

section \<open>Properties of commands\<close>

text \<open>
  C14. Once the pod of a command exists it is deleted, exactly once and as the last call, whatever the
  wait and the logs give; and nothing is deleted when the pod could not be created.
\<close>

theorem Executef_deletes:
  "let cs = drop (length log) (snd (run_state (Executef S node timestamp command) log))
   in (case (ex_conn S, ex_create S log) of
         (None, Inr (name, _)) \<Rightarrow> cs \<noteq> [] \<and> last cs = DeleteJobPod name \<and> (\<forall>n. DeleteJobPod n \<notin> set (butlast cs))
       | _ \<Rightarrow> \<forall>n. DeleteJobPod n \<notin> set cs)"
  by (auto simp: Executef_def Let_def split: option.split sum.split prod.split)

text \<open>
  C19. A command that fails on its node is reported as a success: when the pod's first poll before the
  deadline shows the phase Failed, \<open>Executef\<close> returns the logs without an error.
\<close>

theorem Executef_failed_pod_is_success:
  assumes "ex_conn S = None" and "ex_create S log = Inr (name, Some container)"
    and "WaitForPod False None name timeout [''Succeeded''] start fuel obs = Returned w"
    and "ex_await S (log @ [CreateJobPod (''command-'' @ node @ ''-'' @ timestamp) (NewCommandJob node command)]) name = w"
    and "fuel > 0" and "reply (obs 0) = (Some p, None)" and "\<not> expired start timeout (obs 0)" and "phase p = ''Failed''"
  shows "\<exists>logs. fst (run_state (Executef S node timestamp command) log) = Some (logs, None)"
proof -
  obtain n where "fuel = Suc n" using assms(5) by (cases fuel) auto
  then have "w = Some None" using assms(3,6-8) by (simp add: WaitForPod_def WaitForPod_body_def)
  then show ?thesis using assms(1,2,4) by (simp add: Executef_def Let_def)
qed

section \<open>Properties of kubeconfig files\<close>

text \<open>A context that can be used: its cluster and its user exist.\<close>

definition usable :: "kube_config \<Rightarrow> string \<Rightarrow> bool" where
  "usable cfg name = (case map_of (Contexts cfg) name of
     None \<Rightarrow> False
   | Some c \<Rightarrow> map_of (Clusters cfg) (Cluster c) \<noteq> None \<and> map_of (AuthInfos cfg) (AuthInfo c) \<noteq> None)"

lemma usable_update:
  assumes "usable cfg name" and "k = u @ ''@'' @ c"
  shows "usable (cfg\<lparr>Clusters := AList.update c x (Clusters cfg),
     Contexts := AList.update c \<lparr>Cluster = c, AuthInfo = k, ctx_Namespace = ns\<rparr> (Contexts cfg),
     AuthInfos := AList.update k a (AuthInfos cfg)\<rparr>) name"
  using assms by (auto simp: usable_def update_conv' split: option.splits)

lemma multi_loop_usable:
  "multi_loop cert_for user clusters cfg = Inr cfg' \<Longrightarrow> usable cfg n \<or> n \<in> fst ` set clusters \<Longrightarrow> usable cfg' n"
proof (induction clusters arbitrary: cfg)
  case (Cons p clusters)
  obtain c e where p: "p = (c, e)" by force
  let ?upd = "\<lambda>key cert. cfg\<lparr>
      Clusters := AList.update c \<lparr>Server = e, InsecureSkipTLSVerify = True\<rparr> (Clusters cfg),
      Contexts := AList.update c \<lparr>Cluster = c, AuthInfo = user @ ''@'' @ c, ctx_Namespace = ''kube-system''\<rparr> (Contexts cfg),
      AuthInfos := AList.update (user @ ''@'' @ c) (ClientCert key cert) (AuthInfos cfg)\<rparr>"
  obtain key cert where run: "multi_loop cert_for user clusters (?upd key cert) = Inr cfg'"
    using Cons.prems(1) by (auto simp: p Let_def split: sum.splits)
  have "usable (?upd key cert) c" by (simp add: usable_def update_conv')
  moreover have "usable cfg n \<Longrightarrow> usable (?upd key cert) n" by (rule usable_update) simp_all
  ultimately show ?case using Cons.IH [OF run] Cons.prems(2) by (auto simp: p)
qed auto

text \<open>
  Every cluster asked for gets a context that can be used in the file for many clusters, but no
  context is current: the current context is the empty name.
\<close>

theorem CreateMultiKubeConfig_usable:
  assumes "CreateMultiKubeConfig cert_for Inr clusters user = Inr cfg" and "n \<in> fst ` set clusters"
  shows "usable cfg n \<and> CurrentContext cfg = ''''"
proof -
  have current: "multi_loop cert_for user cs c = Inr c' \<Longrightarrow> CurrentContext c' = CurrentContext c" for cs c c'
    by (induction cs arbitrary: c) (auto simp: Let_def split: sum.splits)
  show ?thesis
    using assms multi_loop_usable [of cert_for user clusters _ cfg n] current
    by (auto simp: CreateMultiKubeConfig_def split: if_splits sum.splits)
qed

text \<open>
  The current context of a file for single sign-on can be used, but the scheme is put before an
  endpoint that has one already, since the prefix test has its arguments swapped.
\<close>

theorem OIDC_scheme_twice:
  assumes "CreateOIDCKubeConfig ca Inr name (''https://'' @ c # host) idp i a r = Inr cfg"
  shows "usable cfg (CurrentContext cfg)
     \<and> map_of (Clusters cfg) name = Some \<lparr>Server = ''https://https://'' @ c # host @ '':6443'', InsecureSkipTLSVerify = True\<rparr>"
  using assms by (auto simp: CreateOIDCKubeConfig_def oidc_url_def HasPrefix_def usable_def Let_def)

text \<open>
  The current context of a file with a client certificate can be used, and its server has a port:
  the default one is added exactly where the endpoint has no colon.
\<close>

theorem CreateKubeConfig_usable:
  assumes "CreateKubeConfig client_cert Inr name endpoint grp user expiry = Inr cfg"
  shows "usable cfg (CurrentContext cfg)
     \<and> (\<exists>s. map_of (Clusters cfg) name = Some s
          \<and> Server s = ''https://'' @ (if Contains endpoint '':'' then endpoint else endpoint @ '':6443''))"
  using assms by (auto simp: CreateKubeConfig_def usable_def Let_def split: sum.splits)

section \<open>Witnesses\<close>

definition example_exec :: exec_server where
  "example_exec = \<lparr>ex_conn = None, ex_create = (\<lambda>_. Inr (''pod'', Some ''shell'')), ex_await = (\<lambda>_ _. Some None),
     ex_logs = (\<lambda>_ _. Inr (Inr ''out''))\<rparr>"

definition failed_pod :: pod where
  "failed_pod = \<lparr>pod_name = ''pod'', pod_namespace = ''kube-system'', uid = '''', labels = Map.empty, annotations = Map.empty,
     deletion_timestamp = None, owner_references = [], controller = None, phase = ''Failed'', conditions = [],
     init_container_statuses = [], container_statuses = [], volumes = [], priority = None, node_name = ''''\<rparr>"

lemma Executef_deletes_witness:
  "last (drop (length []) (snd (run_state (Executef example_exec ''n'' ''1'' ''ls'') []))) = DeleteJobPod ''pod''"
  using Executef_deletes [of "[]" example_exec "''n''" "''1''" "''ls''"]
  by (simp add: example_exec_def Let_def)

lemma Executef_failed_pod_is_success_witness:
  "\<exists>logs. fst (run_state (Executef example_exec ''n'' ''1'' ''false'') []) = Some (logs, None)"
proof (rule Executef_failed_pod_is_success [where name = "''pod''" and container = "''shell''" and w = "Some None"
      and timeout = 60 and start = 0 and fuel = 1 and p = failed_pod
      and obs = "\<lambda>_. \<lparr>now = 1, reply = (Some failed_pod, None)\<rparr>"])
qed (simp_all add: example_exec_def failed_pod_def WaitForPod_def WaitForPod_body_def expired_def)

lemma CreateMultiKubeConfig_usable_witness:
  "\<exists>cfg. CreateMultiKubeConfig (\<lambda>_. Inr (''k'', ''c'')) Inr [(''a'', ''x''), (''b'', ''y'')] ''me'' = Inr cfg
     \<and> usable cfg ''a'' \<and> CurrentContext cfg = ''''"
proof -
  obtain cfg where cfg: "CreateMultiKubeConfig (\<lambda>_. Inr (''k'', ''c'')) Inr [(''a'', ''x''), (''b'', ''y'')] ''me'' = Inr cfg"
    by (simp add: CreateMultiKubeConfig_def Let_def)
  from CreateMultiKubeConfig_usable [OF this, of "''a''"] cfg show ?thesis by simp
qed

lemma OIDC_scheme_twice_witness:
  "\<exists>cfg. CreateOIDCKubeConfig '''' Inr ''prod'' ''https://k8s'' '''' '''' '''' '''' = Inr cfg
     \<and> map_of (Clusters cfg) ''prod'' = Some \<lparr>Server = ''https://https://k8s:6443'', InsecureSkipTLSVerify = True\<rparr>"
proof -
  obtain cfg where cfg: "CreateOIDCKubeConfig '''' Inr ''prod'' (''https://'' @ CHR ''k'' # ''8s'') '''' '''' '''' '''' = Inr cfg"
    by (simp add: CreateOIDCKubeConfig_def Let_def)
  from OIDC_scheme_twice [OF this] cfg show ?thesis by simp
qed

lemma CreateKubeConfig_usable_witness:
  "\<exists>cfg. CreateKubeConfig (\<lambda>_ _ _. Inr (''k'', ''c'')) Inr ''prod'' ''k8s'' ''admin'' ''me'' 1 = Inr cfg \<and> usable cfg ''me@prod''"
proof -
  obtain cfg where cfg: "CreateKubeConfig (\<lambda>_ _ _. Inr (''k'', ''c'')) Inr ''prod'' ''k8s'' ''admin'' ''me'' 1 = Inr cfg"
    and "CurrentContext cfg = ''me@prod''"
    by (simp add: CreateKubeConfig_def Let_def)
  with CreateKubeConfig_usable [OF cfg] show ?thesis by auto
qed

end
