(* ===== verification/Proxy.thy ===== *)
theory Proxy
  imports Kinds
begin

text \<open>
  Package \<open>proxy\<close>: connections through the port forwarding of the API server.

  A stream has its headers and its identifier; opening a connection and creating streams are calls
  to the server, whose answers are parameters. Methods of \<open>Conn\<close> have value receivers: they work on
  a copy, which is what the definitions take and return.
\<close>

section \<open>Addresses and connections\<close>

record Addr =
  a_port :: string
  a_identifier :: nat

abbreviation scheme :: string where
  "scheme \<equiv> ''proxy''"

text \<open>\<open>protocol_name\<close> is \<open>portforward.PortForwardProtocolV1Name\<close>.\<close>

definition Network :: "string \<Rightarrow> Addr \<Rightarrow> string" where
  "Network protocol_name a = protocol_name"

definition Addr_String :: "string \<Rightarrow> Addr \<Rightarrow> string" where
  "Addr_String protocol_name a =
     scheme @ ''://'' @ nat_dec (a_identifier a) @ ''.'' @ protocol_name @ ''.local:'' @ a_port a"

type_synonym headers = "(string \<times> string) list"

record proxy_stream =
  s_headers :: headers
  s_identifier :: nat

text \<open>\<open>None\<close> is the zero time.\<close>

record Conn =
  stream :: proxy_stream
  readDeadline :: "int option"
  writeDeadline :: "int option"

definition header :: "headers \<Rightarrow> string \<Rightarrow> string" where
  "header h k = (case map_of h k of None \<Rightarrow> '''' | Some v \<Rightarrow> v)"

definition NewAddrFromConn :: "Conn \<Rightarrow> Addr" where
  "NewAddrFromConn c = \<lparr>a_port = header (s_headers (stream c)) ''port'', a_identifier = s_identifier (stream c)\<rparr>"

definition NewConn :: "proxy_stream \<Rightarrow> Conn" where
  "NewConn s = \<lparr>stream = s, readDeadline = None, writeDeadline = None\<rparr>"

definition LocalAddr :: "Conn \<Rightarrow> Addr" where
  "LocalAddr c = NewAddrFromConn c"

definition RemoteAddr :: "Conn \<Rightarrow> Addr" where
  "RemoteAddr c = NewAddrFromConn c"

definition SetDeadline :: "int option \<Rightarrow> Conn \<Rightarrow> Conn \<times> gerror option" where
  "SetDeadline t c = (c\<lparr>readDeadline := t, writeDeadline := t\<rparr>, None)"

definition SetWriteDeadline :: "int option \<Rightarrow> Conn \<Rightarrow> Conn \<times> gerror option" where
  "SetWriteDeadline t c = (c\<lparr>writeDeadline := t\<rparr>, None)"

definition SetReadDeadline :: "int option \<Rightarrow> Conn \<Rightarrow> Conn \<times> gerror option" where
  "SetReadDeadline t c = (c\<lparr>readDeadline := t\<rparr>, None)"

text \<open>A call of a method with a value receiver: the caller keeps its own value.\<close>

definition call_by_value :: "('c \<Rightarrow> 'c \<times> 'r) \<Rightarrow> 'c \<Rightarrow> 'c \<times> 'r" where
  "call_by_value method c = (c, snd (method c))"

section \<open>Dialers\<close>

record Proxy =
  p_kind :: string
  p_namespace :: string
  p_resource :: string
  p_port :: int

record 't Dialer =
  proxy :: Proxy
  transport :: "'t option"
  timeout :: int

definition defaultTimeout :: int where
  "defaultTimeout = 10 * 1000000000"

definition setTimeout :: "int \<Rightarrow> 't Dialer \<Rightarrow> 't Dialer \<times> gerror option" where
  "setTimeout duration d = (d\<lparr>timeout := duration\<rparr>, None)"

definition DialTimeout :: "int \<Rightarrow> 't Dialer \<Rightarrow> 't Dialer \<times> gerror option" where
  "DialTimeout duration = setTimeout duration"

fun run_options :: "('t Dialer \<Rightarrow> 't Dialer \<times> gerror option) list \<Rightarrow> 't Dialer \<Rightarrow> gerror + 't Dialer" where
  "run_options [] d = Inr d"
| "run_options (opt # opts) d =
     (case opt d of
        (_, Some err) \<Rightarrow> Inl err
      | (d, None) \<Rightarrow> run_options opts d)"

text \<open>\<open>round_tripper\<close> makes the transport and the upgrader for the configuration.\<close>

definition NewDialer ::
  "gerror + 't \<Rightarrow> Proxy \<Rightarrow> ('t Dialer \<Rightarrow> 't Dialer \<times> gerror option) list \<Rightarrow> gerror + 't Dialer" where
  "NewDialer round_tripper p opts =
     (if p_port p = 0 then Inl (errorf ''port required'')
      else case run_options opts \<lparr>proxy = p, transport = None, timeout = 0\<rparr> of
        Inl err \<Rightarrow> Inl err
      | Inr dialer \<Rightarrow>
          let dialer = (if timeout dialer = 0 then dialer\<lparr>timeout := defaultTimeout\<rparr> else dialer)
          in case round_tripper of
               Inl err \<Rightarrow> Inl err
             | Inr t \<Rightarrow> Inr (dialer\<lparr>transport := Some t\<rparr>))"

section \<open>Dialing\<close>

datatype dial_call =
    Upgrade string string string
  | CreateStream headers
  | CloseStream nat

record dial_server =
  upgrade :: "dial_call list \<Rightarrow> gerror option"
  create_stream :: "dial_call list \<Rightarrow> headers \<Rightarrow> gerror + nat"
  close_stream :: "dial_call list \<Rightarrow> gerror option"

definition set_header :: "string \<Rightarrow> string \<Rightarrow> headers \<Rightarrow> headers" where
  "set_header k v h = (if k \<in> fst ` set h then map (\<lambda>(k', v'). (k', if k' = k then v else v')) h else h @ [(k, v)])"

definition DialContext ::
  "(string \<Rightarrow> string \<Rightarrow> string \<Rightarrow> string) \<Rightarrow> dial_server \<Rightarrow> 't Dialer \<Rightarrow> (dial_call list, gerror + Conn) state" where
  "DialContext url S d =
     (let p = proxy d
      in do {
        err \<leftarrow> ask (Upgrade (p_kind p) (p_namespace p) (p_resource p)) (upgrade S);
        (case err of
           Some e \<Rightarrow> ret (Inl (wrapf e (''error upgrading connection for: '' @ url (p_kind p) (p_namespace p) (p_resource p))))
         | None \<Rightarrow> do {
             let h = set_header ''streamType'' ''error'' [];
             let h = set_header ''port'' (int_dec (p_port p)) h;
             let h = set_header ''requestID'' ''0'' h;
             r \<leftarrow> ask (CreateStream h) (\<lambda>log. create_stream S log h);
             (case r of
                Inl e \<Rightarrow> ret (Inl e)
              | Inr errorStream \<Rightarrow> do {
                  err \<leftarrow> ask (CloseStream errorStream) (close_stream S);
                  (case err of
                     Some e \<Rightarrow> ret (Inl e)
                   | None \<Rightarrow> do {
                       let h = set_header ''streamType'' ''data'' h;
                       r \<leftarrow> ask (CreateStream h) (\<lambda>log. create_stream S log h);
                       ret (case r of
                          Inl e \<Rightarrow> Inl (wrapf e ''error creating forwarding stream'')
                        | Inr n \<Rightarrow> Inr (NewConn \<lparr>s_headers = h, s_identifier = n\<rparr>))
                     })
                })
           })
      })"

definition DialContextWithAddr where
  "DialContextWithAddr url S d = DialContext url S d"

section \<open>Properties\<close>

text \<open>
  A dialer that was made has a port and a timeout, the default one where no option set another;
  an option that sets the timeout to zero gives the default one, too.
\<close>

theorem NewDialer_timeout:
  assumes "NewDialer round_tripper p opts = Inr d"
  shows "p_port p \<noteq> 0 \<and> timeout d \<noteq> 0
    \<and> (\<forall>ts. opts = map DialTimeout ts \<longrightarrow> timeout d = (if ts = [] \<or> last ts = 0 then defaultTimeout else last ts))"
proof -
  have last: "run_options (map DialTimeout ts) d0 = Inr (if ts = [] then d0 else d0\<lparr>timeout := last ts\<rparr>)"
    for ts and d0 :: "'a Dialer"
    by (induction ts arbitrary: d0) (auto simp: DialTimeout_def setTimeout_def)
  show ?thesis using assms
    by (auto simp: NewDialer_def Let_def last defaultTimeout_def split: if_splits sum.splits)
qed

lemma NewDialer_timeout_witness:
  "\<exists>d. NewDialer (Inr ()) \<lparr>p_kind = ''pods'', p_namespace = ''db'', p_resource = ''pg-0'', p_port = 5432\<rparr>
     [DialTimeout 5, DialTimeout 7] = Inr d \<and> timeout d = 7"
proof -
  obtain d where d: "NewDialer (Inr ()) \<lparr>p_kind = ''pods'', p_namespace = ''db'', p_resource = ''pg-0'', p_port = 5432\<rparr>
     [DialTimeout 5, DialTimeout 7] = Inr d"
    by (simp add: NewDialer_def DialTimeout_def setTimeout_def)
  have "[DialTimeout 5, DialTimeout 7] = map DialTimeout [5, 7 :: int]" by simp
  with NewDialer_timeout [OF d] d show ?thesis by (metis last.simps list.distinct(1) zero_neq_numeral)
qed

text \<open>
  Setting a deadline has no effect: the connection that the caller holds keeps the deadlines it
  was made with, which are none.
\<close>

theorem deadlines_have_no_effect:
  "fst (call_by_value (SetDeadline t) (NewConn s)) = NewConn s
   \<and> fst (call_by_value (SetReadDeadline t) (NewConn s)) = NewConn s
   \<and> fst (call_by_value (SetWriteDeadline t) (NewConn s)) = NewConn s
   \<and> snd (call_by_value (SetDeadline t) (NewConn s)) = None"
  by (simp add: call_by_value_def SetDeadline_def)

definition stream_headers :: "'t Dialer \<Rightarrow> string \<Rightarrow> headers" where
  "stream_headers d stream_type =
     [(''streamType'', stream_type), (''port'', int_dec (p_port (proxy d))), (''requestID'', ''0'')]"

text \<open>
  C35. A connection that was dialled came from four calls in this order: the upgrade, the error
  stream, its closing, and the data stream, with the same port and request identifier; its address
  has the port of the proxy and the identifier that the server gave to the data stream.
\<close>

theorem DialContext_calls:
  assumes "run_state (DialContext url S d) log = (Inr c, log')"
  shows "\<exists>n. log' = log @ [Upgrade (p_kind (proxy d)) (p_namespace (proxy d)) (p_resource (proxy d)),
        CreateStream (stream_headers d ''error''), CloseStream n, CreateStream (stream_headers d ''data'')]
      \<and> Addr_String name (LocalAddr c) = ''proxy://'' @ nat_dec (s_identifier (stream c)) @ ''.'' @ name @ ''.local:'' @ int_dec (p_port (proxy d))
      \<and> create_stream S (butlast log') (stream_headers d ''data'') = Inr (s_identifier (stream c))"
  using assms
  by (auto simp: DialContext_def Let_def set_header_def header_def Addr_String_def LocalAddr_def NewAddrFromConn_def
      NewConn_def stream_headers_def butlast_append split: option.splits sum.splits)

definition example_dial :: dial_server where
  "example_dial = \<lparr>upgrade = (\<lambda>_. None), create_stream = (\<lambda>log _. Inr (length log)), close_stream = (\<lambda>_. None)\<rparr>"

lemma DialContext_calls_witness:
  "\<exists>c m. fst (run_state (DialContext (\<lambda>_ _ _. '''') example_dial
        \<lparr>proxy = \<lparr>p_kind = ''pods'', p_namespace = ''db'', p_resource = ''pg-0'', p_port = 5432\<rparr>, transport = Some (), timeout = 1\<rparr>) [])
      = Inr c \<and> Addr_String ''v1'' (LocalAddr c) = ''proxy://'' @ nat_dec m @ ''.'' @ ''v1'' @ ''.local:'' @ int_dec 5432"
proof -
  let ?d = "\<lparr>proxy = \<lparr>p_kind = ''pods'', p_namespace = ''db'', p_resource = ''pg-0'', p_port = 5432\<rparr>, transport = Some (), timeout = 1\<rparr>"
  obtain c log' where c: "run_state (DialContext (\<lambda>_ _ _. '''') example_dial ?d) [] = (Inr c, log')"
    by (simp add: DialContext_def example_dial_def Let_def)
  from DialContext_calls [OF this, of "''v1''"] c show ?thesis by auto
qed

end
