(* ===== verification/Connection.thy ===== *)
theory Connection
  imports Shortcuts Waiting Documents Proxy
begin

text \<open>
  The client's connection (\<open>client.go\<close>): its cached clients, configuration, mapper and kustomizer,
  and the clients made for a user or a kind.

  The constructors of client-go, the file system and the server are parameters.
\<close>

section \<open>Cached parts of the client\<close>

record rest_config =
  Host :: string
  GroupVersion :: "(string \<times> string) option"
  APIPath :: string
  rest_opaque :: string

text \<open>
  The fields of the client that cache something, \<open>None\<close> for nil. The dynamic client is an interface:
  it is nil only when nothing was ever assigned to it, and the pointer in it may be nil, \<open>Some None\<close>.

  The last field is not one of the code's: it counts how often the client has gone to client-go or to
  the file system. Whatever they give may depend on that number: a kubeconfig that has changed in
  between, or a pointer of its own for each call of a constructor. So a part that is made again is
  not the part that was cached.
\<close>

record ('k, 'd, 'r) client_state =
  clientset :: "'k option"
  dynamicClient :: "'d option option"
  restConfig :: "rest_config option"
  kustomizeManager :: "(string \<times> string) list option"
  restMapper :: "'r option"
  made :: nat

record ('k, 'd, 'r) constructors =
  new_clientset :: "nat \<Rightarrow> rest_config \<Rightarrow> gerror + 'k"
  new_dynamic :: "nat \<Rightarrow> rest_config \<Rightarrow> gerror + 'd"
  kube_config_bytes :: "nat \<Rightarrow> gerror + string"
  parse_rest_config :: "nat \<Rightarrow> string \<Rightarrow> gerror + rest_config"
  in_cluster_config :: "nat \<Rightarrow> gerror + rest_config"
  new_mapper :: "nat \<Rightarrow> rest_config \<Rightarrow> string \<Rightarrow> gerror + 'r"
  home_dir :: string

definition going_out :: "('k, 'd, 'r) client_state \<Rightarrow> ('k, 'd, 'r) client_state" where
  "going_out c = c\<lparr>made := Suc (made c)\<rparr>"

lemma going_out_simps [simp]:
  "clientset (going_out c) = clientset c" "dynamicClient (going_out c) = dynamicClient c"
  "restConfig (going_out c) = restConfig c" "kustomizeManager (going_out c) = kustomizeManager c"
  "restMapper (going_out c) = restMapper c" "made (going_out c) = Suc (made c)"
  by (simp_all add: going_out_def)

text \<open>\<open>GetRESTConfig\<close> is a field of the client, a function that may use the cache.\<close>

type_synonym ('k, 'd, 'r) config_getter = "('k, 'd, 'r) client_state \<Rightarrow> (gerror + rest_config) \<times> ('k, 'd, 'r) client_state"

definition ResetConnection :: "('k, 'd, 'r) client_state \<Rightarrow> ('k, 'd, 'r) client_state" where
  "ResetConnection c = c\<lparr>clientset := None, dynamicClient := None, restConfig := None\<rparr>"

definition ResetRestMapper :: "('k, 'd, 'r) client_state \<Rightarrow> ('k, 'd, 'r) client_state \<times> gerror option" where
  "ResetRestMapper c = (c\<lparr>restMapper := None\<rparr>, None)"

definition GetRESTConfigFromKubeconfig :: "('k, 'd, 'r) constructors \<Rightarrow> ('k, 'd, 'r) config_getter" where
  "GetRESTConfigFromKubeconfig K c =
     (case restConfig c of
        Some cfg \<Rightarrow> (Inr cfg, c)
      | None \<Rightarrow>
          (case kube_config_bytes K (made c) of
             Inl err \<Rightarrow> (Inl (errorf (''getRESTConfig: failed to get kubeconfig: '' @ Error err)), going_out c)
           | Inr data \<Rightarrow>
               if length data = 0 then (Inl (errorf ''kubeConfig is empty''), going_out c)
               else (case parse_rest_config K (made c) data of
                       Inl err \<Rightarrow> (Inl err, going_out c\<lparr>restConfig := None\<rparr>)
                     | Inr cfg \<Rightarrow> (Inr cfg, going_out c\<lparr>restConfig := Some cfg\<rparr>))))"

definition GetRESTConfigInCluster :: "('k, 'd, 'r) constructors \<Rightarrow> ('k, 'd, 'r) config_getter" where
  "GetRESTConfigInCluster K c =
     (case restConfig c of
        Some cfg \<Rightarrow> (Inr cfg, c)
      | None \<Rightarrow>
          (case in_cluster_config K (made c) of
             Inl err \<Rightarrow> (Inl (errorf (''getRESTConfig: failed to get in cluster config: '' @ Error err)), going_out c)
           | Inr data \<Rightarrow> (Inr data, going_out c)))"

definition GetClientset ::
  "('k, 'd, 'r) constructors \<Rightarrow> ('k, 'd, 'r) config_getter \<Rightarrow> ('k, 'd, 'r) client_state \<Rightarrow> (gerror + 'k) \<times> ('k, 'd, 'r) client_state" where
  "GetClientset K GetRESTConfig c =
     (case clientset c of
        Some k \<Rightarrow> (Inr k, c)
      | None \<Rightarrow>
          (case GetRESTConfig c of
             (Inl err, c) \<Rightarrow> (Inl (errorf (''getClientset: failed to get REST config: '' @ Error err)), c)
           | (Inr cfg, c) \<Rightarrow>
               (case new_clientset K (made c) cfg of
                  Inl err \<Rightarrow> (Inl err, going_out c\<lparr>clientset := None\<rparr>)
                | Inr k \<Rightarrow> (Inr k, going_out c\<lparr>clientset := Some k\<rparr>))))"

text \<open>
  The pointer that the constructor returns is assigned to the interface even when it is nil beside an
  error.
\<close>

definition GetDynamicClient ::
  "('k, 'd, 'r) constructors \<Rightarrow> ('k, 'd, 'r) config_getter \<Rightarrow> ('k, 'd, 'r) client_state
     \<Rightarrow> (gerror + 'd option) \<times> ('k, 'd, 'r) client_state" where
  "GetDynamicClient K GetRESTConfig c =
     (case dynamicClient c of
        Some d \<Rightarrow> (Inr d, c)
      | None \<Rightarrow>
          (case GetRESTConfig c of
             (Inl err, c) \<Rightarrow> (Inl (errorf (''getClientset: failed to get REST config: '' @ Error err)), c)
           | (Inr cfg, c) \<Rightarrow>
               (case new_dynamic K (made c) cfg of
                  Inl err \<Rightarrow> (Inl err, going_out c\<lparr>dynamicClient := Some None\<rparr>)
                | Inr d \<Rightarrow> (Inr (Some d), going_out c\<lparr>dynamicClient := Some (Some d)\<rparr>))))"

text \<open>\<open>strings.ReplaceAll\<close> of a text that is not empty; the occurrences do not overlap.\<close>

function ReplaceAll :: "string \<Rightarrow> string \<Rightarrow> string \<Rightarrow> string" where
  "ReplaceAll [] old new = []"
| "ReplaceAll (c # s) old new =
     (if old \<noteq> [] \<and> HasPrefix (c # s) old then new @ ReplaceAll (drop (length old - 1) s) old new
      else c # ReplaceAll s old new)"
  by pat_completeness auto

termination ReplaceAll
  by (relation "measure (\<lambda>(s, _, _). length s)") auto

definition cache_dir :: "string \<Rightarrow> string" where
  "cache_dir host = ReplaceAll (ReplaceAll (ReplaceAll host ''https://'' '''') ''-'' ''_'') '':'' ''_''"

text \<open>An error of the configuration is dropped; reading the host of a nil configuration panics.\<close>

definition GetRestMapper ::
  "('k, 'd, 'r) constructors \<Rightarrow> ('k, 'd, 'r) config_getter \<Rightarrow> ('k, 'd, 'r) client_state
     \<Rightarrow> ((gerror + 'r) \<times> ('k, 'd, 'r) client_state) option" where
  "GetRestMapper K GetRESTConfig c =
     (case restMapper c of
        Some r \<Rightarrow> Some (Inr r, c)
      | None \<Rightarrow>
          (case GetRESTConfig c of
             (Inl err, c) \<Rightarrow> None
           | (Inr cfg, c) \<Rightarrow>
               (case new_mapper K (made c) cfg (home_dir K @ ''/.kube/cache/discovery/'' @ cache_dir (Host cfg)) of
                  Inl err \<Rightarrow> Some (Inl err, going_out c)
                | Inr r \<Rightarrow> Some (Inr r, going_out c\<lparr>restMapper := Some r\<rparr>))))"

text \<open>
  \<open>GetRestClient\<close> of a client made from a kubeconfig sets the group version and the path in the
  configuration that it got, which is the cached one. \<open>mapped\<close> maps the object's kind to its group
  and version with a mapper. A mapper that could not be made is nil, and so is a configuration: both
  are followed.
\<close>

definition GetRestClient ::
  "('k, 'd, 'r) constructors \<Rightarrow> ('r \<Rightarrow> gerror + string \<times> string) \<Rightarrow> (rest_config \<Rightarrow> gerror + 'h)
     \<Rightarrow> ('k, 'd, 'r) client_state \<Rightarrow> ((gerror + 'h) \<times> ('k, 'd, 'r) client_state) option" where
  "GetRestClient K mapped rest_client_for c =
     (case GetRestMapper K (GetRESTConfigFromKubeconfig K) c of
        None \<Rightarrow> None
      | Some (rm, c) \<Rightarrow>
          (case GetRESTConfigFromKubeconfig K c of
             (cfg, c) \<Rightarrow>
               (case rm of
                  Inl err \<Rightarrow> None
                | Inr rm \<Rightarrow>
                    (case mapped rm of
                       Inl err \<Rightarrow> Some (Inl err, c)
                     | Inr gv \<Rightarrow>
                         (case cfg of
                            Inl err \<Rightarrow> None
                          | Inr cfg \<Rightarrow>
                              let cfg = cfg\<lparr>GroupVersion := Some gv,
                                    APIPath := (if length (fst gv) = 0 then ''/api'' else ''/apis'')\<rparr>;
                                  c = c\<lparr>restConfig := Some cfg\<rparr>
                              in Some (rest_client_for cfg, c))))))"

section \<open>Making a client\<close>

datatype config_source = InCluster | FromFile string

definition config_path :: "string \<Rightarrow> string \<Rightarrow> string" where
  "config_path env_kubeconfig home = (if env_kubeconfig = '''' then home @ ''/.kube/config'' else env_kubeconfig)"

text \<open>The configuration of \<open>NewClientFromDefaults\<close>: from the file, or else from the cluster.\<close>

definition NewClientFromDefaults ::
  "('k, 'd, 'r) constructors \<Rightarrow> string \<Rightarrow> (string \<Rightarrow> bool) \<Rightarrow> (string \<Rightarrow> gerror + string) \<Rightarrow> gerror + rest_config" where
  "NewClientFromDefaults K env_kubeconfig exists_file read_file =
     (let kubeconfig = config_path env_kubeconfig (home_dir K)
      in if \<not> exists_file kubeconfig
         then (case in_cluster_config K 0 of
                 Inr config \<Rightarrow> Inr config
               | Inl _ \<Rightarrow> Inl (errorf ''cannot find kubeconfig''))
         else (case read_file kubeconfig of
                 Inl err \<Rightarrow> Inl err
               | Inr data \<Rightarrow>
                   (case parse_rest_config K 0 data of
                      Inl err \<Rightarrow> Inl err
                    | Inr config \<Rightarrow> Inr config)))"

definition NewClient :: "rest_config \<Rightarrow> ('k, 'd, 'r) client_state" where
  "NewClient config = \<lparr>clientset = None, dynamicClient = None, restConfig = Some config, kustomizeManager = None,
     restMapper = None, made = 0\<rparr>"

definition NewClientFromBytes :: "('k, 'd, 'r) client_state" where
  "NewClientFromBytes = \<lparr>clientset = None, dynamicClient = None, restConfig = None, kustomizeManager = None,
     restMapper = None, made = 0\<rparr>"

text \<open>
  The client for a user is made from the kubeconfig alone; \<open>impersonating\<close> has the errors of the
  transport, of its TLS configuration and of the dynamic client.
\<close>

definition GetDynamicClientForUser ::
  "'o apply_client \<Rightarrow> gerror + string \<Rightarrow> (string \<Rightarrow> gerror option) \<Rightarrow> (string \<Rightarrow> gerror option \<times> gerror option \<times> gerror option)
     \<Rightarrow> string \<Rightarrow> 'o \<Rightarrow> string \<Rightarrow> resolved api" where
  "GetDynamicClientForUser C kubeconfig config_err impersonating namespace obj user =
     (let failed = (\<lambda>err msg. ret (None, None, Some (wrapf err msg)))
      in case kubeconfig of
           Inl err \<Rightarrow> failed err ''failed to get kubeconfig''
         | Inr data \<Rightarrow>
             if length data = 0 then ret (None, None, Some (errorf ''kubeConfig is empty''))
             else case config_err data of
               Some err \<Rightarrow> failed err ''failed to get RestConfig''
             | None \<Rightarrow>
                 (case impersonating user of
                    (Some err, _, _) \<Rightarrow> failed err ''failed to get TransportConfig''
                  | (None, Some err, _) \<Rightarrow> failed err ''failed to get TLSConfig''
                  | (None, None, Some err) \<Rightarrow> failed err ''failed to get imporsonating config''
                  | (None, None, None) \<Rightarrow> getDynamicClientFor C namespace obj))"

section \<open>The kustomizer\<close>

text \<open>
  The patches of the client: the name of a file that exists, or the patch itself. Each is templated
  and written into an in-memory file system, whose files are an association list.
\<close>

record patch_files =
  file_exists :: "string \<Rightarrow> bool"
  file_base :: "string \<Rightarrow> string"
  file_read :: "string \<Rightarrow> gerror + string"
  reencode_doc :: "string \<Rightarrow> gerror + string option"

fun write_patches :: "patch_files \<Rightarrow> nat \<Rightarrow> string list \<Rightarrow> nat \<Rightarrow> (string \<times> string) list \<Rightarrow> (gerror + (string \<times> string) list) loop" where
  "write_patches P fuel [] no fs = Returned (Inr fs)"
| "write_patches P fuel (patch # patches) no fs =
     (case (if file_exists P patch
            then (case file_read P patch of
                    Inl err \<Rightarrow> Inl err
                  | Inr bytes \<Rightarrow> Inr (nat_dec no @ ''-'' @ file_base P patch, bytes))
            else Inr (nat_dec no @ ''-patch.yaml'', patch)) of
        Inl err \<Rightarrow> Returned (Inl err)
      | Inr (name, data) \<Rightarrow>
          (case templatizePatch (reencode_doc P) fuel data of
             Running \<Rightarrow> Running
           | Returned (Inl err) \<Rightarrow> Returned (Inl (wrapf err (''syntax error when reading '' @ name @ '' '')))
           | Returned (Inr templated) \<Rightarrow> write_patches P fuel patches (no + 1) (AList.update name templated fs)))"

definition GetKustomize ::
  "patch_files \<Rightarrow> gerror + string list \<Rightarrow> nat \<Rightarrow> ('k, 'd, 'r) client_state
     \<Rightarrow> ((gerror + (string \<times> string) list) \<times> ('k, 'd, 'r) client_state) loop" where
  "GetKustomize P kustomize_patches fuel c =
     (case kustomizeManager c of
        Some m \<Rightarrow> Returned (Inr m, c)
      | None \<Rightarrow>
          (case kustomize_patches of
             Inl err \<Rightarrow> Returned (Inl err, c)
           | Inr patches \<Rightarrow>
               (case write_patches P fuel patches 1 [] of
                  Running \<Rightarrow> Running
                | Returned (Inl err) \<Rightarrow> Returned (Inl err, c)
                | Returned (Inr fs) \<Rightarrow> Returned (Inr fs, c\<lparr>kustomizeManager := Some fs\<rparr>))))"

section \<open>Proxies\<close>

definition GetProxyDialer ::
  "('k, 'd, 'r) constructors \<Rightarrow> ('k, 'd, 'r) config_getter \<Rightarrow> ('k \<Rightarrow> rest_config \<Rightarrow> gerror + 't) \<Rightarrow> Proxy
     \<Rightarrow> ('k, 'd, 'r) client_state \<Rightarrow> (gerror + 't Dialer) \<times> ('k, 'd, 'r) client_state" where
  "GetProxyDialer K GetRESTConfig round_tripper p c =
     (case GetClientset K GetRESTConfig c of
        (Inl err, c) \<Rightarrow> (Inl err, c)
      | (Inr k, c) \<Rightarrow>
          (case GetRESTConfig c of
             (Inl err, c) \<Rightarrow> (Inl err, c)
           | (Inr cfg, c) \<Rightarrow> (NewDialer (round_tripper k cfg) p [], c)))"

section \<open>The contract of a cached part\<close>

text \<open>
  \<open>gives s a s'\<close>: called in the state \<open>s\<close>, the operation succeeds with the value \<open>a\<close> and leaves \<open>s'\<close>.
  A filled slot is what the operation gives, and what it gives is in the slot.
\<close>

locale cached =
  fixes gives :: "'s \<Rightarrow> 'a \<Rightarrow> 's \<Rightarrow> bool"
    and slot :: "'s \<Rightarrow> 'a option"
  assumes hit: "slot s = Some a \<Longrightarrow> gives s b s' \<longleftrightarrow> b = a \<and> s' = s"
    and fills: "gives s a s' \<Longrightarrow> slot s' = Some a"
begin

lemma held: "slot s = Some a \<Longrightarrow> gives s a s"
  using hit by blast

lemma again: "gives s a s' \<Longrightarrow> gives s' b s'' \<longleftrightarrow> b = a \<and> s'' = s'"
  using hit fills by blast

lemma kept: "gives s a s' \<Longrightarrow> slot t = slot s' \<Longrightarrow> gives t b t' \<longleftrightarrow> b = a \<and> t' = t"
  using hit fills by metis

end

interpretation the_clientset: cached "\<lambda>s k s'. GetClientset K getter s = (Inr k, s')" clientset
  by unfold_locales (auto simp: GetClientset_def split: option.splits prod.splits sum.splits)

interpretation the_dynamic: cached "\<lambda>s d s'. GetDynamicClient K getter s = (Inr d, s')" dynamicClient
  by unfold_locales (auto simp: GetDynamicClient_def split: option.splits prod.splits sum.splits)

interpretation the_config: cached "\<lambda>s cfg s'. GetRESTConfigFromKubeconfig K s = (Inr cfg, s')" restConfig
  by unfold_locales
    (auto simp: GetRESTConfigFromKubeconfig_def split: option.splits prod.splits sum.splits if_splits)

interpretation the_mapper: cached "\<lambda>s r s'. GetRestMapper K getter s = Some (Inr r, s')" restMapper
  by unfold_locales (auto simp: GetRestMapper_def split: option.splits prod.splits sum.splits)

interpretation the_kustomizer: cached "\<lambda>s m s'. GetKustomize P patches fuel s = Returned (Inr m, s')" kustomizeManager
  by unfold_locales (auto simp: GetKustomize_def split: option.splits loop.splits sum.splits)

section \<open>What stays cached\<close>

datatype 'r connection_op = WantClientset | WantDynamic | WantConfig | WantMapper
  | WantRestClient "'r \<Rightarrow> gerror + string \<times> string"
  | WantKustomizer patch_files "gerror + string list" nat
  | DropMapper | DropConnection

text \<open>
  The operations of a client made from a kubeconfig that write its cached fields; the others call
  these, as \<open>WaitForRestMapping\<close> does with the mapper and \<open>GetProxyDialer\<close> with the clientset and the
  configuration. A panic, or a kustomizer that is never ready, leaves the state.
\<close>

fun connection_step :: "('k, 'd, 'r) constructors \<Rightarrow> 'r connection_op \<Rightarrow> ('k, 'd, 'r) client_state \<Rightarrow> ('k, 'd, 'r) client_state" where
  "connection_step K WantClientset c = snd (GetClientset K (GetRESTConfigFromKubeconfig K) c)"
| "connection_step K WantDynamic c = snd (GetDynamicClient K (GetRESTConfigFromKubeconfig K) c)"
| "connection_step K WantConfig c = snd (GetRESTConfigFromKubeconfig K c)"
| "connection_step K WantMapper c =
     (case GetRestMapper K (GetRESTConfigFromKubeconfig K) c of None \<Rightarrow> c | Some (_, c') \<Rightarrow> c')"
| "connection_step K (WantRestClient mapped) c =
     (case GetRestClient K mapped (\<lambda>_. Inr ()) c of None \<Rightarrow> c | Some (_, c') \<Rightarrow> c')"
| "connection_step K (WantKustomizer P patches fuel) c =
     (case GetKustomize P patches fuel c of Running \<Rightarrow> c | Returned (_, c') \<Rightarrow> c')"
| "connection_step K DropMapper c = fst (ResetRestMapper c)"
| "connection_step K DropConnection c = ResetConnection c"

text \<open>Two configurations for the same cluster and user, whatever kind of object they are set to.\<close>

definition same_target :: "rest_config \<Rightarrow> rest_config \<Rightarrow> bool" where
  "same_target cfg cfg' \<longleftrightarrow> Host cfg' = Host cfg \<and> rest_opaque cfg' = rest_opaque cfg"

text \<open>From one state to a later one, what was cached is cached still.\<close>

definition keeps :: "('k, 'd, 'r) client_state \<Rightarrow> ('k, 'd, 'r) client_state \<Rightarrow> bool" where
  "keeps c c' \<longleftrightarrow> (\<forall>k. clientset c = Some k \<longrightarrow> clientset c' = Some k)
     \<and> (\<forall>cfg. restConfig c = Some cfg \<longrightarrow> (\<exists>cfg'. restConfig c' = Some cfg' \<and> same_target cfg cfg'))"

definition keeps_mapper :: "('k, 'd, 'r) client_state \<Rightarrow> ('k, 'd, 'r) client_state \<Rightarrow> bool" where
  "keeps_mapper c c' \<longleftrightarrow> (\<forall>r. restMapper c = Some r \<longrightarrow> restMapper c' = Some r)"

lemma keeps_refl: "keeps c c" "keeps_mapper c c"
  by (simp_all add: keeps_def keeps_mapper_def same_target_def)

lemma keeps_trans: "keeps a b \<Longrightarrow> keeps b c \<Longrightarrow> keeps a c"
  unfolding keeps_def same_target_def by fastforce

lemma keeps_mapper_trans: "keeps_mapper a b \<Longrightarrow> keeps_mapper b c \<Longrightarrow> keeps_mapper a c"
  by (simp add: keeps_mapper_def)

lemma keeps_updates:
  "keeps c c' \<Longrightarrow> clientset c' = None \<Longrightarrow> keeps c (c'\<lparr>clientset := k\<rparr>)"
  "keeps c c' \<Longrightarrow> keeps c (c'\<lparr>dynamicClient := d\<rparr>)"
  "keeps c c' \<Longrightarrow> keeps c (c'\<lparr>restMapper := r\<rparr>)"
  "keeps c c' \<Longrightarrow> keeps c (c'\<lparr>kustomizeManager := m\<rparr>)"
  "keeps c c' \<Longrightarrow> keeps c (going_out c')"
  by (auto simp: keeps_def)

lemma keeps_mapper_updates:
  "keeps_mapper c c' \<Longrightarrow> keeps_mapper c (c'\<lparr>clientset := k\<rparr>)"
  "keeps_mapper c c' \<Longrightarrow> keeps_mapper c (c'\<lparr>dynamicClient := d\<rparr>)"
  "keeps_mapper c c' \<Longrightarrow> keeps_mapper c (c'\<lparr>restConfig := g\<rparr>)"
  "keeps_mapper c c' \<Longrightarrow> keeps_mapper c (c'\<lparr>kustomizeManager := m\<rparr>)"
  "keeps_mapper c c' \<Longrightarrow> keeps_mapper c (going_out c')"
  by (auto simp: keeps_mapper_def)

lemma config_keeps:
  "GetRESTConfigFromKubeconfig K c = (r, c') \<Longrightarrow>
     keeps c c' \<and> keeps_mapper c c' \<and> clientset c' = clientset c \<and> restMapper c' = restMapper c"
  by (auto simp: GetRESTConfigFromKubeconfig_def keeps_def keeps_mapper_def same_target_def
      split: option.splits sum.splits if_splits)

lemma clientset_keeps:
  "GetClientset K (GetRESTConfigFromKubeconfig K) c = (r, c') \<Longrightarrow> keeps c c' \<and> keeps_mapper c c'"
  by (auto simp: GetClientset_def keeps_refl dest!: config_keeps intro!: keeps_updates keeps_mapper_updates
      split: option.splits sum.splits prod.splits)

lemma dynamic_keeps:
  "GetDynamicClient K (GetRESTConfigFromKubeconfig K) c = (r, c') \<Longrightarrow> keeps c c' \<and> keeps_mapper c c'"
  by (auto simp: GetDynamicClient_def keeps_refl dest!: config_keeps intro!: keeps_updates keeps_mapper_updates
      split: option.splits sum.splits prod.splits)

lemma mapper_keeps:
  "GetRestMapper K (GetRESTConfigFromKubeconfig K) c = Some (r, c') \<Longrightarrow> keeps c c' \<and> keeps_mapper c c'"
  by (auto simp: GetRestMapper_def keeps_refl keeps_mapper_def dest!: config_keeps intro!: keeps_updates
      split: option.splits sum.splits prod.splits)

lemma kustomizer_keeps:
  "GetKustomize P patches fuel c = Returned (r, c') \<Longrightarrow> keeps c c' \<and> keeps_mapper c c'"
  by (auto simp: GetKustomize_def keeps_refl intro!: keeps_updates keeps_mapper_updates
      split: option.splits sum.splits loop.splits)

lemma rest_client_keeps:
  assumes "GetRestClient K mapped mk c = Some (r, c')"
  shows "keeps c c' \<and> keeps_mapper c c'"
proof -
  obtain rm c1 cfg c2 where c1: "GetRestMapper K (GetRESTConfigFromKubeconfig K) c = Some (rm, c1)"
    and c2: "GetRESTConfigFromKubeconfig K c1 = (cfg, c2)"
    and c': "c' = c2 \<or> (clientset c' = clientset c2 \<and> restMapper c' = restMapper c2
      \<and> (\<exists>g g'. cfg = Inr g \<and> restConfig c' = Some g' \<and> same_target g g'))"
    using assms by (auto simp: GetRestClient_def Let_def same_target_def split: option.splits sum.splits prod.splits)
  have "keeps c c2" "keeps_mapper c c2"
    using mapper_keeps [OF c1] config_keeps [OF c2] keeps_trans keeps_mapper_trans by blast+
  moreover have "restConfig c2 = Some g" if "cfg = Inr g" for g using the_config.fills c2 that by metis
  with c' have "keeps c2 c' \<and> keeps_mapper c2 c'"
    by (auto simp: keeps_def keeps_mapper_def same_target_def)
  ultimately show ?thesis using keeps_trans keeps_mapper_trans by blast
qed

lemmas operations_keep = mapper_keeps kustomizer_keeps rest_client_keeps

lemmas pairs_keep = clientset_keeps [OF surjective_pairing] dynamic_keeps [OF surjective_pairing]
  config_keeps [OF surjective_pairing]

lemma connection_step_keeps: "op \<noteq> DropConnection \<Longrightarrow> keeps c (connection_step K op c)"
  by (cases op) (auto simp: keeps_refl ResetRestMapper_def pairs_keep dest: operations_keep
      intro!: keeps_updates split: option.split loop.split)

lemma connection_steps_keep: "DropConnection \<notin> set ops \<Longrightarrow> keeps c (fold (connection_step K) ops c)"
proof (induction ops arbitrary: c)
  case (Cons op ops)
  have "keeps c (connection_step K op c)" by (rule connection_step_keeps) (use Cons.prems in auto)
  moreover have "keeps (connection_step K op c) (fold (connection_step K) ops (connection_step K op c))"
    using Cons by simp
  ultimately show ?case using keeps_trans by simp
qed (simp add: keeps_refl)

lemma mapper_frame: "op \<noteq> DropMapper \<Longrightarrow> keeps_mapper c (connection_step K op c)"
  by (cases op) (auto simp: keeps_refl ResetConnection_def pairs_keep dest: operations_keep
      intro!: keeps_mapper_updates split: option.split loop.split)

lemma mapper_frames: "DropMapper \<notin> set ops \<Longrightarrow> keeps_mapper c (fold (connection_step K) ops c)"
proof (induction ops arbitrary: c)
  case (Cons op ops)
  have "keeps_mapper c (connection_step K op c)" by (rule mapper_frame) (use Cons.prems in auto)
  moreover have "keeps_mapper (connection_step K op c) (fold (connection_step K) ops (connection_step K op c))"
    using Cons by simp
  ultimately show ?case using keeps_mapper_trans by simp
qed (simp add: keeps_refl)

text \<open>
  C29. A clientset that was made is the one that every later call gets, without going out and without
  a change of the client, whatever the client is asked for between, until its connection is reset,
  although the next one made would be another; and the configuration that the client holds is still
  that of the cluster and the user the clientset was made for.
\<close>

theorem clientset_until_reset:
  assumes "GetClientset K (GetRESTConfigFromKubeconfig K) c = (Inr k, c')" and "DropConnection \<notin> set ops"
    and "clientset c = None"
  shows "GetClientset K (GetRESTConfigFromKubeconfig K) (fold (connection_step K) ops c')
      = (Inr k, fold (connection_step K) ops c')
    \<and> (\<exists>n cfg cfg'. new_clientset K n cfg = Inr k \<and> same_target cfg cfg'
        \<and> GetRESTConfigFromKubeconfig K (fold (connection_step K) ops c') = (Inr cfg', fold (connection_step K) ops c'))"
proof -
  let ?later = "fold (connection_step K) ops c'"
  obtain n cfg where cfg: "new_clientset K n cfg = Inr k" "restConfig c' = Some cfg"
    using assms(1,3) the_config.fills [of K c]
    by (auto simp: GetClientset_def split: prod.splits sum.splits)
  have "clientset c' = Some k" by (rule the_clientset.fills [OF assms(1)])
  with cfg(2) connection_steps_keep [OF assms(2), of c' K] obtain cfg' where
    "clientset ?later = Some k" "restConfig ?later = Some cfg'" "same_target cfg cfg'"
    unfolding keeps_def by blast
  then show ?thesis using the_clientset.held [of ?later k K] the_config.held [of ?later cfg' K] cfg(1) by blast
qed

text \<open>
  The rest mapper of a client survives a reset of its connection: after the kubeconfig has
  changed, the clients are new and the mapper still has the discovery of the old cluster, until the
  mapper itself is reset.
\<close>

theorem mapper_survives_reset:
  assumes "GetRestMapper K getter c = Some (Inr r, c')" and "DropMapper \<notin> set ops"
  shows "GetRestMapper K' getter' (fold (connection_step K') ops (ResetConnection c'))
    = Some (Inr r, fold (connection_step K') ops (ResetConnection c'))"
proof -
  have "restMapper s = Some r \<Longrightarrow> restMapper (fold (connection_step K') ops s) = Some r" for s
    using mapper_frames [OF assms(2), of s K'] by (simp add: keeps_mapper_def)
  moreover have "restMapper (ResetConnection c') = Some r"
    using the_mapper.fills [OF assms(1)] by (simp add: ResetConnection_def)
  ultimately have "restMapper (fold (connection_step K') ops (ResetConnection c')) = Some r" by blast
  then show ?thesis by (rule the_mapper.held)
qed

text \<open>
  When the dynamic client cannot be made, the first call says so and the second does not: it
  gives an interface that holds a nil pointer, without an error.
\<close>

theorem GetDynamicClient_nil_after_error:
  assumes "dynamicClient c = None" and "GetRESTConfig c = (Inr cfg, c1)" and "new_dynamic K (made c1) cfg = Inl err"
  shows "\<exists>c2. GetDynamicClient K GetRESTConfig c = (Inl err, c2)
    \<and> GetDynamicClient K GetRESTConfig c2 = (Inr None, c2)"
  using assms by (simp add: GetDynamicClient_def)

text \<open>
  Two hosts without a slash share the directory of the discovery cache exactly when they are
  equal up to their dashes, colons and underscores: such clusters read each other's discovery.
\<close>

theorem cache_dir_shared:
  assumes "CHR ''/'' \<notin> set host" and "CHR ''/'' \<notin> set host'"
  shows "cache_dir host = cache_dir host' \<longleftrightarrow>
    map (\<lambda>c. if c \<in> {CHR ''-'', CHR '':''} then CHR ''_'' else c) host
    = map (\<lambda>c. if c \<in> {CHR ''-'', CHR '':''} then CHR ''_'' else c) host'"
proof -
  have scheme: "CHR ''/'' \<notin> set s \<Longrightarrow> ReplaceAll s ''https://'' new = s" for s new
  proof (induction s)
    case (Cons c s)
    have "\<not> HasPrefix (c # s) ''https://''"
      using Cons.prems by (auto simp: HasPrefix_def dest!: arg_cong [where f = set] set_take_subset [THEN subsetD])
    then show ?case using Cons by simp
  qed simp
  have single: "ReplaceAll s [c] [d] = map (\<lambda>x. if x = c then d else x) s" for s c d
    by (induction s) (auto simp: HasPrefix_def)
  have "CHR ''/'' \<notin> set s \<Longrightarrow>
      cache_dir s = map (\<lambda>c. if c \<in> {CHR ''-'', CHR '':''} then CHR ''_'' else c) s" for s
    by (auto simp: cache_dir_def scheme single)
  then show ?thesis using assms by simp
qed

section \<open>The kustomizer's patches\<close>

lemma templatizePatch_enough:
  assumes "\<And>d. \<exists>t. templatizeDocument reencode d = Inr t" and "\<not> ends_blank s" and "length s < n"
  shows "\<exists>r. templatizePatch reencode n s = Returned (Inr r)"
proof -
  obtain r where "templatizePatch reencode (Suc (length s)) s = Returned (Inr r)"
    using templatize_not_blank [OF assms(2,1)] unfolding templatizePatch_def by blast
  then have "templatizePatch reencode (Suc (length s) + (n - Suc (length s))) s = Returned (Inr r)"
    unfolding templatizePatch_def by (rule run_loop_mono)
  with assms(3) show ?thesis by simp
qed

lemma write_patches_blank:
  assumes "\<And>d. \<exists>t. templatizeDocument (reencode_doc P) d = Inr t" and "\<forall>p\<in>set patches. \<not> file_exists P p"
    and "\<exists>p\<in>set patches. ends_blank p"
  shows "write_patches P fuel patches no fs = Running"
  using assms(2,3)
proof (induction patches arbitrary: no fs)
  case (Cons p patches)
  show ?case
  proof (cases "templatizePatch (reencode_doc P) fuel p")
    case (Returned r)
    have "\<not> ends_blank p"
      using templatize_blank [of p "reencode_doc P" fuel "[]" "\<lambda>_. ()"] assms(1) Returned
      by (auto simp: templatizePatch_def)
    moreover obtain t where "r = Inr t"
    proof -
      have "\<exists>r. templatizePatch (reencode_doc P) (Suc (length p)) p = Returned (Inr r)"
        using \<open>\<not> ends_blank p\<close> templatizePatch_enough assms(1) by blast
      then show thesis using Returned that run_loop_deterministic unfolding templatizePatch_def by metis
    qed
    ultimately show ?thesis using Cons Returned by simp
  qed (use Cons.prems in simp)
qed simp

lemma write_patches_returns:
  assumes "\<And>d. \<exists>t. templatizeDocument (reencode_doc P) d = Inr t"
    and "\<forall>p\<in>set patches. \<not> file_exists P p \<and> \<not> ends_blank p \<and> length p < fuel"
  shows "\<exists>fs'. write_patches P fuel patches no fs = Returned (Inr fs')"
  using assms(2)
proof (induction patches arbitrary: no fs)
  case (Cons p patches)
  then obtain t where "templatizePatch (reencode_doc P) fuel p = Returned (Inr t)"
    using templatizePatch_enough [OF assms(1)] by (metis list.set_intros(1))
  with Cons show ?case by simp
qed simp


lemma GetRestMapper_config:
  "GetRestMapper K (GetRESTConfigFromKubeconfig K) c = Some (rm, c1) \<Longrightarrow> restConfig c = Some c0 \<Longrightarrow>
     restConfig c1 = Some c0"
  by (auto simp: GetRestMapper_def GetRESTConfigFromKubeconfig_def split: option.splits sum.splits)

text \<open>
  \<open>GetRestClient\<close> writes into the configuration that the client shares: afterwards every call
  for the configuration gets the group, version and path of the last kind, on the same host.
\<close>

theorem GetRestClient_writes_shared_config:
  assumes "GetRestClient K mapped rest_client_for c = Some (Inr h, c')"
  shows "\<exists>cfg g v. GetRESTConfigFromKubeconfig K c' = (Inr cfg, c') \<and> GroupVersion cfg = Some (g, v)
    \<and> APIPath cfg = (if g = '''' then ''/api'' else ''/apis'')
    \<and> rest_client_for cfg = Inr h \<and> (\<forall>c0. restConfig c = Some c0 \<longrightarrow> Host cfg = Host c0)"
proof -
  obtain rm c1 cfg c2 g v where *: "GetRestMapper K (GetRESTConfigFromKubeconfig K) c = Some (rm, c1)"
      "GetRESTConfigFromKubeconfig K c1 = (Inr cfg, c2)"
    and new: "rest_client_for (cfg\<lparr>GroupVersion := Some (g, v), APIPath := (if length g = 0 then ''/api'' else ''/apis'')\<rparr>) = Inr h"
      "c' = c2\<lparr>restConfig := Some (cfg\<lparr>GroupVersion := Some (g, v), APIPath := (if length g = 0 then ''/api'' else ''/apis'')\<rparr>)\<rparr>"
    using assms by (auto simp: GetRestClient_def Let_def split: option.splits sum.splits prod.splits)
  have "restConfig c = Some c0 \<Longrightarrow> cfg = c0" for c0
    using GetRestMapper_config [OF *(1)] *(2) the_config.hit by metis
  then show ?thesis using new
    by (intro exI [of _ "cfg\<lparr>GroupVersion := Some (g, v), APIPath := (if length g = 0 then ''/api'' else ''/apis'')\<rparr>"]
        exI [of _ g] exI [of _ v]) (auto intro: the_config.held)
qed

section \<open>Examples\<close>

definition example_constructors :: "(string, string, string) constructors" where
  "example_constructors = \<lparr>new_clientset = (\<lambda>n cfg. Inr (replicate n CHR ''n'' @ Host cfg)), new_dynamic = (\<lambda>_ cfg. Inl (errorf ''no'')),
     kube_config_bytes = (\<lambda>_. Inr ''k''), parse_rest_config = (\<lambda>_ d. Inr \<lparr>Host = d, GroupVersion = None, APIPath = '''', rest_opaque = ''''\<rparr>),
     in_cluster_config = (\<lambda>_. Inl (errorf ''no'')), new_mapper = (\<lambda>_ cfg dir. Inr dir), home_dir = ''/h''\<rparr>"

text \<open>The constructor of the example gives another clientset each time; the client keeps the first.\<close>

lemma clientset_until_reset_witness:
  "\<exists>s. GetClientset example_constructors (GetRESTConfigFromKubeconfig example_constructors) s = (Inr ''nk'', s)
    \<and> made s = 3"
proof -
  let ?cfg = "\<lparr>Host = ''k'', GroupVersion = None, APIPath = '''', rest_opaque = ''''\<rparr>"
  let ?c = "NewClientFromBytes\<lparr>restConfig := Some ?cfg, clientset := Some ''nk'', made := 2\<rparr>"
  have "GetClientset example_constructors (GetRESTConfigFromKubeconfig example_constructors) NewClientFromBytes
    = (Inr ''nk'', ?c)"
    by (simp add: GetClientset_def GetRESTConfigFromKubeconfig_def NewClientFromBytes_def example_constructors_def
        going_out_def)
  from clientset_until_reset [OF this, of "[WantMapper, WantClientset, WantRestClient (\<lambda>_. Inr (''apps'', ''v1''))]"]
  have "GetClientset example_constructors (GetRESTConfigFromKubeconfig example_constructors)
      (fold (connection_step example_constructors) [WantMapper, WantClientset, WantRestClient (\<lambda>_. Inr (''apps'', ''v1''))] ?c)
    = (Inr ''nk'', fold (connection_step example_constructors)
        [WantMapper, WantClientset, WantRestClient (\<lambda>_. Inr (''apps'', ''v1''))] ?c)"
    by (simp add: NewClientFromBytes_def del: fold_simps)
  moreover have "made (fold (connection_step example_constructors)
      [WantMapper, WantClientset, WantRestClient (\<lambda>_. Inr (''apps'', ''v1''))] ?c) = 3"
    by (simp add: GetClientset_def GetRESTConfigFromKubeconfig_def GetRestMapper_def GetRestClient_def going_out_def NewClientFromBytes_def example_constructors_def cache_dir_def HasPrefix_def Let_def)
  ultimately show ?thesis by blast
qed

lemma mapper_survives_reset_witness:
  "\<exists>s. GetRestMapper example_constructors (GetRESTConfigFromKubeconfig example_constructors) s
     = Some (Inr ''/h/.kube/cache/discovery/k'', s)"
proof -
  have "GetRestMapper example_constructors (GetRESTConfigFromKubeconfig example_constructors) NewClientFromBytes
    = Some (Inr ''/h/.kube/cache/discovery/k'',
        NewClientFromBytes\<lparr>restConfig := Some \<lparr>Host = ''k'', GroupVersion = None, APIPath = '''', rest_opaque = ''''\<rparr>,
          restMapper := Some ''/h/.kube/cache/discovery/k'', made := 2\<rparr>)"
    by (simp add: GetRestMapper_def GetRESTConfigFromKubeconfig_def NewClientFromBytes_def example_constructors_def
        cache_dir_def HasPrefix_def going_out_def)
  from mapper_survives_reset [OF this, of "[WantClientset]" example_constructors
      "GetRESTConfigFromKubeconfig example_constructors"]
  show ?thesis by auto
qed

lemma GetDynamicClient_nil_after_error_witness:
  "\<exists>c2. GetDynamicClient example_constructors
        (\<lambda>c. (Inr \<lparr>Host = ''h'', GroupVersion = None, APIPath = '''', rest_opaque = ''''\<rparr>, c)) c2 = (Inr None, c2)"
  using GetDynamicClient_nil_after_error [of NewClientFromBytes
      "\<lambda>c. (Inr \<lparr>Host = ''h'', GroupVersion = None, APIPath = '''', rest_opaque = ''''\<rparr>, c)" _ _ example_constructors]
  by (auto simp: NewClientFromBytes_def example_constructors_def)

lemma cache_dir_shared_witness: "cache_dir ''a-b:80'' = cache_dir ''a_b-80''"
  using cache_dir_shared [of "''a-b:80''" "''a_b-80''"] by simp

definition example_patches :: patch_files where
  "example_patches = \<lparr>file_exists = (\<lambda>_. False), file_base = (\<lambda>_. ''''), file_read = (\<lambda>_. Inr ''''),
     reencode_doc = (\<lambda>d. Inr (Some d))\<rparr>"


lemma GetRestClient_writes_shared_config_witness:
  "\<exists>cfg g v. GroupVersion cfg = Some (g, v) \<and> APIPath (cfg :: rest_config) = (if g = '''' then ''/api'' else ''/apis'')
    \<and> g = ''apps''"
proof -
  have "GetRestClient example_constructors (\<lambda>_. Inr (''apps'', ''v1'')) (\<lambda>cfg. Inr (GroupVersion cfg)) NewClientFromBytes
    = Some (Inr (Some (''apps'', ''v1'')),
        NewClientFromBytes\<lparr>restConfig := Some \<lparr>Host = ''k'', GroupVersion = Some (''apps'', ''v1''), APIPath = ''/apis'', rest_opaque = ''''\<rparr>,
          restMapper := Some ''/h/.kube/cache/discovery/k'', made := 2\<rparr>)"
    by (simp add: GetRestClient_def GetRestMapper_def GetRESTConfigFromKubeconfig_def NewClientFromBytes_def
        example_constructors_def cache_dir_def HasPrefix_def going_out_def)
  from GetRestClient_writes_shared_config [OF this] show ?thesis by auto
qed

end
