(* ===== verification/Logs.thy ===== *)
theory Logs
  imports Waiting "HOL-Library.Multiset"
begin

text \<open>
  Logs of pods and manual runs of cron jobs (\<open>GetPodLogs\<close>, \<open>StreamLogs\<close>, \<open>StreamLogsV2\<close> and
  \<open>TriggerCronJobManually\<close> of \<open>client.go\<close>).

  The log streams and the typed clients are parameters. The lines that the goroutines print are left
  out; which streams were started, and with which prefix, is not.
\<close>

section \<open>Logs of a container\<close>

text \<open>An opened stream gives what could be read of it and the error that ended the reading.\<close>

definition GetPodLogs ::
  "gerror option \<Rightarrow> (string \<Rightarrow> string \<Rightarrow> string option \<Rightarrow> gerror + string \<times> gerror option)
     \<Rightarrow> string \<Rightarrow> string \<Rightarrow> string \<Rightarrow> string \<times> gerror option" where
  "GetPodLogs conn open_stream namespace podName container =
     (case conn of
        Some err \<Rightarrow> ('''', Some err)
      | None \<Rightarrow>
          (case open_stream namespace podName (if container \<noteq> '''' then Some container else None) of
             Inl err \<Rightarrow> ('''', Some err)
           | Inr (buf, err) \<Rightarrow> (buf, None)))"

section \<open>Streaming the logs of a pod\<close>

text \<open>The containers whose logs are streamed: the containers of the pod, then its init containers.\<close>

definition streamed :: "string list \<Rightarrow> string list \<Rightarrow> string list \<Rightarrow> string list" where
  "streamed containers init_containers containerNames =
     filter (\<lambda>c. length containerNames = 0 \<or> sliceContains containerNames c) (containers @ init_containers)"

text \<open>
  The loop over the list of containers, which grows while it runs: the state has the containers still
  ahead in the list and the streams started, each a container and the prefix of its lines. An
  observation is the outcome of opening a stream, for the container asked for.
\<close>

definition stream_body ::
  "(string \<Rightarrow> string) \<Rightarrow> string list \<times> (string \<times> string) list \<Rightarrow> (string \<Rightarrow> gerror option)
     \<Rightarrow> string list \<times> (string \<times> string) list + (string \<times> string) list" where
  "stream_body pre = (\<lambda>(ahead, started) obs.
     case ahead of
       [] \<Rightarrow> Inr started
     | container # ahead \<Rightarrow>
         (case obs container of
            Some err \<Rightarrow> Inl (ahead @ [container], started)
          | None \<Rightarrow> Inl (ahead, started @ [(container, pre container)])))"

definition stream_prefix :: "string \<Rightarrow> string list \<Rightarrow> string \<Rightarrow> string" where
  "stream_prefix name containers container = (if 1 < length containers then name @ ''/'' @ container else name)"

text \<open>
  What the pod answers: at first its name, containers and init containers; while its start is awaited
  and its end is awaited, with the clock; and at the end its phase and message.
\<close>

record stream_obs =
  first_get :: "gerror + string \<times> string list \<times> string list"
  start_polls :: "nat \<Rightarrow> (pod option \<times> gerror option) poll"
  open_streams :: "nat \<Rightarrow> string \<Rightarrow> gerror option"
  end_started :: int
  end_polls :: "nat \<Rightarrow> (pod option \<times> gerror option) poll"
  last_get :: "gerror + string \<times> string"

text \<open>
  The result is the streams started and the function's error. The same fuel bounds each loop; the
  panic of \<open>WaitForPod\<close> is \<open>None\<close>. The timeout of the start is two minutes.
\<close>

definition StreamLogsV2 ::
  "bool \<Rightarrow> gerror option \<Rightarrow> stream_obs \<Rightarrow> string \<Rightarrow> int \<Rightarrow> string list \<Rightarrow> nat
     \<Rightarrow> ((string \<times> string) list \<times> gerror option option) loop" where
  "StreamLogsV2 dry conn S name timeout containerNames fuel =
     (case conn of
        Some err \<Rightarrow> Returned ([], Some (Some err))
      | None \<Rightarrow>
          (case first_get S of
             Inl err \<Rightarrow> Returned ([], Some (Some err))
           | Inr (the_name, containers, init_containers) \<Rightarrow>
               (case WaitForContainerStart dry conn (120000000000 :: int) containerNames fuel (start_polls S) of
                  Running \<Rightarrow> Running
                | Returned (Some err) \<Rightarrow> Returned ([], Some (Some err))
                | Returned None \<Rightarrow>
                    (case run_loop (stream_body (stream_prefix the_name containers)) fuel
                        (streamed containers init_containers containerNames, []) (open_streams S) of
                       Running \<Rightarrow> Running
                     | Returned started \<Rightarrow>
                         (case WaitForPod dry conn name timeout [''Succeeded''] (end_started S) fuel (end_polls S) of
                            Running \<Rightarrow> Running
                          | Returned None \<Rightarrow> Returned (started, None)
                          | Returned (Some (Some err)) \<Rightarrow> Returned (started, Some (Some err))
                          | Returned (Some None) \<Rightarrow>
                              (case last_get S of
                                 Inl err \<Rightarrow> Returned (started, Some (Some err))
                               | Inr (ph, message) \<Rightarrow>
                                   if ph = ''Succeeded'' then Returned (started, Some None)
                                   else Returned (started, Some (Some (errorf (''pod did not finish successfully ''
                                     @ ph @ '' - '' @ message))))))))))"

definition StreamLogs ::
  "bool \<Rightarrow> gerror option \<Rightarrow> stream_obs \<Rightarrow> string \<Rightarrow> nat
     \<Rightarrow> ((string \<times> string) list \<times> gerror option option) loop" where
  "StreamLogs dry conn S name fuel = StreamLogsV2 dry conn S name 300000000000 [] fuel"

section \<open>Manual runs of a cron job\<close>

record 'spec new_job =
  job_name :: string
  job_run :: 'spec

text \<open>The job gets the specification of the cron job's template; \<open>create\<close> gives the name it was created with.\<close>

definition TriggerCronJobManually ::
  "gerror option \<Rightarrow> (string \<Rightarrow> string \<Rightarrow> gerror + 'spec) \<Rightarrow> (string \<Rightarrow> 'spec new_job \<Rightarrow> gerror + string) \<Rightarrow> string
     \<Rightarrow> string \<Rightarrow> string \<Rightarrow> string \<times> gerror option" where
  "TriggerCronJobManually conn get_template create random namespace cronJobName =
     (case conn of
        Some err \<Rightarrow> ('''', Some err)
      | None \<Rightarrow>
          (case get_template namespace cronJobName of
             Inl err \<Rightarrow> ('''', Some err)
           | Inr spec \<Rightarrow>
               (case create namespace \<lparr>job_name = cronJobName @ ''-manual-'' @ random, job_run = spec\<rparr> of
                  Inl err \<Rightarrow> ('''', Some err)
                | Inr name \<Rightarrow> (name, None))))"

section \<open>The loop over the containers\<close>

lemma stream_body_simps [simp]:
  "stream_body pre ([], started) obs = Inr started"
  "obs c = None \<Longrightarrow> stream_body pre (c # ahead, started) obs = Inl (ahead, started @ [(c, pre c)])"
  "obs c = Some err \<Longrightarrow> stream_body pre (c # ahead, started) obs = Inl (ahead @ [c], started)"
  by (simp_all add: stream_body_def)

lemma stream_body_cases:
  obtains (finished) "ahead = []" "stream_body pre (ahead, started) obs = Inr started"
  | (opened) c ds where "ahead = c # ds" "obs c = None"
      "stream_body pre (ahead, started) obs = Inl (ds, started @ [(c, pre c)])"
  | (again) c ds err where "ahead = c # ds" "obs c = Some err"
      "stream_body pre (ahead, started) obs = Inl (ds @ [c], started)"
proof (cases ahead)
  case (Cons c ds)
  then show thesis using that(2,3) by (cases "obs c") auto
qed (use that(1) in simp)

text \<open>
  The loop starts one stream for each container, no more and no less, with the prefix of the
  container, whatever streams failed to open and in whichever order they were tried again.
\<close>

lemma stream_loop_each_once:
  assumes "run_loop (stream_body pre) fuel (containers, []) obs = Returned started"
  shows "mset (map fst started) = mset containers \<and> (\<forall>(c, p)\<in>set started. p = pre c)"
proof (rule run_loop_invariant [OF assms, where
      I = "\<lambda>(ahead, started). mset ahead + mset (map fst started) = mset containers \<and> (\<forall>(c, p)\<in>set started. p = pre c)"])
  fix s i s'
  assume "case s of (ahead, started) \<Rightarrow> mset ahead + mset (map fst started) = mset containers \<and> (\<forall>(c, p)\<in>set started. p = pre c)"
    and "stream_body pre s (obs i) = Inl s'"
  then show "case s' of (ahead, started) \<Rightarrow> mset ahead + mset (map fst started) = mset containers \<and> (\<forall>(c, p)\<in>set started. p = pre c)"
    by (cases s; cases rule: stream_body_cases [where ahead = "fst s" and started = "snd s" and pre = pre and obs = "obs i"]) (auto simp: add_ac)
qed (auto simp: stream_body_def split: list.splits option.splits)

lemma stream_loop_all_open:
  assumes "\<forall>i. \<forall>c\<in>set ahead. obs i c = None"
  shows "\<exists>r. run_loop (stream_body pre) (Suc (length ahead)) (ahead, started) obs = Returned r"
  using assms
proof (induction ahead arbitrary: started obs)
  case (Cons c ahead)
  then have "\<exists>r. run_loop (stream_body pre) (Suc (length ahead)) (ahead, started @ [(c, pre c)]) (\<lambda>i. obs (Suc i)) = Returned r"
    by (intro Cons.IH) auto
  with Cons.prems show ?case by (simp only: list.size add_Suc_right run_loop.simps(2) [of _ "Suc _"]) (simp del: run_loop.simps)
qed simp

lemma stream_loop_eventually:
  assumes "\<forall>i\<ge>n. \<forall>c\<in>set ahead. obs i c = None"
  shows "\<exists>r. run_loop (stream_body pre) (n + Suc (length ahead)) (ahead, started) obs = Returned r"
  using assms
proof (induction n arbitrary: ahead started obs)
  case 0
  then show ?case using stream_loop_all_open by simp
next
  case (Suc n)
  show ?case
  proof (cases "stream_body pre (ahead, started) (obs 0)")
    case (Inr r)
    then show ?thesis by simp
  next
    case (Inl s')
    obtain ahead' started' where s': "s' = (ahead', started')" by (cases s')
    have short: "length ahead' \<le> length ahead" and sub: "set ahead' \<subseteq> set ahead"
      using Inl s' by (auto simp: stream_body_def split: list.splits option.splits)
    obtain r where "run_loop (stream_body pre) (n + Suc (length ahead')) (ahead', started') (\<lambda>i. obs (Suc i)) = Returned r"
      using Suc.IH [of ahead' "\<lambda>i. obs (Suc i)" started'] Suc.prems sub by blast
    then have "run_loop (stream_body pre) (n + Suc (length ahead') + (length ahead - length ahead')) (ahead', started')
        (\<lambda>i. obs (Suc i)) = Returned r"
      by (rule run_loop_mono)
    with short Inl s' show ?thesis by simp
  qed
qed

lemma stream_loop_stuck:
  assumes "c \<in> set ahead" and "\<forall>i. obs i c \<noteq> None"
  shows "run_loop (stream_body pre) fuel (ahead, started) obs = Running"
  using assms
proof (induction fuel arbitrary: ahead started obs)
  case (Suc fuel)
  show ?case
  proof (cases rule: stream_body_cases [where ahead = ahead and started = started and pre = pre and obs = "obs 0"])
    case (opened d ds)
    have "obs 0 c \<noteq> None" using Suc.prems(2) by blast
    with Suc.prems(1) opened have "c \<in> set ds" by (cases "c = d") auto
    with Suc.IH [of ds "\<lambda>i. obs (Suc i)"] Suc.prems(2) opened show ?thesis by simp
  next
    case (again d ds e)
    with Suc.IH [of "ds @ [d]" "\<lambda>i. obs (Suc i)"] Suc.prems show ?thesis by simp
  qed (use Suc.prems in simp)
qed simp

text \<open>
  C16. The loop over the containers ends when the streams of all of them open from some attempt on,
  after as many more attempts as there are containers, and one to see the end of the list; a
  container whose stream never opens keeps it running for ever: it has no deadline of its own.
\<close>

theorem stream_loop_ends:
  "((\<forall>i\<ge>n. \<forall>c\<in>set containers. obs i c = None) \<longrightarrow>
      (\<exists>r. run_loop (stream_body pre) (n + Suc (length containers)) (containers, []) obs = Returned r))
   \<and> ((\<exists>c\<in>set containers. \<forall>i. obs i c \<noteq> None) \<longrightarrow>
      (\<forall>fuel. run_loop (stream_body pre) fuel (containers, []) obs = Running))"
  using stream_loop_eventually stream_loop_stuck by blast

text \<open>
  C26. When \<open>StreamLogsV2\<close> returns nil, the logs of every container asked for have been streamed once
  and the pod was read as succeeded at the end; outside a dry run it was before seen as succeeded or
  failed before the deadline.
\<close>

theorem StreamLogsV2_success:
  assumes "StreamLogsV2 dry conn S name timeout containerNames fuel = Returned (started, Some None)"
  shows "\<exists>the_name containers init_containers message. first_get S = Inr (the_name, containers, init_containers)
    \<and> mset (map fst started) = mset (streamed containers init_containers containerNames)
    \<and> last_get S = Inr (''Succeeded'', message)
    \<and> (dry \<or> (\<exists>i<fuel. \<exists>p. fst (reply (end_polls S i)) = Some p \<and> now (end_polls S i) \<le> end_started S + timeout
          \<and> phase p \<in> {''Succeeded'', ''Failed''}))"
proof -
  obtain the_name containers init_containers message where
      conn: "conn = None" and first: "first_get S = Inr (the_name, containers, init_containers)"
      and loop: "run_loop (stream_body (stream_prefix the_name containers)) fuel
        (streamed containers init_containers containerNames, []) (open_streams S) = Returned started"
      and wait: "WaitForPod dry conn name timeout [''Succeeded''] (end_started S) fuel (end_polls S) = Returned (Some None)"
      and last: "last_get S = Inr (''Succeeded'', message)"
    using assms by (auto simp: StreamLogsV2_def split: option.splits sum.splits prod.splits loop.splits if_splits)
  have "\<not> dry \<Longrightarrow> \<exists>i p. i < fuel \<and> fst (reply (end_polls S i)) = Some p \<and> now (end_polls S i) \<le> end_started S + timeout
      \<and> phase p \<noteq> ''Pending'' \<and> phase p \<in> insert ''Failed'' (set [''Succeeded''])"
    using WaitForPod_loop_success [where name = name and phases = "[''Succeeded'']" and obs = "end_polls S"] wait conn
    by (simp add: WaitForPod_def)
  moreover have "mset (map fst started) = mset (streamed containers init_containers containerNames)"
    using stream_loop_each_once [OF loop] by simp
  ultimately show ?thesis using first last by auto
qed

text \<open>Whatever error ends the reading of a log, \<open>GetPodLogs\<close> gives what was read until then, and nil.\<close>

theorem GetPodLogs_drops_read_error:
  "snd (GetPodLogs conn open_stream namespace podName container) = None \<longleftrightarrow>
     conn = None \<and> (\<exists>buf err. open_stream namespace podName (if container = '''' then None else Some container) = Inr (buf, err)
       \<and> fst (GetPodLogs conn open_stream namespace podName container) = buf)"
  by (auto simp: GetPodLogs_def split: option.splits sum.splits)

section \<open>Examples\<close>

text \<open>The stream of the init container fails once.\<close>

definition example_streams :: "nat \<Rightarrow> string \<Rightarrow> gerror option" where
  "example_streams i c = (if i < 1 \<and> c = ''app'' then Some (errorf ''not ready'') else None)"

lemma stream_loop_ends_witness:
  "\<exists>r. run_loop (stream_body (\<lambda>c. c)) (1 + Suc (length [''app'', ''init''])) ([''app'', ''init''], []) example_streams
     = Returned r"
proof -
  have "\<forall>i\<ge>1. \<forall>c\<in>set [''app'', ''init'']. example_streams i c = None" by (simp add: example_streams_def)
  then show ?thesis using stream_loop_ends by blast
qed

definition example_logs :: stream_obs where
  "example_logs = \<lparr>first_get = Inr (''p'', [''app''], [''init'']), start_polls = (\<lambda>i. \<lparr>now = int i, reply = (None, None)\<rparr>),
     open_streams = example_streams, end_started = 0,
     end_polls = (\<lambda>i. \<lparr>now = int i, reply = (Some example_pod, None)\<rparr>), last_get = Inr (''Succeeded'', '''')\<rparr>"

lemma example_logs_streamed:
  "StreamLogsV2 False None example_logs ''p'' 5 [] 4 = Returned ([(''init'', ''p''), (''app'', ''p'')], Some None)"
  by (simp add: StreamLogsV2_def example_logs_def streamed_def stream_prefix_def example_streams_def
      WaitForContainerStart_def WaitForContainerStart_body_def WaitForPod_def WaitForPod_body_def expired_def
      example_pod_def stream_body_def numeral_eq_Suc)

lemma StreamLogsV2_success_witness:
  "mset [''init'', ''app''] = mset (streamed [''app''] [''init''] [])"
  using StreamLogsV2_success [OF example_logs_streamed] by (simp add: example_logs_def)

end
