(* ===== verification/Objects.thy ===== *)
theory Objects
  imports Pods Builder Documents Apply
begin

text \<open>
  Small operations on objects: the typed views and texts of dynamic objects, \<open>NewDeployment\<close> and the
  current cluster of a kubeconfig (\<open>utils.go\<close>), the decoding of protobuf messages (\<open>helper.go\<close>), and
  the entry points of package \<open>kustomize\<close> that are not in \<open>Documents\<close>.

  The converters and encoders of apimachinery are parameters.
\<close>

section \<open>Views of dynamic objects\<close>

definition KustomizedLabel :: string where
  "KustomizedLabel = ''kustomize/patched''"

text \<open>Looking a key up in nil annotations finds nothing.\<close>

definition IsKustomized :: "accessors \<Rightarrow> unstructured \<Rightarrow> bool" where
  "IsKustomized A u = (case GetAnnotations A u of None \<Rightarrow> False | Some m \<Rightarrow> map_of m KustomizedLabel \<noteq> None)"

text \<open>The encoders' errors are dropped; \<open>None\<close> is the nil pointer.\<close>

definition ToJson :: "(unstructured \<Rightarrow> string \<times> gerror option) \<Rightarrow> unstructured option \<Rightarrow> string" where
  "ToJson MarshalJSON u = (case u of None \<Rightarrow> '''' | Some u \<Rightarrow> fst (MarshalJSON u))"

definition ToYaml :: "(unstructured \<Rightarrow> string \<times> gerror option) \<Rightarrow> unstructured option \<Rightarrow> string" where
  "ToYaml Marshal u = (case u of None \<Rightarrow> '''' | Some u \<Rightarrow> fst (Marshal u))"

text \<open>
  The typed views share one shape. \<open>FromUnstructured\<close> is the converter into the type, and a nil
  object has a nil view.
\<close>

definition as_typed :: "(obj_map \<Rightarrow> gerror + 't) \<Rightarrow> unstructured option \<Rightarrow> gerror + 't option" where
  "as_typed FromUnstructured u =
     (if IsNil (Some u) then Inr None
      else case FromUnstructured (Object (the u)) of Inl err \<Rightarrow> Inl err | Inr t \<Rightarrow> Inr (Some t))"

definition AsDeployment :: "(obj_map \<Rightarrow> gerror + 'deployment) \<Rightarrow> unstructured option \<Rightarrow> gerror + 'deployment option" where
  "AsDeployment FromUnstructured u = as_typed FromUnstructured u"

definition AsStatefulSet :: "(obj_map \<Rightarrow> gerror + 'sts) \<Rightarrow> unstructured option \<Rightarrow> gerror + 'sts option" where
  "AsStatefulSet FromUnstructured u = as_typed FromUnstructured u"

definition AsSecret :: "(obj_map \<Rightarrow> gerror + 'secret) \<Rightarrow> unstructured option \<Rightarrow> gerror + 'secret option" where
  "AsSecret FromUnstructured u = as_typed FromUnstructured u"

definition AsService :: "(obj_map \<Rightarrow> gerror + 'svc) \<Rightarrow> unstructured option \<Rightarrow> gerror + 'svc option" where
  "AsService FromUnstructured u = as_typed FromUnstructured u"

definition AsIngress :: "(obj_map \<Rightarrow> gerror + 'ing) \<Rightarrow> unstructured option \<Rightarrow> gerror + 'ing option" where
  "AsIngress FromUnstructured u = as_typed FromUnstructured u"

definition AsRoleBinding :: "(obj_map \<Rightarrow> gerror + 'rb) \<Rightarrow> unstructured option \<Rightarrow> gerror + 'rb option" where
  "AsRoleBinding FromUnstructured u = as_typed FromUnstructured u"

definition AsClusterRoleBinding :: "(obj_map \<Rightarrow> gerror + 'rb) \<Rightarrow> unstructured option \<Rightarrow> gerror + 'rb option" where
  "AsClusterRoleBinding FromUnstructured u = as_typed FromUnstructured u"

definition AsDaemonSet :: "(obj_map \<Rightarrow> gerror + 'ds) \<Rightarrow> unstructured option \<Rightarrow> gerror + 'ds option" where
  "AsDaemonSet FromUnstructured u = as_typed FromUnstructured u"

definition AsCustomResourceDefinition :: "(obj_map \<Rightarrow> gerror + 'crd) \<Rightarrow> unstructured option \<Rightarrow> gerror + 'crd option" where
  "AsCustomResourceDefinition FromUnstructured u = as_typed FromUnstructured u"

definition AsCustomResourceDefinitionV1Beta1 ::
  "(obj_map \<Rightarrow> gerror + 'crd) \<Rightarrow> unstructured option \<Rightarrow> gerror + 'crd option" where
  "AsCustomResourceDefinitionV1Beta1 FromUnstructured u = as_typed FromUnstructured u"

text \<open>The map at a path, nil, \<open>None\<close>, where it is missing: the converter is called on a nil map, too.\<close>

definition AsPodTemplate ::
  "(obj_map \<Rightarrow> string list \<Rightarrow> gerror + obj_map option) \<Rightarrow> (obj_map option \<Rightarrow> gerror + 'template) \<Rightarrow> unstructured option
     \<Rightarrow> gerror + 'template option" where
  "AsPodTemplate NestedMap FromUnstructured u =
     (if IsNil (Some u) then Inr None
      else case NestedMap (Object (the u)) [''spec'', ''template''] of
        Inl err \<Rightarrow> Inl err
      | Inr m \<Rightarrow> (case FromUnstructured m of Inl err \<Rightarrow> Inl err | Inr t \<Rightarrow> Inr (Some t)))"

definition GetUnstructuredObjectsFromJson ::
  "(string \<Rightarrow> gerror + unstructured option list) \<Rightarrow> string \<Rightarrow> gerror + unstructured option list" where
  "GetUnstructuredObjectsFromJson Unmarshal data =
     (case Unmarshal data of Inl err \<Rightarrow> Inl err | Inr items \<Rightarrow> Inr items)"

definition Health_String :: "console \<Rightarrow> (string \<Rightarrow> string) \<Rightarrow> Health \<Rightarrow> string" where
  "Health_String C Yellowf h =
     (let d = (\<lambda>n :: goint. int_dec (sint n))
      in ''pods(running='' @ d (RunningPods h) @ '', pending='' @ Yellowf (d (PendingPods h))
         @ '', crashloop='' @ Redf C (d (CrashLoopBackOff h)) @ '', error='' @ Redf C (d (ErrorPods h))
         @ '')  nodes(ready='' @ d (ReadyNodes h) @ '', notready='' @ Redf C (d (UnreadyNodes h)) @ '')'')"

section \<open>New deployments\<close>

record resource_requirements =
  Limits :: str_map
  Requests :: str_map

definition LowResourceRequirements :: resource_requirements where
  "LowResourceRequirements =
     \<lparr>Limits = [(''memory'', ''512Mi''), (''cpu'', ''500m'')], Requests = [(''memory'', ''128Mi''), (''cpu'', ''10m'')]\<rparr>"

definition NewObjectMeta :: "string \<Rightarrow> string \<Rightarrow> object_meta" where
  "NewObjectMeta ns name = \<lparr>om_name = name, om_namespace = ns, om_labels = None, om_annotations = None\<rparr>"

record deployment =
  d_meta :: object_meta
  d_kind :: string
  d_apiVersion :: string
  d_replicas :: "32 word"
  d_MatchLabels :: map_ref
  d_template_labels :: map_ref
  d_container :: string
  d_image :: string
  d_pull_policy :: string
  d_port :: "32 word"
  d_args :: "string list"
  d_resources :: resource_requirements

text \<open>
  The labels are the caller's map where one is given. It is written to when it is empty, and the
  selector and the template of the deployment both refer to it.
\<close>

definition NewDeployment ::
  "string \<Rightarrow> string \<Rightarrow> string \<Rightarrow> map_ref \<Rightarrow> 32 word \<Rightarrow> string list \<Rightarrow> map_store \<Rightarrow> deployment \<times> map_store" where
  "NewDeployment ns name img ls p xs S =
     (let (ls, S) = (if ls = None then alloc S [] else (ls, S));
          (ls, S) = (if length (deref S ls) = 0 then put (''app'', name) (ls, S) else (ls, S))
      in (\<lparr>d_meta = NewObjectMeta ns name, d_kind = ''Deployment'', d_apiVersion = ''apps/v1'', d_replicas = 1,
            d_MatchLabels = ls, d_template_labels = ls, d_container = name, d_image = img,
            d_pull_policy = ''IfNotPresent'', d_port = p, d_args = xs, d_resources = LowResourceRequirements\<rparr>, S))"

section \<open>The current cluster\<close>

text \<open>\<open>strings.Replace(s, old, new, 1)\<close> of a text that is not empty\<close>

fun replace_first :: "string \<Rightarrow> string \<Rightarrow> string \<Rightarrow> string" where
  "replace_first [] old new = []"
| "replace_first (c # s) old new =
     (if HasPrefix (c # s) old then new @ drop (length old) (c # s) else c # replace_first s old new)"

record loaded_config =
  CurrentContext :: string
  context_clusters :: "(string \<times> string) list"

definition GetCurrentClusterNameFrom :: "gerror + loaded_config \<Rightarrow> string" where
  "GetCurrentClusterNameFrom file =
     (case file of
        Inl err \<Rightarrow> Error err
      | Inr config \<Rightarrow>
          (case map_of (context_clusters config) (CurrentContext config) of
             None \<Rightarrow> ''invalid context name: '' @ CurrentContext config
           | Some cluster \<Rightarrow> replace_first cluster ''kind-'' ''''))"

section \<open>Protobuf messages\<close>

text \<open>\<open>decodes\<close> is the error of decoding the message as a kind; the kind that decodes is returned.\<close>

definition decodeProtobufResource ::
  "gerror option \<Rightarrow> (string \<Rightarrow> gerror + 'gvk list) \<Rightarrow> ('gvk \<Rightarrow> string \<Rightarrow> gerror option) \<Rightarrow> string \<Rightarrow> string \<Rightarrow> gerror + 'gvk" where
  "decodeProtobufResource mapper_err KindsFor decodes kind message =
     (case mapper_err of
        Some err \<Rightarrow> Inl (wrapf err ''failed to get rest mapper'')
      | None \<Rightarrow>
          (case KindsFor kind of
             Inl err \<Rightarrow> Inl (wrapf err (''failed to get kind for '' @ kind))
           | Inr gvks \<Rightarrow>
               if length gvks = 0 then Inl (errorf (''no gvks returned for kind '' @ kind))
               else case find (\<lambda>gvk. decodes gvk message = None) gvks of
                 Some gvk \<Rightarrow> Inr gvk
               | None \<Rightarrow> Inl (errorf (''failed to decode protobuf message into runtime object, ''
                   @ ''failed to find any suitable gvk''))))"

section \<open>The kustomize manager\<close>

definition kustomize_setAnnotation :: "accessors \<Rightarrow> unstructured \<Rightarrow> string \<Rightarrow> string \<Rightarrow> unstructured" where
  "kustomize_setAnnotation A obj key v =
     SetAnnotations A (AList.update key v (case GetAnnotations A obj of None \<Rightarrow> [] | Some m \<Rightarrow> m)) obj"

text \<open>The manager's file system, with the patches, is its only state that is ever set.\<close>

definition AddPatch :: "string \<Rightarrow> string \<Rightarrow> (string \<times> string) list \<Rightarrow> (string \<times> string) list" where
  "AddPatch name data fs = AList.update name data fs"

definition KustomizeRaw ::
  "accessors \<Rightarrow> (string \<Rightarrow> gerror + string) \<Rightarrow> (string \<Rightarrow> gerror + unstructured option)
     \<Rightarrow> krusty \<Rightarrow> string \<Rightarrow> gerror + unstructured list" where
  "KustomizeRaw A utf8_reader decode K data =
     (case kustomize_GetUnstructuredObjects utf8_reader decode data of
        Inl err \<Rightarrow> Inl err
      | Inr raw \<Rightarrow>
          Kustomize (\<lambda>u. kustomize_setAnnotation A u ''kustomize/patched'' ''true'') (kustomize_one K)
            (kustomize_GetUnstructuredObjects utf8_reader decode) (map Some raw))"

text \<open>\<open>q\<close> quotes a text, the verb \<open>q\<close> of a format.\<close>

definition newStrategicMergeSliceFromFile ::
  "(string \<Rightarrow> string) \<Rightarrow> (string \<Rightarrow> gerror + string) \<Rightarrow> (string \<Rightarrow> gerror + unstructured list) \<Rightarrow> string
     \<Rightarrow> gerror + unstructured list" where
  "newStrategicMergeSliceFromFile q load slice_of path =
     (case load path of
        Inl err \<Rightarrow> Inl (wrapf err (''load from path '' @ q path @ '' failed''))
      | Inr content \<Rightarrow>
          (case slice_of content of
             Inl err \<Rightarrow> Inl (wrapf err (''convert '' @ q path @ '' to Unstructured failed''))
           | Inr res \<Rightarrow> Inr res))"

section \<open>Properties\<close>

text \<open>
  The selector of a new deployment and the labels of its template are one map, which is not
  empty, so that the deployment always selects its own pods, whatever is written to the map later.
  Of the maps that were there, only an empty one given as the labels changes: it gets the label of
  the name.
\<close>

theorem NewDeployment_selects_its_pods:
  assumes "NewDeployment ns name img ls p xs S = (d, S')"
  shows "d_MatchLabels d = d_template_labels d \<and> (\<forall>T. deref T (d_MatchLabels d) = deref T (d_template_labels d))
    \<and> deref S' (d_MatchLabels d) \<noteq> []
    \<and> (\<forall>a. a \<noteq> fresh S \<longrightarrow> cells S' a = (if ls = Some a \<and> cells S a = [] then [(''app'', name)] else cells S a))"
  using assms
  by (auto simp: NewDeployment_def Let_def alloc_def put_def deref_def split: if_splits option.splits)

lemma NewDeployment_selects_its_pods_witness:
  "cells (snd (NewDeployment ''n'' ''web'' ''nginx'' (Some 3) 80 [] \<lparr>cells = (\<lambda>_. []), fresh = 7\<rparr>)) 3 = [(''app'', ''web'')]"
proof -
  obtain d S' where "NewDeployment ''n'' ''web'' ''nginx'' (Some 3) 80 [] \<lparr>cells = (\<lambda>_. []), fresh = 7\<rparr> = (d, S')"
    by (metis surj_pair)
  with NewDeployment_selects_its_pods [OF this] show ?thesis by simp
qed

lemma replace_first_at:
  assumes "\<forall>i<length before. \<not> HasPrefix (drop i (before @ old @ s)) old" and "old \<noteq> []"
  shows "replace_first (before @ old @ s) old new = before @ new @ s"
  using assms(1)
proof (induction before)
  case Nil
  then show ?case using assms(2) by (cases old) (simp_all add: HasPrefix_def)
next
  case (Cons c before)
  have "\<not> HasPrefix (drop i (before @ old @ s)) old" if "i < length before" for i
    using Cons.prems that by (metis Suc_less_eq append_Cons drop_Suc_Cons length_Cons)
  moreover have "\<not> HasPrefix (c # before @ old @ s) old" using Cons.prems by (metis append_Cons drop0 length_Cons zero_less_Suc)
  ultimately show ?case using Cons.IH by simp
qed

text \<open>
  The name of the current cluster is that of the context's cluster without the first occurrence
  of the prefix that kind adds, wherever in the name it is.
\<close>

theorem GetCurrentClusterNameFrom_strips_anywhere:
  assumes "map_of (context_clusters config) (CurrentContext config) = Some (before @ ''kind-'' @ name)"
    and "\<forall>i<length before. \<not> HasPrefix (drop i (before @ ''kind-'' @ name)) ''kind-''"
  shows "GetCurrentClusterNameFrom (Inr config) = before @ name"
  using assms(1) replace_first_at [OF assms(2)] by (simp add: GetCurrentClusterNameFrom_def)

lemma GetCurrentClusterNameFrom_strips_anywhere_witness:
  "GetCurrentClusterNameFrom (Inr \<lparr>CurrentContext = ''c'', context_clusters = [(''c'', ''man'' @ ''kind-'' @ ''east'')]\<rparr>)
     = ''man'' @ ''east''"
  by (rule GetCurrentClusterNameFrom_strips_anywhere)
    (simp_all add: HasPrefix_def less_Suc_eq numeral_eq_Suc)

end
