(* ===== verification/Spec2Isabelle.thy ===== *)
theory Spec2Isabelle
  imports Waiting Drain_Client Builder Conditions Documents Apply Shortcuts Templating Cluster_Tests Commands Proxy Connection Logs Objects
begin

text \<open>
  This development models kommons, a Go library of helpers for Kubernetes clients: applying objects
  with defaults and kustomization, waiting until they are ready, draining and evicting nodes,
  building and templating objects, and small tools around a client. A program calls the methods of
  \<open>Client\<close> (\<open>client.go\<close>), which talks to the API server through client-go; the methods call each
  other, as \<open>Apply\<close> calls the defaults, the kustomizer and the wait for an API resource, or a drain
  calls the eviction of each pod.

  How code becomes definitions (theory \<open>Go_Prelude\<close>):
  \<^item> A Go struct is a record, a sum of Go types a datatype, a Go string the list of its bytes. Counters
    of type \<open>int\<close> are words of 64 bits where they can overflow, and integers where they cannot.
  \<^item> An error is a \<open>gerror\<close>; a pair of a value and an error is \<open>gerror + 'a\<close> or, where both matter, a
    pair. A function that can panic has type \<open>'a option\<close>, with \<open>None\<close> for the panic.
  \<^item> A call to the API server is an entry of a log, threaded by \<open>State_Monad\<close>: \<open>ask\<close> appends the call
    and reads the answer, which is any function of the log so far. So the server is arbitrary and may
    change between calls, and theorems speak of the calls made and of their order.
  \<^item> A \<open>for\<close> loop left by \<open>return\<close> is \<open>run_loop\<close> of one iteration on a sequence of observations with
    fuel, and \<open>Running\<close> where the fuel ends. The locale \<open>deadline_loop\<close> states the contract of a loop
    with a deadline; every polling loop with one interprets it. \<open>enough timeout\<close> iterations suffice
    for a deadline because an iteration that goes on sleeps for at least one second (\<open>clock_runs\<close>).
  \<^item> Maps and slices that the code shares are references into a store where the sharing can be seen
    (\<open>Builder\<close>, \<open>Objects.NewDeployment\<close>), and the shared part is returned updated elsewhere
    (\<open>Apply.copyImmutable\<close>, \<open>Templating.make_functions\<close>, \<open>Connection.GetRestClient\<close>).
  \<^item> Maps that are ranged over are lists in the order of the iteration, over which theorems quantify.

  The theories, in the order of their imports:
  \<^item> \<open>Names\<close>: names in \<open>utils.go\<close> and \<open>core_types.go\<close>; the characters and the length of DNS names.
  \<^item> \<open>Kinds\<close>: dynamic objects, their values and the predicates on kinds of \<open>utils.go\<close>.
  \<^item> \<open>Pods\<close>: pod, node and health predicates of \<open>utils.go\<close> and \<open>health.go\<close>.
  \<^item> \<open>Readiness\<close>: the checks \<open>Is...Ready\<close> of \<open>wait.go\<close>; that they do not panic on well-formed objects,
    and what their verdicts mean.
  \<^item> \<open>Waiting\<close>: the polling loops of \<open>wait.go\<close> and \<open>client.go\<close>; that they return by their deadlines,
    and what a return without an error has seen.
  \<^item> \<open>Drain\<close>: package \<open>drain\<close> but for \<open>evictPods\<close>: the filters, the deletion and its wait, cordoning.
    The locale \<open>pod_filter\<close> is the contract of a filter; its lemmas give which pods are deleted.
  \<^item> \<open>Drain_Concurrent\<close>: \<open>evictPods\<close> as a step relation of goroutines around a channel of capacity
    one; no deadlock, and every result is collected once.
  \<^item> \<open>Eviction\<close>: \<open>evict.go\<close>, \<open>unsafe.go\<close> and the scaling of \<open>shortcuts.go\<close>; the protocol of the claims
    on local storage, which are created again once their deletion was accepted and a poll is over,
    whether it saw them gone or ran out of time.
  \<^item> \<open>Drain_Client\<close>: \<open>evictPods\<close> for the one pod that the client drains, under \<open>EvictPod\<close> and \<open>Drain\<close>,
    with only the answers of the server left open: when evictions are retried, that scaling is
    undone unless the server refuses it, what a successful drain has done, and that a claim is
    deleted only after a pod of its namespace was removed, or taken for gone after a failed question.
  \<^item> \<open>Defaults\<close>: \<open>defaults.go\<close>; unset fields are filled and set fields kept, so that applying the
    defaults twice changes nothing more.
  \<^item> \<open>Builder\<close>: \<open>builder.go\<close>, with label maps as references.
  \<^item> \<open>Conditions\<close>: \<open>conditions.go\<close>.
  \<^item> \<open>Documents\<close>: YAML streams, patches and kustomization of \<open>utils.go\<close>, \<open>helper.go\<close>, \<open>walk.go\<close> and
    package \<open>kustomize\<close>; splitting is the inverse of joining, and when templating a stream ends.
  \<^item> \<open>Apply\<close>: \<open>apply.go\<close> and the dynamic client; every call is allowed by an abstract protocol, a dry
    run changes nothing, and what a success means.
  \<^item> \<open>Env_Vars\<close>, \<open>Shortcuts\<close>: \<open>types.go\<close>, \<open>shortcuts.go\<close> and the decoding hooks of \<open>helper.go\<close>.
  \<^item> \<open>Templating\<close>: package \<open>ktemplate\<close>.
  \<^item> \<open>Cluster_Tests\<close>: \<open>tests.go\<close>.
  \<^item> \<open>Commands\<close>: \<open>execute.go\<close> and \<open>kubeconfig.go\<close>.
  \<^item> \<open>Proxy\<close>: package \<open>proxy\<close>.
  \<^item> \<open>Connection\<close>: the cached clients of \<open>client.go\<close>. The locale \<open>cached\<close> is the contract of a cached
    part, interpreted for the clientset, the dynamic client, the configuration, the mapper and the
    kustomizer.
  \<^item> \<open>Logs\<close>: logs of pods and manual cron jobs of \<open>client.go\<close>; the loop over the containers.
  \<^item> \<open>Objects\<close>: typed views, \<open>NewDeployment\<close> and other utilities of \<open>utils.go\<close>, \<open>helper.go\<close> and
    package \<open>kustomize\<close>.
  \<^item> This theory: a property of the wait of \<open>Waiting\<close> with the checks of \<open>Readiness\<close>.

  Bounds and fuel: the loop of \<open>templatizePatch\<close> needs one iteration more than its stream has bytes;
  the loop of \<open>StreamLogsV2\<close> one more than its containers after the attempts that fail; \<open>waitForDelete\<close>
  and \<open>poll_pvc_gone\<close> take the number of ticks of their timers, and \<open>evict_goroutine\<close> the evictions
  that fit before its deadline; lists inside lists of patches are
  bounded by a depth, with an error of its own. Theorems that a loop returns name the fuel that is
  enough, and those that it does not hold for every fuel.

  Not modelled: client-go, apimachinery, the YAML, JSON, diff, markdown and template libraries, the
  certificate library and the API server are parameters of the definitions that use them, with no
  laws but those a theorem states as its hypotheses. Log lines and tracing are left out, except where
  a loop decides what it prints. Left out as well are the generated deep copies, \<open>testenv\<close>, which
  starts a test server, and the types of \<open>types.go\<close> that nothing uses. Seconds of time stamps are
  whole, and cancellation by a context is an answer of the server. The filters of a drain read one
  state of the cluster in their whole pass over the pods, whatever was asked before; the other calls
  may be answered anew each time. \<open>Drain_Concurrent\<close> has the goroutines of \<open>evictPods\<close> for any
  number of pods with their answers as choices, and \<open>Drain_Client\<close> their calls for one pod; calls of
  several pods that are interleaved are not modelled.
\<close>

section \<open>Properties across components\<close>

text \<open>
  C3. Waiting for an object, the loop of \<open>waitForResource\<close> with the check \<open>IsReady\<close>, returns within
  the iterations of its deadline and does not panic, when every object that it reads is well formed.
  It returns without an error only the object of an iteration before the deadline in which \<open>IsReady\<close>
  accepted it, and with an error only after the deadline.
\<close>

theorem WaitFor_returns_ready:
  assumes "clock_runs obs" and "start \<le> now (obs 0)"
    and "\<forall>i item. snd (reply (obs i)) = Some item \<longrightarrow> wf_object item"
    and "\<forall>i. replicas_set (fst (reply (obs i)))"
  shows "\<exists>item err out. WaitFor C False None obj limit start (enough limit) obs = Returned (Some (item, err, out))
    \<and> (case err of
         None \<Rightarrow> \<exists>i. now (obs i) \<le> start + limit \<and> item = snd (reply (obs i))
           \<and> verdict (IsReady (fst (reply (obs i))) item) = Some True
       | Some e \<Rightarrow> item = None \<and> (\<exists>i. start + limit < now (obs i)))"
proof -
  let ?n = "GetName obj"
  obtain r i s where
    r: "waitForResource C False None (Name_Kind ?n) (Name_Namespace ?n) (Name_Name ?n) limit IsReady start (enough limit) obs
      = Returned r"
    and body: "waitForResource_body C (Name_Kind ?n) (Name_Namespace ?n) (Name_Name ?n) start limit IsReady s (obs i) = Inr r"
    by (rule waitForResource_last [OF assms(1,2)])
  have "no_panic (IsReady (fst (reply (obs i))) (snd (reply (obs i))))"
    using assms(3,4) IsReady_total IsReady_missing by (cases "snd (reply (obs i))") auto
  with waitForResource_iteration [OF body] r show ?thesis
    by (auto simp: WaitFor_def WaitForResource_def Let_def expired_def not_less)
qed

definition ready_service :: "nat \<Rightarrow> (ready_env \<times> unstructured option) poll" where
  "ready_service i = \<lparr>now = int i * 2000000000, reply = (example_env, if i < 2 then None else Some example_node)\<rparr>"

lemma WaitFor_returns_ready_witness:
  "\<exists>item err out. WaitFor example_console False None (Some example_node) 10000000000 0 (enough 10000000000) ready_service
     = Returned (Some (item, err, out))"
proof -
  have wf: "wf_object example_node"
    by (simp add: wf_object_def example_node_def kind_defs get_def found_def wf_status_map_def)
  have "clock_runs ready_service" by (simp add: clock_runs_def ready_service_def)
  moreover have "\<forall>i item. snd (reply (ready_service i)) = Some item \<longrightarrow> wf_object item"
    using wf by (simp add: ready_service_def)
  moreover have "\<forall>i. replicas_set (fst (reply (ready_service i)))"
    by (simp add: ready_service_def replicas_set_def example_env_def)
  ultimately show ?thesis
    using WaitFor_returns_ready [where obs = ready_service and start = 0 and C = example_console
        and obj = "Some example_node" and limit = 10000000000]
    by (auto simp: ready_service_def)
qed

end
